(* ===== verification/SP_Prelude.thy ===== *)
theory SP_Prelude
  imports Main "HOL-Library.Word" "HOL-Library.Sublist"
begin

text \<open>
  Shared ground of the development: the Python exceptions the plugin raises or lets through,
  the shape of a computation that may raise and that changes a state (the state survives an
  exception, as committed rows and sent mails do), the frame predicate \<open>keeps\<close>, and the
  Python string tests used by the code.
\<close>

section \<open>Exceptions\<close>

text \<open>
  One constructor per exception class that the modelled code raises, catches or may let
  through. \<open>OtherException\<close> stands for any exception of a library that the code never names.
\<close>

datatype exn =
    AssertionError
  | AttributeError string
  | TypeError string
  | KeyError string
  | NameError string
  | ValueError string
  | OverflowError
  | UserNotFound string
  | GroupNotFound string
  | Unauthorized string
  | Forbidden string
  | ValidationError string
  | SPasswordUnauthorized string
  | SPasswordNotConfigured
  | FlushError string
  | DBDuplicateEntry
  | StaleDataError
  | GaiError
  | SMTPAuthenticationError
  | NotImplemented
  | OtherException string

section \<open>Computations with exceptions and state\<close>

type_synonym ('s, 'a) exec = "'s \<Rightarrow> (exn + 'a) \<times> 's"

named_theorems exec_simps \<open>evaluation rules of computations\<close>
named_theorems execE \<open>inversion rules of computations\<close>

definition ret :: "'a \<Rightarrow> ('s, 'a) exec" where
  "ret x s = (Inr x, s)"

definition raise :: "exn \<Rightarrow> ('s, 'a) exec" where
  "raise e s = (Inl e, s)"

definition bnd :: "('s, 'a) exec \<Rightarrow> ('a \<Rightarrow> ('s, 'b) exec) \<Rightarrow> ('s, 'b) exec" where
  "bnd m f s = (case m s of (Inl e, t) \<Rightarrow> (Inl e, t) | (Inr x, t) \<Rightarrow> f x t)"

definition lift :: "exn + 'a \<Rightarrow> ('s, 'a) exec" where
  "lift r s = (r, s)"

definition gets :: "('s \<Rightarrow> 'a) \<Rightarrow> ('s, 'a) exec" where
  "gets f s = (Inr (f s), s)"

definition modify :: "('s \<Rightarrow> 's) \<Rightarrow> ('s, unit) exec" where
  "modify f s = (Inr (), f s)"

text \<open>\<open>catch m h\<close>: the handler answers \<open>None\<close> for an exception it does not catch.\<close>

definition catch :: "('s, 'a) exec \<Rightarrow> (exn \<Rightarrow> ('s, 'a) exec option) \<Rightarrow> ('s, 'a) exec" where
  "catch m h s = (case m s of
      (Inl e, t) \<Rightarrow> (case h e of None \<Rightarrow> (Inl e, t) | Some n \<Rightarrow> n t)
    | (Inr x, t) \<Rightarrow> (Inr x, t))"

fun mapE :: "('a \<Rightarrow> ('s, 'b) exec) \<Rightarrow> 'a list \<Rightarrow> ('s, 'b list) exec" where
  "mapE f [] = ret []"
| "mapE f (x # xs) = bnd (f x) (\<lambda>y. bnd (mapE f xs) (\<lambda>ys. ret (y # ys)))"

lemma ret_apply [simp]: "ret x s = (Inr x, s)"
  by (simp add: ret_def)

lemma raise_apply [simp]: "raise e s = (Inl e, s)"
  by (simp add: raise_def)

lemma lift_apply [simp]: "lift r s = (r, s)"
  by (simp add: lift_def)

lemma gets_apply [simp]: "gets f s = (Inr (f s), s)"
  by (simp add: gets_def)

lemma modify_apply [simp]: "modify f s = (Inr (), f s)"
  by (simp add: modify_def)

lemma bnd_Inr [exec_simps]: "m s = (Inr x, t) \<Longrightarrow> bnd m f s = f x t"
  by (simp add: bnd_def)

lemma bnd_Inl [exec_simps]: "m s = (Inl e, t) \<Longrightarrow> bnd m f s = (Inl e, t)"
  by (simp add: bnd_def)

lemma bnd_ret [simp]: "bnd (ret x) f = f x"
  by (simp add: bnd_def fun_eq_iff)

lemma bnd_raise [simp]: "bnd (raise e) f = raise e"
  by (simp add: bnd_def fun_eq_iff)

lemma bnd_gets [simp]: "bnd (gets g) f s = f (g s) s"
  by (simp add: bnd_def)

lemma bnd_modify [simp]: "bnd (modify g) f s = f () (g s)"
  by (simp add: bnd_def)

lemma bnd_lift_Inr [simp]: "bnd (lift (Inr x)) f = f x"
  by (simp add: bnd_def fun_eq_iff)

lemma bnd_lift_Inl [simp]: "bnd (lift (Inl e)) f = raise e"
  by (simp add: bnd_def fun_eq_iff)

lemma bnd_lift: "bnd (lift r) f s = (case r of Inl e \<Rightarrow> (Inl e, s) | Inr x \<Rightarrow> f x s)"
  by (cases r) simp_all

lemma bnd_assoc: "bnd (bnd m f) g = bnd m (\<lambda>x. bnd (f x) g)"
  by (auto simp: bnd_def fun_eq_iff split: prod.splits sum.splits)

lemma bnd_eq_Inr [execE]:
  "bnd m f s = (Inr y, u) \<longleftrightarrow> (\<exists>x t. m s = (Inr x, t) \<and> f x t = (Inr y, u))"
  by (auto simp: bnd_def split: prod.splits sum.splits)

lemma bnd_eq_Inl [execE]:
  "bnd m f s = (Inl e, u) \<longleftrightarrow>
     m s = (Inl e, u) \<or> (\<exists>x t. m s = (Inr x, t) \<and> f x t = (Inl e, u))"
  by (auto simp: bnd_def split: prod.splits sum.splits)

section \<open>Frames: what a computation does to the state, whatever its outcome\<close>

definition keeps :: "('s \<Rightarrow> 's \<Rightarrow> bool) \<Rightarrow> ('s, 'a) exec \<Rightarrow> bool" where
  "keeps R m \<longleftrightarrow> (\<forall>s. R s (snd (m s)))"

lemma keepsI: "(\<And>s. R s (snd (m s))) \<Longrightarrow> keeps R m"
  by (simp add: keeps_def)

lemma keepsD: "keeps R m \<Longrightarrow> m s = (r, t) \<Longrightarrow> R s t"
  by (metis keeps_def snd_conv)

text \<open>
  The interface of a frame: a reflexive and transitive relation between the state before and
  the state after. Every computation built from parts that respect the relation respects it.
\<close>

locale frame =
  fixes R :: "'s \<Rightarrow> 's \<Rightarrow> bool"
  assumes R_refl: "R s s"
    and R_trans: "R s t \<Longrightarrow> R t u \<Longrightarrow> R s u"
begin

lemma keeps_ret: "keeps R (ret x)"
  by (simp add: keeps_def R_refl)

lemma keeps_raise: "keeps R (raise e)"
  by (simp add: keeps_def R_refl)

lemma keeps_lift: "keeps R (lift r)"
  by (simp add: keeps_def R_refl)

lemma keeps_gets: "keeps R (gets f)"
  by (simp add: keeps_def R_refl)

lemma keeps_bnd:
  assumes "keeps R m" and "\<And>x. keeps R (f x)"
  shows "keeps R (bnd m f)"
proof (rule keepsI)
  fix s
  show "R s (snd (bnd m f s))"
  proof (cases "m s")
    case (Pair r t)
    with assms(1) have "R s t" by (rule keepsD)
    with assms(2) Pair show ?thesis
      by (cases r) (auto simp: bnd_def keeps_def intro: R_trans)
  qed
qed

lemma keeps_catch:
  assumes "keeps R m" and "\<And>e n. h e = Some n \<Longrightarrow> keeps R n"
  shows "keeps R (catch m h)"
proof (rule keepsI)
  fix s
  show "R s (snd (catch m h s))"
  proof (cases "m s")
    case (Pair r t)
    with assms(1) have "R s t" by (rule keepsD)
    with assms(2) Pair show ?thesis
      by (cases r) (auto simp: catch_def keeps_def split: option.splits intro: R_trans)
  qed
qed

lemma keeps_if: "keeps R m \<Longrightarrow> keeps R n \<Longrightarrow> keeps R (if b then m else n)"
  by simp

lemma keeps_case_option:
  "keeps R m \<Longrightarrow> (\<And>x. keeps R (f x)) \<Longrightarrow> keeps R (case z of None \<Rightarrow> m | Some x \<Rightarrow> f x)"
  by (cases z) simp_all

lemma keeps_case_sum:
  "(\<And>x. keeps R (f x)) \<Longrightarrow> (\<And>x. keeps R (g x)) \<Longrightarrow>
     keeps R (case z of Inl x \<Rightarrow> f x | Inr x \<Rightarrow> g x)"
  by (cases z) simp_all

lemma keeps_case_prod: "(\<And>x y. keeps R (f x y)) \<Longrightarrow> keeps R (case z of (x, y) \<Rightarrow> f x y)"
  by (cases z) simp_all

lemma keeps_mapE: "(\<And>x. keeps R (f x)) \<Longrightarrow> keeps R (mapE f xs)"
  by (induction xs) (auto intro!: keeps_ret keeps_bnd)

lemmas keeps_rules =
  keeps_ret keeps_raise keeps_lift keeps_gets keeps_bnd keeps_if keeps_case_option
  keeps_case_sum keeps_case_prod keeps_mapE

end

text \<open>The computations that change nothing.\<close>

interpretation readonly: frame "(=)"
  by unfold_locales simp_all

section \<open>Python truth values and strings\<close>

text \<open>A nullable Boolean column is false when it is \<open>NULL\<close>.\<close>

definition truthy :: "bool option \<Rightarrow> bool" where
  "truthy b \<longleftrightarrow> b = Some True"

lemma truthy_simps [simp]: "truthy None = False" "truthy (Some b) = b"
  by (simp_all add: truthy_def)

definition py_str_opt :: "string option \<Rightarrow> string" where
  "py_str_opt x = (case x of None \<Rightarrow> ''None'' | Some t \<Rightarrow> t)"

definition startswith :: "string \<Rightarrow> string \<Rightarrow> bool" where
  "startswith t p \<longleftrightarrow> take (length p) t = p"

fun str_in :: "string \<Rightarrow> string \<Rightarrow> bool" where
  "str_in p [] = (p = [])"
| "str_in p (c # cs) = (startswith (c # cs) p \<or> str_in p cs)"

lemma startswith_prefix: "startswith t p \<longleftrightarrow> prefix p t"
  by (metis append_eq_conv_conj append_take_drop_id prefix_def startswith_def)

lemma str_in_sublist: "str_in p t \<longleftrightarrow> sublist p t"
  by (induction p t rule: str_in.induct) (simp_all add: startswith_prefix sublist_Cons_right)

end
