(* ===== verification/SP_Config.thy ===== *)
theory SP_Config
  imports SP_Prelude
begin

text \<open>
  The options that \<open>core.py\<close> registers in the group \<open>spassword\<close>, with their defaults.
  Option names are the code's; \<open>sndfa\<close> is \<open>conf_sndfa\<close> here because the table has a
  column of that name. \<open>IntOpt\<close> values are unbounded Python integers, and a \<open>ListOpt\<close>
  without a default is \<open>None\<close> until it is set.
\<close>

record conf =
  enabled :: bool
  pwd_exp_days :: int
  pwd_max_tries :: int
  pwd_block_minutes :: int
  pwd_user_blacklist :: "string list option"
  smtp_server :: string
  smtp_port :: int
  smtp_tls :: bool
  smtp_user :: string
  smtp_password :: string
  smtp_from :: string
  conf_sndfa :: bool
  sndfa_endpoint :: string
  sndfa_time_window :: int

definition default_conf :: conf where
  "default_conf = \<lparr>
     enabled = False,
     pwd_exp_days = 365,
     pwd_max_tries = 3,
     pwd_block_minutes = 30,
     pwd_user_blacklist = None,
     smtp_server = ''0.0.0.0'',
     smtp_port = 587,
     smtp_tls = True,
     smtp_user = '''',
     smtp_password = '''',
     smtp_from = '''',
     conf_sndfa = False,
     sndfa_endpoint = ''localhost:5001'',
     sndfa_time_window = 24\<rparr>"

definition Brand :: string where
  "Brand = ''Thinking Cities Platform''"

text \<open>\<open>user_id in CONF.spassword.pwd_user_blacklist\<close>: membership in \<open>None\<close> raises.\<close>

definition in_blacklist :: "conf \<Rightarrow> string \<Rightarrow> exn + bool" where
  "in_blacklist c uid = (case pwd_user_blacklist c of
      None \<Rightarrow> Inl (TypeError ''argument of type 'NoneType' is not iterable'')
    | Some ids \<Rightarrow> Inr (uid \<in> set ids))"

lemma in_blacklist_Some [simp]:
  "pwd_user_blacklist c = Some ids \<Longrightarrow> in_blacklist c uid = Inr (uid \<in> set ids)"
  by (simp add: in_blacklist_def)

lemma in_blacklist_None:
  "pwd_user_blacklist c = None \<Longrightarrow>
     in_blacklist c uid = Inl (TypeError ''argument of type 'NoneType' is not iterable'')"
  by (simp add: in_blacklist_def)

end
