(* ===== verification/SP_Time.thy ===== *)
theory SP_Time
  imports SP_Prelude
begin

text \<open>
  Python's \<open>datetime\<close> and \<open>timedelta\<close> as far as the plugin uses them, and
  \<open>normalize_db_date\<close> of \<open>backends/sql.py\<close>. A \<open>datetime\<close> is a wall clock reading in
  microseconds since \<open>datetime.min\<close> (0001-01-01T00:00) and, when it is aware, the offset of
  its zone from UTC. Ordering a naive against an aware value raises \<open>TypeError\<close>; leaving the
  years 1 to 9999 raises \<open>OverflowError\<close>.
\<close>

record datetime =
  wall :: int
  tzinfo :: "int option"

definition naive :: "int \<Rightarrow> datetime" where
  "naive t = \<lparr>wall = t, tzinfo = None\<rparr>"

definition max_wall :: int where
  "max_wall = 3652059 * 86400 * 1000000"

definition timedelta_days :: "int \<Rightarrow> int" where
  "timedelta_days n = n * 86400 * 1000000"

definition timedelta_hours :: "int \<Rightarrow> int" where
  "timedelta_hours n = n * 3600 * 1000000"

definition timedelta_minutes :: "int \<Rightarrow> int" where
  "timedelta_minutes n = n * 60 * 1000000"

definition dt_add :: "datetime \<Rightarrow> int \<Rightarrow> exn + datetime" where
  "dt_add t d = (if 0 \<le> wall t + d \<and> wall t + d < max_wall
     then Inr (t\<lparr>wall := wall t + d\<rparr>) else Inl OverflowError)"

definition dt_sub :: "datetime \<Rightarrow> int \<Rightarrow> exn + datetime" where
  "dt_sub t d = dt_add t (- d)"

definition dt_less :: "datetime \<Rightarrow> datetime \<Rightarrow> exn + bool" where
  "dt_less a b = (case (tzinfo a, tzinfo b) of
      (None, None) \<Rightarrow> Inr (wall a < wall b)
    | (Some i, Some j) \<Rightarrow> Inr (wall a - i < wall b - j)
    | _ \<Rightarrow> Inl (TypeError ''can't compare offset-naive and offset-aware datetimes''))"

text \<open>\<open>None\<close> has no attribute \<open>tzinfo\<close>: a \<open>NULL\<close> date raises.\<close>

definition normalize_db_date :: "datetime option \<Rightarrow> exn + datetime" where
  "normalize_db_date d = (case d of
      None \<Rightarrow> Inl (AttributeError ''tzinfo'')
    | Some dt \<Rightarrow> if tzinfo dt \<noteq> None then Inr (dt\<lparr>tzinfo := None\<rparr>) else Inr dt)"

lemma naive_simps [simp]: "wall (naive t) = t" "tzinfo (naive t) = None"
  by (simp_all add: naive_def)

lemma naive_eq_iff [simp]: "naive s = naive t \<longleftrightarrow> s = t"
  by (simp add: naive_def)

lemma naive_wall: "tzinfo dt = None \<Longrightarrow> naive (wall dt) = dt"
  by (simp add: naive_def)

lemma normalize_None [simp]: "normalize_db_date None = Inl (AttributeError ''tzinfo'')"
  by (simp add: normalize_db_date_def)

lemma normalize_Some [simp]: "normalize_db_date (Some dt) = Inr (naive (wall dt))"
  by (cases dt) (auto simp: normalize_db_date_def naive_def)

lemma dt_less_naive [simp]: "dt_less (naive s) (naive t) = Inr (s < t)"
  by (simp add: dt_less_def)

lemma dt_add_naive: "dt_add (naive t) d =
    (if 0 \<le> t + d \<and> t + d < max_wall then Inr (naive (t + d)) else Inl OverflowError)"
  by (simp add: dt_add_def naive_def)

lemma dt_sub_naive: "dt_sub (naive t) d =
    (if 0 \<le> t - d \<and> t - d < max_wall then Inr (naive (t - d)) else Inl OverflowError)"
  by (simp add: dt_sub_def dt_add_naive)

end
