(* ===== verification/SP_Model.thy ===== *)
theory SP_Model
  imports SP_Time
begin

text \<open>
  The table \<open>spassword\<close>: the declarative class \<open>SPasswordModel\<close> of \<open>backends/sql.py\<close>.
  Every column but the key is nullable, so it is an option; the JSON column \<open>extra\<close> is the
  dict it holds. A row object built by \<open>from_dict\<close> has \<open>None\<close> in the columns its dict does
  not name, until the INSERT applies the column defaults.
\<close>

record spassword_row =
  user_id :: "string option"
  user_name :: "string option"
  domain_id :: "string option"
  creation_time :: "datetime option"
  login_attempts :: "int option"
  last_login_attempt_time :: "datetime option"
  extra :: "string \<rightharpoonup> string"
  sndfa :: "bool option"
  sndfa_last :: "datetime option"
  sndfa_code :: "string option"
  sndfa_time_code :: "datetime option"
  sndfa_email :: "bool option"
  sndfa_email_code :: "string option"

definition SPasswordModel_attributes :: "string list" where
  "SPasswordModel_attributes =
     [''user_id'', ''user_name'', ''domain_id'', ''creation_time'',
      ''login_attempts'', ''last_login_attempt_time'',
      ''extra'',
      ''sndfa'', ''sndfa_last'', ''sndfa_code'', ''sndfa_time_code'',
      ''sndfa_email'', ''sndfa_email_code'']"

text \<open>
  The test \<open>key in spassword_ref.to_dict()\<close>: the dict has one key per name in
  \<open>attributes\<close>, besides the keys of \<open>extra\<close>.
\<close>

definition in_to_dict :: "spassword_row \<Rightarrow> string \<Rightarrow> bool" where
  "in_to_dict r k \<longleftrightarrow> k \<in> set SPasswordModel_attributes \<or> extra r k \<noteq> None"

definition blank_row :: spassword_row where
  "blank_row = \<lparr>user_id = None, user_name = None, domain_id = None, creation_time = None,
     login_attempts = None, last_login_attempt_time = None, extra = Map.empty,
     sndfa = None, sndfa_last = None, sndfa_code = None, sndfa_time_code = None,
     sndfa_email = None, sndfa_email_code = None\<rparr>"

text \<open>The column defaults that an INSERT applies to the columns left out.\<close>

definition or_default :: "'a option \<Rightarrow> 'a \<Rightarrow> 'a option" where
  "or_default x d = (case x of None \<Rightarrow> Some d | Some y \<Rightarrow> Some y)"

definition column_defaults :: "spassword_row \<Rightarrow> spassword_row" where
  "column_defaults r = r\<lparr>
     login_attempts := or_default (login_attempts r) 0,
     sndfa := or_default (sndfa r) False,
     sndfa_email := or_default (sndfa_email r) False\<rparr>"

text \<open>The six second factor entries that every \<open>data_user\<close> of the code sets.\<close>

definition no_sndfa :: "spassword_row \<Rightarrow> spassword_row" where
  "no_sndfa r = r\<lparr>
     sndfa := Some False,
     sndfa_last := None,
     sndfa_code := None,
     sndfa_time_code := None,
     sndfa_email := Some False,
     sndfa_email_code := None\<rparr>"

lemma or_default_simps [simp]: "or_default None d = Some d" "or_default (Some y) d = Some y"
  by (simp_all add: or_default_def)

lemma in_to_dict_attributes [simp]:
  "in_to_dict r ''extra''" "in_to_dict r ''sndfa''" "in_to_dict r ''sndfa_email''"
  by (simp_all add: in_to_dict_def SPasswordModel_attributes_def)

end
