(* ===== verification/SP_World.thy ===== *)
theory SP_World
  imports SP_Config SP_Model
begin

text \<open>
  What every operation of the plugin runs in. \<open>world\<close> is the mutable part: the table
  \<open>spassword\<close>, keystone's table of users, the mails handed to an SMTP server, and how many
  clock readings, UUIDs and SMTP connections have been used. \<open>env\<close> is the fixed part: the
  configuration, the readings of the clock, the UUIDs and the behaviour of each SMTP
  connection, and the operations of keystone and cracklib that the code calls, which are
  parameters: nothing is assumed about them here.
\<close>

section \<open>Data of the outside\<close>

text \<open>
  JSON values of requests and responses. \<open>JDate\<close> occurs in responses only: a date given to
  \<open>jsonutils.dumps\<close>, which writes it as a text.
\<close>

datatype json = JNull | JBool bool | JInt int | JStr string | JArr "json list"
  | JObj "(string \<times> json) list" | JDate datetime

record user =
  u_id :: string
  u_name :: string
  u_domain_id :: string
  u_email :: "string option"
  u_hash :: string

record mail =
  mail_from :: string
  mail_to :: string
  mail_subject :: string
  mail_body :: string
  mail_rcpts :: "string list"

text \<open>
  One SMTP connection: for each call of \<open>smtplib\<close>, the exception it raises, if any.
\<close>

record smtp_conn =
  smtp_connect :: "string \<Rightarrow> int \<Rightarrow> exn option"
  smtp_ehlo :: "exn option"
  smtp_starttls :: "exn option"
  smtp_login :: "string \<Rightarrow> string \<Rightarrow> exn option"
  smtp_sendmail :: "mail \<Rightarrow> exn option"
  smtp_quit :: "exn option"

record world =
  table :: "string \<rightharpoonup> spassword_row"
  users :: "string \<rightharpoonup> user"
  ticks :: nat
  uuids :: nat
  conns :: nat
  outbox :: "mail list"

type_synonym 'a wexec = "(world, 'a) exec"

record env =
  conf :: conf
  clock :: "nat \<Rightarrow> int"
  uuid4 :: "nat \<Rightarrow> 128 word"
  smtp :: "nat \<Rightarrow> smtp_conn"
  very_fascist_check :: "json \<Rightarrow> exn option"
  ks_check_password :: "string \<Rightarrow> user \<Rightarrow> exn + bool"
  ks_authenticate :: "(string \<Rightarrow> user \<Rightarrow> bool wexec) \<Rightarrow> string \<Rightarrow> string \<Rightarrow> user wexec"
  ks_update_user :: "(string \<Rightarrow> unit wexec) \<Rightarrow> string \<Rightarrow> string \<Rightarrow> unit wexec"

section \<open>Clock and identifiers\<close>

definition utcnow :: "env \<Rightarrow> datetime wexec" where
  "utcnow E w = (Inr (naive (clock E (ticks w))), w\<lparr>ticks := Suc (ticks w)\<rparr>)"

definition fresh_uuid :: "env \<Rightarrow> 128 word wexec" where
  "fresh_uuid E w = (Inr (uuid4 E (uuids w)), w\<lparr>uuids := Suc (uuids w)\<rparr>)"

definition hexdigit :: "nat \<Rightarrow> char" where
  "hexdigit n = ''0123456789abcdef'' ! (n mod 16)"

text \<open>\<open>uuid.hex\<close>: 32 hexadecimal digits, the most significant first.\<close>

definition uuid_hex :: "128 word \<Rightarrow> string" where
  "uuid_hex u = map (\<lambda>i. hexdigit (unat u div 16 ^ (31 - i))) [0..<32]"

text \<open>\<open>str(uuid)\<close>: the same digits in groups of 8, 4, 4, 4 and 12.\<close>

definition uuid_str :: "128 word \<Rightarrow> string" where
  "uuid_str u = (let h = uuid_hex u in
     take 8 h @ ''-'' @ take 4 (drop 8 h) @ ''-'' @ take 4 (drop 12 h) @ ''-'' @
     take 4 (drop 16 h) @ ''-'' @ drop 20 h)"

section \<open>Sessions on the table\<close>

text \<open>
  A session reads a row by its key. Committing a row object that was read writes the columns
  that were assigned (\<open>f\<close>) to the row as it is in the table at that moment; committing a new
  row object inserts it, with the column defaults. A commit fails when the key is \<open>NULL\<close>,
  already taken, or gone.
\<close>

definition get_spassword_session :: "string \<Rightarrow> spassword_row option wexec" where
  "get_spassword_session uid = gets (\<lambda>w. table w uid)"

definition get_user_session :: "string \<Rightarrow> user option wexec" where
  "get_user_session uid = gets (\<lambda>w. users w uid)"

definition session_save ::
    "string \<Rightarrow> (spassword_row \<Rightarrow> spassword_row) \<Rightarrow> spassword_row wexec" where
  "session_save uid f w = (case table w uid of
      None \<Rightarrow> (Inl StaleDataError, w)
    | Some r \<Rightarrow> (Inr (f r), w\<lparr>table := (table w)(uid \<mapsto> f r)\<rparr>))"

definition session_insert :: "spassword_row \<Rightarrow> spassword_row wexec" where
  "session_insert r w = (case user_id r of
      None \<Rightarrow> (Inl (FlushError ''NULL identity key''), w)
    | Some uid \<Rightarrow>
        (if table w uid \<noteq> None then (Inl DBDuplicateEntry, w)
         else (Inr (column_defaults r), w\<lparr>table := (table w)(uid \<mapsto> column_defaults r)\<rparr>)))"

definition session_delete :: "string \<Rightarrow> unit wexec" where
  "session_delete uid w = (Inr (), w\<lparr>table := (table w)(uid := None)\<rparr>)"

text \<open>
  \<open>get_user\<close> of keystone's identity backend and identity API: the user, or
  \<open>UserNotFound\<close>; and \<open>user['email']\<close> on what it returns.
\<close>

definition identity_get_user :: "string \<Rightarrow> user wexec" where
  "identity_get_user uid =
     bnd (gets (\<lambda>w. users w uid)) (\<lambda>u. case u of None \<Rightarrow> raise (UserNotFound uid) | Some u \<Rightarrow> ret u)"

definition user_email :: "user \<Rightarrow> exn + string" where
  "user_email u = (case u_email u of None \<Rightarrow> Inl (KeyError ''email'') | Some m \<Rightarrow> Inr m)"

section \<open>Facts about the primitives\<close>

lemma identity_get_user_run [exec_simps]:
  "users w uid = Some u \<Longrightarrow> identity_get_user uid w = (Inr u, w)"
  "users w uid = None \<Longrightarrow> identity_get_user uid w = (Inl (UserNotFound uid), w)"
  by (simp_all add: identity_get_user_def)

lemma keeps_identity_get_user: "keeps (=) (identity_get_user uid)"
  unfolding identity_get_user_def by (intro readonly.keeps_rules)

lemma utcnow_apply [simp]:
  "utcnow E w = (Inr (naive (clock E (ticks w))), w\<lparr>ticks := Suc (ticks w)\<rparr>)"
  by (simp add: utcnow_def)

lemma bnd_utcnow [simp]:
  "bnd (utcnow E) f w = f (naive (clock E (ticks w))) (w\<lparr>ticks := Suc (ticks w)\<rparr>)"
  by (simp add: bnd_def)

lemma bnd_fresh_uuid [simp]:
  "bnd (fresh_uuid E) f w = f (uuid4 E (uuids w)) (w\<lparr>uuids := Suc (uuids w)\<rparr>)"
  by (simp add: bnd_def fresh_uuid_def)

lemma bnd_get_spassword [simp]:
  "bnd (get_spassword_session uid) f w = f (table w uid) w"
  by (simp add: get_spassword_session_def)

lemma bnd_get_user [simp]: "bnd (get_user_session uid) f w = f (users w uid) w"
  by (simp add: get_user_session_def)

lemma session_save_Some [exec_simps]:
  "table w uid = Some r \<Longrightarrow>
     session_save uid f w = (Inr (f r), w\<lparr>table := (table w)(uid \<mapsto> f r)\<rparr>)"
  by (simp add: session_save_def)

lemma bnd_session_save [simp]:
  "table w uid = Some r \<Longrightarrow>
     bnd (session_save uid f) g w = g (f r) (w\<lparr>table := (table w)(uid \<mapsto> f r)\<rparr>)"
  by (simp add: bnd_def session_save_def)

lemma bnd_session_insert [simp]:
  "user_id r = Some uid \<Longrightarrow> table w uid = None \<Longrightarrow>
     bnd (session_insert r) g w =
       g (column_defaults r) (w\<lparr>table := (table w)(uid \<mapsto> column_defaults r)\<rparr>)"
  by (simp add: bnd_def session_insert_def)

lemma session_insert_new [exec_simps]:
  "user_id r = Some uid \<Longrightarrow> table w uid = None \<Longrightarrow>
     session_insert r w =
       (Inr (column_defaults r), w\<lparr>table := (table w)(uid \<mapsto> column_defaults r)\<rparr>)"
  by (simp add: session_insert_def)

lemma session_insert_no_key [exec_simps]:
  "user_id r = None \<Longrightarrow> session_insert r w = (Inl (FlushError ''NULL identity key''), w)"
  by (simp add: session_insert_def)

lemma hexdigit_in: "hexdigit n \<in> set ''0123456789abcdef''"
  unfolding hexdigit_def by (rule nth_mem) simp

lemma length_uuid_hex [simp]: "length (uuid_hex u) = 32"
  by (simp add: uuid_hex_def)

lemma set_uuid_hex: "set (uuid_hex u) \<subseteq> set ''0123456789abcdef''"
  unfolding uuid_hex_def set_map by (rule image_subsetI) (rule hexdigit_in)

section \<open>Frames of the world\<close>

text \<open>
  \<open>same_table\<close>: no row changes. \<open>only_row uid\<close>: no other row changes. \<open>same_users\<close>:
  keystone's users do not change. \<open>outbox_grows\<close>: mails are only appended.
  \<open>stable I\<close>: the invariant \<open>I\<close> is not broken.
\<close>

definition same_table :: "world \<Rightarrow> world \<Rightarrow> bool" where
  "same_table w v \<longleftrightarrow> table v = table w"

definition only_row :: "string \<Rightarrow> world \<Rightarrow> world \<Rightarrow> bool" where
  "only_row uid w v \<longleftrightarrow> (\<forall>i. i \<noteq> uid \<longrightarrow> table v i = table w i)"

definition same_users :: "world \<Rightarrow> world \<Rightarrow> bool" where
  "same_users w v \<longleftrightarrow> users v = users w"

definition outbox_grows :: "world \<Rightarrow> world \<Rightarrow> bool" where
  "outbox_grows w v \<longleftrightarrow> prefix (outbox w) (outbox v)"

definition stable :: "(world \<Rightarrow> bool) \<Rightarrow> world \<Rightarrow> world \<Rightarrow> bool" where
  "stable I w v \<longleftrightarrow> (I w \<longrightarrow> I v)"

interpretation same_table: frame same_table
  by unfold_locales (auto simp: same_table_def)

interpretation only_row: frame "only_row uid" for uid
  by unfold_locales (auto simp: only_row_def)

interpretation same_users: frame same_users
  by unfold_locales (auto simp: same_users_def)

interpretation outbox_grows: frame outbox_grows
  by unfold_locales (auto simp: outbox_grows_def)

interpretation stable: frame "stable I" for I
  by unfold_locales (auto simp: stable_def)

text \<open>The frame rules of the primitives, and what each relation gives for the others.\<close>

lemma keeps_same_table_prims:
  "keeps same_table (utcnow E)" "keeps same_table (fresh_uuid E)"
  "keeps same_table (get_spassword_session uid)" "keeps same_table (get_user_session uid)"
  by (simp_all add: keeps_def same_table_def fresh_uuid_def get_spassword_session_def
        get_user_session_def)

lemma keeps_only_row_prims:
  "keeps (only_row uid) (utcnow E)" "keeps (only_row uid) (fresh_uuid E)"
  "keeps (only_row uid) (get_spassword_session i)" "keeps (only_row uid) (get_user_session i)"
  "keeps (only_row uid) (session_save uid f)" "keeps (only_row uid) (session_delete uid)"
  by (simp_all add: keeps_def only_row_def fresh_uuid_def get_spassword_session_def
        get_user_session_def session_save_def session_delete_def split: option.splits)

lemma keeps_only_row_insert:
  "user_id r = Some uid \<or> user_id r = None \<Longrightarrow> keeps (only_row uid) (session_insert r)"
  by (auto simp: keeps_def only_row_def session_insert_def split: option.splits)

lemma keeps_same_users_prims:
  "keeps same_users (utcnow E)" "keeps same_users (fresh_uuid E)"
  "keeps same_users (get_spassword_session uid)" "keeps same_users (get_user_session uid)"
  "keeps same_users (session_save uid f)" "keeps same_users (session_insert r)"
  "keeps same_users (session_delete uid)"
  by (auto simp: keeps_def same_users_def fresh_uuid_def get_spassword_session_def
        get_user_session_def session_save_def session_insert_def session_delete_def
        split: option.splits)

lemma keeps_outbox_prims:
  "keeps outbox_grows (utcnow E)" "keeps outbox_grows (fresh_uuid E)"
  "keeps outbox_grows (get_spassword_session uid)" "keeps outbox_grows (get_user_session uid)"
  "keeps outbox_grows (session_save uid f)" "keeps outbox_grows (session_insert r)"
  "keeps outbox_grows (session_delete uid)"
  by (auto simp: keeps_def outbox_grows_def fresh_uuid_def get_spassword_session_def
        get_user_session_def session_save_def session_insert_def session_delete_def
        split: option.splits)

text \<open>\<open>only_ticks\<close>: nothing but the clock is used.\<close>

definition only_ticks :: "world \<Rightarrow> world \<Rightarrow> bool" where
  "only_ticks w v \<longleftrightarrow> ticks w \<le> ticks v \<and> v = w\<lparr>ticks := ticks v\<rparr>"

interpretation only_ticks: frame only_ticks
proof unfold_locales
  fix s t u
  assume "only_ticks s t" and "only_ticks t u"
  then show "only_ticks s u" by (cases s; cases t; cases u) (auto simp: only_ticks_def)
qed (simp add: only_ticks_def)

lemma keeps_only_ticks_prims:
  "keeps only_ticks (utcnow E)" "keeps only_ticks (get_spassword_session uid)"
  "keeps only_ticks (get_user_session uid)"
  by (simp_all add: keeps_def only_ticks_def get_spassword_session_def get_user_session_def)

lemma only_ticks_same:
  assumes "only_ticks w v"
  shows "table v = table w" "users v = users w" "uuids v = uuids w" "conns v = conns w"
    "outbox v = outbox w" "ticks w \<le> ticks v"
  using assms by (cases w; cases v; simp add: only_ticks_def)+

end
