(* ===== verification/SP_Mailer.thy ===== *)
theory SP_Mailer
  imports SP_World
begin

text \<open>
  \<open>mailer.py\<close>: the class \<open>SendMail\<close>. One call opens one SMTP connection; the environment
  says what each call of \<open>smtplib\<close> on it raises. The MIME message is its four parts.
\<close>

definition smtp_open :: "env \<Rightarrow> smtp_conn wexec" where
  "smtp_open E w = (Inr (smtp E (conns w)), w\<lparr>conns := Suc (conns w)\<rparr>)"

definition smtp_try :: "exn option \<Rightarrow> unit wexec" where
  "smtp_try r = (case r of None \<Rightarrow> ret () | Some e \<Rightarrow> raise e)"

definition mime :: "env \<Rightarrow> string \<Rightarrow> string \<Rightarrow> string \<Rightarrow> mail" where
  "mime E to subject text = \<lparr>
     mail_from = smtp_from (conf E),
     mail_to = to,
     mail_subject = subject,
     mail_body = text,
     mail_rcpts = [to]\<rparr>"

text \<open>
  \<open>try: server.sendmail(...) except Exception: return False finally: server.quit()\<close>,
  then \<open>return True\<close>. An exception of \<open>quit\<close> replaces the value being returned.
\<close>

definition smtp_deliver :: "smtp_conn \<Rightarrow> mail \<Rightarrow> bool wexec" where
  "smtp_deliver server msg =
     (case smtp_sendmail server msg of
        Some ex \<Rightarrow> bnd (smtp_try (smtp_quit server)) (\<lambda>_. ret False)
      | None \<Rightarrow>
          bnd (modify (\<lambda>w. w\<lparr>outbox := outbox w @ [msg]\<rparr>)) (\<lambda>_.
          bnd (smtp_try (smtp_quit server)) (\<lambda>_. ret True)))"

definition send_email :: "env \<Rightarrow> string \<Rightarrow> string \<Rightarrow> string \<Rightarrow> bool wexec" where
  "send_email E to subject text =
     (let c = conf E; msg = mime E to subject text in
      bnd (smtp_open E) (\<lambda>server.
      case smtp_connect server (smtp_server c) (smtp_port c) of
        Some GaiError \<Rightarrow> ret False
      | Some e \<Rightarrow> raise e
      | None \<Rightarrow>
          bnd (if smtp_tls c
               then bnd (smtp_try (smtp_ehlo server)) (\<lambda>_. smtp_try (smtp_starttls server))
               else ret ()) (\<lambda>_.
          if smtp_user c \<noteq> '''' \<and> smtp_password c \<noteq> '''' then
            case smtp_login server (smtp_user c) (smtp_password c) of
              Some SMTPAuthenticationError \<Rightarrow> ret False
            | Some e \<Rightarrow> raise e
            | None \<Rightarrow> smtp_deliver server msg
          else smtp_deliver server msg)))"

text \<open>
  The interface the rest of the plugin relies on: an operation that reports by a Boolean
  whether the mail was handed over, and that touches nothing but the outbox and the count of
  connections.
\<close>

locale mail_sender =
  fixes send :: "string \<Rightarrow> string \<Rightarrow> string \<Rightarrow> bool wexec"
    and message :: "string \<Rightarrow> string \<Rightarrow> string \<Rightarrow> mail"
  assumes send_frame: "send to subject text w = (r, w') \<Longrightarrow>
      \<exists>n sent. w' = w\<lparr>conns := n, outbox := outbox w @ sent\<rparr> \<and>
        (r = Inr True \<longrightarrow> sent = [message to subject text]) \<and>
        (r = Inr False \<longrightarrow> sent = []) \<and> set sent \<subseteq> {message to subject text}"
begin

lemma send_world:
  assumes "send to subject text w = (r, w')"
  obtains n sent where "w' = w\<lparr>conns := n, outbox := outbox w @ sent\<rparr>"
    and "r = Inr True \<Longrightarrow> sent = [message to subject text]"
    and "r = Inr False \<Longrightarrow> sent = []"
    and "set sent \<subseteq> {message to subject text}"
  using send_frame [OF assms] by blast

lemma keeps_table: "keeps same_table (send to subject text)"
  unfolding keeps_def same_table_def
proof
  fix w
  show "table (snd (send to subject text w)) = table w"
    by (cases "send to subject text w") (auto dest: send_frame)
qed

lemma keeps_row: "keeps (only_row uid) (send to subject text)"
  using keeps_table by (simp add: keeps_def only_row_def same_table_def)

lemma keeps_users: "keeps same_users (send to subject text)"
  unfolding keeps_def same_users_def
proof
  fix w
  show "users (snd (send to subject text w)) = users w"
    by (cases "send to subject text w") (auto dest: send_frame)
qed

lemma keeps_outbox: "keeps outbox_grows (send to subject text)"
  unfolding keeps_def outbox_grows_def
proof
  fix w
  show "prefix (outbox w) (outbox (snd (send to subject text w)))"
    by (cases "send to subject text w") (auto dest: send_frame)
qed

end

section \<open>SendMail provides the interface\<close>

lemma smtp_try_world [execE]: "smtp_try x w = (r, w') \<longleftrightarrow>
    w' = w \<and> r = (case x of None \<Rightarrow> Inr () | Some e \<Rightarrow> Inl e)"
  by (auto simp: smtp_try_def split: option.splits)

lemma smtp_deliver_frame:
  assumes "smtp_deliver server msg w = (r, w')"
  shows "\<exists>sent. w' = w\<lparr>outbox := outbox w @ sent\<rparr> \<and> (r = Inr True \<longrightarrow> sent = [msg]) \<and>
     (r = Inr False \<longrightarrow> sent = []) \<and> set sent \<subseteq> {msg}"
proof (cases "smtp_sendmail server msg")
  case None
  with assms have "w' = w\<lparr>outbox := outbox w @ [msg]\<rparr> \<and> r \<noteq> Inr False"
    by (auto simp: smtp_deliver_def smtp_try_def split: option.splits)
  then show ?thesis by (intro exI [of _ "[msg]"]) simp
next
  case (Some e)
  with assms have "w' = w \<and> r \<noteq> Inr True"
    by (auto simp: smtp_deliver_def smtp_try_def split: option.splits)
  then show ?thesis by (intro exI [of _ "[]"]) simp
qed

lemma case_gai: "(case x of Some GaiError \<Rightarrow> a | Some e \<Rightarrow> raise e | None \<Rightarrow> m) =
    (case x of Some e \<Rightarrow> if e = GaiError then a else raise e | None \<Rightarrow> m)"
  by (simp split: option.split exn.split)

lemma case_smtp_auth:
  "(case x of Some SMTPAuthenticationError \<Rightarrow> a | Some e \<Rightarrow> raise e | None \<Rightarrow> m) =
    (case x of Some e \<Rightarrow> if e = SMTPAuthenticationError then a else raise e | None \<Rightarrow> m)"
  by (simp split: option.split exn.split)

lemmas send_email_run = send_email_def [unfolded case_gai case_smtp_auth Let_def]
  smtp_open_def smtp_try_def bnd_def

lemma send_email_cases:
  assumes "send_email E to subject text w = (r, w')"
  shows "(\<exists>server. smtp_deliver server (mime E to subject text)
            (w\<lparr>conns := Suc (conns w)\<rparr>) = (r, w')) \<or>
         (w' = w\<lparr>conns := Suc (conns w)\<rparr> \<and> r \<noteq> Inr True)"
  using assms by (auto simp: send_email_run split: option.splits if_splits)

lemma send_email_frame:
  assumes "send_email E to subject text w = (r, w')"
  shows "\<exists>n sent. w' = w\<lparr>conns := n, outbox := outbox w @ sent\<rparr> \<and>
        (r = Inr True \<longrightarrow> sent = [mime E to subject text]) \<and>
        (r = Inr False \<longrightarrow> sent = []) \<and> set sent \<subseteq> {mime E to subject text}"
  using send_email_cases [OF assms]
proof
  assume "\<exists>server. smtp_deliver server (mime E to subject text)
            (w\<lparr>conns := Suc (conns w)\<rparr>) = (r, w')"
  then show ?thesis by (force dest: smtp_deliver_frame)
next
  assume "w' = w\<lparr>conns := Suc (conns w)\<rparr> \<and> r \<noteq> Inr True"
  then show ?thesis by (intro exI [of _ "Suc (conns w)"] exI [of _ "[]"]) simp
qed

interpretation mailer: mail_sender "send_email E" "mime E" for E
  by unfold_locales (rule send_email_frame)

end
