(* ===== verification/SP_Checker.thy ===== *)
theory SP_Checker
  imports SP_World
begin

text \<open>
  \<open>checker.py\<close>: \<open>CheckPassword.strong_check_password\<close>. \<open>cracklib.VeryFascistCheck\<close> is a
  parameter: for each value the exception it raises, if any.
\<close>

definition strong_check_password :: "env \<Rightarrow> json \<Rightarrow> exn + unit" where
  "strong_check_password E new_password =
     (if enabled (conf E) then
        case very_fascist_check E new_password of
          None \<Rightarrow> Inr ()
        | Some (ValueError msg) \<Rightarrow> Inl (ValidationError (''SPASSWORD: '' @ msg))
        | Some e \<Rightarrow> Inl e
      else Inr ())"

lemma strong_check_disabled [simp]:
  "\<not> enabled (conf E) \<Longrightarrow> strong_check_password E p = Inr ()"
  by (simp add: strong_check_password_def)

lemma strong_check_ok_iff:
  "strong_check_password E p = Inr () \<longleftrightarrow> \<not> enabled (conf E) \<or> very_fascist_check E p = None"
  by (auto simp: strong_check_password_def split: option.splits exn.splits)

lemma strong_check_never_ValueError: "strong_check_password E p \<noteq> Inl (ValueError msg)"
  by (auto simp: strong_check_password_def split: option.splits exn.splits)

end
