(* ===== verification/SP_Driver.thy ===== *)
theory SP_Driver
  imports SP_World
begin

text \<open>
  The class \<open>SPassword\<close> of \<open>backends/sql.py\<close>: the driver that owns the table
  \<open>spassword\<close>. One definition per method, in the order of the file.
\<close>

section \<open>Users and password dates\<close>

definition get_user :: "string \<Rightarrow> user wexec" where
  "get_user uid =
     bnd (get_user_session uid) (\<lambda>user_ref.
     case user_ref of None \<Rightarrow> raise (UserNotFound uid) | Some u \<Rightarrow> ret u)"

definition remove_user :: "string \<Rightarrow> unit wexec" where
  "remove_user uid =
     bnd (get_spassword_session uid) (\<lambda>spassword_ref.
     case spassword_ref of
       None \<Rightarrow> ret ()
     | Some _ \<Rightarrow> session_delete uid)"

definition user_row :: "user \<Rightarrow> datetime \<Rightarrow> spassword_row" where
  "user_row user now = no_sndfa (blank_row\<lparr>
     user_id := Some (u_id user),
     user_name := Some (u_name user),
     creation_time := Some now,
     domain_id := Some (u_domain_id user)\<rparr>)"

definition set_user_creation_time :: "env \<Rightarrow> user \<Rightarrow> spassword_row wexec" where
  "set_user_creation_time E user =
     bnd (get_spassword_session (u_id user)) (\<lambda>spassword_ref.
     case spassword_ref of
       None \<Rightarrow>
         bnd (utcnow E) (\<lambda>now. session_insert (user_row user now))
     | Some _ \<Rightarrow>
         bnd (utcnow E) (\<lambda>now.
         session_save (u_id user) (\<lambda>r. r\<lparr>creation_time := Some now, login_attempts := Some 0\<rparr>)))"

definition update_user_modification_time :: "env \<Rightarrow> user \<Rightarrow> unit wexec" where
  "update_user_modification_time E user =
     bnd (get_spassword_session (u_id user)) (\<lambda>spassword_ref.
     case spassword_ref of
       Some _ \<Rightarrow>
         bnd (utcnow E) (\<lambda>now.
         bnd (session_save (u_id user)
                (\<lambda>r. r\<lparr>creation_time := Some now, login_attempts := Some 0\<rparr>)) (\<lambda>_. ret ()))
     | None \<Rightarrow>
         bnd (utcnow E) (\<lambda>now.
         bnd (session_insert ((user_row user now)\<lparr>login_attempts := Some 0\<rparr>)) (\<lambda>_. ret ())))"

section \<open>Second factor\<close>

definition set_user_sndfa_code :: "env \<Rightarrow> user \<Rightarrow> string \<Rightarrow> unit wexec" where
  "set_user_sndfa_code E user newcode =
     bnd (get_spassword_session (u_id user)) (\<lambda>spassword_ref.
     case spassword_ref of
       None \<Rightarrow> ret ()
     | Some r \<Rightarrow>
         if in_to_dict r ''sndfa'' then
           if truthy (sndfa r) \<and> truthy (sndfa_email r) then
             bnd (utcnow E) (\<lambda>now.
             bnd (session_save (u_id user)
                    (\<lambda>r. r\<lparr>sndfa_time_code := Some now, sndfa_code := Some newcode\<rparr>)) (\<lambda>_. ret ()))
           else ret ()
         else bnd (session_insert (no_sndfa blank_row)) (\<lambda>_. ret ()))"

definition modify_sndfa :: "string \<Rightarrow> bool \<Rightarrow> bool wexec" where
  "modify_sndfa uid enable =
     bnd (get_spassword_session uid) (\<lambda>spassword_ref.
     case spassword_ref of
       None \<Rightarrow> ret False
     | Some r \<Rightarrow>
         if truthy (sndfa_email r) then
           bnd (session_save uid (\<lambda>r. r\<lparr>sndfa := Some enable\<rparr>)) (\<lambda>_. ret True)
         else ret False)"

definition get_sndfa :: "string \<Rightarrow> bool option wexec" where
  "get_sndfa uid =
     bnd (get_spassword_session uid) (\<lambda>spassword_ref.
     case spassword_ref of
       None \<Rightarrow> ret (Some False)
     | Some r \<Rightarrow> if in_to_dict r ''sndfa'' then ret (sndfa r) else ret (Some False))"

section \<open>Password expiration black list\<close>

text \<open>
  \<open>str(enable)\<close> of a Boolean, and \<open>eval\<close> of a stored text. \<open>eval\<close> of any other text is
  outside the model and answers an exception; no reachable table holds one.
\<close>

definition py_str_bool :: "bool \<Rightarrow> string" where
  "py_str_bool b = (if b then ''True'' else ''False'')"

definition py_eval :: "string \<Rightarrow> exn + bool" where
  "py_eval t = (if t = ''True'' then Inr True else if t = ''False'' then Inr False
     else Inl (OtherException ''eval of a text that is not a Boolean''))"

definition get_black :: "string \<Rightarrow> bool wexec" where
  "get_black uid =
     bnd (get_spassword_session uid) (\<lambda>spassword_ref.
     case spassword_ref of
       None \<Rightarrow> ret False
     | Some r \<Rightarrow>
         if in_to_dict r ''extra'' then
           (case extra r ''black'' of Some t \<Rightarrow> lift (py_eval t) | None \<Rightarrow> ret False)
         else ret False)"

text \<open>The number 0 where the user has no row, else a date.\<close>

definition get_pwd_expiration :: "env \<Rightarrow> string \<Rightarrow> (int + datetime) wexec" where
  "get_pwd_expiration E uid =
     bnd (get_spassword_session uid) (\<lambda>spassword_ref.
     case spassword_ref of
       None \<Rightarrow> ret (Inl 0)
     | Some r \<Rightarrow>
         bnd (lift (normalize_db_date (creation_time r))) (\<lambda>created.
         bnd (lift (dt_add created (timedelta_days (pwd_exp_days (conf E))))) (\<lambda>expiration.
         ret (Inr expiration))))"

definition modify_black :: "string \<Rightarrow> bool \<Rightarrow> bool wexec" where
  "modify_black uid enable =
     bnd (get_spassword_session uid) (\<lambda>spassword_ref.
     case spassword_ref of
       None \<Rightarrow> ret False
     | Some _ \<Rightarrow>
         bnd (session_save uid (\<lambda>r. r\<lparr>extra := [''black'' \<mapsto> py_str_bool enable]\<rparr>)) (\<lambda>_. ret True))"

section \<open>Codes\<close>

text \<open>A code is an option: the callers' default is \<open>None\<close>, and \<open>None == None\<close>.\<close>

definition check_sndfa_code :: "env \<Rightarrow> string \<Rightarrow> string option \<Rightarrow> bool wexec" where
  "check_sndfa_code E uid code =
     bnd (get_spassword_session uid) (\<lambda>spassword_ref.
     case spassword_ref of
       None \<Rightarrow> ret False
     | Some r \<Rightarrow>
         if truthy (sndfa r) \<and> truthy (sndfa_email r) then
           if sndfa_code r = code then
             bnd (utcnow E) (\<lambda>now.
             bnd (session_save uid (\<lambda>r. r\<lparr>sndfa_last := Some now\<rparr>)) (\<lambda>_. ret True))
           else ret False
         else ret False)"

definition already_sndfa_signed :: "env \<Rightarrow> user \<Rightarrow> bool wexec" where
  "already_sndfa_signed E user =
     bnd (get_spassword_session (u_id user)) (\<lambda>spassword_ref.
     case spassword_ref of
       None \<Rightarrow> ret False
     | Some r \<Rightarrow>
         if truthy (sndfa r) \<and> truthy (sndfa_email r) then
           (case sndfa_last r of
              None \<Rightarrow> ret False
            | Some signed_at \<Rightarrow>
                bnd (lift (normalize_db_date (Some signed_at))) (\<lambda>signed_at.
                bnd (utcnow E) (\<lambda>now.
                bnd (lift (dt_add now (timedelta_hours (sndfa_time_window (conf E))))) (\<lambda>limit.
                lift (dt_less signed_at limit)))))
         else ret False)"

definition set_check_email_code :: "string \<Rightarrow> string \<Rightarrow> unit wexec" where
  "set_check_email_code uid newcode =
     bnd (get_spassword_session uid) (\<lambda>spassword_ref.
     case spassword_ref of
       None \<Rightarrow> ret ()
     | Some _ \<Rightarrow>
         bnd (session_save uid
                (\<lambda>r. r\<lparr>sndfa_email_code := Some newcode, sndfa_email := Some False\<rparr>)) (\<lambda>_. ret ()))"

text \<open>An empty stored code counts as none.\<close>

definition check_email_code :: "string \<Rightarrow> string option \<Rightarrow> bool wexec" where
  "check_email_code uid code =
     bnd (get_spassword_session uid) (\<lambda>spassword_ref.
     case spassword_ref of
       None \<Rightarrow> ret False
     | Some r \<Rightarrow>
         if sndfa_email_code r \<noteq> None \<and> sndfa_email_code r \<noteq> Some '''' then
           let check = (sndfa_email_code r = code) in
           bnd (session_save uid (\<lambda>r. r\<lparr>sndfa_email := Some check\<rparr>)) (\<lambda>_. ret check)
         else ret False)"

definition already_email_checked :: "string \<Rightarrow> bool option wexec" where
  "already_email_checked uid =
     bnd (get_spassword_session uid) (\<lambda>spassword_ref.
     case spassword_ref of
       None \<Rightarrow> ret (Some False)
     | Some r \<Rightarrow>
         if in_to_dict r ''sndfa_email'' then ret (sndfa_email r)
         else bnd (session_insert (no_sndfa blank_row)) (\<lambda>_. ret (Some False)))"

section \<open>The methods on a table that holds, or does not hold, the row\<close>

abbreviation with_row :: "world \<Rightarrow> string \<Rightarrow> spassword_row \<Rightarrow> world" where
  "with_row w uid r \<equiv> w\<lparr>table := (table w)(uid \<mapsto> r)\<rparr>"

lemma get_user_run [exec_simps]:
  "users w uid = Some u \<Longrightarrow> get_user uid w = (Inr u, w)"
  "users w uid = None \<Longrightarrow> get_user uid w = (Inl (UserNotFound uid), w)"
  by (simp_all add: get_user_def)

lemma remove_user_run [exec_simps]:
  "remove_user uid w = (Inr (), w\<lparr>table := (table w)(uid := None)\<rparr>)"
  by (cases "table w uid") (simp_all add: remove_user_def session_delete_def fun_upd_idem)

lemma user_row_key [simp]: "user_id (user_row u now) = Some (u_id u)"
  by (simp add: user_row_def no_sndfa_def)

lemma set_user_creation_time_run [exec_simps]:
  "table w (u_id u) = None \<Longrightarrow> set_user_creation_time E u w =
     (let r = column_defaults (user_row u (naive (clock E (ticks w)))) in
      (Inr r, with_row (w\<lparr>ticks := Suc (ticks w)\<rparr>) (u_id u) r))"
  "table w (u_id u) = Some r \<Longrightarrow> set_user_creation_time E u w =
     (let r' = r\<lparr>creation_time := Some (naive (clock E (ticks w))), login_attempts := Some 0\<rparr> in
      (Inr r', with_row (w\<lparr>ticks := Suc (ticks w)\<rparr>) (u_id u) r'))"
  by (simp_all add: set_user_creation_time_def session_insert_new session_save_Some Let_def)

lemma update_user_modification_time_run [exec_simps]:
  "table w (u_id u) = None \<Longrightarrow> update_user_modification_time E u w =
     (Inr (), with_row (w\<lparr>ticks := Suc (ticks w)\<rparr>) (u_id u)
        (column_defaults ((user_row u (naive (clock E (ticks w))))\<lparr>login_attempts := Some 0\<rparr>)))"
  "table w (u_id u) = Some r \<Longrightarrow> update_user_modification_time E u w =
     (Inr (), with_row (w\<lparr>ticks := Suc (ticks w)\<rparr>) (u_id u)
        (r\<lparr>creation_time := Some (naive (clock E (ticks w))), login_attempts := Some 0\<rparr>))"
  by (simp_all add: update_user_modification_time_def )

lemma set_user_sndfa_code_run [exec_simps]:
  "table w (u_id u) = None \<Longrightarrow> set_user_sndfa_code E u c w = (Inr (), w)"
  "table w (u_id u) = Some r \<Longrightarrow> set_user_sndfa_code E u c w =
     (if truthy (sndfa r) \<and> truthy (sndfa_email r)
      then (Inr (), with_row (w\<lparr>ticks := Suc (ticks w)\<rparr>) (u_id u)
              (r\<lparr>sndfa_time_code := Some (naive (clock E (ticks w))), sndfa_code := Some c\<rparr>))
      else (Inr (), w))"
  by (simp_all add: set_user_sndfa_code_def )

lemma modify_sndfa_run [exec_simps]:
  "table w uid = None \<Longrightarrow> modify_sndfa uid b w = (Inr False, w)"
  "table w uid = Some r \<Longrightarrow> modify_sndfa uid b w =
     (if truthy (sndfa_email r) then (Inr True, with_row w uid (r\<lparr>sndfa := Some b\<rparr>))
      else (Inr False, w))"
  by (simp_all add: modify_sndfa_def )

lemma get_sndfa_run [exec_simps]:
  "get_sndfa uid w =
     (Inr (case table w uid of None \<Rightarrow> Some False | Some r \<Rightarrow> sndfa r), w)"
  by (simp add: get_sndfa_def split: option.splits)

lemma get_black_run [exec_simps]:
  "table w uid = None \<Longrightarrow> get_black uid w = (Inr False, w)"
  "table w uid = Some r \<Longrightarrow> get_black uid w =
     (case extra r ''black'' of None \<Rightarrow> Inr False | Some t \<Rightarrow> py_eval t, w)"
  by (simp_all add: get_black_def split: option.splits)

lemma modify_black_run [exec_simps]:
  "table w uid = None \<Longrightarrow> modify_black uid b w = (Inr False, w)"
  "table w uid = Some r \<Longrightarrow> modify_black uid b w =
     (Inr True, with_row w uid (r\<lparr>extra := [''black'' \<mapsto> py_str_bool b]\<rparr>))"
  by (simp_all add: modify_black_def )

lemma check_sndfa_code_run [exec_simps]:
  "table w uid = None \<Longrightarrow> check_sndfa_code E uid code w = (Inr False, w)"
  "table w uid = Some r \<Longrightarrow> check_sndfa_code E uid code w =
     (if truthy (sndfa r) \<and> truthy (sndfa_email r) \<and> sndfa_code r = code
      then (Inr True, with_row (w\<lparr>ticks := Suc (ticks w)\<rparr>) uid
              (r\<lparr>sndfa_last := Some (naive (clock E (ticks w)))\<rparr>))
      else (Inr False, w))"
  by (auto simp: check_sndfa_code_def)

lemma set_check_email_code_run [exec_simps]:
  "table w uid = None \<Longrightarrow> set_check_email_code uid c w = (Inr (), w)"
  "table w uid = Some r \<Longrightarrow> set_check_email_code uid c w =
     (Inr (), with_row w uid (r\<lparr>sndfa_email_code := Some c, sndfa_email := Some False\<rparr>))"
  by (simp_all add: set_check_email_code_def )

lemma check_email_code_run [exec_simps]:
  "table w uid = None \<Longrightarrow> check_email_code uid code w = (Inr False, w)"
  "table w uid = Some r \<Longrightarrow> sndfa_email_code r \<in> {None, Some ''''} \<Longrightarrow>
     check_email_code uid code w = (Inr False, w)"
  "table w uid = Some r \<Longrightarrow> sndfa_email_code r = Some c \<Longrightarrow> c \<noteq> '''' \<Longrightarrow>
     check_email_code uid code w =
       (Inr (code = Some c), with_row w uid (r\<lparr>sndfa_email := Some (code = Some c)\<rparr>))"
  by (auto simp: check_email_code_def Let_def eq_commute [of code])

lemma already_email_checked_run [exec_simps]:
  "already_email_checked uid w =
     (Inr (case table w uid of None \<Rightarrow> Some False | Some r \<Rightarrow> sndfa_email r), w)"
  by (simp add: already_email_checked_def split: option.splits)

lemma get_pwd_expiration_run [exec_simps]:
  "table w uid = None \<Longrightarrow> get_pwd_expiration E uid w = (Inr (Inl 0), w)"
  "table w uid = Some r \<Longrightarrow> creation_time r = Some d \<Longrightarrow> get_pwd_expiration E uid w =
     (map_sum id Inr (dt_add (naive (wall d)) (timedelta_days (pwd_exp_days (conf E)))), w)"
  by (simp_all add: get_pwd_expiration_def bnd_lift split: sum.splits)

end
