(* ===== verification/SP_Codes.thy ===== *)
theory SP_Codes
  imports SP_Driver
begin

text \<open>
  What the REST resources and the manager rely on when they hand out a code and check it
  later. The contract is a locale with the user fixed; the driver's e-mail code and its
  second factor code are its two interpretations. \<open>confirmed_code\<close> adds the flag that a
  check writes.
\<close>

locale code_store =
  fixes eligible :: "world \<Rightarrow> bool"
    and pending :: "world \<Rightarrow> string option"
    and put :: "string \<Rightarrow> unit wexec"
    and check :: "string option \<Rightarrow> bool wexec"
  assumes put_eligible: "eligible w \<Longrightarrow> put c w = (r, w') \<Longrightarrow>
      r = Inr () \<and> eligible w' \<and> pending w' = Some c"
    and put_ineligible: "\<not> eligible w \<Longrightarrow> put c w = (Inr (), w)"
    and check_eligible: "eligible w \<Longrightarrow> pending w = Some c \<Longrightarrow> c \<noteq> '''' \<Longrightarrow>
      check g w = (b, w') \<Longrightarrow> b = Inr (g = Some c) \<and> eligible w' \<and> pending w' = Some c"
    and check_ineligible: "\<not> eligible w \<Longrightarrow> check g w = (Inr False, w)"
begin

text \<open>The code that was handed out is accepted, any other is refused.\<close>

lemma put_check:
  assumes "eligible w" and "c \<noteq> ''''"
  shows "\<exists>w'. bnd (put c) (\<lambda>_. check g) w = (Inr (g = Some c), w')"
proof (cases "put c w")
  case (Pair r v)
  with assms(1) have v: "r = Inr ()" "eligible v" "pending v = Some c"
    by (auto dest: put_eligible)
  obtain r' u where "check g v = (r', u)" by fastforce
  moreover from this v assms(2) have "r' = Inr (g = Some c)"
    by (auto dest: check_eligible)
  ultimately show ?thesis using Pair v(1) by (simp add: bnd_def)
qed

text \<open>
  Checking does not consume the code: any number of guesses is answered, each as if it were
  the first.
\<close>

lemma guesses:
  assumes "eligible w" and "pending w = Some c" and "c \<noteq> ''''"
  shows "\<exists>w'. mapE check gs w = (Inr (map (\<lambda>g. g = Some c) gs), w') \<and>
     eligible w' \<and> pending w' = Some c"
  using assms(1,2)
proof (induction gs arbitrary: w)
  case Nil
  then show ?case by simp
next
  case (Cons g gs)
  obtain r v where run: "check g w = (r, v)" by fastforce
  with Cons.prems assms(3) have "r = Inr (g = Some c)" "eligible v" "pending v = Some c"
    by (auto dest: check_eligible)
  moreover from Cons.IH [OF this(2,3)] obtain u where
    "mapE check gs v = (Inr (map (\<lambda>g. g = Some c) gs), u)" "eligible u" "pending u = Some c"
    by blast
  ultimately show ?case using run by (simp add: bnd_def)
qed

lemma ineligible_guesses: "\<not> eligible w \<Longrightarrow> mapE check gs w = (Inr (map (\<lambda>_. False) gs), w)"
  by (induction gs) (simp_all add: bnd_def check_ineligible)

end

locale confirmed_code = code_store +
  fixes confirmed :: "world \<Rightarrow> bool"
  assumes put_unconfirms: "eligible w \<Longrightarrow> \<not> confirmed (snd (put c w))"
    and check_confirms: "eligible w \<Longrightarrow> pending w = Some c \<Longrightarrow> c \<noteq> '''' \<Longrightarrow>
      confirmed (snd (check g w)) \<longleftrightarrow> g = Some c"
begin

lemma confirmed_iff_last_guess:
  assumes "eligible w" and "pending w = Some c" and "c \<noteq> ''''"
  shows "confirmed (snd (mapE check (gs @ [g]) w)) \<longleftrightarrow> g = Some c"
  using assms(1,2)
proof (induction gs arbitrary: w)
  case Nil
  obtain r v where run: "check g w = (r, v)" by fastforce
  with Nil assms(3) have "r = Inr (g = Some c)" by (auto dest: check_eligible)
  with run check_confirms [OF Nil assms(3), of g] show ?case by (simp add: bnd_def)
next
  case (Cons h gs)
  obtain r v where run: "check h w = (r, v)" by fastforce
  with Cons.prems assms(3) have v: "r = Inr (h = Some c)" "eligible v" "pending v = Some c"
    by (auto dest: check_eligible)
  with guesses [OF v(2,3) assms(3), of "gs @ [g]"] obtain u where
    "mapE check (gs @ [g]) v = (Inr (map (\<lambda>g. g = Some c) (gs @ [g])), u)" by blast
  with Cons.IH [OF v(2,3)] run v(1) show ?case by (simp add: bnd_def)
qed

end

section \<open>The driver provides both\<close>

definition has_row :: "string \<Rightarrow> world \<Rightarrow> bool" where
  "has_row uid w \<longleftrightarrow> table w uid \<noteq> None"

definition email_pending :: "string \<Rightarrow> world \<Rightarrow> string option" where
  "email_pending uid w = (case table w uid of None \<Rightarrow> None | Some r \<Rightarrow> sndfa_email_code r)"

definition email_verified :: "string \<Rightarrow> world \<Rightarrow> bool" where
  "email_verified uid w \<longleftrightarrow>
     (case table w uid of None \<Rightarrow> False | Some r \<Rightarrow> truthy (sndfa_email r))"

definition sndfa_active :: "string \<Rightarrow> world \<Rightarrow> bool" where
  "sndfa_active uid w \<longleftrightarrow> (case table w uid of None \<Rightarrow> False
     | Some r \<Rightarrow> truthy (sndfa r) \<and> truthy (sndfa_email r))"

definition sndfa_pending :: "string \<Rightarrow> world \<Rightarrow> string option" where
  "sndfa_pending uid w = (case table w uid of None \<Rightarrow> None | Some r \<Rightarrow> sndfa_code r)"

interpretation email: confirmed_code "has_row uid" "email_pending uid"
    "set_check_email_code uid" "check_email_code uid" "email_verified uid" for uid
proof unfold_locales
  fix w c r w'
  assume "has_row uid w" and "set_check_email_code uid c w = (r, w')"
  then show "r = Inr () \<and> has_row uid w' \<and> email_pending uid w' = Some c"
    by (auto simp: has_row_def email_pending_def exec_simps)
next
  fix w c g r w'
  assume "has_row uid w" "email_pending uid w = Some c" "c \<noteq> ''''"
    and "check_email_code uid g w = (r, w')"
  then show "r = Inr (g = Some c) \<and> has_row uid w' \<and> email_pending uid w' = Some c"
    by (auto simp: has_row_def email_pending_def exec_simps)
next
  fix w g c
  assume "has_row uid w" "email_pending uid w = Some c" "c \<noteq> ''''"
  then show "email_verified uid (snd (check_email_code uid g w)) \<longleftrightarrow> g = Some c"
    by (auto simp: has_row_def email_pending_def email_verified_def exec_simps)
qed (auto simp: has_row_def email_verified_def exec_simps)

interpretation sndfa: code_store "sndfa_active (u_id u)" "sndfa_pending (u_id u)"
    "set_user_sndfa_code E u" "check_sndfa_code E (u_id u)" for E u
proof unfold_locales
  fix w c r w'
  assume "sndfa_active (u_id u) w" and "set_user_sndfa_code E u c w = (r, w')"
  then show "r = Inr () \<and> sndfa_active (u_id u) w' \<and> sndfa_pending (u_id u) w' = Some c"
    by (auto simp: sndfa_active_def sndfa_pending_def exec_simps split: option.splits)
next
  fix w c
  assume "\<not> sndfa_active (u_id u) w"
  then show "set_user_sndfa_code E u c w = (Inr (), w)"
    by (cases "table w (u_id u)") (auto simp: sndfa_active_def exec_simps)
next
  fix w c g r w'
  assume "sndfa_active (u_id u) w" "sndfa_pending (u_id u) w = Some c" "c \<noteq> ''''"
    and "check_sndfa_code E (u_id u) g w = (r, w')"
  then show "r = Inr (g = Some c) \<and> sndfa_active (u_id u) w' \<and>
      sndfa_pending (u_id u) w' = Some c"
    by (auto simp: sndfa_active_def sndfa_pending_def exec_simps
        split: option.splits if_splits)
next
  fix w g
  assume "\<not> sndfa_active (u_id u) w"
  then show "check_sndfa_code E (u_id u) g w = (Inr False, w)"
    by (cases "table w (u_id u)") (auto simp: sndfa_active_def exec_simps)
qed

end
