(* ===== verification/SP_Manager.thy ===== *)
theory SP_Manager
  imports SP_Driver
begin

text \<open>
  \<open>core.py\<close>: the class \<open>SPasswordManager\<close>. It subscribes to keystone's notifications about
  users and forwards the calls of the REST resources to the driver, here \<open>SPassword\<close> of
  \<open>backends/sql.py\<close>.
\<close>

section \<open>Notifications\<close>

definition user_updated_callback :: "env \<Rightarrow> string \<Rightarrow> unit wexec" where
  "user_updated_callback E resource_info =
     bnd (get_user resource_info) (\<lambda>user.
     if enabled (conf E) then update_user_modification_time E user else ret ())"

definition user_created_callback :: "env \<Rightarrow> string \<Rightarrow> unit wexec" where
  "user_created_callback E resource_info =
     bnd (get_user resource_info) (\<lambda>user.
     if enabled (conf E) then bnd (set_user_creation_time E user) (\<lambda>_. ret ()) else ret ())"

definition user_deleted_callback :: "env \<Rightarrow> string \<Rightarrow> unit wexec" where
  "user_deleted_callback E resource_info =
     (if enabled (conf E) then remove_user resource_info else ret ())"

text \<open>
  The dict \<open>event_callbacks\<close>: operation, then resource type, to the callbacks; and the
  delivery of one notification to the callbacks subscribed to it.
\<close>

definition event_callbacks :: "env \<Rightarrow> string \<Rightarrow> string \<Rightarrow> (string \<Rightarrow> unit wexec) list" where
  "event_callbacks E operation resource_type =
     (if operation = ''updated'' \<and> resource_type = ''user'' then [user_updated_callback E]
      else if operation = ''created'' \<and> resource_type = ''user'' then [user_created_callback E]
      else if operation = ''deleted'' \<and> resource_type = ''user'' then [user_deleted_callback E]
      else [])"

fun deliver :: "(string \<Rightarrow> unit wexec) list \<Rightarrow> string \<Rightarrow> unit wexec" where
  "deliver [] resource_info = ret ()"
| "deliver (cb # cbs) resource_info =
     bnd (cb resource_info) (\<lambda>_. deliver cbs resource_info)"

definition notify :: "env \<Rightarrow> string \<Rightarrow> string \<Rightarrow> string \<Rightarrow> unit wexec" where
  "notify E operation resource_type resource_info =
     deliver (event_callbacks E operation resource_type) resource_info"

section \<open>Calls forwarded to the driver\<close>

definition user_check_sndfa_code :: "env \<Rightarrow> string \<Rightarrow> string option \<Rightarrow> bool wexec" where
  "user_check_sndfa_code E uid code = check_sndfa_code E uid code"

definition user_modify_sndfa :: "string \<Rightarrow> bool \<Rightarrow> bool wexec" where
  "user_modify_sndfa uid enable = modify_sndfa uid enable"

definition user_get_sndfa :: "string \<Rightarrow> bool option wexec" where
  "user_get_sndfa uid = get_sndfa uid"

definition user_get_black :: "string \<Rightarrow> bool wexec" where
  "user_get_black uid = get_black uid"

definition user_modify_black :: "string \<Rightarrow> bool \<Rightarrow> bool wexec" where
  "user_modify_black uid enable = modify_black uid enable"

definition user_get_pwd_expiration :: "env \<Rightarrow> string \<Rightarrow> (int + datetime) wexec" where
  "user_get_pwd_expiration E uid = get_pwd_expiration E uid"

definition user_ask_check_email_code :: "env \<Rightarrow> string \<Rightarrow> string wexec" where
  "user_ask_check_email_code E uid =
     bnd (already_email_checked uid) (\<lambda>_.
     bnd (fresh_uuid E) (\<lambda>u.
     let code = take 6 (uuid_hex u) in
     bnd (set_check_email_code uid code) (\<lambda>_. ret code)))"

definition user_check_email_code :: "string \<Rightarrow> string option \<Rightarrow> bool wexec" where
  "user_check_email_code uid code = check_email_code uid code"

definition already_user_check_email :: "string \<Rightarrow> bool option wexec" where
  "already_user_check_email uid = already_email_checked uid"

section \<open>Facts\<close>

lemma notify_user_updated [exec_simps]:
  "notify E ''updated'' ''user'' uid = user_updated_callback E uid"
  by (rule ext) (simp add: notify_def event_callbacks_def bnd_def split: prod.splits sum.splits)

lemma notify_user_created [exec_simps]:
  "notify E ''created'' ''user'' uid = user_created_callback E uid"
  by (rule ext) (simp add: notify_def event_callbacks_def bnd_def split: prod.splits sum.splits)

lemma notify_user_deleted [exec_simps]:
  "notify E ''deleted'' ''user'' uid = user_deleted_callback E uid"
  by (rule ext) (simp add: notify_def event_callbacks_def bnd_def split: prod.splits sum.splits)

lemma notify_other: "resource_type \<noteq> ''user'' \<Longrightarrow> notify E operation resource_type uid w = (Inr (), w)"
  by (simp add: notify_def event_callbacks_def)

definition email_code :: "env \<Rightarrow> world \<Rightarrow> string" where
  "email_code E w = take 6 (uuid_hex (uuid4 E (uuids w)))"

lemma length_email_code [simp]: "length (email_code E w) = 6"
  by (simp add: email_code_def)

lemma email_code_not_empty [simp]: "email_code E w \<noteq> ''''"
  using length_email_code [of E w] by (metis list.size(3) zero_neq_numeral)

text \<open>Asking for a code is \<open>set_check_email_code\<close> with a fresh code.\<close>

lemma user_ask_check_email_code_run [exec_simps]:
  "user_ask_check_email_code E uid w =
     bnd (set_check_email_code uid (email_code E w)) (\<lambda>_. ret (email_code E w))
       (w\<lparr>uuids := Suc (uuids w)\<rparr>)"
  by (simp add: user_ask_check_email_code_def bnd_def already_email_checked_run fresh_uuid_def
      email_code_def Let_def)

end
