(* ===== verification/SP_Identity.thy ===== *)
theory SP_Identity
  imports SP_Mailer SP_Manager
begin

text \<open>
  \<open>backends/sql.py\<close>: the class \<open>Identity\<close>, which wraps keystone's SQL identity backend:
  \<open>_check_password\<close> refuses expired passwords, \<open>authenticate\<close> counts bad attempts, blocks,
  reports extra data and demands the second factor. The two methods of the superclass are
  parameters (\<open>ks_check_password\<close>, \<open>ks_authenticate\<close>); keystone's \<open>authenticate\<close> calls back
  the overridden \<open>_check_password\<close>, so it receives it as an argument.
\<close>

section \<open>Values\<close>

datatype pyval = PNone | PBool bool | PInt int | PDate datetime | PIso datetime

record auth_ref =
  ref_user :: user
  ref_extras :: "(string \<rightharpoonup> pyval) option"

text \<open>\<open>res['extras'][k] = v\<close>\<close>

definition set_extra :: "string \<Rightarrow> pyval \<Rightarrow> auth_ref \<Rightarrow> auth_ref" where
  "set_extra k v a = a\<lparr>ref_extras := map_option (\<lambda>m. m(k \<mapsto> v)) (ref_extras a)\<rparr>"

definition py_opt :: "('a \<Rightarrow> pyval) \<Rightarrow> 'a option \<Rightarrow> pyval" where
  "py_opt f x = (case x of None \<Rightarrow> PNone | Some y \<Rightarrow> f y)"

text \<open>\<open>login_attempts > n\<close> and \<open>login_attempts += 1\<close> on a nullable integer.\<close>

definition py_gt :: "int option \<Rightarrow> int \<Rightarrow> exn + bool" where
  "py_gt x n = (case x of None \<Rightarrow> Inl (TypeError ''>'') | Some k \<Rightarrow> Inr (k > n))"

definition py_inc :: "int option \<Rightarrow> exn + int" where
  "py_inc x = (case x of None \<Rightarrow> Inl (TypeError ''+='') | Some k \<Rightarrow> Inr (k + 1))"

section \<open>_check_password\<close>

text \<open>\<open>('black' in user_extra and eval(user_extra['black']))\<close>\<close>

definition in_user_black :: "spassword_row \<Rightarrow> exn + bool" where
  "in_user_black r = (if in_to_dict r ''extra''
     then case extra r ''black'' of None \<Rightarrow> Inr False | Some t \<Rightarrow> py_eval t
     else Inr False)"

definition expired_msg :: "string option \<Rightarrow> string" where
  "expired_msg name =
     ''Password expired for user '' @ py_str_opt name @ ''. Contact with your admin''"

definition check_expiration :: "env \<Rightarrow> user \<Rightarrow> unit wexec" where
  "check_expiration E user_ref =
     (if enabled (conf E) then
        bnd (get_spassword_session (u_id user_ref)) (\<lambda>spassword_ref.
        case spassword_ref of
          None \<Rightarrow> ret ()
        | Some r \<Rightarrow>
            bnd (lift (in_blacklist (conf E) (u_id user_ref))) (\<lambda>listed.
            if listed then ret ()
            else
              bnd (lift (in_user_black r)) (\<lambda>black.
              if black then ret ()
              else
                bnd (utcnow E) (\<lambda>now.
                bnd (lift (dt_sub now (timedelta_days (pwd_exp_days (conf E))))) (\<lambda>expiration_date.
                bnd (lift (normalize_db_date (creation_time r))) (\<lambda>created.
                bnd (lift (dt_less created expiration_date)) (\<lambda>expired.
                if expired then raise (SPasswordUnauthorized (expired_msg (user_name r)))
                else ret ())))))))
      else ret ())"

definition Identity_check_password :: "env \<Rightarrow> string \<Rightarrow> user \<Rightarrow> bool wexec" where
  "Identity_check_password E password user_ref =
     bnd (check_expiration E user_ref) (\<lambda>_.
     lift (ks_check_password E password user_ref))"

section \<open>authenticate\<close>

definition blocked_msg :: "string option \<Rightarrow> string" where
  "blocked_msg name =
     ''Password temporarily blocked for user '' @ py_str_opt name @
     '' due to reach max number of tries. Contact with your  admin''"

text \<open>The check of the block, before the password is looked at.\<close>

definition check_block :: "env \<Rightarrow> string \<Rightarrow> unit wexec" where
  "check_block E uid =
     (if enabled (conf E) then
        bnd (lift (in_blacklist (conf E) uid)) (\<lambda>listed.
        if listed then ret ()
        else
          bnd (get_spassword_session uid) (\<lambda>spassword_ref.
          case spassword_ref of
            None \<Rightarrow> ret ()
          | Some r \<Rightarrow>
              bnd (lift (py_gt (login_attempts r) (pwd_max_tries (conf E)))) (\<lambda>over.
              if \<not> over then ret ()
              else
                bnd (lift (normalize_db_date (last_login_attempt_time r))) (\<lambda>last_time.
                bnd (utcnow E) (\<lambda>now.
                bnd (lift (dt_sub now (timedelta_minutes (pwd_block_minutes (conf E))))) (\<lambda>limit.
                bnd (lift (dt_less limit last_time)) (\<lambda>blocked.
                if blocked then raise (SPasswordUnauthorized (blocked_msg (user_name r)))
                else ret ())))))))
      else ret ())"

text \<open>
  The superclass decides: \<open>Inl auth_error_msg\<close> is a false \<open>res\<close>, \<open>Inr\<close> the user.
\<close>

definition base_authenticate :: "env \<Rightarrow> string \<Rightarrow> string \<Rightarrow> (string + user) wexec" where
  "base_authenticate E uid password =
     catch (bnd (ks_authenticate E (Identity_check_password E) uid password) (\<lambda>u. ret (Inr u)))
       (\<lambda>e. if e = AssertionError then Some (ret (Inl ''Invalid username or password''))
            else None)"

text \<open>
  \<open>d and d > utcnow() - timedelta(hours=sndfa_time_window)\<close>, after \<open>normalize_db_date\<close>.
\<close>

definition within_window :: "env \<Rightarrow> datetime option \<Rightarrow> bool wexec" where
  "within_window E d = (case d of
      None \<Rightarrow> ret False
    | Some _ \<Rightarrow>
        bnd (lift (normalize_db_date d)) (\<lambda>t.
        bnd (utcnow E) (\<lambda>now.
        bnd (lift (dt_sub now (timedelta_hours (sndfa_time_window (conf E))))) (\<lambda>limit.
        lift (dt_less limit t)))))"

definition sndfa_link :: "conf \<Rightarrow> string \<Rightarrow> string \<Rightarrow> string" where
  "sndfa_link c uid code =
     (if \<not> str_in ''http'' (sndfa_endpoint c) then ''http://'' else '''') @
     (if str_in ''/idm'' (sndfa_endpoint c)
      then sndfa_endpoint c @ ''/users/'' @ uid @ ''/sndfa/'' @ code
      else sndfa_endpoint c @ ''/v3/users/'' @ uid @ ''/sndfa/'' @ code)"

definition sndfa_text :: "conf \<Rightarrow> string \<Rightarrow> string \<Rightarrow> string" where
  "sndfa_text c uid code =
     ''The code for verify your access is '' @ code @
     [CHR 0x0A] @ ''Link to verify your access is: '' @ sndfa_link c uid code"

definition expecting_msg :: string where
  "expecting_msg = ''Expecting Second Factor Authentication, email was sent. '' @
     ''Please check it and click in provided link.''"

definition unverified_msg :: string where
  "unverified_msg = ''Email not verificated to perform Second Factor Authentication. '' @
     ''Please contact with your admin to solve it.''"

text \<open>The code mailed: the stored one while it is recent, else a fresh one, stored first.\<close>

definition sndfa_code_to_send :: "env \<Rightarrow> string \<Rightarrow> spassword_row \<Rightarrow> string wexec" where
  "sndfa_code_to_send E uid r =
     bnd (within_window E (sndfa_time_code r)) (\<lambda>recent.
     if recent then ret (py_str_opt (sndfa_code r))
     else
       bnd (fresh_uuid E) (\<lambda>u.
       let code = take 6 (uuid_hex u) in
       bnd (identity_get_user uid) (\<lambda>user.
       bnd (set_user_sndfa_code E user code) (\<lambda>_. ret code))))"

text \<open>The second factor of a user who has it enabled and gave the right password.\<close>

definition second_factor ::
    "env \<Rightarrow> string \<Rightarrow> spassword_row \<Rightarrow> auth_ref \<Rightarrow> (string + auth_ref) wexec" where
  "second_factor E uid r res =
     (let res = set_extra ''sndfa'' (py_opt PBool (sndfa r)) res in
      if truthy (sndfa_email r) then
        bnd (within_window E (sndfa_last r)) (\<lambda>validated.
        if validated then ret (Inr res)
        else
          bnd (sndfa_code_to_send E uid r) (\<lambda>code.
          bnd (identity_get_user uid) (\<lambda>user.
          bnd (lift (user_email user)) (\<lambda>to.
          bnd (send_email E to (Brand @ '' second factor auth procedure'')
                 (sndfa_text (conf E) uid code)) (\<lambda>_.
          ret (Inl expecting_msg))))))
      else ret (Inl unverified_msg))"

definition login_extras ::
    "spassword_row \<Rightarrow> datetime \<Rightarrow> datetime \<Rightarrow> bool \<Rightarrow> (string \<rightharpoonup> pyval)" where
  "login_extras r created expiration listed = [
     ''password_creation_time'' \<mapsto> PIso created,
     ''password_expiration_time'' \<mapsto> PIso expiration,
     ''pwd_user_in_blacklist'' \<mapsto> PBool listed,
     ''last_login_attempt_time'' \<mapsto> py_opt PDate (last_login_attempt_time r),
     ''previous_login_attempts'' \<mapsto> py_opt PInt (login_attempts r)]"

text \<open>
  The branch for a user with a row. \<open>n\<close> and \<open>now\<close> are the columns to be written by the
  commit at the end; the first half computes them and the extra data of a good login.
\<close>

definition count_attempt :: "env \<Rightarrow> string \<Rightarrow> spassword_row \<Rightarrow> string + user \<Rightarrow>
    ((string + auth_ref) \<times> int) wexec" where
  "count_attempt E uid r res =
     bnd (lift (normalize_db_date (creation_time r))) (\<lambda>created.
     case res of
       Inl msg \<Rightarrow>
         bnd (lift (py_inc (login_attempts r))) (\<lambda>n. ret (Inl msg, n))
     | Inr user \<Rightarrow>
         bnd (lift (dt_add created (timedelta_days (pwd_exp_days (conf E))))) (\<lambda>expiration.
         bnd (lift (in_blacklist (conf E) uid)) (\<lambda>listed.
         ret (Inr \<lparr>ref_user = user, ref_extras = Some (login_extras r created expiration listed)\<rparr>, 0))))"

definition demand_sndfa :: "env \<Rightarrow> string \<Rightarrow> spassword_row \<Rightarrow> string + auth_ref \<Rightarrow>
    (string + auth_ref) wexec" where
  "demand_sndfa E uid r res = (case res of
      Inl msg \<Rightarrow> ret (Inl msg)
    | Inr a \<Rightarrow>
        let a = (if conf_sndfa (conf E) \<and> in_to_dict r ''sndfa_email''
                 then set_extra ''sndfa_email'' (py_opt PBool (sndfa_email r)) a
                 else a) in
        if conf_sndfa (conf E) \<and> in_to_dict r ''sndfa'' \<and> truthy (sndfa r)
        then second_factor E uid r a
        else ret (Inr a))"

definition known_user :: "env \<Rightarrow> string \<Rightarrow> spassword_row \<Rightarrow> datetime \<Rightarrow> string + user \<Rightarrow>
    (string + auth_ref) wexec" where
  "known_user E uid r now res =
     bnd (count_attempt E uid r res) (\<lambda>(res, n).
     bnd (demand_sndfa E uid r res) (\<lambda>res.
     bnd (session_save uid
            (\<lambda>r. r\<lparr>login_attempts := Some n, last_login_attempt_time := Some now\<rparr>)) (\<lambda>_.
     ret res)))"

definition registration_extras :: "datetime \<Rightarrow> datetime \<Rightarrow> bool \<Rightarrow> (string \<rightharpoonup> pyval)" where
  "registration_extras created expiration listed = [
     ''password_creation_time'' \<mapsto> PIso created,
     ''password_expiration_time'' \<mapsto> PIso expiration,
     ''pwd_user_in_blacklist'' \<mapsto> PBool listed,
     ''sndfa'' \<mapsto> PBool False,
     ''sndfa_email'' \<mapsto> PBool False,
     ''previous_login_attempts'' \<mapsto> PInt 0]"

text \<open>The branch for a user without a row: it is registered by its first login.\<close>

definition new_user :: "env \<Rightarrow> string \<Rightarrow> datetime \<Rightarrow> string + user \<Rightarrow>
    (string + auth_ref) wexec" where
  "new_user E uid now res =
     bnd (identity_get_user uid) (\<lambda>user.
     let row = (user_row user now)\<lparr>last_login_attempt_time := Some now\<rparr> in
     case res of
       Inl msg \<Rightarrow>
         bnd (session_insert (row\<lparr>login_attempts := Some 1\<rparr>)) (\<lambda>_. ret (Inl msg))
     | Inr u \<Rightarrow>
         bnd (lift (dt_add now (timedelta_days (pwd_exp_days (conf E))))) (\<lambda>expiration.
         bnd (lift (in_blacklist (conf E) uid)) (\<lambda>listed.
         bnd (session_insert (row\<lparr>login_attempts := Some 0\<rparr>)) (\<lambda>_.
         ret (Inr \<lparr>ref_user = u, ref_extras = Some (registration_extras now expiration listed)\<rparr>)))))"

definition record_attempt :: "env \<Rightarrow> string \<Rightarrow> string + user \<Rightarrow> (string + auth_ref) wexec" where
  "record_attempt E uid res =
     (if enabled (conf E) then
        bnd (get_spassword_session uid) (\<lambda>spassword_ref.
        bnd (utcnow E) (\<lambda>now.
        case spassword_ref of
          Some r \<Rightarrow> known_user E uid r now res
        | None \<Rightarrow> new_user E uid now res))
      else ret (case res of Inl msg \<Rightarrow> Inl msg
                | Inr u \<Rightarrow> Inr \<lparr>ref_user = u, ref_extras = None\<rparr>))"

definition Identity_authenticate :: "env \<Rightarrow> string \<Rightarrow> string \<Rightarrow> auth_ref wexec" where
  "Identity_authenticate E uid password =
     bnd (check_block E uid) (\<lambda>_.
     bnd (base_authenticate E uid password) (\<lambda>res.
     bnd (record_attempt E uid res) (\<lambda>res.
     case res of
       Inl auth_error_msg \<Rightarrow> raise (SPasswordUnauthorized auth_error_msg)
     | Inr a \<Rightarrow> ret a)))"

section \<open>What the code relies on in keystone's authenticate\<close>

text \<open>
  Keystone's SQL backend answers \<open>AssertionError\<close> for an unknown user. For a known user it
  may refuse before it looks at the password (an account locked by keystone itself); else it
  asks \<open>_check_password\<close>: what that raises goes through, \<open>False\<close> is \<open>AssertionError\<close>, and
  \<open>True\<close> gives the user unless keystone refuses it for another reason (a disabled user).
  \<open>keystone_auth_plain\<close> is the case without keystone's own refusals.
\<close>

definition keystone_auth_at ::
    "env \<Rightarrow> (string \<Rightarrow> user \<Rightarrow> bool wexec) \<Rightarrow> string \<Rightarrow> string \<Rightarrow> world \<Rightarrow> bool" where
  "keystone_auth_at E chk uid pw w = (case users w uid of
      None \<Rightarrow> ks_authenticate E chk uid pw w = (Inl AssertionError, w)
    | Some u \<Rightarrow>
        (\<exists>e. e \<noteq> AssertionError \<and> ks_authenticate E chk uid pw w = (Inl e, w)) \<or>
        (case chk pw u w of
           (Inl e, v) \<Rightarrow> ks_authenticate E chk uid pw w = (Inl e, v)
         | (Inr False, v) \<Rightarrow> ks_authenticate E chk uid pw w = (Inl AssertionError, v)
         | (Inr True, v) \<Rightarrow> ks_authenticate E chk uid pw w = (Inr u, v) \<or>
             (\<exists>e. e \<noteq> AssertionError \<and> ks_authenticate E chk uid pw w = (Inl e, v))))"

definition keystone_auth :: "env \<Rightarrow> bool" where
  "keystone_auth E \<longleftrightarrow> (\<forall>chk uid pw w. keystone_auth_at E chk uid pw w)"

definition keystone_auth_plain :: "env \<Rightarrow> bool" where
  "keystone_auth_plain E \<longleftrightarrow> (\<forall>chk uid pw w. ks_authenticate E chk uid pw w =
     (case users w uid of
        None \<Rightarrow> (Inl AssertionError, w)
      | Some u \<Rightarrow>
          (case chk pw u w of
             (Inl e, v) \<Rightarrow> (Inl e, v)
           | (Inr ok, v) \<Rightarrow> (if ok then Inr u else Inl AssertionError, v))))"

lemma keystone_auth_plain: "keystone_auth_plain E \<Longrightarrow> keystone_auth E"
  unfolding keystone_auth_def keystone_auth_at_def
  by (auto simp: keystone_auth_plain_def split: option.splits prod.splits sum.splits bool.splits)

section \<open>Frames of the parts\<close>

lemma keeps_check_expiration: "keeps only_ticks (check_expiration E u)"
  unfolding check_expiration_def
  by (intro only_ticks.keeps_rules keeps_only_ticks_prims)

lemma keeps_Identity_check_password: "keeps only_ticks (Identity_check_password E pw u)"
  unfolding Identity_check_password_def
  by (intro only_ticks.keeps_rules keeps_check_expiration)

lemma keeps_check_block: "keeps only_ticks (check_block E uid)"
  unfolding check_block_def
  by (intro only_ticks.keeps_rules keeps_only_ticks_prims)

lemma keeps_within_window: "keeps only_ticks (within_window E d)"
  unfolding within_window_def
  by (intro only_ticks.keeps_rules keeps_only_ticks_prims)

lemma ks_authenticate_unknown:
  "keystone_auth E \<Longrightarrow> users w uid = None \<Longrightarrow>
     ks_authenticate E chk uid pw w = (Inl AssertionError, w)"
  unfolding keystone_auth_def
  by (drule spec [of _ chk], drule spec [of _ uid], drule spec [of _ pw], drule spec [of _ w])
    (simp add: keystone_auth_at_def)

lemma ks_authenticate_known:
  assumes "keystone_auth E" and "users w uid = Some u" and "chk pw u w = (r, v)"
  shows "(\<exists>e. ks_authenticate E chk uid pw w = (Inl e, w)) \<or>
    (\<exists>e. ks_authenticate E chk uid pw w = (Inl e, v)) \<or>
    (r = Inr True \<and> ks_authenticate E chk uid pw w = (Inr u, v))"
proof -
  from assms(1) have "keystone_auth_at E chk uid pw w"
    unfolding keystone_auth_def by blast
  with assms(2,3) show ?thesis
    by (cases r) (auto simp: keystone_auth_at_def split: bool.splits)
qed

lemma ks_authenticate_frame:
  assumes "keystone_auth E" and "\<And>pw u. keeps only_ticks (chk pw u)"
  shows "keeps only_ticks (ks_authenticate E chk uid pw)"
proof (rule keepsI)
  fix w
  show "only_ticks w (snd (ks_authenticate E chk uid pw w))"
  proof (cases "users w uid")
    case None
    with assms(1) show ?thesis by (simp add: ks_authenticate_unknown only_ticks.R_refl)
  next
    case (Some u)
    obtain r v where run: "chk pw u w = (r, v)" by fastforce
    with assms(2) have "only_ticks w v" by (rule keepsD)
    with ks_authenticate_known [where chk = chk and pw = pw, OF assms(1) Some run] show ?thesis
      by (auto simp: only_ticks.R_refl)
  qed
qed

lemma keeps_base_authenticate:
  assumes "keystone_auth E"
  shows "keeps only_ticks (base_authenticate E uid pw)"
  unfolding base_authenticate_def
proof (rule only_ticks.keeps_catch)
  show "keeps only_ticks (bnd (ks_authenticate E (Identity_check_password E) uid pw)
      (\<lambda>u. ret (Inr u)))"
    by (intro only_ticks.keeps_rules ks_authenticate_frame assms keeps_Identity_check_password)
qed (auto split: if_splits intro: only_ticks.keeps_rules)

lemma base_authenticate_Inr:
  assumes "keystone_auth E" and "base_authenticate E uid pw w = (Inr (Inr u), v)"
  shows "users w uid = Some u \<and> Identity_check_password E pw u w = (Inr True, v)"
proof (cases "users w uid")
  case None
  with assms show ?thesis
    by (simp add: base_authenticate_def catch_def bnd_def ks_authenticate_unknown)
next
  case (Some u')
  obtain r v' where run: "Identity_check_password E pw u' w = (r, v')" by fastforce
  from assms(2) have "ks_authenticate E (Identity_check_password E) uid pw w = (Inr u, v)"
    by (auto simp: base_authenticate_def catch_def bnd_def
        split: prod.splits sum.splits if_splits option.splits)
  with ks_authenticate_known
      [where chk = "Identity_check_password E" and pw = pw, OF assms(1) Some run] run Some show ?thesis by auto
qed

end
