(* ===== verification/SP_Http.thy ===== *)
theory SP_Http
  imports SP_Mailer SP_Manager SP_Checker
begin

text \<open>
  What the REST resources of \<open>spassword.py\<close> share: requests and responses, access to the
  JSON body, the operations of keystone they call (parameters of \<open>keystone_api\<close>), and the
  checks of the base class \<open>SPasswordResource\<close>.
\<close>

section \<open>Requests and responses\<close>

record request =
  request_body_json :: json
  view_args :: "string \<rightharpoonup> string"

datatype payload = Text string | Dumps json

text \<open>\<open>content_type = None\<close>: the header is left to the framework.\<close>

record response =
  status :: nat
  content_type :: "string option"
  body :: payload

definition make_response :: "payload \<Rightarrow> nat \<Rightarrow> string option \<Rightarrow> response" where
  "make_response msg code ct = \<lparr>status = code, content_type = ct, body = msg\<rparr>"

text \<open>\<open>j.get(k, d)\<close>, \<open>k in j\<close> and \<open>j[k]\<close> on a decoded JSON value.\<close>

definition json_get :: "string \<Rightarrow> json \<Rightarrow> json \<Rightarrow> exn + json" where
  "json_get k d j = (case j of
      JObj kvs \<Rightarrow> Inr (case map_of kvs k of None \<Rightarrow> d | Some v \<Rightarrow> v)
    | _ \<Rightarrow> Inl (AttributeError ''get''))"

definition json_has :: "string \<Rightarrow> json \<Rightarrow> exn + bool" where
  "json_has k j = (case j of
      JObj kvs \<Rightarrow> Inr (map_of kvs k \<noteq> None)
    | JArr xs \<Rightarrow> Inr (JStr k \<in> set xs)
    | JStr t \<Rightarrow> Inr (str_in k t)
    | _ \<Rightarrow> Inl (TypeError ''argument is not iterable''))"

definition json_item :: "string \<Rightarrow> json \<Rightarrow> exn + json" where
  "json_item k j = (case j of
      JObj kvs \<Rightarrow> (case map_of kvs k of None \<Rightarrow> Inl (KeyError k) | Some v \<Rightarrow> Inr v)
    | _ \<Rightarrow> Inl (TypeError ''indices''))"

section \<open>Keystone and the SCIM extension\<close>

record target =
  target_user :: "user option"
  target_group :: "string option"

record project =
  p_id :: string
  p_name :: string

text \<open>
  \<open>exn_str\<close> is \<open>'%s' % e\<close>; \<open>builtin_gettext\<close> is the function \<open>_\<close> among Python's builtins,
  if something installed one; \<open>scim_user_key\<close> is the chain \<open>_normalize_dict\<close>,
  \<open>_denormalize\<close>, \<open>user_scim2key\<close> of the SCIM extension. The \<open>ks_\<close> and \<open>scim_\<close> operations
  are the methods of the superclasses.
\<close>

record keystone_api =
  enforce_call :: "string \<Rightarrow> target wexec \<Rightarrow> unit wexec"
  get_group :: "string \<Rightarrow> exn + string"
  exn_str :: "exn \<Rightarrow> string"
  builtin_gettext :: "(string \<Rightarrow> string) option"
  ks_user_post :: "request \<Rightarrow> response wexec"
  ks_user_patch :: "request \<Rightarrow> string \<Rightarrow> response wexec"
  ks_user_delete :: "request \<Rightarrow> string \<Rightarrow> response wexec"
  ks_password_post :: "request \<Rightarrow> string \<Rightarrow> response wexec"
  scim_user_key :: "json \<Rightarrow> exn + json"
  scim_post :: "request \<Rightarrow> response wexec"
  scim_patch :: "request \<Rightarrow> string \<Rightarrow> response wexec"
  scim_patch_under :: "request \<Rightarrow> string \<Rightarrow> response wexec"
  scim_delete :: "request \<Rightarrow> string \<Rightarrow> response wexec"
  list_projects_for_user :: "string \<Rightarrow> exn + project list"
  get_roles_for_user_and_project :: "string \<Rightarrow> string \<Rightarrow> exn + string list"
  get_role_name :: "string \<Rightarrow> exn + string"

definition is_NotFound :: "exn \<Rightarrow> bool" where
  "is_NotFound e = (case e of UserNotFound _ \<Rightarrow> True | GroupNotFound _ \<Rightarrow> True | _ \<Rightarrow> False)"

text \<open>A missing user or group leaves the target as it is when the exception is raised.\<close>

definition build_user_target_enforcement :: "keystone_api \<Rightarrow> request \<Rightarrow> target wexec" where
  "build_user_target_enforcement K req =
     (let empty = \<lparr>target_user = None, target_group = None\<rparr> in
      catch
        (bnd (identity_get_user (py_str_opt (view_args req ''user_id''))) (\<lambda>user.
         let target = empty\<lparr>target_user := Some user\<rparr> in
         case view_args req ''group_id'' of
           None \<Rightarrow> ret target
         | Some gid \<Rightarrow>
             if gid = '''' then ret target
             else
               (case get_group K gid of
                  Inr g \<Rightarrow> ret (target\<lparr>target_group := Some g\<rparr>)
                | Inl e \<Rightarrow> if is_NotFound e then ret target else raise e)))
        (\<lambda>e. if is_NotFound e then Some (ret empty) else None))"

section \<open>SPasswordResource\<close>

definition check_spassword_configured :: "env \<Rightarrow> unit wexec" where
  "check_spassword_configured E =
     (if \<not> enabled (conf E) \<or> \<not> conf_sndfa (conf E) then raise SPasswordNotConfigured
      else ret ())"

definition check_user_has_email_defined :: "user \<Rightarrow> unit wexec" where
  "check_user_has_email_defined user_info =
     (if u_email user_info = None
      then raise (Unauthorized (''User '' @ u_id user_info @ '' '' @ u_name user_info @
             '' has no email defined''))
      else ret ())"

definition check_user_has_email_validated :: "user \<Rightarrow> unit wexec" where
  "check_user_has_email_validated user_info =
     bnd (already_user_check_email (u_id user_info)) (\<lambda>checked.
     if \<not> truthy checked
     then raise (Unauthorized (''User '' @ u_id user_info @ '' '' @ u_name user_info @
            '' has no email verified''))
     else ret ())"

text \<open>The link in a mail: the endpoint, with a scheme when it has none, and the path.\<close>

definition mail_link :: "conf \<Rightarrow> user \<Rightarrow> string \<Rightarrow> string \<Rightarrow> string" where
  "mail_link c user_info what code =
     (if startswith (sndfa_endpoint c) ''http'' then sndfa_endpoint c
      else ''http://'' @ sndfa_endpoint c) @
     ''/v3/users/'' @ u_id user_info @ what @ code"

section \<open>The password check of the resources that set passwords\<close>

text \<open>
  \<open>if CONF.spassword.enabled and 'password' in user_data: try: strong_check_password(...)\<close>:
  \<open>Inl e\<close> when the test itself raises, \<open>Inr (Some e)\<close> when the handler of the \<open>try\<close> runs
  with \<open>e\<close>, \<open>Inr None\<close> when the code goes on.
\<close>

definition check_user_data :: "env \<Rightarrow> json \<Rightarrow> exn + exn option" where
  "check_user_data E user_data =
     (if enabled (conf E) then
        case json_has ''password'' user_data of
          Inl e \<Rightarrow> Inl e
        | Inr False \<Rightarrow> Inr None
        | Inr True \<Rightarrow>
            (case json_item ''password'' user_data of
               Inl e \<Rightarrow> Inr (Some e)
             | Inr new_password \<Rightarrow>
                 (case strong_check_password E new_password of
                    Inl e \<Rightarrow> Inr (Some e)
                  | Inr _ \<Rightarrow> Inr None))
      else Inr None)"

text \<open>The answer of the handler: status 400 with the text of the exception.\<close>

definition bad_password_response :: "keystone_api \<Rightarrow> exn \<Rightarrow> response" where
  "bad_password_response K e =
     make_response (Text (exn_str K e)) 400 (Some ''application/json'')"

end
