(* ===== verification/SP_Demo.thy ===== *)
theory SP_Demo
  imports SP_Identity SP_Http
begin

text \<open>
  One concrete installation: a configuration, a keystone that follows the contract, an SMTP
  server that takes every mail, one user \<open>u1\<close> with password \<open>right\<close>. The witnesses of the
  properties are evaluated on it.
\<close>

definition demo_now :: int where
  "demo_now = 63000000000000000"

definition demo_conf :: conf where
  "demo_conf = default_conf\<lparr>enabled := True, conf_sndfa := True,
     pwd_user_blacklist := Some [''admin''], smtp_from := ''iot''\<rparr>"

definition demo_smtp :: smtp_conn where
  "demo_smtp = \<lparr>smtp_connect = (\<lambda>_ _. None), smtp_ehlo = None, smtp_starttls = None,
     smtp_login = (\<lambda>_ _. None), smtp_sendmail = (\<lambda>_. None), smtp_quit = None\<rparr>"

definition demo_authenticate ::
    "(string \<Rightarrow> user \<Rightarrow> bool wexec) \<Rightarrow> string \<Rightarrow> string \<Rightarrow> user wexec" where
  "demo_authenticate chk uid pw w = (case users w uid of
      None \<Rightarrow> (Inl AssertionError, w)
    | Some u \<Rightarrow> (case chk pw u w of
          (Inl e, v) \<Rightarrow> (Inl e, v)
        | (Inr ok, v) \<Rightarrow> (if ok then Inr u else Inl AssertionError, v)))"

definition demo_update_user :: "(string \<Rightarrow> unit wexec) \<Rightarrow> string \<Rightarrow> string \<Rightarrow> unit wexec" where
  "demo_update_user updated uid pw w = (case users w uid of
      None \<Rightarrow> (Inl (UserNotFound uid), w)
    | Some u \<Rightarrow> updated uid (w\<lparr>users := (users w)(uid \<mapsto> u\<lparr>u_hash := pw\<rparr>)\<rparr>))"

definition demo_env :: env where
  "demo_env = \<lparr>conf = demo_conf, clock = (\<lambda>n. demo_now + int n * 1000000),
     uuid4 = (\<lambda>n. word_of_nat n), smtp = (\<lambda>_. demo_smtp),
     very_fascist_check =
       (\<lambda>p. if p = JStr ''1234'' then Some (ValueError ''it is too short'') else None),
     ks_check_password = (\<lambda>pw u. Inr (pw = u_hash u)),
     ks_authenticate = demo_authenticate,
     ks_update_user = demo_update_user\<rparr>"

definition demo_user :: user where
  "demo_user = \<lparr>u_id = ''u1'', u_name = ''demo'', u_domain_id = ''default'',
     u_email = Some ''u1@example.org'', u_hash = ''right''\<rparr>"

definition demo_row :: spassword_row where
  "demo_row = (user_row demo_user (naive (demo_now - 1000000)))\<lparr>login_attempts := Some 0\<rparr>"

text \<open>The same user with a verified e-mail and the second factor on.\<close>

definition demo_row_2fa :: spassword_row where
  "demo_row_2fa = demo_row\<lparr>sndfa := Some True, sndfa_email := Some True,
     sndfa_email_code := Some ''0a1b2c'', sndfa_code := Some ''00ff00'',
     sndfa_time_code := Some (naive (demo_now - 2000000)),
     sndfa_last := Some (naive (demo_now - 1000000))\<rparr>"

definition demo_world :: "spassword_row \<Rightarrow> world" where
  "demo_world r = \<lparr>table = [''u1'' \<mapsto> r], users = [''u1'' \<mapsto> demo_user],
     ticks = 0, uuids = 0, conns = 0, outbox = []\<rparr>"

lemma demo_conf_simps [simp]:
  "enabled demo_conf" "conf_sndfa demo_conf" "pwd_user_blacklist demo_conf = Some [''admin'']"
  "pwd_exp_days demo_conf = 365" "pwd_max_tries demo_conf = 3"
  "pwd_block_minutes demo_conf = 30" "sndfa_time_window demo_conf = 24"
  "sndfa_endpoint demo_conf = ''localhost:5001''" "smtp_from demo_conf = ''iot''"
  "smtp_server demo_conf = ''0.0.0.0''" "smtp_port demo_conf = 587" "smtp_tls demo_conf"
  "smtp_user demo_conf = ''''" "smtp_password demo_conf = ''''"
  by (simp_all add: demo_conf_def default_conf_def)

lemma demo_env_simps [simp]:
  "conf demo_env = demo_conf" "clock demo_env n = demo_now + int n * 1000000"
  "uuid4 demo_env n = word_of_nat n" "smtp demo_env n = demo_smtp"
  "very_fascist_check demo_env p =
     (if p = JStr ''1234'' then Some (ValueError ''it is too short'') else None)"
  "ks_check_password demo_env pw u = Inr (pw = u_hash u)"
  "ks_authenticate demo_env = demo_authenticate" "ks_update_user demo_env = demo_update_user"
  by (simp_all add: demo_env_def)

lemma demo_smtp_simps [simp]:
  "smtp_connect demo_smtp a p = None" "smtp_ehlo demo_smtp = None"
  "smtp_starttls demo_smtp = None" "smtp_login demo_smtp a b = None"
  "smtp_sendmail demo_smtp m = None" "smtp_quit demo_smtp = None"
  by (simp_all add: demo_smtp_def)

lemma demo_user_simps [simp]:
  "u_id demo_user = ''u1''" "u_name demo_user = ''demo''" "u_domain_id demo_user = ''default''"
  "u_email demo_user = Some ''u1@example.org''" "u_hash demo_user = ''right''"
  by (simp_all add: demo_user_def)

lemma demo_row_simps [simp]:
  "user_id demo_row = Some ''u1''" "user_name demo_row = Some ''demo''"
  "domain_id demo_row = Some ''default''"
  "creation_time demo_row = Some (naive (demo_now - 1000000))"
  "login_attempts demo_row = Some 0" "last_login_attempt_time demo_row = None"
  "extra demo_row = Map.empty" "sndfa demo_row = Some False" "sndfa_last demo_row = None"
  "sndfa_code demo_row = None" "sndfa_time_code demo_row = None"
  "sndfa_email demo_row = Some False" "sndfa_email_code demo_row = None"
  by (simp_all add: demo_row_def user_row_def no_sndfa_def blank_row_def)

lemma demo_row_2fa_simps [simp]:
  "user_id demo_row_2fa = Some ''u1''" "user_name demo_row_2fa = Some ''demo''"
  "creation_time demo_row_2fa = Some (naive (demo_now - 1000000))"
  "login_attempts demo_row_2fa = Some 0" "last_login_attempt_time demo_row_2fa = None"
  "extra demo_row_2fa = Map.empty" "sndfa demo_row_2fa = Some True"
  "sndfa_last demo_row_2fa = Some (naive (demo_now - 1000000))"
  "sndfa_code demo_row_2fa = Some ''00ff00''"
  "sndfa_time_code demo_row_2fa = Some (naive (demo_now - 2000000))"
  "sndfa_email demo_row_2fa = Some True" "sndfa_email_code demo_row_2fa = Some ''0a1b2c''"
  by (simp_all add: demo_row_2fa_def)

lemma demo_world_simps [simp]:
  "table (demo_world r) = [''u1'' \<mapsto> r]" "users (demo_world r) = [''u1'' \<mapsto> demo_user]"
  "ticks (demo_world r) = 0" "uuids (demo_world r) = 0" "conns (demo_world r) = 0"
  "outbox (demo_world r) = []"
  by (simp_all add: demo_world_def)

text \<open>Time differences on the demo's dates.\<close>

lemmas demo_times = demo_now_def timedelta_days_def timedelta_hours_def timedelta_minutes_def
  max_wall_def

lemma demo_keystone: "ks_authenticate E = demo_authenticate \<Longrightarrow> keystone_auth_plain E"
  by (auto simp: keystone_auth_plain_def demo_authenticate_def
      split: option.splits prod.splits sum.splits)

lemma demo_keystone_auth_plain [simp]: "keystone_auth_plain demo_env"
  by (rule demo_keystone) simp

lemma demo_keystone_auth [simp]: "keystone_auth demo_env"
  by (rule keystone_auth_plain) simp

lemmas login_run_defs = Identity_authenticate_def check_block_def base_authenticate_def
  Identity_check_password_def check_expiration_def record_attempt_def known_user_def
  new_user_def count_attempt_def demand_sndfa_def second_factor_def within_window_def
  sndfa_code_to_send_def catch_def py_gt_def py_inc_def in_user_black_def bnd_lift
  dt_add_naive dt_sub_naive get_spassword_session_def session_save_def session_insert_def
  fresh_uuid_def identity_get_user_def bnd_def Let_def demo_authenticate_def

section \<open>The operations of keystone that the resources call\<close>

definition demo_done :: response where
  "demo_done = make_response (Text ''done by keystone'') 200 None"

definition demo_api :: keystone_api where
  "demo_api = \<lparr>
     enforce_call = (\<lambda>_ build. bnd build (\<lambda>_. ret ())),
     get_group = (\<lambda>g. Inl (GroupNotFound g)),
     exn_str = (\<lambda>e. case e of ValidationError m \<Rightarrow> m | Unauthorized m \<Rightarrow> m | _ \<Rightarrow> ''error''),
     builtin_gettext = None,
     ks_user_post = (\<lambda>_. ret demo_done), ks_user_patch = (\<lambda>_ _. ret demo_done),
     ks_user_delete = (\<lambda>_ _. ret demo_done), ks_password_post = (\<lambda>_ _. ret demo_done),
     scim_user_key = Inr, scim_post = (\<lambda>_. ret demo_done), scim_patch = (\<lambda>_ _. ret demo_done),
     scim_patch_under = (\<lambda>_ _. ret demo_done), scim_delete = (\<lambda>_ _. ret demo_done),
     list_projects_for_user = (\<lambda>_. Inr [\<lparr>p_id = ''p1'', p_name = ''/gardens''\<rparr>]),
     get_roles_for_user_and_project = (\<lambda>_ _. Inr [''r1'', ''r2'']),
     get_role_name = (\<lambda>r. Inr (''name of '' @ r))\<rparr>"

lemma demo_api_simps [simp]:
  "enforce_call demo_api action build = bnd build (\<lambda>_. ret ())"
  "get_group demo_api g = Inl (GroupNotFound g)"
  "exn_str demo_api (ValidationError m) = m" "exn_str demo_api (Unauthorized m) = m"
  "builtin_gettext demo_api = None" "scim_user_key demo_api j = Inr j"
  "ks_user_post demo_api req = ret demo_done" "ks_user_patch demo_api req uid = ret demo_done"
  "ks_password_post demo_api req uid = ret demo_done" "scim_post demo_api req = ret demo_done"
  "scim_patch demo_api req uid = ret demo_done"
  "list_projects_for_user demo_api uid = Inr [\<lparr>p_id = ''p1'', p_name = ''/gardens''\<rparr>]"
  "get_roles_for_user_and_project demo_api uid p = Inr [''r1'', ''r2'']"
  "get_role_name demo_api r = Inr (''name of '' @ r)"
  by (simp_all add: demo_api_def)

definition demo_body :: "string \<Rightarrow> request" where
  "demo_body pw = \<lparr>request_body_json = JObj [(''user'', JObj [(''password'', JStr pw)]),
      (''password'', JStr pw)], view_args = [''user_id'' \<mapsto> ''u1'']\<rparr>"

lemma demo_body_simps [simp]:
  "request_body_json (demo_body pw) =
     JObj [(''user'', JObj [(''password'', JStr pw)]), (''password'', JStr pw)]"
  "view_args (demo_body pw) = [''user_id'' \<mapsto> ''u1'']"
  by (simp_all add: demo_body_def)

end
