(* ===== verification/SP_Login.thy ===== *)
theory SP_Login
  imports SP_Demo
begin

text \<open>
  What a login does: the properties of \<open>Identity.authenticate\<close>, from the facts about its
  parts in \<open>SP_Identity\<close>.
\<close>

section \<open>Running the parts\<close>

definition in_years :: "int \<Rightarrow> bool" where
  "in_years t \<longleftrightarrow> 0 \<le> t \<and> t < max_wall"

definition invalid_msg :: string where
  "invalid_msg = ''Invalid username or password''"

abbreviation tick :: "world \<Rightarrow> world" where
  "tick w \<equiv> w\<lparr>ticks := Suc (ticks w)\<rparr>"

lemma dt_sub_in_years [simp]: "in_years (t - d) \<Longrightarrow> dt_sub (naive t) d = Inr (naive (t - d))"
  by (simp add: dt_sub_naive in_years_def)

lemma dt_add_in_years [simp]: "in_years (t + d) \<Longrightarrow> dt_add (naive t) d = Inr (naive (t + d))"
  by (simp add: dt_add_naive in_years_def)

lemma within_window_Inr:
  "within_window E d w = (Inr b, v) \<longleftrightarrow> (case d of
      None \<Rightarrow> \<not> b \<and> v = w
    | Some t \<Rightarrow>
        (let start = clock E (ticks w) - timedelta_hours (sndfa_time_window (conf E)) in
         in_years start \<and> v = tick w \<and> b = (start < wall t)))"
  by (auto simp: within_window_def bnd_lift dt_sub_naive in_years_def Let_def split: option.splits)

lemma finish_Inr:
  "(case z of Inl msg \<Rightarrow> raise (f msg) | Inr x \<Rightarrow> ret x) t = (Inr a, v) \<longleftrightarrow> z = Inr a \<and> t = v"
  by (cases z) auto

lemma authenticate_Inr:
  "Identity_authenticate E uid pw w = (Inr a, v) \<longleftrightarrow>
     (\<exists>w1 w2 res. check_block E uid w = (Inr (), w1) \<and>
        base_authenticate E uid pw w1 = (Inr res, w2) \<and>
        record_attempt E uid res w2 = (Inr (Inr a), v))"
  unfolding Identity_authenticate_def execE finish_Inr by auto

lemma count_attempt_frame: "keeps (=) (count_attempt E uid r res)"
  unfolding count_attempt_def by (intro readonly.keeps_rules)

lemma demand_sndfa_Inr:
  assumes "demand_sndfa E uid r res w = (Inr (Inr a), v)"
    and "conf_sndfa (conf E)" and "truthy (sndfa r)"
  shows "truthy (sndfa_email r) \<and> within_window E (sndfa_last r) w = (Inr True, v)"
  using assms
  by (auto simp: demand_sndfa_def second_factor_def Let_def execE split: sum.splits if_splits)

lemma known_user_Inr:
  assumes "known_user E uid r now res w = (Inr (Inr a), v)"
  obtains res2 w1 where "demand_sndfa E uid r res2 w = (Inr (Inr a), w1)"
    and "ticks v = ticks w1"
proof -
  from assms obtain res2 n w0 res3 w1 r' where
    "count_attempt E uid r res w = (Inr (res2, n), w0)"
    "demand_sndfa E uid r res2 w0 = (Inr res3, w1)"
    "session_save uid (\<lambda>r. r\<lparr>login_attempts := Some n, last_login_attempt_time := Some now\<rparr>) w1
       = (Inr r', v)" "res3 = Inr a"
    unfolding known_user_def by (auto simp: execE)
  moreover from this(1) have "w = w0" by (rule keepsD [OF count_attempt_frame])
  moreover from calculation(3) have "ticks v = ticks w1"
    by (auto simp: session_save_def split: option.splits)
  ultimately show thesis by (auto intro: that)
qed

lemma known_row_reached:
  assumes "keystone_auth E" and "check_block E uid w = (x, w1)"
    and "base_authenticate E uid pw w1 = (res, w2)"
  shows "only_ticks w w2"
  using assms keepsD [OF keeps_check_block assms(2)]
    keepsD [OF keeps_base_authenticate [OF assms(1)] assms(3)]
  by (blast intro: only_ticks.R_trans)

section \<open>Second factor\<close>

lemma demo_login:
  "\<exists>a v. Identity_authenticate demo_env ''u1'' ''right'' (demo_world demo_row_2fa) = (Inr a, v)"
proof -
  have "\<not> isl (fst (Identity_authenticate demo_env ''u1'' ''right'' (demo_world demo_row_2fa)))"
    by (simp add: login_run_defs demo_times)
  then show ?thesis by (metis isl_def prod.collapse sum.collapse(2))
qed

lemma granted_login:
  assumes "keystone_auth E" and "enabled (conf E)" and "conf_sndfa (conf E)"
    and "table w uid = Some r" and "sndfa r = Some True"
    and "Identity_authenticate E uid pw w = (Inr a, v)"
  shows "sndfa_email r = Some True \<and> (\<exists>d i. sndfa_last r = Some d \<and>
     ticks w \<le> i \<and> i < ticks v \<and>
     clock E i - timedelta_hours (sndfa_time_window (conf E)) < wall d)"
proof -
  from assms(6) obtain w1 w2 res where run: "check_block E uid w = (Inr (), w1)"
      "base_authenticate E uid pw w1 = (Inr res, w2)"
      "record_attempt E uid res w2 = (Inr (Inr a), v)"
    by (auto simp: authenticate_Inr)
  from known_row_reached [OF assms(1) run(1,2)] have w2: "only_ticks w w2" .
  with run(3) assms(2,4) have
    "known_user E uid r (naive (clock E (ticks w2))) res (tick w2) = (Inr (Inr a), v)"
    by (simp add: record_attempt_def only_ticks_same)
  then obtain res2 w3 where "demand_sndfa E uid r res2 (tick w2) = (Inr (Inr a), w3)"
    and "ticks v = ticks w3"
    by (rule known_user_Inr)
  with assms(3,5) have "truthy (sndfa_email r)"
      and "within_window E (sndfa_last r) (tick w2) = (Inr True, w3)"
    by (auto dest: demand_sndfa_Inr)
  then show ?thesis
    using \<open>ticks v = ticks w3\<close> only_ticks_same(6) [OF w2]
    by (auto simp: within_window_Inr truthy_def Let_def split: option.splits
        intro!: exI [of _ "Suc (ticks w2)"])
qed

text \<open>
  C1. Where the second factor is on for the service and for the user, a login that succeeds
  is one of a user whose e-mail is verified and who confirmed a second factor code within the
  time window before the login: the right password alone never gets in.
\<close>

theorem login_needs_second_factor:
  assumes "keystone_auth E" and "enabled (conf E)" and "conf_sndfa (conf E)"
    and "table w uid = Some r" and "sndfa r = Some True"
    and "Identity_authenticate E uid pw w = (Inr a, v)"
  shows "sndfa_email r = Some True \<and> (\<exists>d i. sndfa_last r = Some d \<and>
     ticks w \<le> i \<and> i < ticks v \<and>
     clock E i - timedelta_hours (sndfa_time_window (conf E)) < wall d)"
  using granted_login [OF assms] .

theorem login_needs_second_factor_witness:
  "\<exists>a v. Identity_authenticate demo_env ''u1'' ''right'' (demo_world demo_row_2fa) = (Inr a, v) \<and>
     sndfa_email demo_row_2fa = Some True \<and> (\<exists>d i. sndfa_last demo_row_2fa = Some d \<and>
     0 \<le> i \<and> i < ticks v \<and>
     clock demo_env i - timedelta_hours (sndfa_time_window demo_conf) < wall d)"
proof -
  obtain a v where
    run: "Identity_authenticate demo_env ''u1'' ''right'' (demo_world demo_row_2fa) = (Inr a, v)"
    using demo_login by blast
  from login_needs_second_factor [OF demo_keystone_auth _ _ _ _ run, of demo_row_2fa] run
  show ?thesis by auto
qed

section \<open>Blocking\<close>

lemma check_block_run:
  assumes "enabled (conf E)" and "pwd_user_blacklist (conf E) = Some ids" and "uid \<notin> set ids"
    and "table w uid = Some r" and "login_attempts r = Some n"
  shows "n \<le> pwd_max_tries (conf E) \<Longrightarrow> check_block E uid w = (Inr (), w)"
    and "pwd_max_tries (conf E) < n \<Longrightarrow> last_login_attempt_time r = Some d \<Longrightarrow>
      in_years (clock E (ticks w) - timedelta_minutes (pwd_block_minutes (conf E))) \<Longrightarrow>
      check_block E uid w =
        (if clock E (ticks w) - timedelta_minutes (pwd_block_minutes (conf E)) < wall d
         then Inl (SPasswordUnauthorized (blocked_msg (user_name r))) else Inr (), tick w)"
  using assms by (simp_all add: check_block_def py_gt_def)

text \<open>
  C15. A user who has more bad attempts than \<open>pwd_max_tries\<close> and whose last attempt is less
  than \<open>pwd_block_minutes\<close> old is refused whatever the password is, the right one included:
  keystone is not asked, and neither the row nor anything else but the clock reading changes,
  so the refused attempt does not prolong the block.
\<close>

theorem blocked_login_refused:
  assumes "enabled (conf E)" and "pwd_user_blacklist (conf E) = Some ids" and "uid \<notin> set ids"
    and "table w uid = Some r" and "login_attempts r = Some n" and "pwd_max_tries (conf E) < n"
    and "last_login_attempt_time r = Some d"
    and "in_years (clock E (ticks w) - timedelta_minutes (pwd_block_minutes (conf E)))"
    and "clock E (ticks w) - timedelta_minutes (pwd_block_minutes (conf E)) < wall d"
  shows "Identity_authenticate E uid pw w =
     (Inl (SPasswordUnauthorized (blocked_msg (user_name r))), w\<lparr>ticks := Suc (ticks w)\<rparr>)"
  using assms by (simp add: Identity_authenticate_def bnd_def check_block_run)

theorem blocked_login_refused_witness:
  "Identity_authenticate demo_env ''u1'' ''right'' (demo_world (demo_row\<lparr>login_attempts := Some 4,
       last_login_attempt_time := Some (naive demo_now)\<rparr>)) =
     (Inl (SPasswordUnauthorized (blocked_msg (Some ''demo''))),
      (demo_world (demo_row\<lparr>login_attempts := Some 4,
         last_login_attempt_time := Some (naive demo_now)\<rparr>))\<lparr>ticks := Suc 0\<rparr>)"
proof -
  let ?r = "demo_row\<lparr>login_attempts := Some 4, last_login_attempt_time := Some (naive demo_now)\<rparr>"
  have "Identity_authenticate demo_env ''u1'' ''right'' (demo_world ?r) =
     (Inl (SPasswordUnauthorized (blocked_msg (user_name ?r))),
      (demo_world ?r)\<lparr>ticks := Suc (ticks (demo_world ?r))\<rparr>)"
    by (rule blocked_login_refused [where ids = "[''admin'']" and n = 4 and d = "naive demo_now"])
      (simp_all add: demo_times in_years_def)
  then show ?thesis by simp
qed

section \<open>Expired passwords\<close>

lemma check_expiration_run:
  assumes "enabled (conf E)" and "pwd_user_blacklist (conf E) = Some ids"
    and "u_id u \<notin> set ids" and "table w (u_id u) = Some r" and "in_user_black r = Inr False"
    and "creation_time r = Some c"
    and "in_years (clock E (ticks w) - timedelta_days (pwd_exp_days (conf E)))"
  shows "check_expiration E u w =
     (if wall c < clock E (ticks w) - timedelta_days (pwd_exp_days (conf E))
      then Inl (SPasswordUnauthorized (expired_msg (user_name r))) else Inr (), tick w)"
  using assms by (simp add: check_expiration_def)

lemma base_authenticate_plain:
  assumes "keystone_auth_plain E" and "users w uid = Some u"
  shows "check_expiration E u w = (Inr (), v) \<Longrightarrow> ks_check_password E pw u = Inr ok \<Longrightarrow>
      base_authenticate E uid pw w = (Inr (if ok then Inr u else Inl invalid_msg), v)"
    and "check_expiration E u w = (Inl e, v) \<Longrightarrow> e \<noteq> AssertionError \<Longrightarrow>
      base_authenticate E uid pw w = (Inl e, v)"
  using assms
  by (simp_all add: base_authenticate_def keystone_auth_plain_def Identity_check_password_def
      catch_def bnd_def invalid_msg_def)

text \<open>
  C16. A password older than \<open>pwd_exp_days\<close> is refused as expired whatever the password given
  is: keystone's comparison is not reached, and the row, with its count of bad attempts, does
  not change.
\<close>

theorem expired_login_refused:
  assumes "keystone_auth_plain E" and "enabled (conf E)"
    and "pwd_user_blacklist (conf E) = Some ids" and "uid \<notin> set ids"
    and "users w uid = Some u" and "u_id u = uid" and "table w uid = Some r"
    and "in_user_black r = Inr False" and "creation_time r = Some c"
    and "login_attempts r = Some n" and "n \<le> pwd_max_tries (conf E)"
    and "in_years (clock E (ticks w) - timedelta_days (pwd_exp_days (conf E)))"
    and "wall c < clock E (ticks w) - timedelta_days (pwd_exp_days (conf E))"
  shows "Identity_authenticate E uid pw w =
     (Inl (SPasswordUnauthorized (expired_msg (user_name r))), w\<lparr>ticks := Suc (ticks w)\<rparr>)"
proof -
  have "check_expiration E u w =
      (Inl (SPasswordUnauthorized (expired_msg (user_name r))), tick w)"
    using check_expiration_run [of E ids u w r c] assms by simp
  then have "base_authenticate E uid pw w =
      (Inl (SPasswordUnauthorized (expired_msg (user_name r))), tick w)"
    by (rule base_authenticate_plain(2) [OF assms(1,5)]) simp
  moreover have "check_block E uid w = (Inr (), w)"
    using assms by (simp add: check_block_run)
  ultimately show ?thesis by (simp add: Identity_authenticate_def bnd_def)
qed

theorem expired_login_refused_witness:
  "Identity_authenticate demo_env ''u1'' ''right''
      (demo_world (demo_row\<lparr>creation_time := Some (naive 1000)\<rparr>)) =
     (Inl (SPasswordUnauthorized (expired_msg (Some ''demo''))),
      (demo_world (demo_row\<lparr>creation_time := Some (naive 1000)\<rparr>))\<lparr>ticks := Suc 0\<rparr>)"
proof -
  let ?r = "demo_row\<lparr>creation_time := Some (naive 1000)\<rparr>"
  have "Identity_authenticate demo_env ''u1'' ''right'' (demo_world ?r) =
     (Inl (SPasswordUnauthorized (expired_msg (user_name ?r))),
      (demo_world ?r)\<lparr>ticks := Suc (ticks (demo_world ?r))\<rparr>)"
    by (rule expired_login_refused [where ids = "[''admin'']" and n = 0 and u = demo_user
          and c = "naive 1000"])
      (simp_all add: demo_times in_years_def in_user_black_def)
  then show ?thesis by simp
qed

section \<open>Counting attempts\<close>

text \<open>A login that passes the block and the expiration comes down to what it records.\<close>

lemma login_reaches_record:
  assumes "keystone_auth_plain E" and "check_block E uid w = (Inr (), w1)"
    and "users w uid = Some u" and "check_expiration E u w1 = (Inr (), w2)"
    and "ks_check_password E pw u = Inr ok"
  shows "only_ticks w w2"
    and "Identity_authenticate E uid pw w =
      bnd (record_attempt E uid (if ok then Inr u else Inl invalid_msg))
        (\<lambda>res. case res of Inl msg \<Rightarrow> raise (SPasswordUnauthorized msg) | Inr a \<Rightarrow> ret a) w2"
proof -
  have w1: "only_ticks w w1" by (rule keepsD [OF keeps_check_block assms(2)])
  moreover have "only_ticks w1 w2" by (rule keepsD [OF keeps_check_expiration assms(4)])
  ultimately show "only_ticks w w2" by (rule only_ticks.R_trans)
  have "base_authenticate E uid pw w1 = (Inr (if ok then Inr u else Inl invalid_msg), w2)"
    using base_authenticate_plain(1) [OF assms(1) _ assms(4,5)] assms(3) w1
    by (simp add: only_ticks_same)
  with assms(2) show "Identity_authenticate E uid pw w =
      bnd (record_attempt E uid (if ok then Inr u else Inl invalid_msg))
        (\<lambda>res. case res of Inl msg \<Rightarrow> raise (SPasswordUnauthorized msg) | Inr a \<Rightarrow> ret a) w2"
    by (simp add: Identity_authenticate_def bnd_def)
qed

lemma record_known:
  "enabled (conf E) \<Longrightarrow> table w uid = Some r \<Longrightarrow>
     record_attempt E uid res w = known_user E uid r (naive (clock E (ticks w))) res (tick w)"
  by (simp add: record_attempt_def)

lemma wrong_attempt_recorded:
  assumes "enabled (conf E)" and "table w uid = Some r" and "creation_time r = Some c"
    and "login_attempts r = Some n"
  shows "record_attempt E uid (Inl msg) w = (Inr (Inl msg),
      w\<lparr>ticks := Suc (ticks w), table := (table w)(uid \<mapsto>
         r\<lparr>login_attempts := Some (n + 1),
            last_login_attempt_time := Some (naive (clock E (ticks w)))\<rparr>)\<rparr>)"
  using assms by (simp add: record_known known_user_def count_attempt_def demand_sndfa_def
      py_inc_def bnd_def session_save_def)

lemma wrong_login:
  assumes "keystone_auth_plain E" and "enabled (conf E)"
    and "check_block E uid w = (Inr (), w1)" and "users w uid = Some u"
    and "check_expiration E u w1 = (Inr (), w2)" and "ks_check_password E pw u = Inr False"
    and "table w uid = Some r" and "creation_time r = Some c" and "login_attempts r = Some n"
  shows "Identity_authenticate E uid pw w =
     (Inl (SPasswordUnauthorized invalid_msg),
      w2\<lparr>ticks := Suc (ticks w2), table := (table w)(uid \<mapsto>
         r\<lparr>login_attempts := Some (n + 1),
            last_login_attempt_time := Some (naive (clock E (ticks w2)))\<rparr>)\<rparr>)"
  using login_reaches_record [OF assms(1,3,4,5,6)] wrong_attempt_recorded [OF assms(2), of w2 uid r]
    assms(7-9)
  by (simp add: only_ticks_same bnd_def)

text \<open>
  C13. A wrong password of a user with a row: the login is refused, the count of bad attempts
  grows by one and the time of the attempt is stored; nothing else changes in the row.
\<close>

theorem wrong_password_counted:
  assumes "keystone_auth_plain E" and "enabled (conf E)"
    and "check_block E uid w = (Inr (), w1)" and "users w uid = Some u"
    and "check_expiration E u w1 = (Inr (), w2)" and "ks_check_password E pw u = Inr False"
    and "table w uid = Some r" and "creation_time r = Some c" and "login_attempts r = Some n"
  shows "Identity_authenticate E uid pw w =
     (Inl (SPasswordUnauthorized invalid_msg),
      w2\<lparr>ticks := Suc (ticks w2), table := (table w)(uid \<mapsto>
         r\<lparr>login_attempts := Some (n + 1),
            last_login_attempt_time := Some (naive (clock E (ticks w2)))\<rparr>)\<rparr>)"
  using assms by (rule wrong_login)

theorem wrong_password_counted_witness:
  "Identity_authenticate demo_env ''u1'' ''wrong'' (demo_world demo_row) =
     (Inl (SPasswordUnauthorized invalid_msg), (demo_world (demo_row\<lparr>login_attempts := Some 1,
        last_login_attempt_time := Some (naive (demo_now + 1000000))\<rparr>))\<lparr>ticks := 2\<rparr>)"
proof -
  have "Identity_authenticate demo_env ''u1'' ''wrong'' (demo_world demo_row) =
     (Inl (SPasswordUnauthorized invalid_msg),
      (tick (demo_world demo_row))\<lparr>ticks := Suc (ticks (tick (demo_world demo_row))),
        table := (table (demo_world demo_row))(''u1'' \<mapsto> demo_row\<lparr>login_attempts := Some (0 + 1),
          last_login_attempt_time :=
            Some (naive (clock demo_env (ticks (tick (demo_world demo_row)))))\<rparr>)\<rparr>)"
    by (rule wrong_password_counted [where u = demo_user and ?w1.0 = "demo_world demo_row"
          and c = "naive (demo_now - 1000000)"])
      (simp_all add: check_block_run [where ids = "[''admin'']" and n = 0]
        check_expiration_run [where ids = "[''admin'']" and c = "naive (demo_now - 1000000)"]
        demo_times in_years_def in_user_black_def)
  then show ?thesis by (simp add: demo_world_def numeral_2_eq_2)
qed

text \<open>
  C14. The right password of a user for whom no second factor is on: the login succeeds, the
  count of bad attempts is back to zero, the time of the login is stored, and the extra data
  reports the count and the time as they were before, the creation date of the password, and
  its expiration date.
\<close>

theorem right_password_resets:
  assumes "keystone_auth_plain E" and "enabled (conf E)"
    and "pwd_user_blacklist (conf E) = Some ids"
    and "check_block E uid w = (Inr (), w1)" and "users w uid = Some u"
    and "check_expiration E u w1 = (Inr (), w2)" and "ks_check_password E pw u = Inr True"
    and "table w uid = Some r" and "creation_time r = Some c"
    and "in_years (wall c + timedelta_days (pwd_exp_days (conf E)))"
    and "\<not> conf_sndfa (conf E) \<or> sndfa r \<noteq> Some True"
  shows "Identity_authenticate E uid pw w =
     (Inr \<lparr>ref_user = u, ref_extras = Some
        (let m = login_extras r (naive (wall c))
               (naive (wall c + timedelta_days (pwd_exp_days (conf E)))) (uid \<in> set ids)
         in if conf_sndfa (conf E) then m(''sndfa_email'' \<mapsto> py_opt PBool (sndfa_email r)) else m)\<rparr>,
      w2\<lparr>ticks := Suc (ticks w2), table := (table w)(uid \<mapsto>
         r\<lparr>login_attempts := Some 0,
            last_login_attempt_time := Some (naive (clock E (ticks w2)))\<rparr>)\<rparr>)"
  using login_reaches_record [OF assms(1,4-7)] assms(2,3,8-11)
  by (auto simp: only_ticks_same bnd_def record_known known_user_def count_attempt_def
      demand_sndfa_def session_save_def set_extra_def Let_def truthy_def)

theorem right_password_resets_witness:
  "\<exists>v. fst (Identity_authenticate demo_env ''u1'' ''right''
          (demo_world (demo_row\<lparr>login_attempts := Some 2\<rparr>))) = Inr v \<and>
     the (ref_extras v) ''previous_login_attempts'' = Some (PInt 2)"
proof -
  let ?r = "demo_row\<lparr>login_attempts := Some 2\<rparr>"
  have "Identity_authenticate demo_env ''u1'' ''right'' (demo_world ?r) =
     (Inr \<lparr>ref_user = demo_user, ref_extras = Some
        (let m = login_extras ?r (naive (wall (naive (demo_now - 1000000))))
               (naive (wall (naive (demo_now - 1000000)) +
                  timedelta_days (pwd_exp_days (conf demo_env)))) (''u1'' \<in> set [''admin''])
         in if conf_sndfa (conf demo_env)
            then m(''sndfa_email'' \<mapsto> py_opt PBool (sndfa_email ?r)) else m)\<rparr>,
      (tick (demo_world ?r))\<lparr>ticks := Suc (ticks (tick (demo_world ?r))),
        table := (table (demo_world ?r))(''u1'' \<mapsto> ?r\<lparr>login_attempts := Some 0,
          last_login_attempt_time :=
            Some (naive (clock demo_env (ticks (tick (demo_world ?r)))))\<rparr>)\<rparr>)"
    by (rule right_password_resets [where ?w1.0 = "demo_world ?r"])
      (simp_all add: check_block_run [where ids = "[''admin'']" and n = 2]
        check_expiration_run [where ids = "[''admin'']" and c = "naive (demo_now - 1000000)"]
        demo_times in_years_def in_user_black_def)
  then show ?thesis by (simp add: Let_def login_extras_def py_opt_def)
qed

section \<open>A series of logins\<close>

fun logins :: "env \<Rightarrow> string \<Rightarrow> string list \<Rightarrow> world \<Rightarrow> (exn + auth_ref) list \<times> world" where
  "logins E uid [] w = ([], w)"
| "logins E uid (pw # pws) w =
     (case Identity_authenticate E uid pw w of (r, v) \<Rightarrow>
        (case logins E uid pws v of (rs, u) \<Rightarrow> (r # rs, u)))"

text \<open>
  The state of a user under attack since \<open>t0\<close>, after \<open>k\<close> bad attempts on a row that was
  \<open>r\<close>: what the induction over the guesses carries.
\<close>

definition under_attack ::
    "string \<Rightarrow> user \<Rightarrow> spassword_row \<Rightarrow> int \<Rightarrow> int \<Rightarrow> world \<Rightarrow> bool" where
  "under_attack uid u r t0 k w \<longleftrightarrow> users w uid = Some u \<and> (\<exists>last_time.
     table w uid = Some (r\<lparr>login_attempts := Some k, last_login_attempt_time := last_time\<rparr>) \<and>
     (0 < k \<longrightarrow> (\<exists>d. last_time = Some d \<and> t0 \<le> wall d)))"

lemma in_user_black_attempts [simp]:
  "in_user_black (r\<lparr>login_attempts := a, last_login_attempt_time := b\<rparr>) = in_user_black r"
  by (simp add: in_user_black_def in_to_dict_def)

lemma under_attack_step:
  assumes plain: "keystone_auth_plain E" and on: "enabled (conf E)"
    and ids: "pwd_user_blacklist (conf E) = Some ids" "uid \<notin> set ids" "u_id u = uid"
    and fresh: "in_user_black r = Inr False" "creation_time r = Some c"
    and clock: "\<And>i. t0 \<le> clock E i"
      "\<And>i. in_years (clock E i - timedelta_days (pwd_exp_days (conf E)))"
      "\<And>i. clock E i - timedelta_days (pwd_exp_days (conf E)) \<le> wall c"
    and wrong: "ks_check_password E pw u = Inr False"
    and k: "k \<le> pwd_max_tries (conf E)" "0 \<le> k" and w: "under_attack uid u r t0 k w"
  shows "\<exists>v. Identity_authenticate E uid pw w = (Inl (SPasswordUnauthorized invalid_msg), v) \<and>
     under_attack uid u r t0 (k + 1) v"
proof -
  from w obtain last_time where t: "users w uid = Some u"
      "table w uid = Some (r\<lparr>login_attempts := Some k, last_login_attempt_time := last_time\<rparr>)"
    by (auto simp: under_attack_def)
  have "check_block E uid w = (Inr (), w)"
    using on ids t k by (simp add: check_block_run)
  moreover have "check_expiration E u w = (Inr (), tick w)"
    using check_expiration_run [OF on ids(1), of u w
        "r\<lparr>login_attempts := Some k, last_login_attempt_time := last_time\<rparr>" c]
      t ids fresh clock(2,3)
    by (simp add: leD)
  ultimately have "Identity_authenticate E uid pw w =
     (Inl (SPasswordUnauthorized invalid_msg),
      (tick w)\<lparr>ticks := Suc (ticks (tick w)), table := (table w)(uid \<mapsto>
         r\<lparr>login_attempts := Some (k + 1),
            last_login_attempt_time := Some (naive (clock E (ticks (tick w))))\<rparr>)\<rparr>)"
    using wrong_login [OF plain on _ t(1) _ wrong t(2), of w "tick w" c k] fresh(2)
    by simp
  with t(1) clock(1) k(2) show ?thesis by (auto simp: under_attack_def)
qed

lemma under_attack_series:
  assumes plain: "keystone_auth_plain E" and on: "enabled (conf E)"
    and ids: "pwd_user_blacklist (conf E) = Some ids" "uid \<notin> set ids" "u_id u = uid"
    and fresh: "in_user_black r = Inr False" "creation_time r = Some c"
    and clock: "\<And>i. t0 \<le> clock E i"
      "\<And>i. in_years (clock E i - timedelta_days (pwd_exp_days (conf E)))"
      "\<And>i. clock E i - timedelta_days (pwd_exp_days (conf E)) \<le> wall c"
  shows "under_attack uid u r t0 k w \<Longrightarrow> 0 \<le> k \<Longrightarrow>
     k + int (length pws) \<le> pwd_max_tries (conf E) + 1 \<Longrightarrow>
     \<forall>pw\<in>set pws. ks_check_password E pw u = Inr False \<Longrightarrow>
     fst (logins E uid pws w) =
       replicate (length pws) (Inl (SPasswordUnauthorized invalid_msg)) \<and>
     under_attack uid u r t0 (k + int (length pws)) (snd (logins E uid pws w))"
proof (induction pws arbitrary: k w)
  case Nil
  then show ?case by simp
next
  case (Cons pw pws)
  from Cons.prems have "ks_check_password E pw u = Inr False" "k \<le> pwd_max_tries (conf E)"
    by auto
  from under_attack_step [OF plain on ids fresh clock this Cons.prems(2,1)] obtain v where
    v: "Identity_authenticate E uid pw w = (Inl (SPasswordUnauthorized invalid_msg), v)"
    "under_attack uid u r t0 (k + 1) v" by blast
  have "fst (logins E uid pws v) =
       replicate (length pws) (Inl (SPasswordUnauthorized invalid_msg)) \<and>
     under_attack uid u r t0 (k + 1 + int (length pws)) (snd (logins E uid pws v))"
    by (rule Cons.IH [OF v(2)]) (use Cons.prems in auto)
  with v(1) show ?case by (auto simp: add.assoc split: prod.splits)
qed

lemma logins_append:
  "logins E uid (pws @ qs) w = (case logins E uid pws w of (xs, v) \<Rightarrow>
     case logins E uid qs v of (ys, v') \<Rightarrow> (xs @ ys, v'))"
  by (induction pws arbitrary: w) (simp_all split: prod.split)

text \<open>Over the limit and within the block time, logins are refused and the row stays as it is.\<close>

lemma blocked_series:
  assumes "enabled (conf E)" and "pwd_user_blacklist (conf E) = Some ids" and "uid \<notin> set ids"
    and "login_attempts r = Some n" and "pwd_max_tries (conf E) < n"
    and "last_login_attempt_time r = Some d"
    and "\<And>i. clock E i - timedelta_minutes (pwd_block_minutes (conf E)) < wall d"
    and "\<And>i. in_years (clock E i - timedelta_minutes (pwd_block_minutes (conf E)))"
  shows "table w uid = Some r \<Longrightarrow>
     fst (logins E uid qs w) = replicate (length qs) (Inl (SPasswordUnauthorized (blocked_msg (user_name r)))) \<and>
     table (snd (logins E uid qs w)) uid = Some r"
proof (induction qs arbitrary: w)
  case (Cons q qs)
  have "Identity_authenticate E uid q w = (Inl (SPasswordUnauthorized (blocked_msg (user_name r))), tick w)"
    using assms Cons.prems by (simp add: Identity_authenticate_def bnd_def check_block_run)
  with Cons.IH [of "tick w"] Cons.prems show ?case by (simp add: split_beta)
qed simp

text \<open>
  C12. The guesses an attacker gets. Starting from a row without bad attempts, exactly
  \<open>pwd_max_tries + 1\<close> wrong passwords are compared and answered with the plain error, one more
  than \<open>README.md\<close> gives. From then on, as long as the block lasts, every login of any series is
  refused as blocked, the right password too, and the count stays where it is.
\<close>

theorem brute_force_bound:
  assumes "keystone_auth_plain E" and "enabled (conf E)"
    and "pwd_user_blacklist (conf E) = Some ids" and "uid \<notin> set ids" and "u_id u = uid"
    and "users w uid = Some u" and "table w uid = Some r"
    and "login_attempts r = Some 0" and "in_user_black r = Inr False" and "creation_time r = Some c"
    and "\<And>i. in_years (clock E i - timedelta_days (pwd_exp_days (conf E)))"
    and "\<And>i. clock E i - timedelta_days (pwd_exp_days (conf E)) \<le> wall c"
    and "\<And>i. t0 \<le> clock E i"
    and "\<And>i. clock E i - timedelta_minutes (pwd_block_minutes (conf E)) < t0"
    and "\<And>i. in_years (clock E i - timedelta_minutes (pwd_block_minutes (conf E)))"
    and "\<forall>pw\<in>set pws. ks_check_password E pw u = Inr False"
    and "int (length pws) = pwd_max_tries (conf E) + 1" and "0 \<le> pwd_max_tries (conf E)"
  shows "fst (logins E uid (pws @ qs) w) =
       replicate (length pws) (Inl (SPasswordUnauthorized invalid_msg)) @
       replicate (length qs) (Inl (SPasswordUnauthorized (blocked_msg (user_name r)))) \<and>
     map_option login_attempts (table (snd (logins E uid (pws @ qs) w)) uid) =
       Some (Some (pwd_max_tries (conf E) + 1))"
proof -
  let ?v = "snd (logins E uid pws w)"
  have "table w uid = Some (r\<lparr>login_attempts := Some 0,
      last_login_attempt_time := last_login_attempt_time r\<rparr>)"
    using assms(7,8) by (cases r) simp
  then have "under_attack uid u r t0 0 w"
    using assms(6) unfolding under_attack_def by blast
  from under_attack_series [OF assms(1-5,9,10) assms(13,11,12) this, of pws] assms(16,17)
  have run: "fst (logins E uid pws w) =
       replicate (length pws) (Inl (SPasswordUnauthorized invalid_msg))"
    and "under_attack uid u r t0 (int (length pws)) ?v" by auto
  with assms(17,18) obtain d where
    d: "table ?v uid = Some (r\<lparr>login_attempts := Some (pwd_max_tries (conf E) + 1),
       last_login_attempt_time := Some d\<rparr>)" (is "_ = Some ?r") and "t0 \<le> wall d"
    by (auto simp: under_attack_def)
  then have within: "clock E i - timedelta_minutes (pwd_block_minutes (conf E)) < wall d" for i
    using assms(14) [of i] by simp
  have over: "pwd_max_tries (conf E) < pwd_max_tries (conf E) + 1" by simp
  have "fst (logins E uid qs ?v) =
      replicate (length qs) (Inl (SPasswordUnauthorized (blocked_msg (user_name ?r)))) \<and>
    table (snd (logins E uid qs ?v)) uid = Some ?r"
    by (rule blocked_series [OF assms(2-4) _ over _ within assms(15) d]) simp_all
  with run show ?thesis by (simp add: logins_append split_beta)
qed

text \<open>The same installation with a clock that stands still, so that the block lasts.\<close>

definition demo_frozen :: env where
  "demo_frozen = demo_env\<lparr>clock := (\<lambda>_. demo_now)\<rparr>"

lemma demo_frozen_simps [simp]:
  "conf demo_frozen = demo_conf" "clock demo_frozen n = demo_now"
  "ks_check_password demo_frozen pw u = Inr (pw = u_hash u)" "keystone_auth_plain demo_frozen"
  by (simp_all add: demo_frozen_def demo_keystone)

theorem brute_force_bound_witness:
  "fst (logins demo_frozen ''u1'' [''a'', ''b'', ''c'', ''d'', ''right'', ''e'', ''right''] (demo_world demo_row)) =
     replicate 4 (Inl (SPasswordUnauthorized invalid_msg)) @
     replicate 3 (Inl (SPasswordUnauthorized (blocked_msg (Some ''demo''))))"
proof -
  let ?pws = "[''a'', ''b'', ''c'', ''d'']" and ?qs = "[''right'', ''e'', ''right'']"
  have "fst (logins demo_frozen ''u1'' (?pws @ ?qs) (demo_world demo_row)) =
       replicate (length ?pws) (Inl (SPasswordUnauthorized invalid_msg)) @
       replicate (length ?qs) (Inl (SPasswordUnauthorized (blocked_msg (user_name demo_row)))) \<and>
     map_option login_attempts (table (snd (logins demo_frozen ''u1'' (?pws @ ?qs) (demo_world demo_row))) ''u1'') =
       Some (Some (pwd_max_tries (conf demo_frozen) + 1))"
    by (rule brute_force_bound [where ids = "[''admin'']" and u = demo_user and ?t0.0 = demo_now
          and c = "naive (demo_now - 1000000)"])
      (simp_all add: demo_times in_years_def in_user_black_def)
  then show ?thesis by (simp add: numeral_eq_Suc)
qed

section \<open>Configuration\<close>

text \<open>
  With the extension enabled and \<open>pwd_user_blacklist\<close> left out of the configuration file,
  no user can log in: the option has no default, and the membership test on \<open>None\<close> raises
  \<open>TypeError\<close> before anything else happens.
\<close>

lemma unset_blacklist_breaks_login:
  assumes "enabled (conf E)" and "pwd_user_blacklist (conf E) = None"
  shows "Identity_authenticate E uid pw w =
     (Inl (TypeError ''argument of type 'NoneType' is not iterable''), w)"
  using assms by (simp add: Identity_authenticate_def check_block_def in_blacklist_None bnd_def)

section \<open>A login touches its own row only\<close>

definition users_keyed :: "world \<Rightarrow> bool" where
  "users_keyed w \<longleftrightarrow> (\<forall>i u. users w i = Some u \<longrightarrow> u_id u = i)"

definition own_row :: "string \<Rightarrow> world \<Rightarrow> world \<Rightarrow> bool" where
  "own_row uid w v \<longleftrightarrow> (users_keyed w \<longrightarrow>
     same_users w v \<and> only_row uid w v \<and> outbox_grows w v)"

interpretation own_row: frame "own_row uid" for uid
proof unfold_locales
  fix s t u
  assume "own_row uid s t" and "own_row uid t u"
  moreover from this have "users_keyed s \<Longrightarrow> users_keyed t"
    by (simp add: own_row_def same_users_def users_keyed_def)
  ultimately show "own_row uid s u"
    by (auto simp: own_row_def intro: same_users.R_trans only_row.R_trans outbox_grows.R_trans)
qed (simp add: own_row_def same_users.R_refl only_row.R_refl outbox_grows.R_refl)

lemma own_row_only_ticks: "keeps only_ticks m \<Longrightarrow> keeps (own_row uid) m"
proof (rule keepsI)
  fix s
  assume "keeps only_ticks m"
  then have "only_ticks s (snd (m s))" by (simp add: keeps_def)
  from only_ticks_same [OF this] show "own_row uid s (snd (m s))"
    by (simp add: own_row_def same_users_def only_row_def outbox_grows_def)
qed

lemma own_row_readonly: "keeps (=) m \<Longrightarrow> keeps (own_row uid) m"
  unfolding keeps_def by (metis own_row.R_refl)

lemma own_row_prims:
  "keeps (own_row uid) (fresh_uuid E)" "keeps (own_row uid) (session_save uid f)"
  "keeps (own_row uid) (send_email E to subject text)"
  using keeps_only_row_prims(2,5) keeps_same_users_prims(2,5) keeps_outbox_prims(2,5)
    mailer.keeps_row mailer.keeps_users mailer.keeps_outbox
  by (simp_all add: keeps_def own_row_def)

lemma own_row_set_code:
  "keeps (own_row uid)
     (bnd (identity_get_user uid) (\<lambda>user. bnd (set_user_sndfa_code E user c) (\<lambda>_. ret x)))"
proof (rule keepsI)
  fix w
  show "own_row uid w (snd (bnd (identity_get_user uid)
      (\<lambda>user. bnd (set_user_sndfa_code E user c) (\<lambda>_. ret x)) w))"
  proof (cases "users w uid")
    case None
    then show ?thesis by (simp add: bnd_def identity_get_user_run own_row.R_refl)
  next
    case (Some u)
    then show ?thesis
      by (cases "table w (u_id u)")
        (auto simp: bnd_def identity_get_user_run set_user_sndfa_code_run own_row_def
          users_keyed_def same_users_def only_row_def outbox_grows_def)
  qed
qed

lemma own_row_second_factor: "keeps (own_row uid) (second_factor E uid r a)"
  unfolding second_factor_def sndfa_code_to_send_def Let_def
  by (intro own_row.keeps_rules own_row_set_code own_row_prims
      own_row_readonly [OF keeps_identity_get_user] own_row_only_ticks [OF keeps_within_window])

lemma own_row_known_user: "keeps (own_row uid) (known_user E uid r now res)"
  unfolding known_user_def demand_sndfa_def Let_def
  by (intro own_row.keeps_rules own_row_second_factor own_row_prims
      own_row_readonly [OF count_attempt_frame])

lemma new_user_own_row:
  assumes "users w uid = Some u"
  shows "own_row uid w (snd (new_user E uid now res w))"
proof (cases res)
  case (Inl msg)
  with assms show ?thesis
    by (auto simp: new_user_def bnd_def identity_get_user_run session_insert_def Let_def
        own_row_def users_keyed_def same_users_def only_row_def outbox_grows_def)
next
  case (Inr v)
  with assms show ?thesis
    by (auto simp: new_user_def bnd_def identity_get_user_run session_insert_def Let_def
        own_row_def users_keyed_def same_users_def only_row_def outbox_grows_def
        split: sum.splits)
qed

lemma own_row_new_user: "keeps (own_row uid) (new_user E uid now res)"
proof (rule keepsI)
  fix w
  show "own_row uid w (snd (new_user E uid now res w))"
  proof (cases "users w uid")
    case None
    then show ?thesis by (simp add: new_user_def bnd_def identity_get_user_run own_row.R_refl)
  qed (rule new_user_own_row)
qed

lemma own_row_authenticate:
  assumes "keystone_auth E"
  shows "keeps (own_row uid) (Identity_authenticate E uid pw)"
  unfolding Identity_authenticate_def record_attempt_def
  by (intro own_row.keeps_rules own_row_known_user own_row_new_user
      own_row_only_ticks [OF keeps_check_block] own_row_only_ticks [OF keeps_only_ticks_prims(1)]
      own_row_only_ticks [OF keeps_only_ticks_prims(2)]
      own_row_only_ticks [OF keeps_base_authenticate [OF assms]])

text \<open>
  C17. Whatever its outcome, a login of one user changes no row of another user and nothing of
  keystone's users; mails already handed over stay.
\<close>

theorem login_touches_own_row:
  assumes "keystone_auth E" and "users_keyed w" and "Identity_authenticate E uid pw w = (x, v)"
  shows "users v = users w \<and> (\<forall>i. i \<noteq> uid \<longrightarrow> table v i = table w i) \<and>
     prefix (outbox w) (outbox v)"
  using keepsD [OF own_row_authenticate [OF assms(1)] assms(3)] assms(2)
  by (simp add: own_row_def same_users_def only_row_def outbox_grows_def)

theorem login_touches_own_row_witness:
  "table (snd (Identity_authenticate demo_env ''u1'' ''right'' (demo_world demo_row))) ''u2'' = None"
  using login_touches_own_row [OF demo_keystone_auth, of "demo_world demo_row" "''u1''" "''right''"
      "fst (Identity_authenticate demo_env ''u1'' ''right'' (demo_world demo_row))"
      "snd (Identity_authenticate demo_env ''u1'' ''right'' (demo_world demo_row))"]
  by (simp add: users_keyed_def)

end
