(* ===== verification/SP_PasswordResources.thy ===== *)
theory SP_PasswordResources
  imports SP_Http SP_Demo
begin

text \<open>
  The resources of \<open>spassword.py\<close> that let a password through: the SCIM user resource, the
  user resource and the change-password resource. Each checks the strength of a password in
  the body before it calls the method of its superclass. The contract they share is the
  locale \<open>password_guard\<close>, interpreted on each.
\<close>

section \<open>SPasswordScimUserResource\<close>

definition scim_user_patch :: "env \<Rightarrow> keystone_api \<Rightarrow> string \<Rightarrow> request \<Rightarrow> response wexec" where
  "scim_user_patch E K uid req =
     bnd (lift (scim_user_key K (request_body_json req))) (\<lambda>user.
     bnd (lift (check_user_data E user)) (\<lambda>refused.
     case refused of
       Some e \<Rightarrow> ret (bad_password_response K e)
     | None \<Rightarrow> scim_patch K req uid))"

definition scim_user_put :: "keystone_api \<Rightarrow> string \<Rightarrow> request \<Rightarrow> response wexec" where
  "scim_user_put K uid req = scim_patch_under K req uid"

definition scim_user_post :: "env \<Rightarrow> keystone_api \<Rightarrow> request \<Rightarrow> response wexec" where
  "scim_user_post E K req =
     (let user_data = request_body_json req in
      bnd (lift (check_user_data E user_data)) (\<lambda>refused.
      case refused of
        Some e \<Rightarrow> ret (bad_password_response K e)
      | None \<Rightarrow> scim_post K req))"

definition scim_user_delete :: "keystone_api \<Rightarrow> string \<Rightarrow> request \<Rightarrow> response wexec" where
  "scim_user_delete K uid req = scim_delete K req uid"

section \<open>SPasswordUserResource\<close>

definition user_post :: "env \<Rightarrow> keystone_api \<Rightarrow> request \<Rightarrow> response wexec" where
  "user_post E K req =
     bnd (lift (json_get ''user'' (JObj []) (request_body_json req))) (\<lambda>user_data.
     bnd (lift (check_user_data E user_data)) (\<lambda>refused.
     case refused of
       Some e \<Rightarrow> ret (bad_password_response K e)
     | None \<Rightarrow> ks_user_post K req))"

text \<open>
  The handler of \<open>patch\<close> calls \<open>_\<close>, which the module does not import: it is a builtin or
  \<open>NameError\<close>. \<open>subst_s t x\<close> is \<open>t % x\<close> for a text with one \<open>%s\<close>.
\<close>

fun subst_s :: "string \<Rightarrow> string \<Rightarrow> string" where
  "subst_s [] x = []"
| "subst_s [c] x = [c]"
| "subst_s (c # d # cs) x =
     (if c = CHR 0x25 \<and> d = CHR ''s'' then x @ cs else c # subst_s (d # cs) x)"

definition user_patch_refusal :: "keystone_api \<Rightarrow> exn \<Rightarrow> exn" where
  "user_patch_refusal K e = (case builtin_gettext K of
      None \<Rightarrow> NameError ''_''
    | Some tr \<Rightarrow>
        Unauthorized (subst_s (tr ''Error when changing user password: %s'') (exn_str K e)))"

definition user_patch :: "env \<Rightarrow> keystone_api \<Rightarrow> string \<Rightarrow> request \<Rightarrow> response wexec" where
  "user_patch E K uid req =
     bnd (lift (json_get ''user'' (JObj []) (request_body_json req))) (\<lambda>user_data.
     bnd (lift (check_user_data E user_data)) (\<lambda>refused.
     case refused of
       Some e \<Rightarrow> raise (user_patch_refusal K e)
     | None \<Rightarrow> ks_user_patch K req uid))"

definition user_delete :: "keystone_api \<Rightarrow> string \<Rightarrow> request \<Rightarrow> response wexec" where
  "user_delete K uid req = ks_user_delete K req uid"

section \<open>SPasswordUserPasswordResource\<close>

definition user_password_post :: "env \<Rightarrow> keystone_api \<Rightarrow> string \<Rightarrow> request \<Rightarrow> response wexec" where
  "user_password_post E K uid req =
     bnd (lift (json_get ''user'' (JObj []) (request_body_json req))) (\<lambda>user_data.
     bnd (lift (check_user_data E user_data)) (\<lambda>refused.
     case refused of
       Some e \<Rightarrow> ret (bad_password_response K e)
     | None \<Rightarrow> ks_password_post K req uid))"

section \<open>The contract the five handlers share\<close>

lemma check_user_data_weak:
  assumes "enabled (conf E)" and "map_of kvs ''password'' = Some p"
    and "very_fascist_check E p = Some e"
  shows "\<exists>e'. check_user_data E (JObj kvs) = Inr (Some e') \<and>
    (\<forall>msg. e = ValueError msg \<longrightarrow> e' = ValidationError (''SPASSWORD: '' @ msg))"
  using assms
  by (auto simp: check_user_data_def json_has_def json_item_def strong_check_password_def
      split: exn.splits)

lemma check_user_data_strong:
  "map_of kvs ''password'' = Some p \<Longrightarrow> very_fascist_check E p = None \<Longrightarrow>
     check_user_data E (JObj kvs) = Inr None"
  "map_of kvs ''password'' = None \<Longrightarrow> check_user_data E (JObj kvs) = Inr None"
  "\<not> enabled (conf E) \<Longrightarrow> check_user_data E j = Inr None"
  by (simp_all add: check_user_data_def json_has_def json_item_def strong_check_password_def)

text \<open>
  \<open>data\<close> is where the handler finds the user data in the body, \<open>refuse\<close> what it answers for
  a bad password, \<open>super\<close> the method of the superclass.
\<close>

locale password_guard =
  fixes E :: env
    and handler :: "request \<Rightarrow> response wexec"
    and data :: "request \<Rightarrow> exn + json"
    and refuse :: "exn \<Rightarrow> exn + response"
    and super :: "request \<Rightarrow> response wexec"
  assumes handler_bad: "data req = Inr d \<Longrightarrow> check_user_data E d = Inr (Some e) \<Longrightarrow>
      handler req w = (refuse e, w)"
    and handler_good: "data req = Inr d \<Longrightarrow> check_user_data E d = Inr None \<Longrightarrow>
      handler req w = super req w"
begin

lemma weak_refused:
  assumes "enabled (conf E)" and "data req = Inr (JObj kvs)"
    and "map_of kvs ''password'' = Some p" and "very_fascist_check E p = Some (ValueError msg)"
  shows "handler req w = (refuse (ValidationError (''SPASSWORD: '' @ msg)), w)"
  using check_user_data_weak [OF assms(1,3,4)] handler_bad [OF assms(2)] by auto

lemma strong_forwarded:
  assumes "data req = Inr (JObj kvs)"
    and "\<And>p. enabled (conf E) \<Longrightarrow> map_of kvs ''password'' = Some p \<Longrightarrow> very_fascist_check E p = None"
  shows "handler req w = super req w"
proof (rule handler_good [OF assms(1)])
  show "check_user_data E (JObj kvs) = Inr None"
    using assms(2)
    by (cases "map_of kvs ''password''"; cases "enabled (conf E)")
      (simp_all add: check_user_data_strong)
qed

lemma disabled_forwarded:
  "\<not> enabled (conf E) \<Longrightarrow> data req = Inr d \<Longrightarrow> handler req w = super req w"
  by (rule handler_good) (simp_all add: check_user_data_strong)

text \<open>A state change of the handler is a state change of the superclass.\<close>

lemma change_is_forwarded:
  assumes "data req = Inr d" and "check_user_data E d = Inr x" and "snd (handler req w) \<noteq> w"
  shows "handler req w = super req w"
  using assms handler_bad [OF assms(1)] handler_good [OF assms(1)] by (cases x) auto

end

definition user_data_of :: "request \<Rightarrow> exn + json" where
  "user_data_of req = json_get ''user'' (JObj []) (request_body_json req)"

interpretation scim_patch: password_guard E "scim_user_patch E K uid"
    "\<lambda>req. scim_user_key K (request_body_json req)"
    "\<lambda>e. Inr (bad_password_response K e)" "\<lambda>req. scim_patch K req uid" for E K uid
  by unfold_locales (simp_all add: scim_user_patch_def)

interpretation scim_post: password_guard E "scim_user_post E K"
    "\<lambda>req. Inr (request_body_json req)"
    "\<lambda>e. Inr (bad_password_response K e)" "scim_post K" for E K
  by unfold_locales (simp_all add: scim_user_post_def)

interpretation user_post: password_guard E "user_post E K" user_data_of
    "\<lambda>e. Inr (bad_password_response K e)" "ks_user_post K" for E K
  by unfold_locales (simp_all add: user_post_def user_data_of_def)

interpretation user_patch: password_guard E "user_patch E K uid" user_data_of
    "\<lambda>e. Inl (user_patch_refusal K e)" "\<lambda>req. ks_user_patch K req uid" for E K uid
  by unfold_locales (simp_all add: user_patch_def user_data_of_def)

interpretation user_password: password_guard E "user_password_post E K uid" user_data_of
    "\<lambda>e. Inr (bad_password_response K e)" "\<lambda>req. ks_password_post K req uid" for E K uid
  by unfold_locales (simp_all add: user_password_post_def user_data_of_def)

section \<open>Weak passwords\<close>

text \<open>
  C25. With the extension enabled, a password that cracklib finds weak is refused by each of the
  five handlers that check passwords, wherever each of them looks for it in the body: four
  answer with status 400 and cracklib's reason, the PATCH of a user raises its refusal; keystone
  is not called and nothing changes. The sixth handler that may carry a password, the PUT
  of a SCIM user, checks none: \<open>scim_user_put\<close> forwards as it is.
\<close>

theorem weak_password_refused:
  assumes "enabled (conf E)" and "map_of kvs ''password'' = Some p"
    and "very_fascist_check E p = Some (ValueError msg)"
    and "map_of outer ''user'' = Some (JObj kvs)" and "request_body_json req = JObj outer"
    and "request_body_json scim_req = JObj kvs"
    and "scim_user_key K (request_body_json scim_req') = Inr (JObj kvs)"
  shows "(\<forall>answer \<in> {user_post E K req w, user_password_post E K uid req w,
       scim_user_post E K scim_req w, scim_user_patch E K uid scim_req' w}.
     answer = (Inr \<lparr>status = 400, content_type = Some ''application/json'',
       body = Text (exn_str K (ValidationError (''SPASSWORD: '' @ msg)))\<rparr>, w)) \<and>
     user_patch E K uid req w =
       (Inl (user_patch_refusal K (ValidationError (''SPASSWORD: '' @ msg))), w)"
proof -
  let ?R = "(Inr (bad_password_response K (ValidationError (''SPASSWORD: '' @ msg))), w)"
  have d: "user_data_of req = Inr (JObj kvs)"
    using assms(4,5) by (simp add: user_data_of_def json_get_def)
  have "user_post E K req w = ?R" "user_password_post E K uid req w = ?R"
    using user_post.weak_refused [OF assms(1) d assms(2,3)]
      user_password.weak_refused [OF assms(1) d assms(2,3)] by simp_all
  moreover have "scim_user_post E K scim_req w = ?R" "scim_user_patch E K uid scim_req' w = ?R"
    using scim_post.weak_refused [OF assms(1) _ assms(2,3), of scim_req] assms(6)
      scim_patch.weak_refused [OF assms(1,7,2,3)] by simp_all
  moreover have "user_patch E K uid req w =
      (Inl (user_patch_refusal K (ValidationError (''SPASSWORD: '' @ msg))), w)"
    using user_patch.weak_refused [OF assms(1) d assms(2,3)] by simp
  ultimately show ?thesis by (auto simp: bad_password_response_def make_response_def)
qed

theorem weak_password_refused_witness:
  "user_post demo_env demo_api (demo_body ''1234'') (demo_world demo_row) =
     (Inr \<lparr>status = 400, content_type = Some ''application/json'',
        body = Text ''SPASSWORD: it is too short''\<rparr>, demo_world demo_row)"
  using weak_password_refused [of demo_env "[(''password'', JStr ''1234'')]" "JStr ''1234''"
      "''it is too short''" "[(''user'', JObj [(''password'', JStr ''1234'')]), (''password'', JStr ''1234'')]"
      "demo_body ''1234''" "\<lparr>request_body_json = JObj [(''password'', JStr ''1234'')], view_args = Map.empty\<rparr>"
      demo_api "\<lparr>request_body_json = JObj [(''password'', JStr ''1234'')], view_args = Map.empty\<rparr>"
      "demo_world demo_row" "''u1''"]
  by simp

text \<open>
  C26. The handlers add nothing to a request whose user data is an object, or is missing where it
  may be, and carries no password or one that cracklib finds strong; nor to any such request
  while the plugin is switched off. What it answers and what it changes is what the method of
  the superclass does.
\<close>

theorem strong_password_forwarded:
  assumes "\<And>p. enabled (conf E) \<Longrightarrow> map_of kvs ''password'' = Some p \<Longrightarrow> very_fascist_check E p = None"
    and "map_of outer ''user'' = Some (JObj kvs) \<or> map_of outer ''user'' = None \<and> kvs = []"
    and "request_body_json req = JObj outer"
    and "request_body_json scim_req = JObj kvs"
    and "scim_user_key K (request_body_json scim_req') = Inr (JObj kvs)"
  shows "user_post E K req w = ks_user_post K req w \<and>
     user_patch E K uid req w = ks_user_patch K req uid w \<and>
     user_password_post E K uid req w = ks_password_post K req uid w \<and>
     scim_user_post E K scim_req w = scim_post K scim_req w \<and>
     scim_user_patch E K uid scim_req' w = scim_patch K scim_req' uid w"
proof -
  have d: "user_data_of req = Inr (JObj kvs)"
    using assms(2,3) by (auto simp: user_data_of_def json_get_def)
  from assms(5,4) have "Inr (request_body_json scim_req) = (Inr (JObj kvs) :: exn + json)" by simp
  with d assms(1,5) show ?thesis
    by (auto intro!: user_post.strong_forwarded user_patch.strong_forwarded
        user_password.strong_forwarded scim_post.strong_forwarded scim_patch.strong_forwarded)
qed

theorem strong_password_forwarded_witness:
  "user_patch demo_env demo_api ''u1'' (demo_body ''long and odd'') (demo_world demo_row) =
     (Inr demo_done, demo_world demo_row)"
  using strong_password_forwarded [of demo_env "[(''password'', JStr ''long and odd'')]"
      "[(''user'', JObj [(''password'', JStr ''long and odd'')]), (''password'', JStr ''long and odd'')]"
      "demo_body ''long and odd''"
      "\<lparr>request_body_json = JObj [(''password'', JStr ''long and odd'')], view_args = Map.empty\<rparr>"
      demo_api
      "\<lparr>request_body_json = JObj [(''password'', JStr ''long and odd'')], view_args = Map.empty\<rparr>"
      "demo_world demo_row" "''u1''"]
  by simp

text \<open>
  The PATCH of a user refuses a weak password as well, but not as its code means to: where
  no \<open>_\<close> is among the builtins, the error that leaves the handler is \<open>NameError\<close> instead of
  \<open>Unauthorized\<close>.
\<close>

lemma weak_patch_name_error:
  assumes "enabled (conf E)" and "map_of kvs ''password'' = Some p"
    and "very_fascist_check E p = Some (ValueError msg)"
    and "map_of outer ''user'' = Some (JObj kvs)" and "request_body_json req = JObj outer"
    and "builtin_gettext K = None"
  shows "user_patch E K uid req w = (Inl (NameError ''_''), w)"
proof -
  have d: "user_data_of req = Inr (JObj kvs)"
    using assms(4,5) by (simp add: user_data_of_def json_get_def)
  from user_patch.weak_refused [OF assms(1) d assms(2,3)] assms(6) show ?thesis
    by (simp add: user_patch_refusal_def)
qed

end
