(* ===== verification/SP_Sound.thy ===== *)
theory SP_Sound
  imports SP_Prelude
begin

text \<open>
  A small logic for computations that may raise: \<open>sound I C m S\<close> says that \<open>m\<close>, started
  where the invariant \<open>I\<close> holds, ends where it holds, that what it raises satisfies \<open>C\<close>, and
  that what it returns satisfies \<open>S\<close>. One rule per combinator.
\<close>

definition sound ::
    "('s \<Rightarrow> bool) \<Rightarrow> (exn \<Rightarrow> bool) \<Rightarrow> ('s, 'a) exec \<Rightarrow> ('a \<Rightarrow> bool) \<Rightarrow> bool" where
  "sound I C m S \<longleftrightarrow> (\<forall>s. I s \<longrightarrow> I (snd (m s)) \<and>
     (case fst (m s) of Inl e \<Rightarrow> C e | Inr x \<Rightarrow> S x))"

lemma soundI:
  assumes "\<And>s r t. I s \<Longrightarrow> m s = (r, t) \<Longrightarrow> I t \<and> (case r of Inl e \<Rightarrow> C e | Inr x \<Rightarrow> S x)"
  shows "sound I C m S"
  unfolding sound_def
proof (intro allI impI)
  fix s
  assume "I s"
  with assms show "I (snd (m s)) \<and> (case fst (m s) of Inl e \<Rightarrow> C e | Inr x \<Rightarrow> S x)"
    by (cases "m s") fastforce
qed

lemma soundD:
  assumes "sound I C m S" and "I s" and "m s = (r, t)"
  shows "I t" and "r = Inl e \<Longrightarrow> C e" and "r = Inr x \<Longrightarrow> S x"
proof -
  from assms(1,2) have "I (snd (m s)) \<and> (case fst (m s) of Inl e \<Rightarrow> C e | Inr x \<Rightarrow> S x)"
    unfolding sound_def by blast
  with assms(3) show "I t" "r = Inl e \<Longrightarrow> C e" "r = Inr x \<Longrightarrow> S x" by auto
qed

lemma sound_ret: "S x \<Longrightarrow> sound I C (ret x) S"
  by (simp add: sound_def)

lemma sound_raise: "C e \<Longrightarrow> sound I C (raise e) S"
  by (simp add: sound_def)

lemma sound_lift:
  "(\<And>e. r = Inl e \<Longrightarrow> C e) \<Longrightarrow> (\<And>x. r = Inr x \<Longrightarrow> S x) \<Longrightarrow> sound I C (lift r) S"
  by (simp add: sound_def split: sum.split)

lemma sound_bnd:
  assumes "sound I C m R" and "\<And>x. R x \<Longrightarrow> sound I C (f x) S"
  shows "sound I C (bnd m f) S"
proof (rule soundI)
  fix s r t
  assume s: "I s" and run: "bnd m f s = (r, t)"
  obtain r' u where m: "m s = (r', u)" by fastforce
  note step = soundD [OF assms(1) s m]
  show "I t \<and> (case r of Inl e \<Rightarrow> C e | Inr x \<Rightarrow> S x)"
  proof (cases r')
    case (Inl e)
    with run m step show ?thesis by (auto simp: bnd_def)
  next
    case (Inr x)
    with run m have "f x u = (r, t)" by (simp add: bnd_def)
    from soundD [OF assms(2) step(1) this] step(3) [OF Inr] show ?thesis
      by (simp split: sum.split)
  qed
qed

lemma sound_catch:
  assumes "sound I D m S" and "\<And>e. D e \<Longrightarrow> h e = None \<Longrightarrow> C e"
    and "\<And>e n. h e = Some n \<Longrightarrow> sound I C n S"
  shows "sound I C (catch m h) S"
proof (rule soundI)
  fix s r t
  assume s: "I s" and run: "catch m h s = (r, t)"
  obtain r' u where m: "m s = (r', u)" by fastforce
  note step = soundD [OF assms(1) s m]
  show "I t \<and> (case r of Inl e \<Rightarrow> C e | Inr x \<Rightarrow> S x)"
  proof (cases r')
    case (Inl e)
    show ?thesis
    proof (cases "h e")
      case None
      with run m step Inl assms(2) show ?thesis by (auto simp: catch_def)
    next
      case (Some n)
      with run m Inl have "n u = (r, t)" by (simp add: catch_def)
      from soundD [OF assms(3) [OF Some] step(1) this] show ?thesis by (simp split: sum.split)
    qed
  next
    case (Inr x)
    with run m step show ?thesis by (auto simp: catch_def)
  qed
qed

lemma sound_if: "(b \<Longrightarrow> sound I C m S) \<Longrightarrow> (\<not> b \<Longrightarrow> sound I C n S) \<Longrightarrow> sound I C (if b then m else n) S"
  by simp

lemma sound_option:
  "(z = None \<Longrightarrow> sound I C m S) \<Longrightarrow> (\<And>x. z = Some x \<Longrightarrow> sound I C (f x) S) \<Longrightarrow>
     sound I C (case z of None \<Rightarrow> m | Some x \<Rightarrow> f x) S"
  by (cases z) simp_all

lemma sound_sum:
  "(\<And>x. z = Inl x \<Longrightarrow> sound I C (f x) S) \<Longrightarrow> (\<And>x. z = Inr x \<Longrightarrow> sound I C (g x) S) \<Longrightarrow>
     sound I C (case z of Inl x \<Rightarrow> f x | Inr x \<Rightarrow> g x) S"
  by (cases z) simp_all

lemma sound_prod:
  "(\<And>x y. z = (x, y) \<Longrightarrow> sound I C (f x y) S) \<Longrightarrow> sound I C (case z of (x, y) \<Rightarrow> f x y) S"
  by (cases z) simp_all

lemma sound_mapE:
  "(\<And>x. x \<in> set xs \<Longrightarrow> sound I C (f x) S) \<Longrightarrow> sound I C (mapE f xs) (list_all S)"
  by (induction xs) (auto intro!: sound_ret sound_bnd [where R = S] sound_bnd [where R = "list_all S"])

lemma sound_weaken: "sound I C m S \<Longrightarrow> (\<And>x. S x \<Longrightarrow> T x) \<Longrightarrow> sound I C m T"
  by (auto simp: sound_def split: sum.splits)

lemma sound_readonly:
  "keeps (=) m \<Longrightarrow> (\<And>s e. fst (m s) = Inl e \<Longrightarrow> C e) \<Longrightarrow> sound I C m (\<lambda>_. True)"
  by (auto simp: sound_def keeps_def split: sum.splits)

lemma sound_keeps: "sound I C m S \<Longrightarrow> keeps (\<lambda>s t. I s \<longrightarrow> I t) m"
  by (simp add: sound_def keeps_def)

end
