(* ===== verification/SP_Resources.thy ===== *)
theory SP_Resources
  imports SP_Http
begin

text \<open>
  The resources of \<open>spassword.py\<close> on top of the manager: recovery and reset of a password,
  verification of the e-mail, the second factor, the black list, and the roles of a user. One
  definition per handler, in the order of the file; \<open>E\<close> and \<open>K\<close> are the environment and
  keystone's operations, \<open>uid\<close> and \<open>code\<close> come from the URL.
\<close>

section \<open>Recovery and reset of the password\<close>

definition recover_password :: "env \<Rightarrow> string \<Rightarrow> response wexec" where
  "recover_password E uid =
     bnd (check_spassword_configured E) (\<lambda>_.
     bnd (identity_get_user uid) (\<lambda>user_info.
     bnd (check_user_has_email_defined user_info) (\<lambda>_.
     bnd (check_user_has_email_validated user_info) (\<lambda>_.
     bnd (user_ask_check_email_code E uid) (\<lambda>code.
     bnd (user_check_email_code uid (Some code)) (\<lambda>_.
     bnd (lift (user_email user_info)) (\<lambda>to.
     let subject = Brand @ '' reset password procedure '';
         link = mail_link (conf E) user_info ''/reset_password/'' code;
         text = ''The reset password procedure has been started'' @ [CHR 0x0A] @
           ''Press in following link to complete your password reset: '' @ link in
     bnd (send_email E to subject text) (\<lambda>sent.
     if sent
     then ret (make_response (Text (''reset password email link sent to '' @ to))
                 200 (Some ''application/json''))
     else ret (make_response (Text (''reset password email link was not sent to '' @ to))
                 400 (Some ''application/json''))))))))))"

definition send_new_password_email :: "env \<Rightarrow> string \<Rightarrow> string \<Rightarrow> bool wexec" where
  "send_new_password_email E user_mail user_password =
     send_email E user_mail (Brand @ '' recovery password'')
       (''Your new password is '' @ user_password @ '', proceed to change it as soon as possible'')"

text \<open>
  \<open>identity_api.update_user\<close> is keystone's (\<open>ks_update_user\<close>); it is given the delivery of
  the notification that the user was updated, which the manager of this plugin listens to.
\<close>

definition reset_password :: "env \<Rightarrow> string \<Rightarrow> string option \<Rightarrow> response wexec" where
  "reset_password E uid code =
     bnd (identity_get_user uid) (\<lambda>user_info.
     bnd (user_check_email_code uid code) (\<lambda>valid.
     if valid then
       bnd (fresh_uuid E) (\<lambda>u.
       let new_password = take 12 (uuid_str u) in
       bnd (catch (ks_update_user E (notify E ''updated'' ''user'') uid new_password)
              (\<lambda>e. if e = AssertionError
                    then Some (raise (Unauthorized ''Invalid username or password''))
                    else None)) (\<lambda>_.
       bnd (lift (user_email user_info)) (\<lambda>to.
       bnd (send_new_password_email E to new_password) (\<lambda>sent.
       let msg = (if sent then '' New password was sent by email to '' @ to
                  else '' New password was not sent by email to '' @ to) in
       ret (make_response
              (Text (''Request with valid code. Password sucessfully reset.'' @ msg))
              200 (Some ''text/html''))))))
     else ret (make_response (Text ''No valid code. Password not reset'')
                 401 (Some ''text/html''))))"

section \<open>Second factor\<close>

text \<open>\<open>if (type(enable) == type(True)): ... else: raise ValidationError\<close>\<close>

definition with_bool :: "json \<Rightarrow> (bool \<Rightarrow> response wexec) \<Rightarrow> response wexec" where
  "with_bool enable f = (case enable of
      JBool b \<Rightarrow> f b
    | _ \<Rightarrow> raise (ValidationError ''invalid body format''))"

definition modified_response :: "bool \<Rightarrow> response" where
  "modified_response res =
     make_response (Dumps (JObj [(''modified'', JBool res)])) 200 (Some ''application/json'')"

definition modify_sndfa_resource ::
    "env \<Rightarrow> keystone_api \<Rightarrow> string \<Rightarrow> request \<Rightarrow> response wexec" where
  "modify_sndfa_resource E K uid req =
     bnd (check_spassword_configured E) (\<lambda>_.
     bnd (lift (json_get ''enable'' (JBool False) (request_body_json req))) (\<lambda>enable.
     bnd (enforce_call K ''identity:update_user'' (build_user_target_enforcement K req)) (\<lambda>_.
     bnd (identity_get_user uid) (\<lambda>user_info.
     bnd (check_user_has_email_defined user_info) (\<lambda>_.
     bnd (check_user_has_email_validated user_info) (\<lambda>_.
     with_bool enable (\<lambda>b.
       bnd (user_modify_sndfa uid b) (\<lambda>res.
       ret (modified_response res)))))))))"

definition py_json_bool :: "bool option \<Rightarrow> json" where
  "py_json_bool b = (case b of None \<Rightarrow> JNull | Some x \<Rightarrow> JBool x)"

definition get_sndfa_resource ::
    "env \<Rightarrow> keystone_api \<Rightarrow> string \<Rightarrow> request \<Rightarrow> response wexec" where
  "get_sndfa_resource E K uid req =
     bnd (enforce_call K ''identity:get_user'' (build_user_target_enforcement K req)) (\<lambda>_.
     bnd (identity_get_user uid) (\<lambda>user_info.
     bnd (already_user_check_email uid) (\<lambda>email_checked.
     bnd (user_get_sndfa uid) (\<lambda>sndfa_on.
     ret (make_response
            (Dumps (JObj [(''sndfa_email'', py_json_bool email_checked),
                          (''sndfa'', py_json_bool sndfa_on)])) 200 None)))))"

definition check_sndfa_resource :: "env \<Rightarrow> string \<Rightarrow> string option \<Rightarrow> response wexec" where
  "check_sndfa_resource E uid code =
     bnd (check_spassword_configured E) (\<lambda>_.
     bnd (identity_get_user uid) (\<lambda>user_info.
     bnd (check_user_has_email_validated user_info) (\<lambda>_.
     bnd (user_check_sndfa_code E uid code) (\<lambda>valid.
     if valid
     then ret (make_response (Text ''Valid code. Sndfa successfully authorized'')
                 200 (Some ''text/html''))
     else ret (make_response (Text ''No valid code. sndfa Unauthorized'')
                 401 (Some ''application/json''))))))"

section \<open>Verification of the e-mail\<close>

definition ask_check_email_resource ::
    "env \<Rightarrow> keystone_api \<Rightarrow> string \<Rightarrow> request \<Rightarrow> response wexec" where
  "ask_check_email_resource E K uid req =
     bnd (enforce_call K ''identity:update_user'' (build_user_target_enforcement K req)) (\<lambda>_.
     bnd (identity_get_user uid) (\<lambda>user_info.
     bnd (check_user_has_email_defined user_info) (\<lambda>_.
     bnd (user_ask_check_email_code E uid) (\<lambda>code.
     bnd (lift (user_email user_info)) (\<lambda>to.
     let subject = Brand @ '' verify email '';
         link = mail_link (conf E) user_info ''/checkemail/'' code;
         text = ''The code for verify your email is '' @ code @ [CHR 0x0A] @ ''Link is: '' @ link in
     bnd (send_email E to subject text) (\<lambda>sent.
     if sent
     then ret (make_response (Text (''check email code sent to '' @ to))
                 200 (Some ''application/json''))
     else ret (make_response (Text (''check email code was not sent to '' @ to))
                 400 (Some ''application/json''))))))))"

definition check_email_resource :: "string \<Rightarrow> string option \<Rightarrow> response wexec" where
  "check_email_resource uid code =
     bnd (identity_get_user uid) (\<lambda>user_info.
     bnd (check_user_has_email_defined user_info) (\<lambda>_.
     bnd (user_check_email_code uid code) (\<lambda>valid.
     if valid
     then ret (make_response (Text ''Valid code. Email sucessfully checked'')
                 200 (Some ''text/html''))
     else ret (make_response (Text ''No valid code. Email not checked'')
                 401 (Some ''application/json'')))))"

section \<open>Roles of a user\<close>

definition role_entry :: "user \<Rightarrow> string \<Rightarrow> project \<Rightarrow> string \<Rightarrow> string \<Rightarrow> json" where
  "role_entry user_info uid user_project role role_name = JObj [
     (''domain'', JStr (u_domain_id user_info)),
     (''project'', JStr (p_id user_project)),
     (''project_name'', JStr (p_name user_project)),
     (''user'', JStr uid),
     (''user_name'', JStr (u_name user_info)),
     (''role'', JStr role),
     (''role_name'', JStr role_name)]"

definition project_roles :: "keystone_api \<Rightarrow> user \<Rightarrow> string \<Rightarrow> project \<Rightarrow> json list wexec" where
  "project_roles K user_info uid user_project =
     bnd (lift (get_roles_for_user_and_project K uid (p_id user_project))) (\<lambda>roles.
     mapE (\<lambda>role.
       bnd (lift (get_role_name K role)) (\<lambda>role_name.
       ret (role_entry user_info uid user_project role role_name))) roles)"

definition user_project_roles_resource ::
    "keystone_api \<Rightarrow> string \<Rightarrow> request \<Rightarrow> response wexec" where
  "user_project_roles_resource K uid req =
     bnd (enforce_call K ''identity:get_user'' (build_user_target_enforcement K req)) (\<lambda>_.
     bnd (identity_get_user uid) (\<lambda>user_info.
     bnd (lift (list_projects_for_user K uid)) (\<lambda>user_projects.
     bnd (mapE (project_roles K user_info uid) user_projects) (\<lambda>parts.
     ret (make_response (Dumps (JArr (concat parts))) 200 (Some ''application/json''))))))"

section \<open>Black list\<close>

definition modify_black_resource ::
    "env \<Rightarrow> keystone_api \<Rightarrow> string \<Rightarrow> request \<Rightarrow> response wexec" where
  "modify_black_resource E K uid req =
     bnd (check_spassword_configured E) (\<lambda>_.
     bnd (lift (json_get ''enable'' (JBool False) (request_body_json req))) (\<lambda>enable.
     bnd (enforce_call K ''identity:update_user'' (build_user_target_enforcement K req)) (\<lambda>_.
     bnd (identity_get_user uid) (\<lambda>user_info.
     with_bool enable (\<lambda>b.
       bnd (user_modify_black uid b) (\<lambda>res.
       ret (modified_response res)))))))"

definition json_expiration :: "int + datetime \<Rightarrow> json" where
  "json_expiration x = (case x of Inl n \<Rightarrow> JInt n | Inr d \<Rightarrow> JDate d)"

definition get_black_resource ::
    "env \<Rightarrow> keystone_api \<Rightarrow> string \<Rightarrow> request \<Rightarrow> response wexec" where
  "get_black_resource E K uid req =
     bnd (enforce_call K ''identity:get_user'' (build_user_target_enforcement K req)) (\<lambda>_.
     bnd (identity_get_user uid) (\<lambda>user_info.
     bnd (user_get_black uid) (\<lambda>black.
     bnd (user_get_pwd_expiration E uid) (\<lambda>pwd_expiration.
     ret (make_response
            (Dumps (JObj [(''black'', JBool black),
                          (''pwd_expiration_time'', json_expiration pwd_expiration)])) 200 None)))))"

end
