(* ===== verification/SP_Recovery.thy ===== *)
theory SP_Recovery
  imports SP_Resources SP_Codes SP_Login
begin

text \<open>
  Properties of the codes and of the resources that use them: verification of the e-mail,
  the second factor, recovery and reset of the password. They rest on the interpretations
  \<open>email\<close> and \<open>sndfa\<close> of \<open>SP_Codes\<close> and \<open>mailer\<close> of \<open>SP_Mailer\<close>.
\<close>

section \<open>Codes\<close>

lemma ask_then_guess:
  assumes "has_row uid w"
  shows "\<exists>v. user_ask_check_email_code E uid w = (Inr (email_code E w), v) \<and>
     has_row uid v \<and> email_pending uid v = Some (email_code E w) \<and> \<not> email_verified uid v \<and>
     uuids v = Suc (uuids w)"
proof -
  let ?w = "w\<lparr>uuids := Suc (uuids w)\<rparr>"
  obtain r v where run: "set_check_email_code uid (email_code E w) ?w = (r, v)" by fastforce
  from assms have row: "has_row uid ?w" by (simp add: has_row_def)
  from email.put_eligible [OF row run] email.put_unconfirms [OF row, of "email_code E w"] run
  have "has_row uid v \<and> email_pending uid v = Some (email_code E w) \<and> \<not> email_verified uid v" "r = Inr ()"
    by simp_all
  moreover have "uuids v = Suc (uuids w)"
    using run by (cases "table ?w uid") (auto simp: set_check_email_code_run)
  ultimately show ?thesis using run by (simp add: user_ask_check_email_code_run bnd_def)
qed

text \<open>
  C27. The e-mail verification: for a user with a row, asking uses up the next random UUID and
  gives its first six hexadecimal digits as the code, and makes the e-mail unverified; then every
  guess is answered by whether it is that code, whatever was guessed before, and the e-mail is
  verified exactly when the last guess was right.
\<close>

theorem email_code_guesses:
  assumes "has_row uid w"
  shows "\<exists>c v. user_ask_check_email_code E uid w = (Inr c, v) \<and>
     c = take 6 (uuid_hex (uuid4 E (uuids w))) \<and> uuids v = Suc (uuids w) \<and>
     length c = 6 \<and> set c \<subseteq> set ''0123456789abcdef'' \<and> \<not> email_verified uid v \<and>
     (\<forall>gs g. fst (mapE (check_email_code uid) (gs @ [g]) v) = Inr (map (\<lambda>x. x = Some c) (gs @ [g])) \<and>
        email_verified uid (snd (mapE (check_email_code uid) (gs @ [g]) v)) = (g = Some c))"
proof -
  from ask_then_guess [OF assms] obtain v where
    v: "user_ask_check_email_code E uid w = (Inr (email_code E w), v)" "has_row uid v"
      "email_pending uid v = Some (email_code E w)" "\<not> email_verified uid v"
      "uuids v = Suc (uuids w)" by blast
  have "set (email_code E w) \<subseteq> set ''0123456789abcdef''"
    unfolding email_code_def by (rule subset_trans [OF set_take_subset set_uuid_hex])
  moreover have "fst (mapE (check_email_code uid) (gs @ [g]) v) =
      Inr (map (\<lambda>x. x = Some (email_code E w)) (gs @ [g]))" for gs g
    using email.guesses [OF v(2,3) email_code_not_empty, of "gs @ [g]"] by (metis fst_conv)
  moreover note email.confirmed_iff_last_guess [OF v(2,3) email_code_not_empty]
  ultimately show ?thesis using v(1,4,5) length_email_code email_code_def by blast
qed

theorem email_code_guesses_witness:
  "has_row ''u1'' (demo_world demo_row) \<and>
   (\<exists>c v. user_ask_check_email_code demo_env ''u1'' (demo_world demo_row) = (Inr c, v) \<and>
     fst (mapE (check_email_code ''u1'') [Some ''zzz'', Some c] v) = Inr [False, True])"
proof -
  have row: "has_row ''u1'' (demo_world demo_row)" by (simp add: has_row_def)
  from email_code_guesses [OF row, of demo_env] obtain c v where
    run: "user_ask_check_email_code demo_env ''u1'' (demo_world demo_row) = (Inr c, v)"
    and len: "length c = 6"
    and guess: "\<And>gs g. fst (mapE (check_email_code ''u1'') (gs @ [g]) v) =
      Inr (map (\<lambda>x. x = Some c) (gs @ [g]))" by blast
  from len have "''zzz'' \<noteq> c" by auto
  with guess [of "[Some ''zzz'']" "Some c"] have
    "fst (mapE (check_email_code ''u1'') [Some ''zzz'', Some c] v) = Inr [False, True]" by simp
  with row run show ?thesis by blast
qed

text \<open>
  The second factor code of a user is not consumed by a check and there is no limit on
  guesses: after a code was set, every guess of any series is answered by whether it is the
  code.
\<close>

lemma sndfa_code_guesses:
  assumes "sndfa_active (u_id u) w" and "c \<noteq> ''''"
  shows "\<exists>v. set_user_sndfa_code E u c w = (Inr (), v) \<and>
     (\<forall>gs. fst (mapE (check_sndfa_code E (u_id u)) gs v) = Inr (map (\<lambda>g. g = Some c) gs))"
proof -
  obtain r v where run: "set_user_sndfa_code E u c w = (r, v)" by fastforce
  from sndfa.put_eligible [OF assms(1) run] have v: "r = Inr ()" "sndfa_active (u_id u) v"
      "sndfa_pending (u_id u) v = Some c" by blast+
  have "fst (mapE (check_sndfa_code E (u_id u)) gs v) = Inr (map (\<lambda>g. g = Some c) gs)" for gs
    using sndfa.guesses [OF v(2,3) assms(2), of E gs] by (metis fst_conv)
  with run v(1) show ?thesis by blast
qed

text \<open>
  The check of a second factor code looks at the code and at the two flags of the row
  only: a code issued at any time, however long ago, is accepted.
\<close>

lemma sndfa_code_never_expires:
  assumes "table w uid = Some r"
  shows "fst (check_sndfa_code E uid code (w\<lparr>table := (table w)(uid \<mapsto> r\<lparr>sndfa_time_code := t\<rparr>)\<rparr>)) =
     Inr (sndfa r = Some True \<and> sndfa_email r = Some True \<and> sndfa_code r = code)"
proof -
  let ?w = "w\<lparr>table := (table w)(uid \<mapsto> r\<lparr>sndfa_time_code := t\<rparr>)\<rparr>"
  have "table ?w uid = Some (r\<lparr>sndfa_time_code := t\<rparr>)" by simp
  then show ?thesis by (simp add: check_sndfa_code_run truthy_def)
qed

text \<open>
  \<open>already_sndfa_signed\<close> compares the last confirmation with the end of a window in the
  future instead of the start of one in the past: any confirmation that is not in the future
  counts, however old it is.
\<close>

lemma old_confirmation_signed:
  assumes "table w (u_id u) = Some r" and "sndfa_active (u_id u) w"
    and "sndfa_last r = Some d" and "wall d \<le> clock E (ticks w)"
    and "0 < sndfa_time_window (conf E)"
    and "in_years (clock E (ticks w) + timedelta_hours (sndfa_time_window (conf E)))"
  shows "fst (already_sndfa_signed E u w) = Inr True"
  using assms
  by (simp add: already_sndfa_signed_def sndfa_active_def timedelta_hours_def)

end
