(* ===== verification/SP_Rest.thy ===== *)
theory SP_Rest
  imports SP_Recovery
begin

text \<open>
  Properties of the REST resources: what a request needs to change a password or the second
  factor, what the mails carry, and that a request refused by keystone's policy changes
  nothing.
\<close>

section \<open>Running the parts\<close>

lemma check_email_code_result:
  obtains v where "check_email_code uid code w =
      (Inr (\<exists>c. email_pending uid w = Some c \<and> c \<noteq> '''' \<and> code = Some c), v)"
    and "users v = users w" and "outbox v = outbox w" and "uuids v = uuids w"
proof (cases "table w uid")
  case None
  then show thesis by (intro that [of w]) (simp_all add: check_email_code_run email_pending_def)
next
  case (Some r)
  show thesis
  proof (cases "sndfa_email_code r \<in> {None, Some ''''}")
    case True
    with Some show thesis
      by (intro that [of w]) (auto simp: check_email_code_run email_pending_def)
  next
    case False
    then obtain c where "sndfa_email_code r = Some c" "c \<noteq> ''''" by auto
    with Some show thesis
      by (intro that [of "with_row w uid (r\<lparr>sndfa_email := Some (code = Some c)\<rparr>)"])
        (auto simp: check_email_code_run(3) email_pending_def)
  qed
qed

lemma configured_run:
  "check_spassword_configured E w =
     (if enabled (conf E) \<and> conf_sndfa (conf E) then Inr () else Inl SPasswordNotConfigured, w)"
  by (simp add: check_spassword_configured_def)

lemma email_defined_Inr:
  "check_user_has_email_defined u w = (Inr x, v) \<longleftrightarrow> u_email u \<noteq> None \<and> v = w"
  by (auto simp: check_user_has_email_defined_def)

lemma email_validated_Inr:
  "check_user_has_email_validated u w = (Inr x, v) \<longleftrightarrow> email_verified (u_id u) w \<and> v = w"
  by (auto simp: check_user_has_email_validated_def already_user_check_email_def bnd_def
      already_email_checked_run email_verified_def split: option.splits)

lemma identity_get_user_Inr:
  "identity_get_user uid w = (Inr u, v) \<longleftrightarrow> users w uid = Some u \<and> v = w"
  by (cases "users w uid") (auto simp: identity_get_user_run)

lemma keeps_build_target: "keeps (=) (build_user_target_enforcement K req)"
  unfolding build_user_target_enforcement_def Let_def
  by (intro readonly.keeps_catch readonly.keeps_rules keeps_identity_get_user)
    (auto split: if_splits intro: readonly.keeps_rules)

section \<open>Reset of the password\<close>

lemma length_uuid_str [simp]: "length (uuid_str u) = 36"
  by (simp add: uuid_str_def Let_def)

definition new_password :: "env \<Rightarrow> world \<Rightarrow> string" where
  "new_password E w = take 12 (uuid_str (uuid4 E (uuids w)))"

lemma length_new_password [simp]: "length (new_password E w) = 12"
  by (simp add: new_password_def)

definition new_password_mail :: "env \<Rightarrow> string \<Rightarrow> string \<Rightarrow> mail" where
  "new_password_mail E to pw = mime E to (Brand @ '' recovery password'')
     (''Your new password is '' @ pw @ '', proceed to change it as soon as possible'')"

text \<open>The row after the code was accepted and after keystone's notification was handled.\<close>

definition reset_row :: "env \<Rightarrow> world \<Rightarrow> spassword_row \<Rightarrow> spassword_row" where
  "reset_row E w r = r\<lparr>sndfa_email := Some True,
     creation_time := Some (naive (clock E (ticks w))), login_attempts := Some 0\<rparr>"

definition reset_world :: "env \<Rightarrow> string \<Rightarrow> world \<Rightarrow> user \<Rightarrow> spassword_row \<Rightarrow> world" where
  "reset_world E uid w u r = w\<lparr>table := (table w)(uid \<mapsto> reset_row E w r),
     users := (users w)(uid \<mapsto> u), ticks := Suc (ticks w), uuids := Suc (uuids w)\<rparr>"

lemma reset_valid_run:
  assumes "users w uid = Some u" and "u_email u = Some to" and "table w uid = Some r"
    and "sndfa_email_code r = Some c" and "c \<noteq> ''''" and "enabled (conf E)" and "u_id u' = uid"
    and upd: "ks_update_user E (notify E ''updated'' ''user'') uid (new_password E w)
        (w\<lparr>table := (table w)(uid \<mapsto> r\<lparr>sndfa_email := Some True\<rparr>), uuids := Suc (uuids w)\<rparr>) =
      notify E ''updated'' ''user'' uid
        (w\<lparr>table := (table w)(uid \<mapsto> r\<lparr>sndfa_email := Some True\<rparr>), uuids := Suc (uuids w),
           users := (users w)(uid \<mapsto> u')\<rparr>)"
  shows "reset_password E uid (Some c) w =
     bnd (send_new_password_email E to (new_password E w)) (\<lambda>sent.
       ret (make_response
              (Text (''Request with valid code. Password sucessfully reset.'' @
                 (if sent then '' New password was sent by email to '' @ to
                  else '' New password was not sent by email to '' @ to)))
              200 (Some ''text/html'')))
       (reset_world E uid w u' r)"
proof -
  let ?w = "w\<lparr>table := (table w)(uid \<mapsto> r\<lparr>sndfa_email := Some True\<rparr>), uuids := Suc (uuids w)\<rparr>"
  have "notify E ''updated'' ''user'' uid (?w\<lparr>users := (users w)(uid \<mapsto> u')\<rparr>) =
      (Inr (), reset_world E uid w u' r)"
    using assms(6,7)
    by (simp add: notify_user_updated user_updated_callback_def bnd_def get_user_run
        update_user_modification_time_run reset_world_def reset_row_def)
  with upd have upd': "ks_update_user E (notify E ''updated'' ''user'') uid (new_password E w) ?w =
      (Inr (), reset_world E uid w u' r)" by simp
  have check: "check_email_code uid (Some c) w =
      (Inr True, with_row w uid (r\<lparr>sndfa_email := Some True\<rparr>))"
    using assms(3-5) by (simp add: check_email_code_run(3))
  have mail: "user_email u = Inr to" using assms(2) by (simp add: user_email_def)
  show ?thesis
    using assms(1) mail upd' [unfolded new_password_def]
    by (simp add: reset_password_def user_check_email_code_def bnd_def identity_get_user_run check
        fresh_uuid_def new_password_def Let_def catch_def if_distrib [of ret] split: prod.splits
        sum.splits)
qed

lemma reset_valid_result:
  assumes "users w uid = Some u" and "u_email u = Some to" and "table w uid = Some r"
    and "sndfa_email_code r = Some c" and "c \<noteq> ''''" and "enabled (conf E)" and "u_id u' = uid"
    and "ks_update_user E (notify E ''updated'' ''user'') uid (new_password E w)
        (w\<lparr>table := (table w)(uid \<mapsto> r\<lparr>sndfa_email := Some True\<rparr>), uuids := Suc (uuids w)\<rparr>) =
      notify E ''updated'' ''user'' uid
        (w\<lparr>table := (table w)(uid \<mapsto> r\<lparr>sndfa_email := Some True\<rparr>), uuids := Suc (uuids w),
           users := (users w)(uid \<mapsto> u')\<rparr>)"
    and "reset_password E uid (Some c) w = (x, v)"
  shows "users v = (users w)(uid \<mapsto> u')" and "table v = (table w)(uid \<mapsto> reset_row E w r)"
    and "x = Inr resp \<Longrightarrow> status resp = 200 \<and> (\<exists>sent. outbox v = outbox w @ sent \<and>
       (sent = [new_password_mail E to (new_password E w)] \<and>
          body resp = Text (''Request with valid code. Password sucessfully reset.'' @
            '' New password was sent by email to '' @ to) \<or>
        sent = [] \<and> body resp = Text (''Request with valid code. Password sucessfully reset.'' @
            '' New password was not sent by email to '' @ to)))"
    and "uuids v = Suc (uuids w)"
proof -
  let ?W = "reset_world E uid w u' r"
  obtain ok v' where send: "send_new_password_email E to (new_password E w) ?W = (ok, v')"
    by fastforce
  then have v: "v' = v" and x: "x = (case ok of Inl e \<Rightarrow> Inl e | Inr sent \<Rightarrow>
        Inr (make_response
              (Text (''Request with valid code. Password sucessfully reset.'' @
                 (if sent then '' New password was sent by email to '' @ to
                  else '' New password was not sent by email to '' @ to)))
              200 (Some ''text/html'')))"
    using reset_valid_run [OF assms(1-8)] assms(9) by (auto simp: bnd_def split: sum.splits)
  from send obtain n sent where v': "v' = ?W\<lparr>conns := n, outbox := outbox ?W @ sent\<rparr>"
    and sent: "ok = Inr True \<Longrightarrow> sent = [new_password_mail E to (new_password E w)]"
      "ok = Inr False \<Longrightarrow> sent = []"
    unfolding send_new_password_email_def new_password_mail_def by (rule mailer.send_world) blast
  from v' v show "users v = (users w)(uid \<mapsto> u')" "table v = (table w)(uid \<mapsto> reset_row E w r)"
    "uuids v = Suc (uuids w)"
    by (auto simp: reset_world_def)
  assume "x = Inr resp"
  with x sent v v' show "status resp = 200 \<and> (\<exists>sent. outbox v = outbox w @ sent \<and>
       (sent = [new_password_mail E to (new_password E w)] \<and>
          body resp = Text (''Request with valid code. Password sucessfully reset.'' @
            '' New password was sent by email to '' @ to) \<or>
        sent = [] \<and> body resp = Text (''Request with valid code. Password sucessfully reset.'' @
            '' New password was not sent by email to '' @ to)))"
    by (cases ok) (auto simp: make_response_def reset_world_def)
qed

lemma demo_update:
  "ks_update_user demo_env cb ''u1'' pw w = (case users w ''u1'' of
     None \<Rightarrow> (Inl (UserNotFound ''u1''), w)
   | Some u \<Rightarrow> cb ''u1'' (w\<lparr>users := (users w)(''u1'' \<mapsto> u\<lparr>u_hash := pw\<rparr>)\<rparr>))"
  by (simp add: demo_update_user_def)

lemma demo_reset_users:
  "users (snd (reset_password demo_env ''u1'' (Some ''0a1b2c'') (demo_world demo_row_2fa))) =
     [''u1'' \<mapsto> demo_user\<lparr>u_hash := new_password demo_env (demo_world demo_row_2fa)\<rparr>]"
proof -
  let ?x = "reset_password demo_env ''u1'' (Some ''0a1b2c'') (demo_world demo_row_2fa)"
  have "users (snd ?x) = (users (demo_world demo_row_2fa))(''u1'' \<mapsto>
      demo_user\<lparr>u_hash := new_password demo_env (demo_world demo_row_2fa)\<rparr>)"
    by (rule reset_valid_result(1) [where u = demo_user and to = "''u1@example.org''"
          and r = demo_row_2fa and x = "fst ?x" and c = "''0a1b2c''"])
      (simp_all add: demo_update del: demo_env_simps(8))
  then show ?thesis by simp
qed

text \<open>
  C18. A request to reset a password changes keystone's users only if it carries the code
  that is pending for the user: whoever does not know that code cannot touch the password.
\<close>

theorem reset_needs_code:
  assumes "reset_password E uid code w = (x, v)" and "users v \<noteq> users w"
  shows "\<exists>c. email_pending uid w = Some c \<and> c \<noteq> '''' \<and> code = Some c"
proof (rule ccontr)
  assume not: "\<nexists>c. email_pending uid w = Some c \<and> c \<noteq> '''' \<and> code = Some c"
  obtain v' where "check_email_code uid code w = (Inr False, v')" "users v' = users w"
    using check_email_code_result [of uid code w] not by auto
  with assms show False
    by (cases "users w uid")
      (auto simp: reset_password_def user_check_email_code_def bnd_def identity_get_user_run)
qed

theorem reset_needs_code_witness:
  "\<exists>x v. reset_password demo_env ''u1'' (Some ''0a1b2c'') (demo_world demo_row_2fa) = (x, v) \<and>
     users v \<noteq> users (demo_world demo_row_2fa) \<and>
     (\<exists>c. email_pending ''u1'' (demo_world demo_row_2fa) = Some c \<and> c \<noteq> '''' \<and>
        Some ''0a1b2c'' = Some c)"
proof -
  let ?w = "demo_world demo_row_2fa"
  let ?x = "reset_password demo_env ''u1'' (Some ''0a1b2c'') ?w"
  have "new_password demo_env ?w \<noteq> ''right''"
  proof
    assume "new_password demo_env ?w = ''right''"
    then have "length (new_password demo_env ?w) = length ''right''" by (rule arg_cong)
    then show False by simp
  qed
  then have "u_hash (demo_user\<lparr>u_hash := new_password demo_env ?w\<rparr>) \<noteq> u_hash demo_user"
    by simp
  then have "demo_user\<lparr>u_hash := new_password demo_env ?w\<rparr> \<noteq> demo_user" by metis
  then have "users (snd ?x) ''u1'' \<noteq> users ?w ''u1''"
    unfolding demo_reset_users by simp
  then have "users (snd ?x) \<noteq> users ?w" by metis
  with reset_needs_code [of demo_env "''u1''" "Some ''0a1b2c''" ?w "fst ?x" "snd ?x"]
  show ?thesis by (metis prod.collapse)
qed

text \<open>
  What the code relies on in keystone's \<open>update_user\<close>: an unknown user is refused; a known
  one is either refused (keystone's own password rules, say) or gets a record with the same
  identity whose password is the new one, and then the notification is delivered.
\<close>

definition keystone_update_at ::
    "env \<Rightarrow> (string \<Rightarrow> unit wexec) \<Rightarrow> string \<Rightarrow> string \<Rightarrow> world \<Rightarrow> bool" where
  "keystone_update_at E updated uid pw w = (case users w uid of
      None \<Rightarrow> ks_update_user E updated uid pw w = (Inl (UserNotFound uid), w)
    | Some u \<Rightarrow>
        (\<exists>e. ks_update_user E updated uid pw w = (Inl e, w)) \<or>
        (\<exists>u'. u_id u' = u_id u \<and> u_email u' = u_email u \<and> ks_check_password E pw u' = Inr True \<and>
           ks_update_user E updated uid pw w =
             updated uid (w\<lparr>users := (users w)(uid \<mapsto> u')\<rparr>)))"

definition keystone_update :: "env \<Rightarrow> bool" where
  "keystone_update E \<longleftrightarrow> (\<forall>updated uid pw w. keystone_update_at E updated uid pw w)"

lemma demo_keystone_update [simp]: "keystone_update demo_env"
proof -
  have "keystone_update_at demo_env updated uid pw w" for updated uid pw w
  proof (cases "users w uid")
    case None
    then show ?thesis by (simp add: keystone_update_at_def demo_update_user_def)
  next
    case (Some u)
    then show ?thesis
      unfolding keystone_update_at_def
      by (simp add: demo_update_user_def) (rule disjI2, rule exI [of _ "u\<lparr>u_hash := pw\<rparr>"], simp)
  qed
  then show ?thesis by (simp add: keystone_update_def)
qed

lemma keystone_update_cases:
  assumes "keystone_update E" and "users w uid = Some u"
  obtains e where "ks_update_user E updated uid pw w = (Inl e, w)"
  | u' where "u_id u' = u_id u" "u_email u' = u_email u" "ks_check_password E pw u' = Inr True"
      "ks_update_user E updated uid pw w = updated uid (w\<lparr>users := (users w)(uid \<mapsto> u')\<rparr>)"
proof -
  from assms(1) have "keystone_update_at E updated uid pw w"
    unfolding keystone_update_def by blast
  with assms(2) show thesis by (auto simp: keystone_update_at_def intro: that)
qed

lemma reset_update_refused:
  assumes "users w uid = Some u" and "table w uid = Some r"
    and "sndfa_email_code r = Some c" and "c \<noteq> ''''"
    and "ks_update_user E (notify E ''updated'' ''user'') uid (new_password E w)
        (w\<lparr>table := (table w)(uid \<mapsto> r\<lparr>sndfa_email := Some True\<rparr>), uuids := Suc (uuids w)\<rparr>) =
        (Inl e, w')"
  shows "\<exists>e'. fst (reset_password E uid (Some c) w) = Inl e'"
proof -
  have check: "check_email_code uid (Some c) w =
      (Inr True, with_row w uid (r\<lparr>sndfa_email := Some True\<rparr>))"
    using assms(2-4) by (simp add: check_email_code_run(3))
  show ?thesis
    using assms(1) assms(5) [unfolded new_password_def]
    by (simp add: reset_password_def user_check_email_code_def bnd_def identity_get_user_run check
        fresh_uuid_def Let_def catch_def)
qed

lemma email_pending_row:
  assumes "email_pending uid w = Some c"
  obtains r where "table w uid = Some r" "sndfa_email_code r = Some c"
  using assms by (auto simp: email_pending_def split: option.splits)

text \<open>
  C21. A reset that answers has status 200, has given the user a new random password,
  the first twelve characters of the next random UUID, which the request uses up, that keystone
  accepts from then on, has restarted its expiration, cleared the
  count of bad attempts and left every other user and row alone. The new password was mailed
  to the user's own address and to nobody else, or the answer says that it was not sent.
\<close>

theorem reset_installs_mailed_password:
  assumes "keystone_update E" and "users_keyed w" and "enabled (conf E)"
    and "users w uid = Some u" and "u_email u = Some to"
    and "email_pending uid w = Some c" and "c \<noteq> ''''"
    and "reset_password E uid (Some c) w = (Inr resp, v)"
  shows "\<exists>pw u' r. pw = take 12 (uuid_str (uuid4 E (uuids w))) \<and> uuids v = Suc (uuids w) \<and>
     length pw = 12 \<and> ks_check_password E pw u' = Inr True \<and>
     users v = (users w)(uid \<mapsto> u') \<and> table v = (table w)(uid \<mapsto> r) \<and>
     login_attempts r = Some 0 \<and> creation_time r = Some (naive (clock E (ticks w))) \<and>
     status resp = 200 \<and>
     (outbox v = outbox w @ [new_password_mail E to pw] \<or>
      outbox v = outbox w \<and>
      body resp = Text (''Request with valid code. Password sucessfully reset.'' @
        '' New password was not sent by email to '' @ to))"
proof -
  from assms(6) obtain r where r: "table w uid = Some r" "sndfa_email_code r = Some c"
    by (rule email_pending_row)
  let ?W = "w\<lparr>table := (table w)(uid \<mapsto> r\<lparr>sndfa_email := Some True\<rparr>), uuids := Suc (uuids w)\<rparr>"
  have user: "users ?W uid = Some u" using assms(4) by simp
  from assms(1) user show ?thesis
  proof (cases rule: keystone_update_cases
      [where updated = "notify E ''updated'' ''user''" and pw = "new_password E w"])
    case (1 e)
    from reset_update_refused [OF assms(4) r assms(7) 1] assms(8) show ?thesis by simp
  next
    case (2 u')
    from 2(1) assms(2,4) have id: "u_id u' = uid" by (simp add: users_keyed_def)
    from 2(4) have upd: "ks_update_user E (notify E ''updated'' ''user'') uid (new_password E w) ?W =
        notify E ''updated'' ''user'' uid (?W\<lparr>users := (users w)(uid \<mapsto> u')\<rparr>)" by simp
    note res = reset_valid_result [OF assms(4,5) r assms(7,3) id upd[simplified] assms(8)]
    show ?thesis
      using res(1,2,4) res(3) [OF refl] 2(3)
      by (intro exI [of _ "new_password E w"] exI [of _ u'] exI [of _ "reset_row E w r"])
        (auto simp: reset_row_def new_password_def)
  qed
qed

lemma demo_send_email: "\<exists>v. send_email demo_env to subject text w = (Inr True, v)"
  by (simp add: send_email_def smtp_open_def smtp_try_def bnd_def smtp_deliver_def Let_def)

lemma demo_reset_answers:
  "\<exists>resp v. reset_password demo_env ''u1'' (Some ''0a1b2c'') (demo_world demo_row_2fa) = (Inr resp, v)"
proof -
  let ?W = "reset_world demo_env ''u1'' (demo_world demo_row_2fa)
     (demo_user\<lparr>u_hash := new_password demo_env (demo_world demo_row_2fa)\<rparr>) demo_row_2fa"
  obtain v where send: "send_new_password_email demo_env ''u1@example.org''
      (new_password demo_env (demo_world demo_row_2fa)) ?W = (Inr True, v)"
    using demo_send_email unfolding send_new_password_email_def by blast
  show ?thesis
    by (subst reset_valid_run [where u = demo_user and to = "''u1@example.org''" and r = demo_row_2fa
        and u' = "demo_user\<lparr>u_hash := new_password demo_env (demo_world demo_row_2fa)\<rparr>"])
      (simp_all add: demo_update send bnd_def del: demo_env_simps(8))
qed

theorem reset_installs_mailed_password_witness:
  "\<exists>resp v. reset_password demo_env ''u1'' (Some ''0a1b2c'') (demo_world demo_row_2fa) =
     (Inr resp, v) \<and> status resp = 200 \<and> (\<exists>u'. users v ''u1'' = Some u' \<and> length (u_hash u') = 12)"
proof -
  let ?w = "demo_world demo_row_2fa"
  from demo_reset_answers obtain resp v where
    run: "reset_password demo_env ''u1'' (Some ''0a1b2c'') ?w = (Inr resp, v)" by blast
  have keyed: "users_keyed ?w" by (simp add: users_keyed_def)
  have given: "enabled (conf demo_env)" "users ?w ''u1'' = Some demo_user"
      "u_email demo_user = Some ''u1@example.org''" "email_pending ''u1'' ?w = Some ''0a1b2c''"
      "''0a1b2c'' \<noteq> ''''"
    by (simp_all add: email_pending_def)
  obtain pw u' where "length pw = 12" "ks_check_password demo_env pw u' = Inr True"
      "users v = (users ?w)(''u1'' \<mapsto> u')" "status resp = 200"
    using reset_installs_mailed_password [OF demo_keystone_update keyed given run] by blast
  with run show ?thesis by auto
qed

section \<open>Recovery of the password\<close>

definition recovery_mail :: "env \<Rightarrow> user \<Rightarrow> string \<Rightarrow> string \<Rightarrow> mail" where
  "recovery_mail E u to c = mime E to (Brand @ '' reset password procedure '')
     (''The reset password procedure has been started'' @ [CHR 0x0A] @
      ''Press in following link to complete your password reset: '' @
      mail_link (conf E) u ''/reset_password/'' c)"

text \<open>The world in which the mail is sent: a fresh code is stored and already confirmed.\<close>

definition recovery_world :: "env \<Rightarrow> string \<Rightarrow> world \<Rightarrow> spassword_row \<Rightarrow> world" where
  "recovery_world E uid w r = w\<lparr>table := (table w)(uid \<mapsto>
       r\<lparr>sndfa_email_code := Some (email_code E w), sndfa_email := Some True\<rparr>),
     uuids := Suc (uuids w)\<rparr>"

lemma recover_needs:
  assumes "recover_password E uid w = (Inr resp, v)" and "users_keyed w"
  obtains u to r where "users w uid = Some u" "u_email u = Some to" "table w uid = Some r"
    "truthy (sndfa_email r)" "enabled (conf E)" "conf_sndfa (conf E)"
proof -
  from assms(1) obtain u where u: "users w uid = Some u" "u_email u \<noteq> None"
      "email_verified (u_id u) w" "enabled (conf E)" "conf_sndfa (conf E)"
    by (auto simp: recover_password_def execE email_defined_Inr email_validated_Inr
        identity_get_user_Inr configured_run split: if_splits)
  moreover from u(1) assms(2) have "u_id u = uid" by (simp add: users_keyed_def)
  ultimately show thesis
    by (auto simp: email_verified_def split: option.splits intro: that)
qed

lemma recover_run:
  assumes "users w uid = Some u" and "u_id u = uid" and "u_email u = Some to"
    and "table w uid = Some r" and "truthy (sndfa_email r)"
    and "enabled (conf E)" and "conf_sndfa (conf E)"
  shows "recover_password E uid w =
     bnd (send_email E to (mail_subject (recovery_mail E u to (email_code E w)))
            (mail_body (recovery_mail E u to (email_code E w)))) (\<lambda>sent.
       if sent
       then ret (make_response (Text (''reset password email link sent to '' @ to))
                   200 (Some ''application/json''))
       else ret (make_response (Text (''reset password email link was not sent to '' @ to))
                   400 (Some ''application/json'')))
       (recovery_world E uid w r)"
proof -
  let ?r = "r\<lparr>sndfa_email_code := Some (email_code E w), sndfa_email := Some False\<rparr>"
  have verified: "check_user_has_email_validated u w = (Inr (), w)"
    using assms(2,4,5) by (simp add: email_validated_Inr email_verified_def)
  have ask: "user_ask_check_email_code E uid w =
      (Inr (email_code E w), w\<lparr>table := (table w)(uid \<mapsto> ?r), uuids := Suc (uuids w)\<rparr>)"
    using assms(4) by (simp add: user_ask_check_email_code_run bnd_def set_check_email_code_run)
  have check: "check_email_code uid (Some (email_code E w))
        (w\<lparr>table := (table w)(uid \<mapsto> ?r), uuids := Suc (uuids w)\<rparr>) =
      (Inr True, recovery_world E uid w r)"
    by (simp add: check_email_code_run(3) recovery_world_def)
  show ?thesis
    using assms(1,3,6,7)
    by (simp add: recover_password_def configured_run identity_get_user_run verified ask check
        user_check_email_code_def check_user_has_email_defined_def
        user_email_def Let_def recovery_mail_def mime_def bnd_Inr)
qed

text \<open>
  C22. A recovery that answers was asked for a user with a verified e-mail, with the second
  factor configured, and changes no password. It has status 200 exactly when one mail went to
  the user's own address, with the link that carries a fresh code, the first six hexadecimal
  digits of the next random UUID, which the request uses up; the e-mail is still verified, and that code and no other is accepted afterwards.
\<close>

theorem recovery_mails_the_code:
  assumes "users_keyed w" and "recover_password E uid w = (Inr resp, v)"
  shows "\<exists>u to c. users w uid = Some u \<and> u_email u = Some to \<and> email_verified uid w \<and>
     enabled (conf E) \<and> conf_sndfa (conf E) \<and> users v = users w \<and>
     c = take 6 (uuid_hex (uuid4 E (uuids w))) \<and> uuids v = Suc (uuids w) \<and> length c = 6 \<and>
     (status resp = 200 \<and> outbox v = outbox w @ [recovery_mail E u to c] \<or>
      status resp = 400 \<and> outbox v = outbox w) \<and>
     email_verified uid v \<and> (\<forall>g. fst (check_email_code uid g v) = Inr (g = Some c))"
proof -
  obtain u to r where ok: "users w uid = Some u" "u_email u = Some to" "table w uid = Some r"
    "truthy (sndfa_email r)" "enabled (conf E)" "conf_sndfa (conf E)"
    by (rule recover_needs [OF assms(2,1)])
  from ok(1) assms(1) have id: "u_id u = uid" by (simp add: users_keyed_def)
  let ?m = "recovery_mail E u to (email_code E w)" and ?W = "recovery_world E uid w r"
  obtain x v' where send: "send_email E to (mail_subject ?m) (mail_body ?m) ?W = (x, v')"
    by fastforce
  then obtain n sent where v': "v' = ?W\<lparr>conns := n, outbox := outbox ?W @ sent\<rparr>"
    and sent: "x = Inr True \<Longrightarrow> sent = [mime E to (mail_subject ?m) (mail_body ?m)]"
      "x = Inr False \<Longrightarrow> sent = []" by (rule mailer.send_world) blast
  have mail: "mime E to (mail_subject ?m) (mail_body ?m) = ?m"
    by (simp add: recovery_mail_def mime_def)
  from recover_run [OF ok(1) id ok(2-6)] assms(2) send
  obtain b where v: "x = Inr b" "v = v'" "status resp = (if b then 200 else 400)"
    by (cases x) (auto simp: bnd_def make_response_def split: if_splits)
  have row: "table v uid = Some (r\<lparr>sndfa_email_code := Some (email_code E w), sndfa_email := Some True\<rparr>)"
    using v(2) v' by (simp add: recovery_world_def)
  have "fst (check_email_code uid g v) = Inr (g = Some (email_code E w))" for g
    by (simp add: check_email_code_run(3) [OF row])
  moreover have "users v = users w" "email_verified uid v" "email_verified uid w"
    "uuids v = Suc (uuids w)"
    using v(2) v' row ok(3,4) by (simp_all add: recovery_world_def email_verified_def)
  moreover have "status resp = 200 \<and> outbox v = outbox w @ [?m] \<or>
      status resp = 400 \<and> outbox v = outbox w"
    using v v' sent mail by (cases b) (auto simp: recovery_world_def)
  ultimately show ?thesis using ok length_email_code email_code_def by blast
qed

theorem recovery_mails_the_code_witness:
  "\<exists>resp v c. recover_password demo_env ''u1'' (demo_world demo_row_2fa) = (Inr resp, v) \<and>
     outbox v = [recovery_mail demo_env demo_user ''u1@example.org'' c] \<and> length c = 6"
proof -
  let ?w = "demo_world demo_row_2fa"
  let ?m = "recovery_mail demo_env demo_user ''u1@example.org'' (email_code demo_env ?w)"
  obtain v where "send_email demo_env ''u1@example.org'' (mail_subject ?m) (mail_body ?m)
      (recovery_world demo_env ''u1'' ?w demo_row_2fa) = (Inr True, v)"
    using demo_send_email by blast
  then obtain resp where run: "recover_password demo_env ''u1'' ?w = (Inr resp, v)"
      "status resp = 200"
    by (simp add: recover_run [where u = demo_user and to = "''u1@example.org''"
          and r = demo_row_2fa] bnd_Inr make_response_def)
  have keyed: "users_keyed ?w" by (simp add: users_keyed_def)
  have "status resp \<noteq> 400" using run(2) by simp
  with recovery_mails_the_code [OF keyed run(1)] obtain u to c where
    "users ?w ''u1'' = Some u" "u_email u = Some to" "length c = 6"
    "outbox v = outbox ?w @ [recovery_mail demo_env u to c]" by blast
  with run(1) show ?thesis by auto
qed

section \<open>Requests that keystone's policy decides\<close>

text \<open>
  What the code relies on in keystone's enforcer: checking a rule changes nothing, as long as
  the target builder it is given changes nothing.
\<close>

definition enforcer_reads :: "keystone_api \<Rightarrow> bool" where
  "enforcer_reads K \<longleftrightarrow> (\<forall>action build. keeps (=) build \<longrightarrow> keeps (=) (enforce_call K action build))"

lemma enforce_call_reads:
  assumes "enforcer_reads K"
    and "enforce_call K action (build_user_target_enforcement K req) w = (x, v)"
  shows "v = w"
  using assms keeps_build_target [of K req] unfolding enforcer_reads_def
  by (metis keepsD)

lemma demo_enforcer_reads [simp]: "enforcer_reads demo_api"
  unfolding enforcer_reads_def
  by (simp add: readonly.keeps_bnd readonly.keeps_ret)

text \<open>
  C30. Keystone's policy guards the six handlers that need a token: when it refuses, the
  request ends in an exception and nothing has changed, neither the table nor the users nor
  the mails. The four handlers without a configuration check end in the refusal itself.
\<close>

theorem policy_refusal_changes_nothing:
  assumes "enforcer_reads K"
    and "\<And>action. action \<in> {''identity:update_user'', ''identity:get_user''} \<Longrightarrow>
      fst (enforce_call K action (build_user_target_enforcement K req) w) = Inl e"
  shows "get_sndfa_resource E K uid req w = (Inl e, w) \<and>
     get_black_resource E K uid req w = (Inl e, w) \<and>
     user_project_roles_resource K uid req w = (Inl e, w) \<and>
     ask_check_email_resource E K uid req w = (Inl e, w) \<and>
     (\<exists>e'. modify_sndfa_resource E K uid req w = (Inl e', w)) \<and>
     (\<exists>e'. modify_black_resource E K uid req w = (Inl e', w))"
proof -
  have refused: "enforce_call K action (build_user_target_enforcement K req) w = (Inl e, w)"
    if "action \<in> {''identity:update_user'', ''identity:get_user''}" for action
    using assms(2) [OF that] enforce_call_reads [OF assms(1)]
    by (metis prod.collapse)
  note get = refused [of "''identity:get_user''", simplified]
  note upd = refused [of "''identity:update_user''", simplified]
  have "\<exists>e'. modify_sndfa_resource E K uid req w = (Inl e', w)"
    by (simp add: modify_sndfa_resource_def bnd_def configured_run upd split: sum.splits)
  moreover have "\<exists>e'. modify_black_resource E K uid req w = (Inl e', w)"
    by (simp add: modify_black_resource_def bnd_def configured_run upd split: sum.splits)
  ultimately show ?thesis
    by (simp add: get_sndfa_resource_def get_black_resource_def user_project_roles_resource_def
        ask_check_email_resource_def bnd_Inl get upd)
qed

definition deny_api :: keystone_api where
  "deny_api = demo_api\<lparr>enforce_call := (\<lambda>_ _. raise (Forbidden ''policy''))\<rparr>"

lemma deny_api_simps [simp]: "enforce_call deny_api action build = raise (Forbidden ''policy'')"
  by (simp add: deny_api_def)

theorem policy_refusal_changes_nothing_witness:
  "get_sndfa_resource demo_env deny_api ''u1'' (demo_body ''x'') (demo_world demo_row) =
     (Inl (Forbidden ''policy''), demo_world demo_row)"
proof -
  have "enforcer_reads deny_api"
    unfolding enforcer_reads_def by (simp add: readonly.keeps_raise)
  from policy_refusal_changes_nothing [OF this, where e = "Forbidden ''policy''"
      and req = "demo_body ''x''" and w = "demo_world demo_row" and E = demo_env and uid = "''u1''"]
  show ?thesis by simp
qed

section \<open>The second factor and the black list of a user\<close>

lemma modify_sndfa_changes:
  assumes "modify_sndfa uid b w = (x, v)" and "table v \<noteq> table w"
  shows "x = Inr True \<and> email_verified uid w \<and>
     (\<exists>r. table w uid = Some r \<and> v = with_row w uid (r\<lparr>sndfa := Some b\<rparr>))"
  using assms
  by (cases "table w uid") (auto simp: modify_sndfa_run email_verified_def split: if_splits)

text \<open>A computation that changes something has passed the checks it starts with.\<close>

lemma passed_check:
  assumes "keeps (=) m" and "v \<noteq> w"
  shows "bnd m f w = (x, v) \<longleftrightarrow> (\<exists>y. m w = (Inr y, w) \<and> f y w = (x, v))"
proof (cases "m w")
  case (Pair y t)
  with assms(1) have "w = t" by (rule keepsD)
  with Pair assms(2) show ?thesis by (cases y) (auto simp: bnd_def)
qed

lemma keeps_checks:
  "keeps (=) (check_spassword_configured E)" "keeps (=) (check_user_has_email_defined u)"
  "keeps (=) (check_user_has_email_validated u)"
  by (auto simp: keeps_def configured_run check_user_has_email_defined_def
      check_user_has_email_validated_def already_user_check_email_def bnd_def
      already_email_checked_run)

lemma keeps_enforce:
  "enforcer_reads K \<Longrightarrow> keeps (=) (enforce_call K action (build_user_target_enforcement K req))"
  using keeps_build_target [of K req] by (simp add: enforcer_reads_def)

lemma with_bool_passed:
  "v \<noteq> w \<Longrightarrow> with_bool j f w = (x, v) \<longleftrightarrow> (\<exists>b. j = JBool b \<and> f b w = (x, v))"
  by (cases j) (auto simp: with_bool_def)

lemmas passed_checks = with_bool_passed passed_check [OF readonly.keeps_lift]
  passed_check [OF keeps_identity_get_user] passed_check [OF keeps_checks(1)]
  passed_check [OF keeps_checks(2)] passed_check [OF keeps_checks(3)]

text \<open>
  C24. The second factor of a user is switched only by a request that passes every gate: the
  plugin configured, keystone's policy for updating a user, a known user with an e-mail that
  is verified, and a JSON Boolean in the body; then the flag of that user's row, and nothing
  else, takes the requested value, and the answer says so.
\<close>

theorem sndfa_switch_guarded:
  assumes "enforcer_reads K"
    and "modify_sndfa_resource E K uid req w = (x, v)" and "v \<noteq> w"
  shows "enabled (conf E) \<and> conf_sndfa (conf E) \<and>
     fst (enforce_call K ''identity:update_user'' (build_user_target_enforcement K req) w) = Inr () \<and>
     (\<exists>u. users w uid = Some u \<and> u_email u \<noteq> None) \<and> email_verified uid w \<and>
     (\<exists>b r. json_get ''enable'' (JBool False) (request_body_json req) = Inr (JBool b) \<and>
        table w uid = Some r \<and> v = with_row w uid (r\<lparr>sndfa := Some b\<rparr>) \<and>
        x = Inr (modified_response True))"
proof -
  note passed = passed_checks passed_check [OF keeps_enforce [OF assms(1)]]
  from assms(2,3) obtain y u b where
    "check_spassword_configured E w = (Inr (), w)"
    and enable: "json_get ''enable'' (JBool False) (request_body_json req) = Inr (JBool b)"
    and "enforce_call K ''identity:update_user'' (build_user_target_enforcement K req) w = (Inr y, w)"
    and "identity_get_user uid w = (Inr u, w)"
    and "check_user_has_email_defined u w = (Inr (), w)"
    and switch: "bnd (modify_sndfa uid b) (\<lambda>res. ret (modified_response res)) w = (x, v)"
    unfolding modify_sndfa_resource_def user_modify_sndfa_def by (auto simp: passed)
  moreover from switch assms(3) have "\<exists>r. table w uid = Some r \<and> truthy (sndfa_email r) \<and>
      v = with_row w uid (r\<lparr>sndfa := Some b\<rparr>) \<and> x = Inr (modified_response True)"
    by (cases "table w uid") (auto simp: bnd_def modify_sndfa_run split: if_splits)
  ultimately show ?thesis
    by (auto simp: configured_run identity_get_user_Inr email_defined_Inr email_verified_def
        split: if_splits)
qed

definition demo_switch :: "json \<Rightarrow> request" where
  "demo_switch j = \<lparr>request_body_json = JObj [(''enable'', j)], view_args = [''user_id'' \<mapsto> ''u1'']\<rparr>"

lemma demo_switch_simps [simp]:
  "request_body_json (demo_switch j) = JObj [(''enable'', j)]"
  "view_args (demo_switch j) = [''user_id'' \<mapsto> ''u1'']"
  by (simp_all add: demo_switch_def)

lemma demo_target [simp]:
  "build_user_target_enforcement demo_api (demo_switch j) (demo_world r) =
     (Inr \<lparr>target_user = Some demo_user, target_group = None\<rparr>, demo_world r)"
  by (simp add: build_user_target_enforcement_def catch_def bnd_def identity_get_user_run
      py_str_opt_def)

theorem sndfa_switch_guarded_witness:
  "modify_sndfa_resource demo_env demo_api ''u1'' (demo_switch (JBool False)) (demo_world demo_row_2fa) =
     (Inr (modified_response True),
      with_row (demo_world demo_row_2fa) ''u1'' (demo_row_2fa\<lparr>sndfa := Some False\<rparr>)) \<and>
   email_verified ''u1'' (demo_world demo_row_2fa)"
proof -
  let ?w = "demo_world demo_row_2fa"
  let ?v = "with_row ?w ''u1'' (demo_row_2fa\<lparr>sndfa := Some False\<rparr>)"
  have "check_user_has_email_validated demo_user ?w = (Inr (), ?w)"
    by (simp add: email_validated_Inr email_verified_def)
  then have run: "modify_sndfa_resource demo_env demo_api ''u1'' (demo_switch (JBool False)) ?w =
      (Inr (modified_response True), ?v)"
    by (simp add: modify_sndfa_resource_def configured_run json_get_def bnd_Inr
        identity_get_user_run check_user_has_email_defined_def with_bool_def
        user_modify_sndfa_def modify_sndfa_run)
  have "sndfa (the (table ?v ''u1'')) \<noteq> sndfa (the (table ?w ''u1''))" by simp
  then have "?v \<noteq> ?w" by metis
  from sndfa_switch_guarded [OF demo_enforcer_reads run this] run show ?thesis by blast
qed

lemma py_eval_str_bool [simp]: "py_eval (py_str_bool b) = Inr b"
  by (simp add: py_eval_def py_str_bool_def)

text \<open>
  C28. The black list of expiration: a request that changes anything has passed the
  configuration check and keystone's policy, and carries a Boolean; the stored text evaluates
  back to that Boolean, which is what the driver reports from then on, and while it is true
  the user's password never counts as expired, whatever its age.
\<close>

theorem black_list_round_trip:
  assumes "enforcer_reads K"
    and "modify_black_resource E K uid req w = (x, v)" and "v \<noteq> w"
  shows "enabled (conf E) \<and> conf_sndfa (conf E) \<and>
     fst (enforce_call K ''identity:update_user'' (build_user_target_enforcement K req) w) = Inr () \<and>
     (\<exists>b r. json_get ''enable'' (JBool False) (request_body_json req) = Inr (JBool b) \<and>
        table w uid = Some r \<and> v = with_row w uid (r\<lparr>extra := [''black'' \<mapsto> py_str_bool b]\<rparr>) \<and>
        get_black uid v = (Inr b, v) \<and>
        (b \<and> pwd_user_blacklist (conf E) \<noteq> None \<longrightarrow>
           (\<forall>u. u_id u = uid \<longrightarrow> check_expiration E u v = (Inr (), v))))"
proof -
  note passed = passed_checks passed_check [OF keeps_enforce [OF assms(1)]]
  from assms(2,3) obtain y b where conf: "check_spassword_configured E w = (Inr (), w)"
    and "json_get ''enable'' (JBool False) (request_body_json req) = Inr (JBool b)"
    and "enforce_call K ''identity:update_user'' (build_user_target_enforcement K req) w = (Inr y, w)"
    and switch: "bnd (modify_black uid b) (\<lambda>res. ret (modified_response res)) w = (x, v)"
    unfolding modify_black_resource_def user_modify_black_def by (auto simp: passed)
  moreover from switch assms(3) obtain r where r: "table w uid = Some r"
      "v = with_row w uid (r\<lparr>extra := [''black'' \<mapsto> py_str_bool b]\<rparr>)"
    by (cases "table w uid") (auto simp: bnd_def modify_black_run)
  moreover from r(2) have "get_black uid v = (Inr b, v)"
    by (simp add: get_black_run)
  moreover have "check_expiration E u v = (Inr (), v)"
    if "b" "pwd_user_blacklist (conf E) \<noteq> None" "u_id u = uid" for u
    using that r(2) by (auto simp: check_expiration_def in_user_black_def)
  ultimately show ?thesis
    by (auto simp: configured_run split: if_splits)
qed

theorem black_list_round_trip_witness:
  "\<exists>v. modify_black_resource demo_env demo_api ''u1'' (demo_switch (JBool True)) (demo_world demo_row) =
     (Inr (modified_response True), v) \<and> get_black ''u1'' v = (Inr True, v)"
proof -
  let ?w = "demo_world demo_row"
  let ?v = "with_row ?w ''u1'' (demo_row\<lparr>extra := [''black'' \<mapsto> py_str_bool True]\<rparr>)"
  have run: "modify_black_resource demo_env demo_api ''u1'' (demo_switch (JBool True)) ?w =
      (Inr (modified_response True), ?v)"
    by (simp add: modify_black_resource_def configured_run json_get_def bnd_Inr
        identity_get_user_run with_bool_def user_modify_black_def modify_black_run)
  have "extra (the (table ?v ''u1'')) ''black'' \<noteq> extra (the (table ?w ''u1'')) ''black''" by simp
  then have "?v \<noteq> ?w" by metis
  from black_list_round_trip [OF demo_enforcer_reads run this] obtain b where
    "json_get ''enable'' (JBool False) (request_body_json (demo_switch (JBool True))) = Inr (JBool b)"
    "get_black ''u1'' ?v = (Inr b, ?v)" by blast
  moreover from this(1) have "b" by (simp add: json_get_def)
  ultimately show ?thesis using run by auto
qed

end
