(* ===== verification/SP_Reports.thy ===== *)
theory SP_Reports
  imports SP_Rest
begin

text \<open>
  Properties of what the plugin reports and of how it follows keystone: the expiration date,
  the roles of a user, the outcome of a mail, and the notifications about users.
\<close>

section \<open>The expiration date\<close>

text \<open>
  C29. The three places that compute the expiration of a password agree: the date that
  \<open>get_pwd_expiration\<close> reports is the one in the extra data of a login, and a login is
  refused as expired exactly when that date lies in the past.
\<close>

theorem expiration_reports_agree:
  assumes "enabled (conf E)" and "pwd_user_blacklist (conf E) = Some ids" and "u_id u \<notin> set ids"
    and "table w (u_id u) = Some r" and "creation_time r = Some d" and "in_user_black r = Inr False"
    and "in_years (wall d + timedelta_days (pwd_exp_days (conf E)))"
    and "in_years (clock E (ticks w) - timedelta_days (pwd_exp_days (conf E)))"
  shows "\<exists>e. get_pwd_expiration E (u_id u) w = (Inr (Inr (naive e)), w) \<and>
     fst (check_expiration E u w) =
       (if e < clock E (ticks w) then Inl (SPasswordUnauthorized (expired_msg (user_name r)))
        else Inr ()) \<and>
     (\<exists>m. count_attempt E (u_id u) r (Inr u) w =
         (Inr (Inr \<lparr>ref_user = u, ref_extras = Some m\<rparr>, 0), w) \<and>
       m ''password_expiration_time'' = Some (PIso (naive e)))"
proof -
  let ?e = "wall d + timedelta_days (pwd_exp_days (conf E))"
  have "get_pwd_expiration E (u_id u) w = (Inr (Inr (naive ?e)), w)"
    using assms(4,5,7) by (simp add: get_pwd_expiration_run)
  moreover have "fst (check_expiration E u w) =
       (if ?e < clock E (ticks w) then Inl (SPasswordUnauthorized (expired_msg (user_name r)))
        else Inr ())"
    using assms by (auto simp: check_expiration_def)
  moreover have "\<exists>m. count_attempt E (u_id u) r (Inr u) w =
         (Inr (Inr \<lparr>ref_user = u, ref_extras = Some m\<rparr>, 0), w) \<and>
       m ''password_expiration_time'' = Some (PIso (naive ?e))"
    using assms by (simp add: count_attempt_def login_extras_def)
  ultimately show ?thesis by blast
qed

theorem expiration_reports_agree_witness:
  "\<exists>e. get_pwd_expiration demo_env ''u1'' (demo_world demo_row) =
       (Inr (Inr (naive e)), demo_world demo_row) \<and>
     fst (check_expiration demo_env demo_user (demo_world demo_row)) =
       (if e < demo_now then Inl (SPasswordUnauthorized (expired_msg (Some ''demo''))) else Inr ())"
proof -
  let ?w = "demo_world demo_row"
  have given: "enabled (conf demo_env)" "pwd_user_blacklist (conf demo_env) = Some [''admin'']"
    "u_id demo_user \<notin> set [''admin'']" "table ?w (u_id demo_user) = Some demo_row"
    "creation_time demo_row = Some (naive (demo_now - 1000000))"
    "in_user_black demo_row = Inr False"
    by (simp_all add: in_user_black_def)
  have years: "in_years (wall (naive (demo_now - 1000000)) + timedelta_days (pwd_exp_days (conf demo_env)))"
    "in_years (clock demo_env (ticks ?w) - timedelta_days (pwd_exp_days (conf demo_env)))"
    by (simp_all add: in_years_def demo_times)
  obtain e where "get_pwd_expiration demo_env (u_id demo_user) ?w = (Inr (Inr (naive e)), ?w)"
    "fst (check_expiration demo_env demo_user ?w) =
       (if e < clock demo_env (ticks ?w)
        then Inl (SPasswordUnauthorized (expired_msg (user_name demo_row))) else Inr ())"
    using expiration_reports_agree [OF given years] by blast
  moreover have "clock demo_env (ticks ?w) = demo_now" by simp
  ultimately show ?thesis by (intro exI [of _ e]) simp
qed

section \<open>Roles of a user\<close>

lemma mapE_lift_Inr:
  "(\<And>x. x \<in> set xs \<Longrightarrow> f x w = (Inr (g x), w)) \<Longrightarrow> mapE f xs w = (Inr (map g xs), w)"
  by (induction xs) (simp_all add: bnd_Inr)

text \<open>
  The two nested loops over projects and roles answer exactly one entry per pair of a
  project of the user and a role of the user in it, in the order of keystone's lists, and
  change nothing.
\<close>

lemma project_roles_complete:
  assumes "enforce_call K ''identity:get_user'' (build_user_target_enforcement K req) w = (Inr (), w)"
    and "users w uid = Some u"
    and "list_projects_for_user K uid = Inr ps"
    and "\<And>p. p \<in> set ps \<Longrightarrow> get_roles_for_user_and_project K uid (p_id p) = Inr (roles (p_id p))"
    and "\<And>p r. p \<in> set ps \<Longrightarrow> r \<in> set (roles (p_id p)) \<Longrightarrow> get_role_name K r = Inr (name r)"
  shows "user_project_roles_resource K uid req w =
     (Inr (make_response (Dumps (JArr [role_entry u uid p r (name r). p \<leftarrow> ps, r \<leftarrow> roles (p_id p)]))
        200 (Some ''application/json'')), w)"
proof -
  have "project_roles K u uid p w = (Inr [role_entry u uid p r (name r). r \<leftarrow> roles (p_id p)], w)"
    if "p \<in> set ps" for p
    unfolding project_roles_def using assms(4,5) [OF that]
    by (simp add: bnd_lift, intro mapE_lift_Inr, simp)
  then have "mapE (project_roles K u uid) ps w =
      (Inr (map (\<lambda>p. [role_entry u uid p r (name r). r \<leftarrow> roles (p_id p)]) ps), w)"
    by (rule mapE_lift_Inr)
  then show ?thesis
    using assms(1-3) by (simp add: user_project_roles_resource_def bnd_Inr identity_get_user_run)
qed

section \<open>The outcome of a mail\<close>

text \<open>The conversation with the server up to the mail: connection, TLS and login.\<close>

definition smtp_ready :: "env \<Rightarrow> smtp_conn \<Rightarrow> bool" where
  "smtp_ready E server \<longleftrightarrow> (let c = conf E in
     smtp_connect server (smtp_server c) (smtp_port c) = None \<and>
     (smtp_tls c \<longrightarrow> smtp_ehlo server = None \<and> smtp_starttls server = None) \<and>
     (smtp_user c \<noteq> '''' \<and> smtp_password c \<noteq> '''' \<longrightarrow>
        smtp_login server (smtp_user c) (smtp_password c) = None))"

lemma send_email_ready:
  "smtp_ready E (smtp E (conns w)) \<Longrightarrow> send_email E to subject text w =
     smtp_deliver (smtp E (conns w)) (mime E to subject text) (w\<lparr>conns := Suc (conns w)\<rparr>)"
  by (auto simp: smtp_ready_def send_email_def smtp_open_def smtp_try_def bnd_def Let_def)

lemma send_email_not_ready:
  assumes "\<not> smtp_ready E (smtp E (conns w))"
  shows "\<exists>x. send_email E to subject text w = (x, w\<lparr>conns := Suc (conns w)\<rparr>) \<and> x \<noteq> Inr True"
proof -
  let ?c = "conf E" and ?s = "smtp E (conns w)"
  let ?tls = "smtp_tls ?c \<and> (smtp_ehlo ?s \<noteq> None \<or> smtp_starttls ?s \<noteq> None)"
  show ?thesis
  proof (cases "smtp_connect ?s (smtp_server ?c) (smtp_port ?c)")
    case (Some e)
    then show ?thesis by (simp add: send_email_run)
  next
    case connected: None
    show ?thesis
    proof (cases ?tls)
      case True
      with connected show ?thesis by (auto simp: send_email_run split: option.splits)
    next
      case False
      with connected assms obtain e where "smtp_user ?c \<noteq> ''''" "smtp_password ?c \<noteq> ''''"
          "smtp_login ?s (smtp_user ?c) (smtp_password ?c) = Some e"
        by (auto simp: smtp_ready_def Let_def)
      with connected False show ?thesis by (simp add: send_email_run)
    qed
  qed
qed

text \<open>
  C31. A mail leaves exactly when the conversation gets as far as the mail and the server
  takes it; then it is the one message asked for. \<open>send_email\<close> answers \<open>True\<close> exactly when,
  besides, the connection closes without an error: an error of \<open>quit\<close> makes a mail that was
  sent end in an exception.
\<close>

theorem mail_outcome:
  "send_email E to subject text w = (x, v) \<Longrightarrow>
     (outbox v = (if smtp_ready E (smtp E (conns w)) \<and>
          smtp_sendmail (smtp E (conns w)) (mime E to subject text) = None
        then outbox w @ [mime E to subject text] else outbox w)) \<and>
     (x = Inr True \<longleftrightarrow> smtp_ready E (smtp E (conns w)) \<and>
        smtp_sendmail (smtp E (conns w)) (mime E to subject text) = None \<and>
        smtp_quit (smtp E (conns w)) = None) \<and>
     table v = table w \<and> users v = users w"
proof (cases "smtp_ready E (smtp E (conns w))")
  case True
  assume "send_email E to subject text w = (x, v)"
  with True show ?thesis
    by (auto simp: send_email_ready smtp_deliver_def smtp_try_def split: option.splits)
next
  case False
  assume "send_email E to subject text w = (x, v)"
  with send_email_not_ready [OF False, of to subject "text"] False show ?thesis by auto
qed

theorem mail_outcome_witness:
  "\<exists>v. send_email demo_env ''a@b.org'' ''s'' ''t'' (demo_world demo_row) = (Inr True, v) \<and>
     outbox v = [mime demo_env ''a@b.org'' ''s'' ''t'']"
proof -
  obtain v where run: "send_email demo_env ''a@b.org'' ''s'' ''t'' (demo_world demo_row) = (Inr True, v)"
    using demo_send_email by blast
  from mail_outcome [OF run] run show ?thesis by (simp split: if_splits)
qed

section \<open>Notifications\<close>

text \<open>
  C32. Any notification that a user was updated, whatever was updated, renews the date of the
  user's password and clears the count of bad attempts, so that a blocked user may try again at
  once. Every other column of the row stays; a user without a row gets one, with the second
  factor off and the e-mail unverified. No other row changes.
\<close>

theorem update_unblocks:
  assumes "enabled (conf E)" and "pwd_user_blacklist (conf E) = Some ids"
    and "0 \<le> pwd_max_tries (conf E)" and "users w uid = Some u" and "u_id u = uid"
  shows "\<exists>v r. notify E ''updated'' ''user'' uid w = (Inr (), v) \<and> table v = (table w)(uid \<mapsto> r) \<and>
     users v = users w \<and> outbox v = outbox w \<and>
     creation_time r = Some (naive (clock E (ticks w))) \<and> login_attempts r = Some 0 \<and>
     (case table w uid of
        Some s \<Rightarrow> r = s\<lparr>creation_time := creation_time r, login_attempts := login_attempts r\<rparr>
      | None \<Rightarrow> user_id r = Some uid \<and> user_name r = Some (u_name u) \<and> sndfa r = Some False \<and>
          sndfa_email r = Some False \<and> sndfa_code r = None \<and> sndfa_email_code r = None) \<and>
     check_block E uid v = (Inr (), v)"
proof -
  let ?now = "naive (clock E (ticks w))" and ?w = "w\<lparr>ticks := Suc (ticks w)\<rparr>"
  obtain r where r: "update_user_modification_time E u w = (Inr (), with_row ?w uid r)"
    "creation_time r = Some ?now" "login_attempts r = Some 0"
    "case table w uid of
        Some s \<Rightarrow> r = s\<lparr>creation_time := creation_time r, login_attempts := login_attempts r\<rparr>
      | None \<Rightarrow> user_id r = Some uid \<and> user_name r = Some (u_name u) \<and> sndfa r = Some False \<and>
          sndfa_email r = Some False \<and> sndfa_code r = None \<and> sndfa_email_code r = None"
    using assms(5)
    by (cases "table w uid")
      (auto simp: update_user_modification_time_run user_row_def no_sndfa_def column_defaults_def
        blank_row_def)
  have "check_block E uid (with_row ?w uid r) = (Inr (), with_row ?w uid r)"
    using assms(1-3) r(3) by (auto simp: check_block_def py_gt_def)
  with assms(1,4) r show ?thesis
    by (intro exI [of _ "with_row ?w uid r"] exI [of _ r])
      (simp add: notify_user_updated user_updated_callback_def bnd_Inr get_user_run)
qed

theorem update_unblocks_witness:
  "\<exists>v r. notify demo_env ''updated'' ''user'' ''u1'' (demo_world (demo_row_2fa\<lparr>login_attempts := Some 9\<rparr>)) =
       (Inr (), v) \<and> table v ''u1'' = Some r \<and> login_attempts r = Some 0 \<and> sndfa r = Some True"
proof -
  let ?s = "demo_row_2fa\<lparr>login_attempts := Some 9\<rparr>"
  obtain v r where told: "notify demo_env ''updated'' ''user'' ''u1'' (demo_world ?s) = (Inr (), v)"
    "table v = (table (demo_world ?s))(''u1'' \<mapsto> r)" "login_attempts r = Some 0"
    "case table (demo_world ?s) ''u1'' of
        Some s \<Rightarrow> r = s\<lparr>creation_time := creation_time r, login_attempts := login_attempts r\<rparr>
      | None \<Rightarrow> user_id r = Some ''u1'' \<and> user_name r = Some (u_name demo_user) \<and> sndfa r = Some False \<and>
          sndfa_email r = Some False \<and> sndfa_code r = None \<and> sndfa_email_code r = None"
    using update_unblocks [of demo_env "[''admin'']" "demo_world ?s" "''u1''" demo_user] by auto
  then have "r = ?s\<lparr>creation_time := creation_time r, login_attempts := login_attempts r\<rparr>" by simp
  then have "sndfa r = sndfa (?s\<lparr>creation_time := creation_time r, login_attempts := login_attempts r\<rparr>)"
    by (rule arg_cong)
  then have "sndfa r = Some True" by simp
  with told(1-3) show ?thesis by simp
qed

end
