(* ===== verification/SP_Plugin.thy ===== *)
theory SP_Plugin
  imports SP_Reports "HOL-Library.AList"
begin

text \<open>
  \<open>core.py\<close>: the authentication plugin \<open>SPassword\<close>, which keystone calls for the method
  \<open>password\<close>. The dict \<open>user_context\<close> is an association list in insertion order. The
  method updates the caller's dict in place when it is not empty, and otherwise works on a
  new one; the result therefore holds the caller's dict after the call besides the value
  returned. \<open>create\<close> is keystone's \<open>UserAuthInfo.create\<close>, \<open>auth\<close> its identity manager's
  \<open>authenticate\<close>, which hands the call to the backend of \<open>SP_Identity\<close>.
\<close>

datatype context_value = CText string | CExtras "string \<rightharpoonup> pyval"

type_synonym context_dict = "(string \<times> context_value) list"

record auth_response =
  auth_status :: bool
  response_data :: context_dict

definition fill_context :: "string \<Rightarrow> auth_ref \<Rightarrow> context_dict \<Rightarrow> context_dict" where
  "fill_context uid res ctx =
     (let ctx = (if map_of ctx ''user_id'' = None then AList.update ''user_id'' (CText uid) ctx
                 else ctx) in
      case ref_extras res of
        None \<Rightarrow> ctx
      | Some m \<Rightarrow> AList.update ''extras'' (CExtras m) ctx)"

definition SPassword_authenticate ::
    "(json \<Rightarrow> exn + string \<times> string) \<Rightarrow> (string \<Rightarrow> string \<Rightarrow> auth_ref wexec) \<Rightarrow> string list \<Rightarrow>
     json \<Rightarrow> context_dict option \<Rightarrow> (context_dict option \<times> auth_response option) wexec" where
  "SPassword_authenticate create auth releases auth_payload user_context =
     bnd (lift (create auth_payload)) (\<lambda>(uid, password).
     bnd (catch (auth uid password)
            (\<lambda>e. if e = AssertionError
                  then Some (raise (Unauthorized ''Invalid username or password''))
                  else None)) (\<lambda>res.
     let caller_dict = (case user_context of None \<Rightarrow> False | Some ctx \<Rightarrow> ctx \<noteq> []);
         ctx = fill_context uid res (case user_context of None \<Rightarrow> [] | Some ctx \<Rightarrow> ctx) in
     ret (if caller_dict then Some ctx else user_context,
          if ''O'' \<in> set releases
          then Some \<lparr>auth_status = True, response_data = ctx\<rparr>
          else None)))"

lemma fill_context_extras:
  "ref_extras res = Some m \<Longrightarrow> map_of (fill_context uid res ctx) ''extras'' = Some (CExtras m)"
  by (simp add: fill_context_def Let_def AList.update_conv')

lemma fill_context_user:
  "map_of (fill_context uid res ctx) ''user_id'' =
     (case map_of ctx ''user_id'' of None \<Rightarrow> Some (CText uid) | Some x \<Rightarrow> Some x)"
  by (auto simp: fill_context_def Let_def AList.update_conv' split: option.splits)

lemma fill_context_other:
  "k \<noteq> ''user_id'' \<Longrightarrow> k \<noteq> ''extras'' \<Longrightarrow> map_of (fill_context uid res ctx) k = map_of ctx k"
  by (auto simp: fill_context_def Let_def AList.update_conv' split: option.splits)

section \<open>A good login always carries the dates\<close>

definition has_dates :: "auth_ref \<Rightarrow> bool" where
  "has_dates a \<longleftrightarrow> (\<exists>m e. ref_extras a = Some m \<and> m ''password_expiration_time'' = Some (PIso e))"

lemma has_dates_set_extra:
  "k \<noteq> ''password_expiration_time'' \<Longrightarrow> has_dates a \<Longrightarrow> has_dates (set_extra k x a)"
  by (auto simp: has_dates_def set_extra_def)

lemma count_attempt_dates:
  "count_attempt E uid r res w = (Inr (Inr a, n), v) \<Longrightarrow> has_dates a"
  by (cases res) (auto simp: count_attempt_def execE has_dates_def login_extras_def)

lemma second_factor_same:
  "second_factor E uid r a w = (Inr (Inr b), v) \<Longrightarrow> b = set_extra ''sndfa'' (py_opt PBool (sndfa r)) a"
  by (auto simp: second_factor_def execE Let_def split: if_splits)

lemma demand_sndfa_dates:
  "demand_sndfa E uid r (Inr a) w = (Inr (Inr b), v) \<Longrightarrow> has_dates a \<Longrightarrow> has_dates b"
  by (auto simp: demand_sndfa_def Let_def has_dates_set_extra dest!: second_factor_same
      split: if_splits)

lemma demand_sndfa_false: "demand_sndfa E uid r (Inl msg) w = (Inr res, v) \<Longrightarrow> res = Inl msg"
  by (simp add: demand_sndfa_def)

lemma known_user_dates:
  assumes "known_user E uid r now res w = (Inr (Inr a), v)"
  shows "has_dates a"
proof -
  from assms obtain res2 n w0 w1 where
    "count_attempt E uid r res w = (Inr (res2, n), w0)"
    "demand_sndfa E uid r res2 w0 = (Inr (Inr a), w1)"
    unfolding known_user_def by (auto simp: execE)
  then show ?thesis
    by (cases res2) (auto dest: demand_sndfa_false demand_sndfa_dates count_attempt_dates)
qed

lemma new_user_dates: "new_user E uid now res w = (Inr (Inr a), v) \<Longrightarrow> has_dates a"
  by (cases res) (auto simp: new_user_def execE Let_def has_dates_def registration_extras_def)

lemma authenticate_dates:
  assumes "Identity_authenticate E uid pw w = (Inr a, v)" and "enabled (conf E)"
  shows "has_dates a"
proof -
  from assms obtain res w1 where "record_attempt E uid res w1 = (Inr (Inr a), v)"
    by (auto simp: authenticate_Inr)
  with assms(2) show ?thesis
    by (cases "table w1 uid") (auto simp: record_attempt_def dest: known_user_dates new_user_dates)
qed

text \<open>
  C33. The authentication plugin answers exactly when the backend's login does, and changes the
  world as the login does. When the login answers, the response carries the extra data of that
  login and a user id: the one already in the context, else the one that logged in. The
  caller's own dict sees this only if it was not empty; on a release before \<open>O\<close> nothing is
  returned, so with an empty context the data is lost. When the login ends in an exception, so
  does the plugin: the same one, but for \<open>AssertionError\<close>, which becomes \<open>Unauthorized\<close>.
\<close>

theorem plugin_hands_over_extras:
  assumes "enabled (conf E)" and "create payload = Inr (uid, pw)"
  shows "case Identity_authenticate E uid pw w of
      (Inl e, v) \<Rightarrow> SPassword_authenticate create (Identity_authenticate E) releases payload ctx w =
        (Inl (if e = AssertionError then Unauthorized ''Invalid username or password'' else e), v)
    | (Inr a, v) \<Rightarrow> \<exists>m e d. ref_extras a = Some m \<and>
        m ''password_expiration_time'' = Some (PIso e) \<and>
        map_of d ''extras'' = Some (CExtras m) \<and>
        map_of d ''user_id'' = (case Option.bind ctx (\<lambda>c. map_of c ''user_id'') of
           None \<Rightarrow> Some (CText uid) | Some x \<Rightarrow> Some x) \<and>
        SPassword_authenticate create (Identity_authenticate E) releases payload ctx w =
          (Inr (if ctx = None \<or> ctx = Some [] then ctx else Some d,
             if ''O'' \<in> set releases then Some \<lparr>auth_status = True, response_data = d\<rparr> else None), v)"
proof -
  obtain x v where login: "Identity_authenticate E uid pw w = (x, v)" by fastforce
  show ?thesis
  proof (cases x)
    case (Inl e)
    with login assms(2) show ?thesis
      by (simp add: SPassword_authenticate_def bnd_def catch_def)
  next
    case (Inr a)
    let ?d = "fill_context uid a (case ctx of None \<Rightarrow> [] | Some c \<Rightarrow> c)"
    from login Inr obtain m e where
      m: "ref_extras a = Some m" "m ''password_expiration_time'' = Some (PIso e)"
      using authenticate_dates [OF _ assms(1)] unfolding has_dates_def by blast
    have "SPassword_authenticate create (Identity_authenticate E) releases payload ctx w =
        (Inr (if ctx = None \<or> ctx = Some [] then ctx else Some ?d,
           if ''O'' \<in> set releases then Some \<lparr>auth_status = True, response_data = ?d\<rparr> else None), v)"
      using login Inr assms(2)
      by (simp add: SPassword_authenticate_def bnd_def catch_def Let_def split: option.split)
    moreover have "map_of ?d ''user_id'' = (case Option.bind ctx (\<lambda>c. map_of c ''user_id'') of
        None \<Rightarrow> Some (CText uid) | Some x \<Rightarrow> Some x)"
      by (cases ctx) (simp_all add: fill_context_user)
    moreover note m fill_context_extras [OF m(1)]
    moreover have "Identity_authenticate E uid pw w = (Inr a, v)" using login Inr by simp
    ultimately show ?thesis
      by (simp only: prod.case sum.case) (intro exI [of _ m] exI [of _ e] exI [of _ ?d] conjI refl)
  qed
qed

theorem plugin_hands_over_extras_witness:
  "\<exists>resp m v d. SPassword_authenticate (\<lambda>_. Inr (''u1'', ''right'')) (Identity_authenticate demo_env)
       [''N'', ''O''] JNull None (demo_world demo_row_2fa) = (Inr (None, Some resp), v) \<and>
     map_of (response_data resp) ''extras'' = Some (CExtras m) \<and>
     m ''password_expiration_time'' = Some (PIso d)"
proof -
  obtain a v where
    login: "Identity_authenticate demo_env ''u1'' ''right'' (demo_world demo_row_2fa) = (Inr a, v)"
    using demo_login by blast
  have on: "enabled (conf demo_env)" by simp
  have create: "(\<lambda>_. Inr (''u1'', ''right'') :: exn + string \<times> string) JNull = Inr (''u1'', ''right'')"
    by simp
  from plugin_hands_over_extras [OF on create, where payload = JNull and ctx = None and releases = "[''N'', ''O'']"
      and w = "demo_world demo_row_2fa"] login
  obtain m e d where "m ''password_expiration_time'' = Some (PIso e)"
    "map_of d ''extras'' = Some (CExtras m)"
    "SPassword_authenticate (\<lambda>_. Inr (''u1'', ''right'')) (Identity_authenticate demo_env)
       [''N'', ''O''] JNull None (demo_world demo_row_2fa) =
     (Inr (None, Some \<lparr>auth_status = True, response_data = d\<rparr>), v)"
    by auto
  then show ?thesis by auto
qed

end
