(* ===== verification/SP_Invariant.thy ===== *)
theory SP_Invariant
  imports SP_Sound SP_Reports SP_Plugin
begin

text \<open>
  The invariant of the table \<open>spassword\<close>, kept by every operation of the plugin: what the
  code silently relies on when it reads a row. The lemmas are in the order driver, manager,
  login, resources; each also says which exceptions the operation may raise, for any set \<open>C\<close>
  of exceptions that contains the plugin's own and those of keystone and of SMTP.
\<close>

section \<open>Well-formed rows\<close>

definition code_ok :: "string option \<Rightarrow> bool" where
  "code_ok x \<longleftrightarrow> (case x of None \<Rightarrow> True
     | Some c \<Rightarrow> length c = 6 \<and> set c \<subseteq> set ''0123456789abcdef'')"

text \<open>
  \<open>wf_row\<close> is kept by every operation that is not cut into by others. \<open>row_ok False\<close>, without the
  condition that a verified e-mail has a code, is what operations that are cut into keep too
  (\<open>SP_Pools\<close>); the lemmas are for both.
\<close>

definition row_ok :: "bool \<Rightarrow> string \<Rightarrow> spassword_row \<Rightarrow> bool" where
  "row_ok strict uid r \<longleftrightarrow> user_id r = Some uid \<and> creation_time r \<noteq> None \<and>
     (\<exists>n. login_attempts r = Some n \<and> 0 \<le> n \<and> (0 < n \<longrightarrow> last_login_attempt_time r \<noteq> None)) \<and>
     sndfa r \<noteq> None \<and> sndfa_email r \<noteq> None \<and>
     (extra r = Map.empty \<or> (\<exists>b. extra r = [''black'' \<mapsto> py_str_bool b])) \<and>
     (strict \<and> sndfa_email r = Some True \<longrightarrow> sndfa_email_code r \<noteq> None) \<and>
     (sndfa_code r = None \<longleftrightarrow> sndfa_time_code r = None) \<and>
     (sndfa_last r \<noteq> None \<longrightarrow> sndfa_code r \<noteq> None) \<and>
     code_ok (sndfa_email_code r) \<and> code_ok (sndfa_code r)"

definition world_ok :: "bool \<Rightarrow> world \<Rightarrow> bool" where
  "world_ok strict w \<longleftrightarrow> users_keyed w \<and> (\<forall>uid r. table w uid = Some r \<longrightarrow> row_ok strict uid r)"

abbreviation wf_row :: "string \<Rightarrow> spassword_row \<Rightarrow> bool" where
  "wf_row \<equiv> row_ok True"

abbreviation wf_world :: "world \<Rightarrow> bool" where
  "wf_world \<equiv> world_ok True"

lemma wf_worldD: "world_ok strict w \<Longrightarrow> table w uid = Some r \<Longrightarrow> row_ok strict uid r"
  by (simp add: world_ok_def)

lemma wf_with_row:
  assumes "world_ok strict w" and "row_ok strict uid r"
  shows "world_ok strict (with_row w uid r)"
    and "world_ok strict (w\<lparr>ticks := i, table := (table w)(uid \<mapsto> r)\<rparr>)"
  using assms by (simp_all add: world_ok_def users_keyed_def)

lemma wf_fields [simp]:
  "world_ok strict (w\<lparr>ticks := i\<rparr>) = world_ok strict w" "world_ok strict (w\<lparr>uuids := i\<rparr>) = world_ok strict w"
  "world_ok strict (w\<lparr>conns := i\<rparr>) = world_ok strict w" "world_ok strict (w\<lparr>outbox := m\<rparr>) = world_ok strict w"
  by (simp_all add: world_ok_def users_keyed_def)

lemma code_ok_fresh [simp]: "code_ok (Some (take 6 (uuid_hex u)))"
  using set_uuid_hex [of u] set_take_subset [of 6 "uuid_hex u"] by (simp add: code_ok_def)

lemma code_ok_None [simp]: "code_ok None"
  by (simp add: code_ok_def)

lemma wf_user_row:
  "row_ok strict (u_id u) (column_defaults (user_row u now))"
  "row_ok strict (u_id u) (column_defaults ((user_row u now)\<lparr>login_attempts := Some 0\<rparr>))"
  "0 \<le> n \<Longrightarrow> row_ok strict (u_id u) (column_defaults ((user_row u now)\<lparr>
     last_login_attempt_time := Some now', login_attempts := Some n\<rparr>))"
  by (simp_all add: row_ok_def column_defaults_def user_row_def no_sndfa_def blank_row_def)

text \<open>The updates that the code makes to a row.\<close>

lemma wf_row_updates:
  assumes "row_ok strict uid r"
  shows "row_ok strict uid (r\<lparr>creation_time := Some d, login_attempts := Some 0\<rparr>)"
    "0 \<le> n \<Longrightarrow> row_ok strict uid (r\<lparr>login_attempts := Some n, last_login_attempt_time := Some d\<rparr>)"
    "code_ok (Some c) \<Longrightarrow> row_ok strict uid (r\<lparr>sndfa_time_code := Some d, sndfa_code := Some c\<rparr>)"
    "row_ok strict uid (r\<lparr>sndfa := Some b\<rparr>)"
    "row_ok strict uid (r\<lparr>extra := [''black'' \<mapsto> py_str_bool b]\<rparr>)"
    "sndfa_code r \<noteq> None \<Longrightarrow> row_ok strict uid (r\<lparr>sndfa_last := Some d\<rparr>)"
    "code_ok (Some c) \<Longrightarrow> row_ok strict uid (r\<lparr>sndfa_email_code := Some c, sndfa_email := Some False\<rparr>)"
    "sndfa_email_code r \<noteq> None \<Longrightarrow> row_ok strict uid (r\<lparr>sndfa_email := Some b\<rparr>)"
  using assms by (auto simp: row_ok_def)

text \<open>
  The exceptions: \<open>own C\<close> says that \<open>C\<close> contains those the plugin raises on purpose and those
  of the database. \<open>data_error\<close> are the ones that betray a malformed row or configuration.
\<close>

definition own :: "(exn \<Rightarrow> bool) \<Rightarrow> bool" where
  "own C \<longleftrightarrow> C StaleDataError \<and> C DBDuplicateEntry \<and> C OverflowError \<and> C AssertionError \<and>
     C (KeyError ''email'') \<and> C SPasswordNotConfigured \<and>
     (\<forall>t. C (UserNotFound t)) \<and> (\<forall>t. C (SPasswordUnauthorized t)) \<and>
     (\<forall>t. C (Unauthorized t)) \<and> (\<forall>t. C (ValidationError t))"

definition data_error :: "exn \<Rightarrow> bool" where
  "data_error e \<longleftrightarrow> (case e of AttributeError _ \<Rightarrow> True | TypeError _ \<Rightarrow> True | FlushError _ \<Rightarrow> True
     | OtherException t \<Rightarrow> t = ''eval of a text that is not a Boolean'' | _ \<Rightarrow> False)"

lemma own_simps:
  assumes "own C"
  shows "C StaleDataError" "C DBDuplicateEntry" "C OverflowError" "C AssertionError"
    "C (KeyError ''email'')" "C SPasswordNotConfigured" "C (UserNotFound t)"
    "C (SPasswordUnauthorized t)" "C (Unauthorized t)" "C (ValidationError t)"
  using assms by (simp_all add: own_def)

lemma own_not_data_error: "own (\<lambda>e. \<not> data_error e)"
  by (simp add: own_def data_error_def)

section \<open>The driver\<close>

lemma wf_prims:
  "sound (world_ok strict) C (utcnow E) (\<lambda>d. \<exists>t. d = naive t)" "sound (world_ok strict) C (fresh_uuid E) (\<lambda>_. True)"
  "sound (world_ok strict) C (get_spassword_session uid)
     (\<lambda>x. case x of None \<Rightarrow> True | Some r \<Rightarrow> row_ok strict uid r)"
  by (auto simp: sound_def fresh_uuid_def get_spassword_session_def wf_worldD split: option.split)

lemma wf_identity_get_user:
  "own C \<Longrightarrow> sound (world_ok strict) C (identity_get_user uid) (\<lambda>u. u_id u = uid)"
  by (auto simp: sound_def identity_get_user_def own_simps world_ok_def users_keyed_def
      split: option.splits sum.splits)

lemma wf_get_user: "own C \<Longrightarrow> sound (world_ok strict) C (get_user uid) (\<lambda>u. u_id u = uid)"
  by (auto simp: sound_def get_user_def own_simps world_ok_def users_keyed_def
      split: option.splits sum.splits)

lemma wf_session_save:
  assumes "own C" and "\<And>r. row_ok strict uid r \<Longrightarrow> row_ok strict uid (f r)"
  shows "sound (world_ok strict) C (session_save uid f) (\<lambda>_. True)"
proof (rule soundI)
  fix w x v
  assume "world_ok strict w" and "session_save uid f w = (x, v)"
  with assms show "world_ok strict v \<and> (case x of Inl e \<Rightarrow> C e | Inr r \<Rightarrow> True)"
    by (cases "table w uid")
      (auto simp: session_save_def own_simps intro: wf_with_row dest: wf_worldD)
qed

lemma wf_session_insert:
  assumes "own C" and "user_id r = Some uid" and "row_ok strict uid (column_defaults r)"
  shows "sound (world_ok strict) C (session_insert r) (\<lambda>_. True)"
  using assms by (auto simp: sound_def session_insert_def own_simps intro: wf_with_row)

lemma wf_remove_user: "sound (world_ok strict) C (remove_user uid) (\<lambda>_. True)"
  by (auto simp: sound_def remove_user_run world_ok_def users_keyed_def)

lemma wf_set_user_creation_time: "sound (world_ok strict) C (set_user_creation_time E u) (\<lambda>_. True)"
proof (rule soundI)
  fix w x v
  assume "world_ok strict w" and "set_user_creation_time E u w = (x, v)"
  then show "world_ok strict v \<and> (case x of Inl e \<Rightarrow> C e | Inr r \<Rightarrow> True)"
    by (cases "table w (u_id u)")
      (auto simp: set_user_creation_time_run Let_def wf_user_row
        intro!: wf_with_row wf_row_updates dest: wf_worldD)
qed

lemma wf_update_user_modification_time:
  "sound (world_ok strict) C (update_user_modification_time E u) (\<lambda>_. True)"
proof (rule soundI)
  fix w x v
  assume "world_ok strict w" and "update_user_modification_time E u w = (x, v)"
  then show "world_ok strict v \<and> (case x of Inl e \<Rightarrow> C e | Inr r \<Rightarrow> True)"
    by (cases "table w (u_id u)")
      (auto simp: update_user_modification_time_run wf_user_row
        intro!: wf_with_row wf_row_updates dest: wf_worldD)
qed

lemma wf_set_user_sndfa_code:
  assumes "code_ok (Some c)"
  shows "sound (world_ok strict) C (set_user_sndfa_code E u c) (\<lambda>_. True)"
proof (rule soundI)
  fix w x v
  assume "world_ok strict w" and "set_user_sndfa_code E u c w = (x, v)"
  with assms show "world_ok strict v \<and> (case x of Inl e \<Rightarrow> C e | Inr r \<Rightarrow> True)"
    by (cases "table w (u_id u)")
      (auto simp: set_user_sndfa_code_run intro!: wf_with_row wf_row_updates
        dest: wf_worldD split: if_splits)
qed

lemma wf_modify_sndfa: "sound (world_ok strict) C (modify_sndfa uid b) (\<lambda>_. True)"
proof (rule soundI)
  fix w x v
  assume "world_ok strict w" and "modify_sndfa uid b w = (x, v)"
  then show "world_ok strict v \<and> (case x of Inl e \<Rightarrow> C e | Inr r \<Rightarrow> True)"
    by (cases "table w uid")
      (auto simp: modify_sndfa_run intro!: wf_with_row wf_row_updates
        dest: wf_worldD split: if_splits)
qed

lemma wf_flags: "world_ok strict w \<Longrightarrow> table w uid = Some r \<Longrightarrow> sndfa r \<noteq> None \<and> sndfa_email r \<noteq> None"
  by (simp add: world_ok_def row_ok_def)

lemma wf_get_sndfa: "sound (world_ok strict) C (get_sndfa uid) (\<lambda>b. b \<noteq> None)"
  by (auto simp: sound_def get_sndfa_run dest: wf_flags split: option.split)

lemma wf_row_black:
  "row_ok strict uid r \<Longrightarrow> (case extra r ''black'' of None \<Rightarrow> Inr False | Some t \<Rightarrow> py_eval t) \<noteq> Inl e"
  by (auto simp: row_ok_def)

lemma wf_get_black: "sound (world_ok strict) C (get_black uid) (\<lambda>_. True)"
proof (rule soundI)
  fix w x v
  assume w: "world_ok strict w" and run: "get_black uid w = (x, v)"
  then show "world_ok strict v \<and> (case x of Inl e \<Rightarrow> C e | Inr r \<Rightarrow> True)"
  proof (cases "table w uid")
    case (Some r)
    with wf_row_black [OF wf_worldD [OF w Some]] run w show ?thesis
      by (cases x) (auto simp: get_black_run)
  qed (auto simp: get_black_run)
qed

lemma wf_get_pwd_expiration:
  assumes "own C"
  shows "sound (world_ok strict) C (get_pwd_expiration E uid) (\<lambda>_. True)"
proof (rule soundI)
  fix w x v
  assume w: "world_ok strict w" and run: "get_pwd_expiration E uid w = (x, v)"
  then show "world_ok strict v \<and> (case x of Inl e \<Rightarrow> C e | Inr r \<Rightarrow> True)"
  proof (cases "table w uid")
    case (Some r)
    with wf_worldD [OF w Some] obtain d where "creation_time r = Some d"
      by (auto simp: row_ok_def)
    with Some run w show ?thesis
      by (auto simp: get_pwd_expiration_run dt_add_naive own_simps [OF assms])
  qed (auto simp: get_pwd_expiration_run)
qed

lemma wf_modify_black: "sound (world_ok strict) C (modify_black uid b) (\<lambda>_. True)"
proof (rule soundI)
  fix w x v
  assume "world_ok strict w" and "modify_black uid b w = (x, v)"
  then show "world_ok strict v \<and> (case x of Inl e \<Rightarrow> C e | Inr r \<Rightarrow> True)"
    by (cases "table w uid")
      (auto simp: modify_black_run intro!: wf_with_row wf_row_updates dest: wf_worldD)
qed

text \<open>A code that is \<open>None\<close> would match a row without a code; the routes always give one.\<close>

lemma wf_check_sndfa_code:
  "sound (world_ok strict) C (check_sndfa_code E uid (Some code)) (\<lambda>_. True)"
proof (rule soundI)
  fix w x v
  assume "world_ok strict w" and "check_sndfa_code E uid (Some code) w = (x, v)"
  then show "world_ok strict v \<and> (case x of Inl e \<Rightarrow> C e | Inr r \<Rightarrow> True)"
    by (cases "table w uid")
      (auto simp: check_sndfa_code_run intro!: wf_with_row wf_row_updates
        dest: wf_worldD split: if_splits)
qed

lemma wf_set_check_email_code:
  assumes "code_ok (Some c)"
  shows "sound (world_ok strict) C (set_check_email_code uid c) (\<lambda>_. True)"
proof (rule soundI)
  fix w x v
  assume "world_ok strict w" and "set_check_email_code uid c w = (x, v)"
  with assms show "world_ok strict v \<and> (case x of Inl e \<Rightarrow> C e | Inr r \<Rightarrow> True)"
    by (cases "table w uid")
      (auto simp: set_check_email_code_run intro!: wf_with_row wf_row_updates(7) dest: wf_worldD)
qed

lemma wf_check_email_code: "sound (world_ok strict) C (check_email_code uid code) (\<lambda>_. True)"
proof (rule soundI)
  fix w x v
  assume w: "world_ok strict w" and run: "check_email_code uid code w = (x, v)"
  show "world_ok strict v \<and> (case x of Inl e \<Rightarrow> C e | Inr r \<Rightarrow> True)"
  proof (cases "table w uid")
    case (Some r)
    then show ?thesis
    proof (cases "sndfa_email_code r \<in> {None, Some ''''}")
      case False
      then obtain c where "sndfa_email_code r = Some c" "c \<noteq> ''''" by auto
      with Some run w show ?thesis
        by (auto simp: check_email_code_run intro!: wf_with_row wf_row_updates dest: wf_worldD)
    qed (use Some run w in \<open>auto simp: check_email_code_run\<close>)
  qed (use run w in \<open>auto simp: check_email_code_run\<close>)
qed

lemma wf_already_email_checked: "sound (world_ok strict) C (already_email_checked uid) (\<lambda>b. b \<noteq> None)"
  by (auto simp: sound_def already_email_checked_run dest: wf_flags split: option.split)

section \<open>Login\<close>

text \<open>
  What the outside may raise: \<open>C\<close> contains the exceptions of the SMTP connections and of
  keystone, other than those that keystone passes on from the plugin's \<open>_check_password\<close>;
  either the black list is configured or \<open>C\<close> contains the error of its absence; and
  \<open>pwd_max_tries\<close> is not negative, else a user who never logged in counts as over the limit
  and the date of the last attempt, still \<open>NULL\<close>, is read.
\<close>

definition smtp_raises :: "(exn \<Rightarrow> bool) \<Rightarrow> env \<Rightarrow> bool" where
  "smtp_raises C E \<longleftrightarrow> (\<forall>n e. let s = smtp E n in
     ((\<exists>a p. smtp_connect s a p = Some e) \<or> smtp_ehlo s = Some e \<or> smtp_starttls s = Some e \<or>
      (\<exists>u p. smtp_login s u p = Some e) \<or> smtp_quit s = Some e) \<longrightarrow> C e)"

definition keystone_raises :: "(exn \<Rightarrow> bool) \<Rightarrow> env \<Rightarrow> bool" where
  "keystone_raises C E \<longleftrightarrow>
     (\<forall>pw u e. ks_check_password E pw u = Inl e \<longrightarrow> C e) \<and>
     (\<forall>chk uid pw w e v. ks_authenticate E chk uid pw w = (Inl e, v) \<longrightarrow>
        C e \<or> (\<exists>u. chk pw u w = (Inl e, v)))"

definition outside_raises :: "(exn \<Rightarrow> bool) \<Rightarrow> env \<Rightarrow> bool" where
  "outside_raises C E \<longleftrightarrow> own C \<and> smtp_raises C E \<and> keystone_raises C E \<and> keystone_auth E \<and>
     (pwd_user_blacklist (conf E) \<noteq> None \<or>
      C (TypeError ''argument of type 'NoneType' is not iterable'')) \<and>
     (0 \<le> pwd_max_tries (conf E) \<or> C (AttributeError ''tzinfo''))"

lemma outside_blacklist: "outside_raises C E \<Longrightarrow> in_blacklist (conf E) uid = Inl e \<Longrightarrow> C e"
  by (auto simp: outside_raises_def in_blacklist_def split: option.splits)

lemma outside_own: "outside_raises C E \<Longrightarrow> own C"
  by (simp add: outside_raises_def)

lemma wf_send_email:
  assumes "outside_raises C E"
  shows "sound (world_ok strict) C (send_email E to subject body_text) (\<lambda>_. True)"
proof (rule soundI)
  fix w x v
  assume w: "world_ok strict w" and run: "send_email E to subject body_text w = (x, v)"
  then obtain n sent where "v = w\<lparr>conns := n, outbox := outbox w @ sent\<rparr>"
    by (rule_tac mailer.send_world) blast+
  with w have "world_ok strict v" by (simp add: world_ok_def users_keyed_def)
  moreover have "C e" if "x = Inl e" for e
  proof -
    from run that have "let s = smtp E (conns w) in
       (\<exists>a p. smtp_connect s a p = Some e) \<or> smtp_ehlo s = Some e \<or> smtp_starttls s = Some e \<or>
       (\<exists>u p. smtp_login s u p = Some e) \<or> smtp_quit s = Some e"
      by (auto simp: send_email_run smtp_deliver_def Let_def split: option.splits if_splits)
    moreover have "smtp_raises C E" using assms by (simp add: outside_raises_def)
    ultimately show ?thesis unfolding smtp_raises_def Let_def by fast
  qed
  ultimately show "world_ok strict v \<and> (case x of Inl e \<Rightarrow> C e | Inr r \<Rightarrow> True)"
    by (cases x) auto
qed

lemma wf_only_ticks:
  assumes "keeps only_ticks m" and "\<And>w e. world_ok strict w \<Longrightarrow> fst (m w) = Inl e \<Longrightarrow> C e"
  shows "sound (world_ok strict) C m (\<lambda>_. True)"
proof (rule soundI)
  fix w x v
  assume w: "world_ok strict w" and run: "m w = (x, v)"
  from keepsD [OF assms(1) run] w have "world_ok strict v"
    by (simp add: world_ok_def users_keyed_def only_ticks_same)
  with assms(2) [OF w] run show "world_ok strict v \<and> (case x of Inl e \<Rightarrow> C e | Inr r \<Rightarrow> True)"
    by (cases x) auto
qed

lemma wf_check_expiration:
  assumes "outside_raises C E"
  shows "sound (world_ok strict) C (check_expiration E u) (\<lambda>_. True)"
proof (rule wf_only_ticks [OF keeps_check_expiration])
  fix w e
  assume w: "world_ok strict w" and err: "fst (check_expiration E u w) = Inl e"
  then obtain r where r: "table w (u_id u) = Some r"
    by (cases "table w (u_id u)") (auto simp: check_expiration_def split: if_splits)
  from wf_worldD [OF w r] obtain d where d: "creation_time r = Some d"
    "\<And>e. in_user_black r \<noteq> Inl e"
    by (auto simp: row_ok_def in_user_black_def)
  with err r show "C e"
    by (auto simp: check_expiration_def bnd_lift dt_sub_naive own_simps [OF outside_own [OF assms]]
        outside_blacklist [OF assms] split: if_splits sum.splits)
qed

lemma wf_check_block:
  assumes "outside_raises C E"
  shows "sound (world_ok strict) C (check_block E uid) (\<lambda>_. True)"
proof (rule wf_only_ticks [OF keeps_check_block])
  fix w e
  assume w: "world_ok strict w" and err: "fst (check_block E uid w) = Inl e"
  show "C e"
  proof (cases "table w uid")
    case None
    with err show ?thesis
      by (auto simp: check_block_def bnd_lift outside_blacklist [OF assms] split: if_splits sum.splits)
  next
    case (Some r)
    from wf_worldD [OF w Some] obtain n where "login_attempts r = Some n" "0 \<le> n"
      "0 < n \<longrightarrow> last_login_attempt_time r \<noteq> None" by (auto simp: row_ok_def)
    moreover have "0 \<le> pwd_max_tries (conf E) \<or> C (AttributeError ''tzinfo'')"
      using assms by (simp add: outside_raises_def)
    ultimately show ?thesis
      using err Some
      by (cases "last_login_attempt_time r")
        (auto simp: check_block_def bnd_lift py_gt_def dt_sub_naive
          own_simps [OF outside_own [OF assms]] outside_blacklist [OF assms]
          split: if_splits sum.splits)
  qed
qed

lemma wf_Identity_check_password:
  assumes "outside_raises C E"
  shows "sound (world_ok strict) C (Identity_check_password E pw u) (\<lambda>_. True)"
  unfolding Identity_check_password_def
proof (rule sound_bnd [OF wf_check_expiration [OF assms]], rule sound_lift)
  fix e
  assume "ks_check_password E pw u = Inl e"
  with assms show "C e" unfolding outside_raises_def keystone_raises_def by blast
qed simp

lemma wf_base_authenticate:
  assumes "outside_raises C E"
  shows "sound (world_ok strict) C (base_authenticate E uid pw) (\<lambda>_. True)"
proof -
  let ?chk = "Identity_check_password E"
  have ks: "keystone_auth E" "keystone_raises C E"
    using assms by (simp_all add: outside_raises_def)
  have "sound (world_ok strict) C (ks_authenticate E ?chk uid pw) (\<lambda>_. True)"
  proof (rule wf_only_ticks)
    show "keeps only_ticks (ks_authenticate E ?chk uid pw)"
      by (rule ks_authenticate_frame [OF ks(1) keeps_Identity_check_password])
    fix w e
    assume w: "world_ok strict w" and "fst (ks_authenticate E ?chk uid pw w) = Inl e"
    then obtain v where "ks_authenticate E ?chk uid pw w = (Inl e, v)"
      by (metis prod.collapse)
    with ks(2) have "C e \<or> (\<exists>u. ?chk pw u w = (Inl e, v))"
      unfolding keystone_raises_def by blast
    with soundD(2) [OF wf_Identity_check_password [OF assms] w] show "C e" by blast
  qed
  then show ?thesis
    unfolding base_authenticate_def
    by (intro sound_catch [where D = C] sound_bnd [where R = "\<lambda>_. True"] sound_ret)
      (auto split: if_splits intro: sound_ret)
qed

lemma wf_within_window:
  assumes "own C"
  shows "sound (world_ok strict) C (within_window E d) (\<lambda>_. True)"
  by (rule wf_only_ticks [OF keeps_within_window])
    (cases d; auto simp: within_window_def bnd_lift dt_sub_naive own_simps [OF assms]
      split: if_splits)

lemma wf_sndfa_code_to_send:
  assumes "own C"
  shows "sound (world_ok strict) C (sndfa_code_to_send E uid r) (\<lambda>_. True)"
  unfolding sndfa_code_to_send_def Let_def
  by (intro sound_bnd [OF wf_within_window [OF assms]] sound_if sound_ret
      sound_bnd [OF wf_prims(2)] sound_bnd [OF wf_identity_get_user [OF assms]]
      sound_bnd [OF wf_set_user_sndfa_code]) simp_all

lemma wf_second_factor:
  assumes "outside_raises C E"
  shows "sound (world_ok strict) C (second_factor E uid r a) (\<lambda>_. True)"
proof -
  note own = outside_own [OF assms]
  have mail: "sound (world_ok strict) C (lift (user_email u)) (\<lambda>_. True)" for u
    by (rule sound_lift) (auto simp: user_email_def own_simps [OF own] split: option.splits)
  show ?thesis
    unfolding second_factor_def Let_def
    by (intro sound_if sound_bnd [OF wf_within_window [OF own]] sound_ret
        sound_bnd [OF wf_sndfa_code_to_send [OF own]] sound_bnd [OF wf_identity_get_user [OF own]]
        sound_bnd [OF mail] sound_bnd [OF wf_send_email [OF assms]]) simp_all
qed

lemma wf_count_attempt:
  assumes "outside_raises C E" and "row_ok strict uid r"
  shows "sound (world_ok strict) C (count_attempt E uid r res) (\<lambda>(_, n). 0 \<le> n)"
proof -
  from assms(2) obtain n d where "login_attempts r = Some n" "0 \<le> n" "creation_time r = Some d"
    by (auto simp: row_ok_def)
  then show ?thesis
    by (cases res)
      (auto simp: count_attempt_def sound_def bnd_lift py_inc_def dt_add_naive
        own_simps [OF outside_own [OF assms(1)]] outside_blacklist [OF assms(1)]
        split: sum.splits if_splits)
qed

lemma wf_demand_sndfa:
  assumes "outside_raises C E"
  shows "sound (world_ok strict) C (demand_sndfa E uid r res) (\<lambda>_. True)"
  unfolding demand_sndfa_def Let_def
  by (intro sound_sum sound_if sound_ret wf_second_factor [OF assms]) simp_all

lemma wf_known_user:
  assumes "outside_raises C E" and "row_ok strict uid r"
  shows "sound (world_ok strict) C (known_user E uid r now res) (\<lambda>_. True)"
  unfolding known_user_def
proof (rule sound_bnd [OF wf_count_attempt [OF assms]], rule sound_prod)
  fix x and res' :: "string + auth_ref" and n :: int
  assume "case x of (_, n) \<Rightarrow> 0 \<le> n" and "x = (res', n)"
  then have "0 \<le> n" by simp
  then show "sound (world_ok strict) C (bnd (demand_sndfa E uid r res') (\<lambda>res. bnd (session_save uid
      (\<lambda>r. r\<lparr>login_attempts := Some n, last_login_attempt_time := Some now\<rparr>))
      (\<lambda>_. ret res))) (\<lambda>_. True)"
    by (intro sound_bnd [OF wf_demand_sndfa [OF assms(1)]] sound_ret
        sound_bnd [OF wf_session_save [OF outside_own [OF assms(1)]]] wf_row_updates) simp_all
qed

text \<open>The row of a user who is registered by the first login, and the data of that login.\<close>

lemma wf_registration:
  assumes "outside_raises C E"
  shows "u_id user = uid \<Longrightarrow> 0 \<le> n \<Longrightarrow> sound (world_ok strict) C (session_insert ((user_row user now)\<lparr>
      last_login_attempt_time := Some now, login_attempts := Some n\<rparr>)) (\<lambda>_. True)"
    and "sound (world_ok strict) C (lift (in_blacklist (conf E) uid)) (\<lambda>_. True)"
    and "sound (world_ok strict) C (lift (dt_add now d)) (\<lambda>_. True)"
proof -
  note own = outside_own [OF assms]
  show "sound (world_ok strict) C (session_insert ((user_row user now)\<lparr>
      last_login_attempt_time := Some now, login_attempts := Some n\<rparr>)) (\<lambda>_. True)"
    if "u_id user = uid" and "0 \<le> n"
    by (rule wf_session_insert [OF own, where uid = uid])
      (use that wf_user_row(3) [of n strict user now now] in simp_all)
  show "sound (world_ok strict) C (lift (in_blacklist (conf E) uid)) (\<lambda>_. True)"
    by (rule sound_lift) (simp_all add: outside_blacklist [OF assms])
  show "sound (world_ok strict) C (lift (dt_add now d)) (\<lambda>_. True)"
    by (rule sound_lift) (auto simp: dt_add_def own_simps [OF own] split: if_splits)
qed

lemma wf_new_user:
  assumes "outside_raises C E"
  shows "sound (world_ok strict) C (new_user E uid now res) (\<lambda>_. True)"
  unfolding new_user_def Let_def
  by (intro sound_bnd [OF wf_identity_get_user [OF outside_own [OF assms]]] sound_sum
      sound_bnd [OF wf_registration(1) [OF assms]] sound_bnd [OF wf_registration(2) [OF assms]]
      sound_bnd [OF wf_registration(3) [OF assms]] sound_ret) simp_all

lemma wf_record_attempt:
  assumes "outside_raises C E"
  shows "sound (world_ok strict) C (record_attempt E uid res) (\<lambda>_. True)"
  unfolding record_attempt_def
  by (intro sound_if sound_ret sound_bnd [OF wf_prims(3)] sound_bnd [OF wf_prims(1)] sound_option
      wf_known_user wf_new_user assms) simp_all

lemma wf_authenticate:
  assumes "outside_raises C E"
  shows "sound (world_ok strict) C (Identity_authenticate E uid pw) (\<lambda>_. True)"
  unfolding Identity_authenticate_def
  by (intro sound_bnd [OF wf_check_block [OF assms]] sound_bnd [OF wf_base_authenticate [OF assms]]
      sound_bnd [OF wf_record_attempt [OF assms]] sound_sum sound_ret sound_raise)
    (simp_all add: own_simps [OF outside_own [OF assms]])

end
