(* ===== verification/SP_Interface.thy ===== *)
theory SP_Interface
  imports SP_Manager SP_Invariant
begin

text \<open>
  The interface between the manager and its driver: the class \<open>Driver\<close> of \<open>core.py\<close>, whose
  methods are all to be overridden, the methods that the SQL driver \<open>SPassword\<close> overrides, and
  what the callbacks of the manager rely on in any driver.
\<close>

section \<open>The class Driver and its subclass\<close>

text \<open>The methods of an object of a class are a record; a subclass updates the ones it overrides.\<close>

record driver =
  method_get_user :: "string \<Rightarrow> user wexec"
  method_remove_user :: "string \<Rightarrow> unit wexec"
  method_set_user_creation_time :: "user \<Rightarrow> spassword_row wexec"
  method_update_user_modification_time :: "user \<Rightarrow> unit wexec"

definition Driver_get_user :: "string \<Rightarrow> user wexec" where
  "Driver_get_user uid = raise NotImplemented"

definition Driver_remove_user :: "string \<Rightarrow> unit wexec" where
  "Driver_remove_user uid = raise NotImplemented"

definition Driver_set_user_creation_time :: "user \<Rightarrow> spassword_row wexec" where
  "Driver_set_user_creation_time user = raise NotImplemented"

definition Driver_update_user_modification_time :: "user \<Rightarrow> unit wexec" where
  "Driver_update_user_modification_time user = raise NotImplemented"

definition Driver_class :: driver where
  "Driver_class = \<lparr>
     method_get_user = Driver_get_user,
     method_remove_user = Driver_remove_user,
     method_set_user_creation_time = Driver_set_user_creation_time,
     method_update_user_modification_time = Driver_update_user_modification_time\<rparr>"

definition SPassword_class :: "env \<Rightarrow> driver" where
  "SPassword_class E = Driver_class\<lparr>
     method_get_user := get_user,
     method_remove_user := remove_user,
     method_set_user_creation_time := set_user_creation_time E,
     method_update_user_modification_time := update_user_modification_time E\<rparr>"

lemma SPassword_class_methods [simp]:
  "method_get_user (SPassword_class E) = get_user"
  "method_remove_user (SPassword_class E) = remove_user"
  "method_set_user_creation_time (SPassword_class E) = set_user_creation_time E"
  "method_update_user_modification_time (SPassword_class E) = update_user_modification_time E"
  by (simp_all add: SPassword_class_def)

section \<open>The callbacks of the manager on any driver\<close>

definition updated_callback_on :: "driver \<Rightarrow> env \<Rightarrow> string \<Rightarrow> unit wexec" where
  "updated_callback_on D E uid =
     bnd (method_get_user D uid) (\<lambda>user.
     if enabled (conf E) then method_update_user_modification_time D user else ret ())"

definition created_callback_on :: "driver \<Rightarrow> env \<Rightarrow> string \<Rightarrow> unit wexec" where
  "created_callback_on D E uid =
     bnd (method_get_user D uid) (\<lambda>user.
     if enabled (conf E) then bnd (method_set_user_creation_time D user) (\<lambda>_. ret ()) else ret ())"

definition deleted_callback_on :: "driver \<Rightarrow> env \<Rightarrow> string \<Rightarrow> unit wexec" where
  "deleted_callback_on D E uid = (if enabled (conf E) then method_remove_user D uid else ret ())"

text \<open>On the SQL driver they are the callbacks of \<open>SP_Manager\<close>.\<close>

lemma callbacks_on_SPassword:
  "updated_callback_on (SPassword_class E) E = user_updated_callback E"
  "created_callback_on (SPassword_class E) E = user_created_callback E"
  "deleted_callback_on (SPassword_class E) E = user_deleted_callback E"
  by (simp_all add: fun_eq_iff updated_callback_on_def created_callback_on_def deleted_callback_on_def
      user_updated_callback_def user_created_callback_def user_deleted_callback_def cong: if_cong)

text \<open>A driver that overrides nothing answers every notification of an enabled plugin with an error.\<close>

lemma callbacks_on_Driver:
  "updated_callback_on Driver_class E uid w = (Inl NotImplemented, w)"
  "created_callback_on Driver_class E uid w = (Inl NotImplemented, w)"
  "deleted_callback_on Driver_class E uid w =
     (if enabled (conf E) then Inl NotImplemented else Inr (), w)"
  by (simp_all add: updated_callback_on_def created_callback_on_def deleted_callback_on_def bnd_def
      Driver_class_def Driver_get_user_def Driver_remove_user_def)

section \<open>What the callbacks rely on\<close>

locale user_driver =
  fixes D :: driver and I :: "world \<Rightarrow> bool" and C :: "exn \<Rightarrow> bool"
  assumes finds: "sound I C (method_get_user D uid) (\<lambda>u. u_id u = uid)"
    and reads: "keeps (=) (method_get_user D uid)"
    and unknown: "users w uid = None \<Longrightarrow> fst (method_get_user D uid w) = Inl (UserNotFound uid)"
    and sound_remove: "sound I C (method_remove_user D uid) (\<lambda>_. True)"
    and sound_create: "sound I C (method_set_user_creation_time D u) (\<lambda>_. True)"
    and sound_update: "sound I C (method_update_user_modification_time D u) (\<lambda>_. True)"
begin

lemma sound_callbacks:
  "sound I C (updated_callback_on D E uid) (\<lambda>_. True)"
  "sound I C (created_callback_on D E uid) (\<lambda>_. True)"
  "sound I C (deleted_callback_on D E uid) (\<lambda>_. True)"
  unfolding updated_callback_on_def created_callback_on_def deleted_callback_on_def
  by (intro sound_bnd [OF finds] sound_bnd [OF sound_create] sound_if sound_ret sound_update
      sound_remove; simp)+

lemma unknown_get:
  assumes "users w uid = None"
  shows "method_get_user D uid w = (Inl (UserNotFound uid), w)"
  using unknown [OF assms] reads [of uid] by (metis keeps_def prod.collapse)

lemma unknown_user:
  assumes "users w uid = None"
  shows "updated_callback_on D E uid w = (Inl (UserNotFound uid), w)"
    and "created_callback_on D E uid w = (Inl (UserNotFound uid), w)"
  using unknown_get [OF assms]
  by (simp_all add: updated_callback_on_def created_callback_on_def bnd_def)

lemma disabled_plugin:
  assumes "\<not> enabled (conf E)"
  shows "keeps (=) (updated_callback_on D E uid)" and "keeps (=) (created_callback_on D E uid)"
    and "keeps (=) (deleted_callback_on D E uid)"
proof -
  have "snd (method_get_user D uid w) = w" for w
    using reads [of uid] unfolding keeps_def by metis
  with assms show "keeps (=) (updated_callback_on D E uid)" "keeps (=) (created_callback_on D E uid)"
    by (simp_all add: updated_callback_on_def created_callback_on_def keeps_def bnd_def
        split: prod.split sum.split) (metis snd_conv)+
qed (use assms in \<open>simp add: deleted_callback_on_def keeps_def\<close>)

end

text \<open>The SQL driver keeps the rows of the table well formed.\<close>

lemma SPassword_driver:
  assumes "own C"
  shows "user_driver (SPassword_class E) (world_ok strict) C"
proof
  fix uid and w :: world
  show "keeps (=) (method_get_user (SPassword_class E) uid)"
    by (intro keepsI, rename_tac v, case_tac "users v uid") (simp_all add: get_user_run)
qed (simp_all add: wf_get_user [OF assms] wf_remove_user get_user_run
    wf_set_user_creation_time wf_update_user_modification_time)

interpretation SPassword: user_driver "SPassword_class E" "world_ok strict" "\<lambda>_. True" for E strict
  by (rule SPassword_driver) (simp add: own_def)

lemma unknown_user_notification:
  assumes "users w uid = None"
  shows "notify E ''updated'' ''user'' uid w = (Inl (UserNotFound uid), w)"
    and "notify E ''created'' ''user'' uid w = (Inl (UserNotFound uid), w)"
  using SPassword.unknown_user [OF assms, of E E]
  by (simp_all add: callbacks_on_SPassword notify_user_updated notify_user_created)

end
