(* ===== verification/SP_Routes.thy ===== *)
theory SP_Routes
  imports SP_Reports
begin

text \<open>
  The routes of \<open>SPasswordAPI\<close> in \<open>spassword.py\<close>: its \<open>resource_mapping\<close>, the methods that
  each resource class of the file has (its own and those it inherits from another class of
  the file), and the dispatch of a request to them. Flask's matching is the one its
  documentation gives for \<open><string:x>\<close>: a segment that is not empty and has no slash. A method
  that only a class of keystone or of the SCIM extension defines is not the plugin's and is
  answered \<open>Inherited\<close>.
\<close>

section \<open>The table of routes\<close>

datatype resource = UserResource | ScimUserResource | UserPasswordResource | RecoverResource | ResetResource
  | ModifySndfaResource | CheckSndfaResource | AskCheckEmailResource | CheckEmailResource
  | UserProjectRolesResource | ModifyBlackResource

datatype segment = Lit string | Var string

record route =
  route_resource :: resource
  route_url :: "segment list"
  route_rel :: string

abbreviation user_url :: "segment list \<Rightarrow> segment list" where
  "user_url rest \<equiv> Lit ''users'' # Var ''user_id'' # rest"

definition resource_mapping :: "route list" where
  "resource_mapping = [
     \<lparr>route_resource = ScimUserResource,
      route_url = [Lit ''OS-SCIM'', Lit ''Users'', Var ''user_id''], route_rel = ''spassword-user-scim''\<rparr>,
     \<lparr>route_resource = UserPasswordResource,
      route_url = user_url [Lit ''password''], route_rel = ''user_change_password''\<rparr>,
     \<lparr>route_resource = RecoverResource,
      route_url = user_url [Lit ''recover_password''], route_rel = ''recover_password''\<rparr>,
     \<lparr>route_resource = ResetResource,
      route_url = user_url [Lit ''reset_password'', Var ''code''], route_rel = ''recover_password''\<rparr>,
     \<lparr>route_resource = ModifySndfaResource,
      route_url = user_url [Lit ''sndfa''], route_rel = ''sndfa''\<rparr>,
     \<lparr>route_resource = CheckSndfaResource,
      route_url = user_url [Lit ''sndfa'', Var ''code''], route_rel = ''sndfa''\<rparr>,
     \<lparr>route_resource = AskCheckEmailResource,
      route_url = user_url [Lit ''checkemail''], route_rel = ''email''\<rparr>,
     \<lparr>route_resource = CheckEmailResource,
      route_url = user_url [Lit ''checkemail'', Var ''code''], route_rel = ''email''\<rparr>,
     \<lparr>route_resource = UserProjectRolesResource,
      route_url = user_url [Lit ''project_roles''], route_rel = ''get_project_roles''\<rparr>,
     \<lparr>route_resource = ModifyBlackResource,
      route_url = user_url [Lit ''black''], route_rel = ''black''\<rparr>]"

text \<open>
  The routes of the classes listed in \<open>resources\<close>: keystone derives a collection and a member
  URL from \<open>collection_key\<close> and \<open>member_key\<close>. The URLs of the table come after them.
\<close>

definition resource_routes :: "resource \<Rightarrow> string \<Rightarrow> string \<Rightarrow> route list" where
  "resource_routes res collection_key member_key = [
     \<lparr>route_resource = res, route_url = [Lit collection_key], route_rel = collection_key\<rparr>,
     \<lparr>route_resource = res, route_url = [Lit collection_key, Var (member_key @ ''_id'')],
      route_rel = member_key\<rparr>]"

definition api_routes :: "route list" where
  "api_routes = resource_routes UserResource ''users'' ''user'' @ resource_mapping"

section \<open>Matching\<close>

fun match_segments :: "segment list \<Rightarrow> string list \<Rightarrow> (string \<times> string) list option" where
  "match_segments [] [] = Some []"
| "match_segments (Lit t # us) (p # ps) = (if t = p then match_segments us ps else None)"
| "match_segments (Var x # us) (p # ps) =
     (if p = '''' then None else map_option (\<lambda>args. (x, p) # args) (match_segments us ps))"
| "match_segments _ _ = None"

definition matching :: "string list \<Rightarrow> (resource \<times> (string \<times> string) list) list" where
  "matching path = List.map_filter
     (\<lambda>r. map_option (\<lambda>args. (route_resource r, args)) (match_segments (route_url r) path))
     api_routes"

text \<open>\<open>/a/b/c\<close> as the list of its segments.\<close>

fun split_slash :: "string \<Rightarrow> string list" where
  "split_slash [] = [[]]"
| "split_slash (c # cs) =
     (if c = CHR ''/'' then [] # split_slash cs
      else case split_slash cs of [] \<Rightarrow> [[c]] | t # ts \<Rightarrow> (c # t) # ts)"

definition path_segments :: "string \<Rightarrow> string list" where
  "path_segments path = (case path of
      [] \<Rightarrow> split_slash path
    | c # cs \<Rightarrow> if c = CHR ''/'' then split_slash cs else split_slash path)"

section \<open>Methods of the resource classes\<close>

datatype http_method = GET | POST | PUT | PATCH | DELETE

lemma UNIV_http_method: "(UNIV :: http_method set) = {GET, POST, PUT, PATCH, DELETE}"
  by (auto intro: http_method.exhaust)

instantiation http_method :: enum
begin

definition enum_http_method :: "http_method list" where
  "enum_http_method = [GET, POST, PUT, PATCH, DELETE]"

definition enum_all_http_method :: "(http_method \<Rightarrow> bool) \<Rightarrow> bool" where
  "enum_all_http_method P \<longleftrightarrow> P GET \<and> P POST \<and> P PUT \<and> P PATCH \<and> P DELETE"

definition enum_ex_http_method :: "(http_method \<Rightarrow> bool) \<Rightarrow> bool" where
  "enum_ex_http_method P \<longleftrightarrow> P GET \<or> P POST \<or> P PUT \<or> P PATCH \<or> P DELETE"

instance
  by standard (simp_all add: enum_http_method_def enum_all_http_method_def
      enum_ex_http_method_def UNIV_http_method)

end

text \<open>
  The handler of a method with the names of its parameters besides \<open>self\<close>, each with whether
  it has a default.
\<close>

datatype handler = ScimPatch | ScimPut | ScimPost | ScimDelete
  | UserPost | UserPatch | UserDelete | UserPasswordPost
  | Recover | Reset | GetSndfa | ModifySndfa | CheckSndfa
  | AskCheckEmail | CheckEmail | ProjectRoles | GetBlack | ModifyBlack

abbreviation of_user :: "(string \<times> bool) list" where
  "of_user \<equiv> [(''user_id'', False)]"

abbreviation of_user_code :: "(string \<times> bool) list" where
  "of_user_code \<equiv> [(''user_id'', False), (''code'', True)]"

fun method_of :: "resource \<Rightarrow> http_method \<Rightarrow> (handler \<times> (string \<times> bool) list) option" where
  "method_of ScimUserResource PATCH = Some (ScimPatch, of_user)"
| "method_of ScimUserResource PUT = Some (ScimPut, of_user)"
| "method_of ScimUserResource POST = Some (ScimPost, [])"
| "method_of ScimUserResource DELETE = Some (ScimDelete, of_user)"
| "method_of UserResource POST = Some (UserPost, [])"
| "method_of UserResource PATCH = Some (UserPatch, of_user)"
| "method_of UserResource DELETE = Some (UserDelete, of_user)"
| "method_of UserPasswordResource POST = Some (UserPasswordPost, of_user)"
| "method_of RecoverResource GET = Some (Recover, of_user)"
| "method_of ResetResource GET = Some (Reset, of_user_code)"
| "method_of ModifySndfaResource GET = Some (GetSndfa, of_user)"
| "method_of ModifySndfaResource POST = Some (ModifySndfa, of_user)"
| "method_of CheckSndfaResource GET = Some (CheckSndfa, of_user_code)"
| "method_of AskCheckEmailResource GET = Some (AskCheckEmail, of_user)"
| "method_of CheckEmailResource GET = Some (CheckEmail, of_user_code)"
| "method_of UserProjectRolesResource GET = Some (ProjectRoles, of_user)"
| "method_of UserProjectRolesResource POST = Some (UserPost, [])"
| "method_of UserProjectRolesResource PATCH = Some (UserPatch, of_user)"
| "method_of UserProjectRolesResource DELETE = Some (UserDelete, of_user)"
| "method_of ModifyBlackResource GET = Some (GetBlack, of_user)"
| "method_of ModifyBlackResource POST = Some (ModifyBlack, of_user)"
| "method_of _ _ = None"

text \<open>Python's binding of keyword arguments to parameters.\<close>

definition binds :: "(string \<times> bool) list \<Rightarrow> (string \<times> string) list \<Rightarrow> bool" where
  "binds params args \<longleftrightarrow> set (map fst args) \<subseteq> set (map fst params) \<and>
     (\<forall>(x, dflt) \<in> set params. dflt \<or> x \<in> set (map fst args))"

datatype dispatched = NoRoute | Inherited resource | BadCall handler | Call handler "(string \<times> string) list"

definition dispatch :: "http_method \<Rightarrow> string \<Rightarrow> dispatched" where
  "dispatch meth path = (case matching (path_segments path) of
      [] \<Rightarrow> NoRoute
    | (res, args) # _ \<Rightarrow> (case method_of res meth of
         None \<Rightarrow> Inherited res
       | Some (h, params) \<Rightarrow> if binds params args then Call h args else BadCall h))"

section \<open>Facts about the table\<close>

lemma match_segments_Some:
  "match_segments [] ps = Some args \<longleftrightarrow> ps = [] \<and> args = []"
  "match_segments (Lit t # us) ps = Some args \<longleftrightarrow>
     (\<exists>ps'. ps = t # ps' \<and> match_segments us ps' = Some args)"
  "match_segments (Var x # us) ps = Some args \<longleftrightarrow>
     (\<exists>p ps' args'. ps = p # ps' \<and> p \<noteq> '''' \<and> match_segments us ps' = Some args' \<and>
        args = (x, p) # args')"
  by (cases ps; auto)+

lemmas api_routes_defs = api_routes_def resource_routes_def resource_mapping_def

lemma matching_run:
  "matching [''users''] = [(UserResource, [])]"
  "matching [''users'', uid] = (if uid = '''' then [] else [(UserResource, [(''user_id'', uid)])])"
  "matching [''OS-SCIM'', ''Users'', uid] =
     (if uid = '''' then [] else [(ScimUserResource, [(''user_id'', uid)])])"
  "matching [''users'', uid, what] = (if uid = '''' then [] else
     if what = ''password'' then [(UserPasswordResource, [(''user_id'', uid)])]
     else if what = ''recover_password'' then [(RecoverResource, [(''user_id'', uid)])]
     else if what = ''sndfa'' then [(ModifySndfaResource, [(''user_id'', uid)])]
     else if what = ''checkemail'' then [(AskCheckEmailResource, [(''user_id'', uid)])]
     else if what = ''project_roles'' then [(UserProjectRolesResource, [(''user_id'', uid)])]
     else if what = ''black'' then [(ModifyBlackResource, [(''user_id'', uid)])]
     else [])"
  "matching [''users'', uid, what, code] = (if uid = '''' \<or> code = '''' then [] else
     if what = ''reset_password'' then [(ResetResource, [(''user_id'', uid), (''code'', code)])]
     else if what = ''sndfa'' then [(CheckSndfaResource, [(''user_id'', uid), (''code'', code)])]
     else if what = ''checkemail'' then [(CheckEmailResource, [(''user_id'', uid), (''code'', code)])]
     else [])"
  by (auto simp: matching_def api_routes_defs map_filter_simps)

lemma matching_shape:
  assumes "matching path \<noteq> []"
  shows "path = [''users''] \<or> (\<exists>uid. path = [''users'', uid]) \<or>
     (\<exists>uid. path = [''OS-SCIM'', ''Users'', uid]) \<or> (\<exists>uid what. path = [''users'', uid, what]) \<or>
     (\<exists>uid what code. path = [''users'', uid, what, code])"
proof -
  from assms obtain r args where "r \<in> set api_routes"
      "match_segments (route_url r) path = Some args"
    by (auto simp: matching_def List.map_filter_def filter_empty_conv)
  then show ?thesis
    by (auto simp: api_routes_defs match_segments_Some)
qed

lemma matching_cases:
  obtains (none) "matching path = []"
  | (users) "matching path = [(UserResource, [])]"
  | (scim) uid where "uid \<noteq> ''''" "matching path = [(ScimUserResource, [(''user_id'', uid)])]"
  | (user) uid res where "uid \<noteq> ''''"
      "res \<notin> {ScimUserResource, ResetResource, CheckSndfaResource, CheckEmailResource}"
      "matching path = [(res, [(''user_id'', uid)])]"
  | (code) uid c res where "uid \<noteq> ''''" "c \<noteq> ''''"
      "matching path = [(res, [(''user_id'', uid), (''code'', c)])]"
      "res \<in> {ResetResource, CheckSndfaResource, CheckEmailResource}"
proof (cases "matching path = []")
  case True
  then show thesis by (rule none)
next
  case False
  from matching_shape [OF False] show thesis
  proof (elim disjE exE)
    assume "path = [''users'']"
    then show thesis by (intro users) (simp add: matching_run)
  next
    fix uid assume "path = [''users'', uid]"
    with False have "uid \<noteq> '''' \<and>
        (\<exists>res. res \<notin> {ScimUserResource, ResetResource, CheckSndfaResource, CheckEmailResource} \<and>
        matching path = [(res, [(''user_id'', uid)])])"
      by (simp add: matching_run split: if_splits)
    then show thesis using user by blast
  next
    fix uid assume "path = [''OS-SCIM'', ''Users'', uid]"
    with False have "uid \<noteq> '''' \<and> matching path = [(ScimUserResource, [(''user_id'', uid)])]"
      by (simp add: matching_run split: if_splits)
    then show thesis using scim by blast
  next
    fix uid what assume "path = [''users'', uid, what]"
    with False have "uid \<noteq> '''' \<and>
        (\<exists>res. res \<notin> {ScimUserResource, ResetResource, CheckSndfaResource, CheckEmailResource} \<and>
        matching path = [(res, [(''user_id'', uid)])])"
      by (simp add: matching_run split: if_splits)
    then show thesis using user by blast
  next
    fix uid what c assume "path = [''users'', uid, what, c]"
    with False have "uid \<noteq> '''' \<and> c \<noteq> '''' \<and>
        (\<exists>res. res \<in> {ResetResource, CheckSndfaResource, CheckEmailResource} \<and>
          matching path = [(res, [(''user_id'', uid), (''code'', c)])])"
      by (simp add: matching_run split: if_splits)
    then show thesis using code by blast
  qed
qed

text \<open>
  The routes are unambiguous: at most one route matches any path, and every route but the
  one of the collection of users hands over a user id that is not empty.
\<close>

lemma routes_unambiguous:
  "length (matching path) \<le> 1 \<and>
     (\<forall>(res, args) \<in> set (matching path). res = UserResource \<and> args = [] \<or>
        (\<exists>uid. map_of args ''user_id'' = Some uid \<and> uid \<noteq> ''''))"
  by (cases rule: matching_cases [of path]) auto

lemma method_of_scim_post:
  "method_of res meth = Some (ScimPost, params) \<Longrightarrow> res = ScimUserResource \<and> params = []"
  by (cases res; cases meth) auto

lemma method_of_user_post:
  "method_of res meth = Some (UserPost, params) \<Longrightarrow>
     res \<in> {UserResource, UserProjectRolesResource} \<and> meth = POST \<and> params = []"
  by (cases res; cases meth) auto

text \<open>
  No request reaches the \<open>post\<close> that checks the password of a SCIM user being created: it
  takes no user id, its only route hands one over, and the URL for creating SCIM users is not
  among the routes. The check of the user resource is reached, by a \<open>POST\<close> of the collection.
\<close>

lemma scim_create_unchecked:
  "dispatch meth path \<noteq> Call ScimPost args \<and>
   dispatch POST ''/OS-SCIM/Users'' = NoRoute \<and> dispatch POST ''/OS-SCIM/Users/u1'' = BadCall ScimPost \<and>
   (dispatch meth path = Call UserPost args \<longleftrightarrow>
      meth = POST \<and> path_segments path = [''users''] \<and> args = [])"
proof (intro conjI)
  show "dispatch meth path \<noteq> Call ScimPost args"
    by (cases rule: matching_cases [of "path_segments path"])
      (auto simp: dispatch_def binds_def dest: method_of_scim_post split: option.splits)
  show "dispatch POST ''/OS-SCIM/Users'' = NoRoute"
    by (simp add: dispatch_def path_segments_def matching_def api_routes_defs map_filter_simps)
  show "dispatch POST ''/OS-SCIM/Users/u1'' = BadCall ScimPost"
    by (simp add: dispatch_def path_segments_def matching_run binds_def)
  show "dispatch meth path = Call UserPost args \<longleftrightarrow>
      meth = POST \<and> path_segments path = [''users''] \<and> args = []"
  proof
    assume call: "dispatch meth path = Call UserPost args"
    then have "matching (path_segments path) = [(UserResource, [])] \<and> meth = POST \<and> args = []"
      by (cases rule: matching_cases [of "path_segments path"])
        (auto simp: dispatch_def binds_def dest!: method_of_user_post split: option.splits if_splits)
    then show "meth = POST \<and> path_segments path = [''users''] \<and> args = []"
      using matching_shape [of "path_segments path"] by (auto simp: matching_run split: if_splits)
  next
    assume "meth = POST \<and> path_segments path = [''users''] \<and> args = []"
    then show "dispatch meth path = Call UserPost args"
      by (simp add: dispatch_def matching_run binds_def)
  qed
qed

section \<open>Paths with a user and a code\<close>

definition no_slash :: "string \<Rightarrow> bool" where
  "no_slash t \<longleftrightarrow> CHR ''/'' \<notin> set t"

lemma split_slash_end: "no_slash t \<Longrightarrow> split_slash t = [t]"
  by (induction t) (auto simp: no_slash_def)

lemma split_slash_segment: "no_slash t \<Longrightarrow> split_slash (t @ CHR ''/'' # rest) = t # split_slash rest"
  by (induction t) (auto simp: no_slash_def)

lemma path_of_user:
  "no_slash uid \<Longrightarrow> no_slash what \<Longrightarrow>
     path_segments (''/users/'' @ uid @ ''/'' @ what) = [''users'', uid, what]"
  by (simp add: path_segments_def split_slash_segment split_slash_end)

lemma path_of_code:
  "no_slash uid \<Longrightarrow> no_slash what \<Longrightarrow> no_slash code \<Longrightarrow>
     path_segments (''/users/'' @ uid @ ''/'' @ what @ ''/'' @ code) = [''users'', uid, what, code]"
  by (simp add: path_segments_def split_slash_segment split_slash_end)

text \<open>
  The URL for reading the roles of a user also accepts \<open>PATCH\<close> and \<open>DELETE\<close>, inherited
  from the user resource: they update and delete the user.
\<close>

lemma roles_url_deletes_user:
  assumes "no_slash uid" and "uid \<noteq> ''''"
  shows "dispatch GET (''/users/'' @ uid @ ''/project_roles'') = Call ProjectRoles [(''user_id'', uid)] \<and>
     dispatch PATCH (''/users/'' @ uid @ ''/project_roles'') = Call UserPatch [(''user_id'', uid)] \<and>
     dispatch DELETE (''/users/'' @ uid @ ''/project_roles'') = Call UserDelete [(''user_id'', uid)]"
  using assms path_of_user [OF assms(1), of "''project_roles''"]
  by (simp add: dispatch_def matching_run binds_def no_slash_def)

section \<open>The links in the mails\<close>

lemma code_route:
  assumes "no_slash uid" and "uid \<noteq> ''''" and "no_slash code" and "code \<noteq> ''''"
  shows "dispatch GET (''/users/'' @ uid @ ''/reset_password/'' @ code) =
      Call Reset [(''user_id'', uid), (''code'', code)]"
    "dispatch GET (''/users/'' @ uid @ ''/checkemail/'' @ code) =
      Call CheckEmail [(''user_id'', uid), (''code'', code)]"
    "dispatch GET (''/users/'' @ uid @ ''/sndfa/'' @ code) =
      Call CheckSndfa [(''user_id'', uid), (''code'', code)]"
  using assms path_of_code [OF assms(1) _ assms(3), of "''reset_password''"]
    path_of_code [OF assms(1) _ assms(3), of "''checkemail''"]
    path_of_code [OF assms(1) _ assms(3), of "''sndfa''"]
  by (simp_all add: dispatch_def matching_run binds_def no_slash_def)

lemma hex_no_slash: "set t \<subseteq> set ''0123456789abcdef'' \<Longrightarrow> no_slash t"
  by (auto simp: no_slash_def)

text \<open>
  C34. The links that the plugin mails lead to the handlers that accept their codes: below the
  configured endpoint, with \<open>http://\<close> before it where it names no scheme, and keystone's prefix
  \<open>/v3\<close>, the path of each link is dispatched to the reset, to the check of the e-mail, or to the
  check of the second factor, with the user's id and the code as they were put in. Only the link
  for the second factor leaves \<open>/v3\<close> out, exactly when the endpoint is that of a portal, with
  \<open>/idm\<close> in it, which has to add it.
\<close>

theorem links_reach_their_handlers:
  assumes "no_slash (u_id u)" and "u_id u \<noteq> ''''" and "set c \<subseteq> set ''0123456789abcdef''" and "c \<noteq> ''''"
  shows "(\<exists>base p. mail_link cf u ''/reset_password/'' c = base @ ''/v3'' @ p \<and>
       base \<in> {sndfa_endpoint cf, ''http://'' @ sndfa_endpoint cf} \<and>
       dispatch GET p = Call Reset [(''user_id'', u_id u), (''code'', c)]) \<and>
     (\<exists>base p. mail_link cf u ''/checkemail/'' c = base @ ''/v3'' @ p \<and>
       base \<in> {sndfa_endpoint cf, ''http://'' @ sndfa_endpoint cf} \<and>
       dispatch GET p = Call CheckEmail [(''user_id'', u_id u), (''code'', c)]) \<and>
     (\<exists>base p. sndfa_link cf (u_id u) c =
         base @ (if str_in ''/idm'' (sndfa_endpoint cf) then '''' else ''/v3'') @ p \<and>
       base \<in> {sndfa_endpoint cf, ''http://'' @ sndfa_endpoint cf} \<and>
       dispatch GET p = Call CheckSndfa [(''user_id'', u_id u), (''code'', c)])"
    (is "?reset \<and> ?email \<and> ?sndfa")
proof -
  let ?base = "if startswith (sndfa_endpoint cf) ''http'' then sndfa_endpoint cf
      else ''http://'' @ sndfa_endpoint cf"
  let ?base2 = "if str_in ''http'' (sndfa_endpoint cf) then sndfa_endpoint cf
      else ''http://'' @ sndfa_endpoint cf"
  have sub: "?base \<in> {sndfa_endpoint cf, ''http://'' @ sndfa_endpoint cf}"
    "?base2 \<in> {sndfa_endpoint cf, ''http://'' @ sndfa_endpoint cf}" by simp_all
  note route = code_route [OF assms(1,2) hex_no_slash [OF assms(3)] assms(4)]
  have ?reset using sub(1) route(1)
    by (intro exI [of _ ?base] exI [of _ "''/users/'' @ u_id u @ ''/reset_password/'' @ c"])
      (simp add: mail_link_def)
  moreover have ?email using sub(1) route(2)
    by (intro exI [of _ ?base] exI [of _ "''/users/'' @ u_id u @ ''/checkemail/'' @ c"])
      (simp add: mail_link_def)
  moreover have ?sndfa using sub(2) route(3)
    by (intro exI [of _ ?base2] exI [of _ "''/users/'' @ u_id u @ ''/sndfa/'' @ c"])
      (simp add: sndfa_link_def)
  ultimately show ?thesis by blast
qed

theorem links_reach_their_handlers_witness:
  "\<exists>base p. mail_link demo_conf demo_user ''/reset_password/'' ''0a1b2c'' = base @ ''/v3'' @ p \<and>
     dispatch GET p = Call Reset [(''user_id'', ''u1''), (''code'', ''0a1b2c'')]"
  using links_reach_their_handlers [of demo_user "''0a1b2c''" demo_conf]
  by (auto simp: no_slash_def startswith_def)

end
