(* ===== verification/SP_Answers.thy ===== *)
theory SP_Answers
  imports SP_Routes
begin

text \<open>
  The types of the answers: for each handler that answers by itself, the pairs of a status and
  a content type that it may answer, each with the type of the body. The handlers that pass a
  request on to keystone, and with it the answer, have no entry.
\<close>

section \<open>Types of JSON values\<close>

text \<open>A value of \<open>TObj\<close> has exactly the fields that are listed, in their order.\<close>

datatype ty = TNull | TBool | TInt | TStr | TDate | TOr ty ty | TArr ty | TObj "(string \<times> ty) list"

definition field :: "string \<times> (json \<Rightarrow> bool) \<Rightarrow> string \<times> json \<Rightarrow> bool" where
  "field p kv \<longleftrightarrow> fst p = fst kv \<and> snd p (snd kv)"

primrec has_type :: "ty \<Rightarrow> json \<Rightarrow> bool" where
  "has_type TNull j = (j = JNull)"
| "has_type TBool j = (case j of JBool _ \<Rightarrow> True | _ \<Rightarrow> False)"
| "has_type TInt j = (case j of JInt _ \<Rightarrow> True | _ \<Rightarrow> False)"
| "has_type TStr j = (case j of JStr _ \<Rightarrow> True | _ \<Rightarrow> False)"
| "has_type TDate j = (case j of JDate _ \<Rightarrow> True | _ \<Rightarrow> False)"
| "has_type (TOr a b) j = (has_type a j \<or> has_type b j)"
| "has_type (TArr t) j = (case j of JArr js \<Rightarrow> list_all (has_type t) js | _ \<Rightarrow> False)"
| "has_type (TObj fs) j = (case j of
      JObj kvs \<Rightarrow> list_all2 field (map (map_prod id has_type) fs) kvs
    | _ \<Rightarrow> False)"

lemma field_simp [simp]: "field (k, P) (k', v) \<longleftrightarrow> k = k' \<and> P v"
  by (simp add: field_def)

section \<open>What each handler answers\<close>

text \<open>The body is a sentence, or a JSON value of a type.\<close>

datatype body_type = Sentence | Json ty

fun has_body_type :: "body_type \<Rightarrow> payload \<Rightarrow> bool" where
  "has_body_type Sentence (Text _) = True"
| "has_body_type (Json t) (Dumps j) = has_type t j"
| "has_body_type _ _ = False"

abbreviation json_type :: "string option" where
  "json_type \<equiv> Some ''application/json''"

abbreviation html_type :: "string option" where
  "html_type \<equiv> Some ''text/html''"

definition role_type :: ty where
  "role_type = TObj (map (\<lambda>k. (k, TStr))
     [''domain'', ''project'', ''project_name'', ''user'', ''user_name'', ''role'', ''role_name''])"

fun answer_types :: "handler \<Rightarrow> (nat \<times> string option \<times> body_type) list option" where
  "answer_types Recover = Some [(200, json_type, Sentence), (400, json_type, Sentence)]"
| "answer_types Reset = Some [(200, html_type, Sentence), (401, html_type, Sentence)]"
| "answer_types GetSndfa = Some
     [(200, None, Json (TObj [(''sndfa_email'', TBool), (''sndfa'', TBool)]))]"
| "answer_types ModifySndfa = Some [(200, json_type, Json (TObj [(''modified'', TBool)]))]"
| "answer_types CheckSndfa = Some [(200, html_type, Sentence), (401, json_type, Sentence)]"
| "answer_types AskCheckEmail = Some [(200, json_type, Sentence), (400, json_type, Sentence)]"
| "answer_types CheckEmail = Some [(200, html_type, Sentence), (401, json_type, Sentence)]"
| "answer_types ProjectRoles = Some [(200, json_type, Json (TArr role_type))]"
| "answer_types GetBlack = Some
     [(200, None, Json (TObj [(''black'', TBool), (''pwd_expiration_time'', TOr TInt TDate)]))]"
| "answer_types ModifyBlack = Some [(200, json_type, Json (TObj [(''modified'', TBool)]))]"
| "answer_types _ = None"

definition fits :: "response \<Rightarrow> nat \<times> string option \<times> body_type \<Rightarrow> bool" where
  "fits r t \<longleftrightarrow> status r = fst t \<and> content_type r = fst (snd t) \<and> has_body_type (snd (snd t)) (body r)"

definition answers_typed :: "handler \<Rightarrow> response \<Rightarrow> bool" where
  "answers_typed h r \<longleftrightarrow> (case answer_types h of None \<Rightarrow> True | Some ts \<Rightarrow> list_ex (fits r) ts)"

section \<open>The answers of the code\<close>

lemma answers_forwarded [simp]: "answer_types h = None \<Longrightarrow> answers_typed h = (\<lambda>_. True)"
  by (simp add: answers_typed_def fun_eq_iff)

lemma fits_response [simp]:
  "fits (make_response p n ct) (m, ct', t) \<longleftrightarrow> n = m \<and> ct = ct' \<and> has_body_type t p"
  by (simp add: fits_def make_response_def)

lemma typed_values [simp]:
  "b \<noteq> None \<Longrightarrow> has_type TBool (py_json_bool b)"
  "has_type (TOr TInt TDate) (json_expiration x)"
  "has_type role_type (role_entry u uid p role role_name)"
  by (auto simp: py_json_bool_def json_expiration_def role_type_def role_entry_def
      split: sum.split)

lemma typed_json:
  "has_type TBool (JBool b)"
  "has_type (TArr t) (JArr js) \<longleftrightarrow> list_all (has_type t) js"
  "has_type (TObj []) (JObj [])"
  "has_type (TObj ((k, t) # fs)) (JObj ((k', v) # kvs)) \<longleftrightarrow>
     k = k' \<and> has_type t v \<and> has_type (TObj fs) (JObj kvs)"
  by simp_all

lemma typed_modified [simp]:
  "answers_typed ModifySndfa (modified_response b)" "answers_typed ModifyBlack (modified_response b)"
  by (simp_all add: answers_typed_def modified_response_def)

lemma typed_flags [simp]:
  assumes "a \<noteq> None" and "b \<noteq> None"
  shows "answers_typed GetSndfa (make_response (Dumps (JObj
      [(''sndfa_email'', py_json_bool a), (''sndfa'', py_json_bool b)])) 200 None)"
  using assms by (simp add: answers_typed_def typed_json del: has_type.simps)

lemma typed_black [simp]:
  "answers_typed GetBlack (make_response (Dumps (JObj
      [(''black'', JBool b), (''pwd_expiration_time'', json_expiration x)])) 200 None)"
  by (simp add: answers_typed_def typed_json del: has_type.simps)

lemma typed_roles [simp]:
  assumes "list_all (list_all (has_type role_type)) parts"
  shows "answers_typed ProjectRoles (make_response (Dumps (JArr (concat parts))) 200 json_type)"
  using assms by (simp add: answers_typed_def typed_json list_all_iff del: has_type.simps)

lemma typed_sentences [simp]:
  "answers_typed Recover (make_response (Text t) n json_type) \<longleftrightarrow> n = 200 \<or> n = 400"
  "answers_typed AskCheckEmail (make_response (Text t) n json_type) \<longleftrightarrow> n = 200 \<or> n = 400"
  "answers_typed Reset (make_response (Text t) n html_type) \<longleftrightarrow> n = 200 \<or> n = 401"
  "answers_typed CheckSndfa (make_response (Text t) 200 html_type)"
  "answers_typed CheckSndfa (make_response (Text t) 401 json_type)"
  "answers_typed CheckEmail (make_response (Text t) 200 html_type)"
  "answers_typed CheckEmail (make_response (Text t) 401 json_type)"
  by (auto simp: answers_typed_def)

end
