(* ===== verification/SP_System.thy ===== *)
theory SP_System
  imports SP_Interface SP_Answers SP_PasswordResources
begin

text \<open>
  The plugin as a whole: a step is a login, a request to one of its routes, or something that
  keystone does by itself to its users, with the notifications that it sends. The invariant of
  \<open>SP_Invariant\<close> holds in every world reachable from an empty table, in any order of steps.
\<close>

section \<open>Requests\<close>

definition call_handler :: "env \<Rightarrow> keystone_api \<Rightarrow> handler \<Rightarrow> (string \<times> string) list \<Rightarrow> request \<Rightarrow>
    response wexec" where
  "call_handler E K h args req =
     (let uid = py_str_opt (map_of args ''user_id''); code = map_of args ''code'' in
      case h of
        ScimPatch \<Rightarrow> scim_user_patch E K uid req
      | ScimPut \<Rightarrow> scim_user_put K uid req
      | ScimPost \<Rightarrow> scim_user_post E K req
      | ScimDelete \<Rightarrow> scim_user_delete K uid req
      | UserPost \<Rightarrow> user_post E K req
      | UserPatch \<Rightarrow> user_patch E K uid req
      | UserDelete \<Rightarrow> user_delete K uid req
      | UserPasswordPost \<Rightarrow> user_password_post E K uid req
      | Recover \<Rightarrow> recover_password E uid
      | Reset \<Rightarrow> reset_password E uid code
      | GetSndfa \<Rightarrow> get_sndfa_resource E K uid req
      | ModifySndfa \<Rightarrow> modify_sndfa_resource E K uid req
      | CheckSndfa \<Rightarrow> check_sndfa_resource E uid code
      | AskCheckEmail \<Rightarrow> ask_check_email_resource E K uid req
      | CheckEmail \<Rightarrow> check_email_resource uid code
      | ProjectRoles \<Rightarrow> user_project_roles_resource K uid req
      | GetBlack \<Rightarrow> get_black_resource E K uid req
      | ModifyBlack \<Rightarrow> modify_black_resource E K uid req)"

text \<open>A request that the table of routes gives to the plugin, with the body \<open>j\<close>.\<close>

definition serve :: "env \<Rightarrow> keystone_api \<Rightarrow> http_method \<Rightarrow> string \<Rightarrow> json \<Rightarrow> response wexec option" where
  "serve E K meth path j = (case dispatch meth path of
      Call h args \<Rightarrow>
        Some (call_handler E K h args \<lparr>request_body_json = j, view_args = map_of args\<rparr>)
    | BadCall h \<Rightarrow> Some (raise (TypeError ''unexpected keyword argument''))
    | _ \<Rightarrow> None)"

section \<open>What keystone does by itself\<close>

text \<open>Its users change, each under its own id, and it notifies its listeners, in any order.\<close>

inductive keystone_effect :: "env \<Rightarrow> world \<Rightarrow> world \<Rightarrow> bool" for E where
  effect_refl: "keystone_effect E w w"
| effect_users: "keystone_effect E w v \<Longrightarrow> users_keyed (v\<lparr>users := us\<rparr>) \<Longrightarrow>
    keystone_effect E w (v\<lparr>users := us\<rparr>)"
| effect_notify: "keystone_effect E w v \<Longrightarrow>
    keystone_effect E w (snd (notify E operation resource_type resource_info v))"

text \<open>What the code relies on in the methods of its superclasses.\<close>

definition keystone_ops :: "env \<Rightarrow> keystone_api \<Rightarrow> bool" where
  "keystone_ops E K \<longleftrightarrow> keystone_auth E \<and> keystone_update E \<and> enforcer_reads K \<and>
     (\<forall>req uid w. keystone_effect E w (snd (ks_user_post K req w)) \<and>
        keystone_effect E w (snd (ks_user_patch K req uid w)) \<and>
        keystone_effect E w (snd (ks_user_delete K req uid w)) \<and>
        keystone_effect E w (snd (ks_password_post K req uid w)) \<and>
        keystone_effect E w (snd (scim_post K req w)) \<and>
        keystone_effect E w (snd (scim_patch K req uid w)) \<and>
        keystone_effect E w (snd (scim_patch_under K req uid w)) \<and>
        keystone_effect E w (snd (scim_delete K req uid w)))"

section \<open>The notifications keep the invariant\<close>

lemma wf_callbacks:
  assumes "own C" and "cb \<in> set (event_callbacks E operation resource_type)"
  shows "sound (world_ok strict) C (cb uid) (\<lambda>_. True)"
  using assms(2) user_driver.sound_callbacks [OF SPassword_driver [OF assms(1)], of strict E E uid]
  by (auto simp: callbacks_on_SPassword event_callbacks_def split: if_splits)

lemma wf_deliver:
  "(\<And>cb. cb \<in> set cbs \<Longrightarrow> sound (world_ok strict) C (cb uid) (\<lambda>_. True)) \<Longrightarrow>
     sound (world_ok strict) C (deliver cbs uid) (\<lambda>_. True)"
  by (induction cbs) (auto intro!: sound_ret sound_bnd [where R = "\<lambda>_. True"])

lemma wf_notify: "own C \<Longrightarrow> sound (world_ok strict) C (notify E operation resource_type uid) (\<lambda>_. True)"
  unfolding notify_def by (intro wf_deliver wf_callbacks)

abbreviation any_exn :: "exn \<Rightarrow> bool" where
  "any_exn \<equiv> \<lambda>_. True"

lemma own_any [simp]: "own any_exn"
  by (simp add: own_def)

lemma wf_users: "world_ok strict w \<Longrightarrow> users_keyed (w\<lparr>users := us\<rparr>) \<Longrightarrow> world_ok strict (w\<lparr>users := us\<rparr>)"
  by (simp add: world_ok_def users_keyed_def)

lemma wf_keystone_effect: "keystone_effect E w v \<Longrightarrow> world_ok strict w \<Longrightarrow> world_ok strict v"
proof (induction rule: keystone_effect.induct)
  case (effect_users w v us)
  then show ?case by (blast intro: wf_users)
next
  case (effect_notify w v operation resource_type resource_info)
  then show ?case
    using soundD(1) [OF wf_notify [OF own_any]] by (metis prod.collapse)
qed simp

lemma wf_effect:
  "(\<And>w. keystone_effect E w (snd (m w))) \<Longrightarrow> sound (world_ok strict) any_exn m (\<lambda>_. True)"
  unfolding sound_def by (auto intro: wf_keystone_effect split: sum.split)

lemma wf_update_user:
  assumes "keystone_update E" and "\<And>i. sound (world_ok strict) any_exn (updated i) (\<lambda>_. True)"
  shows "sound (world_ok strict) any_exn (ks_update_user E updated uid pw) (\<lambda>_. True)"
proof (rule soundI)
  fix w x v
  assume w: "world_ok strict w" and run: "ks_update_user E updated uid pw w = (x, v)"
  have "world_ok strict v"
  proof (cases "users w uid")
    case None
    from assms(1) have "keystone_update_at E updated uid pw w"
      unfolding keystone_update_def by blast
    with None run w show ?thesis by (simp add: keystone_update_at_def)
  next
    case (Some u)
    with assms(1) show ?thesis
    proof (cases rule: keystone_update_cases [where updated = updated and pw = pw])
      case (1 e)
      with run w show ?thesis by simp
    next
      case (2 u')
      from w Some 2(1) have "users_keyed (w\<lparr>users := (users w)(uid \<mapsto> u')\<rparr>)"
        by (auto simp: world_ok_def users_keyed_def)
      with w have "world_ok strict (w\<lparr>users := (users w)(uid \<mapsto> u')\<rparr>)" by (rule wf_users)
      with soundD(1) [OF assms(2)] 2(4) run show ?thesis by metis
    qed
  qed
  then show "world_ok strict v \<and> (case x of Inl e \<Rightarrow> True | Inr r \<Rightarrow> True)" by (simp split: sum.split)
qed

section \<open>The handlers keep the invariant\<close>

lemma wf_checks:
  "sound (world_ok strict) any_exn (check_spassword_configured E) (\<lambda>_. True)"
  "sound (world_ok strict) any_exn (check_user_has_email_defined u) (\<lambda>_. True)"
  "sound (world_ok strict) any_exn (check_user_has_email_validated u) (\<lambda>_. True)"
  "sound (world_ok strict) any_exn (lift r) (\<lambda>_. True)"
  by (auto intro!: sound_readonly keeps_checks sound_lift)

lemma wf_enforce:
  "enforcer_reads K \<Longrightarrow>
     sound (world_ok strict) any_exn (enforce_call K action (build_user_target_enforcement K req)) (\<lambda>_. True)"
  by (auto intro: sound_readonly keeps_enforce)

lemma wf_mail:
  "keystone_auth E \<Longrightarrow> sound (world_ok strict) any_exn (send_email E to subject body_text) (\<lambda>_. True)"
  by (rule wf_send_email)
    (simp add: outside_raises_def smtp_raises_def keystone_raises_def Let_def)

lemma wf_ask_code: "sound (world_ok strict) any_exn (user_ask_check_email_code E uid) (\<lambda>_. True)"
  unfolding user_ask_check_email_code_def Let_def
  by (intro sound_bnd [OF wf_already_email_checked] sound_bnd [OF wf_prims(2)]
      sound_bnd [OF wf_set_check_email_code] sound_ret) simp_all

lemma wf_with_bool:
  "(\<And>b. sound (world_ok strict) any_exn (f b) S) \<Longrightarrow> sound (world_ok strict) any_exn (with_bool j f) S"
  by (cases j) (auto simp: with_bool_def intro: sound_raise)

lemmas wf_steps = sound_ret sound_raise sound_if
  sound_bnd [OF wf_checks(1)] sound_bnd [OF wf_checks(2)] sound_bnd [OF wf_checks(3)]
  sound_bnd [OF wf_checks(4)] sound_bnd [OF wf_identity_get_user [OF own_any]]
  sound_bnd [OF wf_ask_code] sound_bnd [OF wf_check_email_code] sound_bnd [OF wf_prims(2)]
  sound_bnd [OF wf_already_email_checked] sound_bnd [OF wf_get_sndfa] sound_bnd [OF wf_get_black]
  sound_bnd [OF wf_get_pwd_expiration [OF own_any]] sound_bnd [OF wf_modify_sndfa]
  sound_bnd [OF wf_modify_black] sound_bnd [OF wf_check_sndfa_code] wf_with_bool

lemmas forwarded_defs = user_check_sndfa_code_def user_modify_sndfa_def user_get_sndfa_def
  user_get_black_def user_modify_black_def user_get_pwd_expiration_def user_check_email_code_def
  already_user_check_email_def Let_def

lemma wf_recover:
  "keystone_auth E \<Longrightarrow> sound (world_ok strict) any_exn (recover_password E uid) (answers_typed Recover)"
  unfolding recover_password_def forwarded_defs
  by (intro wf_steps sound_bnd [OF wf_mail]) simp_all

lemma wf_reset:
  assumes "keystone_auth E" and "keystone_update E"
  shows "sound (world_ok strict) any_exn (reset_password E uid code) (answers_typed Reset)"
proof -
  have update: "sound (world_ok strict) any_exn (catch (ks_update_user E (notify E ''updated'' ''user'') uid pw)
      (\<lambda>e. if e = AssertionError then Some (raise (Unauthorized ''Invalid username or password''))
           else None)) (\<lambda>_. True)" for pw
    by (rule sound_catch [where D = any_exn])
      (auto intro!: wf_update_user assms wf_notify sound_raise split: if_splits)
  show ?thesis
    unfolding reset_password_def forwarded_defs send_new_password_email_def
    by (intro wf_steps sound_bnd [OF update] sound_bnd [OF wf_mail [OF assms(1)]]) simp_all
qed

lemma wf_sndfa_resources:
  assumes "enforcer_reads K"
  shows "sound (world_ok strict) any_exn (modify_sndfa_resource E K uid req) (answers_typed ModifySndfa)"
    "sound (world_ok strict) any_exn (get_sndfa_resource E K uid req) (answers_typed GetSndfa)"
    "sound (world_ok strict) any_exn (modify_black_resource E K uid req) (answers_typed ModifyBlack)"
    "sound (world_ok strict) any_exn (get_black_resource E K uid req) (answers_typed GetBlack)"
  unfolding modify_sndfa_resource_def get_sndfa_resource_def modify_black_resource_def
    get_black_resource_def forwarded_defs
  by (intro wf_steps sound_bnd [OF wf_enforce [OF assms]]; simp)+

lemma wf_check_sndfa_resource:
  "sound (world_ok strict) any_exn (check_sndfa_resource E uid (Some code)) (answers_typed CheckSndfa)"
  unfolding check_sndfa_resource_def forwarded_defs by (intro wf_steps) simp_all

lemma wf_email_resources:
  assumes "enforcer_reads K" and "keystone_auth E"
  shows "sound (world_ok strict) any_exn (ask_check_email_resource E K uid req) (answers_typed AskCheckEmail)"
    "sound (world_ok strict) any_exn (check_email_resource uid code) (answers_typed CheckEmail)"
  unfolding ask_check_email_resource_def check_email_resource_def forwarded_defs
  by (intro wf_steps sound_bnd [OF wf_enforce [OF assms(1)]] sound_bnd [OF wf_mail [OF assms(2)]];
      simp)+

lemma wf_project_roles:
  assumes "enforcer_reads K"
  shows "sound (world_ok strict) any_exn (user_project_roles_resource K uid req) (answers_typed ProjectRoles)"
proof -
  have "sound (world_ok strict) any_exn (project_roles K u uid p) (list_all (has_type role_type))" for u p
    unfolding project_roles_def by (intro wf_steps sound_mapE) simp_all
  then show ?thesis
    unfolding user_project_roles_resource_def
    by (intro wf_steps sound_bnd [OF wf_enforce [OF assms]] sound_bnd [OF sound_mapE] typed_roles)
      simp_all
qed

lemma wf_password_resources:
  assumes "keystone_ops E K"
  shows "sound (world_ok strict) any_exn (scim_user_patch E K uid req) (\<lambda>_. True)"
    "sound (world_ok strict) any_exn (scim_user_put K uid req) (\<lambda>_. True)"
    "sound (world_ok strict) any_exn (scim_user_post E K req) (\<lambda>_. True)"
    "sound (world_ok strict) any_exn (scim_user_delete K uid req) (\<lambda>_. True)"
    "sound (world_ok strict) any_exn (user_post E K req) (\<lambda>_. True)"
    "sound (world_ok strict) any_exn (user_patch E K uid req) (\<lambda>_. True)"
    "sound (world_ok strict) any_exn (user_delete K uid req) (\<lambda>_. True)"
    "sound (world_ok strict) any_exn (user_password_post E K uid req) (\<lambda>_. True)"
  using assms
  unfolding scim_user_patch_def scim_user_put_def scim_user_post_def scim_user_delete_def
    user_post_def user_patch_def user_delete_def user_password_post_def keystone_ops_def Let_def
  by (intro wf_steps sound_option wf_effect [where E = E]; simp)+

section \<open>Steps and reachable worlds\<close>

inductive step :: "env \<Rightarrow> keystone_api \<Rightarrow> world \<Rightarrow> world \<Rightarrow> bool" for E K where
  step_login: "Identity_authenticate E uid pw w = (x, v) \<Longrightarrow> step E K w v"
| step_request: "serve E K meth path j = Some m \<Longrightarrow> m w = (y, v) \<Longrightarrow> step E K w v"
| step_keystone: "keystone_effect E w v \<Longrightarrow> step E K w v"

inductive_cases stepE: "step E K w v"

text \<open>The plugin is installed with an empty table, whatever users keystone already has.\<close>

inductive reachable :: "env \<Rightarrow> keystone_api \<Rightarrow> world \<Rightarrow> bool" for E K where
  reach_init: "table w = Map.empty \<Longrightarrow> users_keyed w \<Longrightarrow> reachable E K w"
| reach_step: "reachable E K w \<Longrightarrow> step E K w v \<Longrightarrow> reachable E K v"

text \<open>The routes never call the check of a second factor code without a code.\<close>

lemma method_of_check_sndfa:
  "method_of res meth = Some (CheckSndfa, params) \<Longrightarrow> res = CheckSndfaResource"
  by (cases res; cases meth) auto

lemma dispatch_check_sndfa: "dispatch meth path = Call CheckSndfa args \<Longrightarrow> map_of args ''code'' \<noteq> None"
  by (cases rule: matching_cases [of "path_segments path"])
    (auto simp: dispatch_def dest: method_of_check_sndfa split: option.splits if_splits)

lemma wf_call_handler:
  assumes "keystone_ops E K" and "h = CheckSndfa \<longrightarrow> map_of args ''code'' \<noteq> None"
  shows "sound (world_ok strict) any_exn (call_handler E K h args req) (answers_typed h)"
proof -
  have ks: "keystone_auth E" "keystone_update E" "enforcer_reads K"
    using assms(1) by (simp_all add: keystone_ops_def)
  show ?thesis
    using assms(2) wf_password_resources [OF assms(1)] wf_recover [OF ks(1)] wf_reset [OF ks(1,2)]
      wf_sndfa_resources [OF ks(3)] wf_check_sndfa_resource wf_email_resources [OF ks(3,1)]
      wf_project_roles [OF ks(3)]
    by (cases h) (auto simp: call_handler_def Let_def)
qed

lemma wf_serve:
  assumes "keystone_ops E K" and "serve E K meth path j = Some m"
  shows "sound (world_ok strict) any_exn m (\<lambda>_. True)"
  using assms(2) dispatch_check_sndfa [of meth path]
  by (auto simp: serve_def split: dispatched.splits
      intro: sound_weaken [OF wf_call_handler [OF assms(1)]] sound_raise)

lemma wf_step:
  assumes "keystone_ops E K" and "step E K w v" and "world_ok strict w"
  shows "world_ok strict v"
  using assms(2)
proof (cases rule: stepE [consumes 1, case_names login request keystone])
  case (login uid pw x)
  have "outside_raises any_exn E"
    using assms(1) by (simp add: outside_raises_def smtp_raises_def keystone_raises_def
        keystone_ops_def Let_def)
  from soundD(1) [OF wf_authenticate [OF this] assms(3) login] show ?thesis .
next
  case (request meth path j m y)
  from soundD(1) [OF wf_serve [OF assms(1) request(1)] assms(3) request(2)] show ?thesis .
next
  case keystone
  from wf_keystone_effect [OF this assms(3)] show ?thesis .
qed

lemma reachable_wf: "reachable E K w \<Longrightarrow> keystone_ops E K \<Longrightarrow> world_ok strict w"
proof (induction rule: reachable.induct)
  case (reach_init w)
  then show ?case by (simp add: world_ok_def)
next
  case (reach_step w v)
  then show ?case by (blast intro: wf_step)
qed

section \<open>What the invariant gives\<close>

text \<open>
  C5. In every reachable world each row is stored under its own user id, has a creation date,
  a count of bad attempts that is not negative, a date of the last attempt wherever the count
  is positive, flags that are not \<open>NULL\<close>, a code wherever the e-mail counts as verified or the
  second factor was confirmed, codes of six hexadecimal digits, and an \<open>extra\<close> that is empty
  or \<open>black\<close> with one of the two texts that \<open>eval\<close> reads back as Booleans.
\<close>

theorem reachable_rows_well_formed:
  assumes "keystone_ops E K" and "reachable E K w" and "table w uid = Some r"
  shows "user_id r = Some uid \<and> creation_time r \<noteq> None \<and> sndfa r \<noteq> None \<and> sndfa_email r \<noteq> None \<and>
     (\<exists>n. login_attempts r = Some n \<and> 0 \<le> n \<and> (0 < n \<longrightarrow> last_login_attempt_time r \<noteq> None)) \<and>
     (sndfa_email r = Some True \<longrightarrow> (\<exists>c. sndfa_email_code r = Some c \<and> length c = 6)) \<and>
     (sndfa_last r \<noteq> None \<longrightarrow> (\<exists>c. sndfa_code r = Some c \<and> length c = 6)) \<and>
     (\<forall>t. extra r ''black'' = Some t \<longrightarrow> (\<exists>b. py_eval t = Inr b))"
proof -
  from reachable_wf [OF assms(2,1)] assms(3) have "wf_row uid r" by (rule wf_worldD)
  then show ?thesis by (auto simp: row_ok_def code_ok_def split: option.splits)
qed

lemma demo_keystone_ops [simp]: "keystone_ops demo_env demo_api"
  by (simp add: keystone_ops_def demo_api_def effect_refl enforcer_reads_def
      readonly.keeps_bnd readonly.keeps_ret)

text \<open>A user that keystone created and announced.\<close>

definition demo_start :: world where
  "demo_start = (demo_world demo_row)\<lparr>table := Map.empty\<rparr>"

definition demo_created :: world where
  "demo_created = snd (notify demo_env ''created'' ''user'' ''u1'' demo_start)"

lemma demo_created_row:
  "table demo_created ''u1'' = Some (column_defaults (user_row demo_user (naive demo_now)))"
  by (simp add: demo_created_def demo_start_def notify_user_created user_created_callback_def bnd_def
      get_user_run set_user_creation_time_run Let_def)

lemma demo_created_reachable: "reachable demo_env demo_api demo_created"
proof (rule reach_step)
  show "reachable demo_env demo_api demo_start"
    by (rule reach_init) (simp_all add: demo_start_def users_keyed_def)
  show "step demo_env demo_api demo_start demo_created"
    unfolding demo_created_def by (intro step_keystone effect_notify effect_refl)
qed

theorem reachable_rows_well_formed_witness:
  "\<exists>w r. reachable demo_env demo_api w \<and> table w ''u1'' = Some r \<and> user_id r = Some ''u1''"
  using reachable_rows_well_formed [OF demo_keystone_ops demo_created_reachable demo_created_row]
    demo_created_reachable demo_created_row by blast

text \<open>
  C6. In no reachable world does a login fail on the data it reads: no attribute of \<open>None\<close>, no
  comparison of \<open>NULL\<close>, no text that \<open>eval\<close> does not know, no row without a key. This needs a
  configured black list and a limit of tries that is not negative, and that keystone and SMTP
  do not raise such errors of their own.
\<close>

theorem login_never_data_error:
  assumes "keystone_ops E K" and "reachable E K w"
    and "smtp_raises (\<lambda>e. \<not> data_error e) E" and "keystone_raises (\<lambda>e. \<not> data_error e) E"
    and "pwd_user_blacklist (conf E) \<noteq> None" and "0 \<le> pwd_max_tries (conf E)"
    and "Identity_authenticate E uid pw w = (Inl e, v)"
  shows "\<not> data_error e"
proof -
  have "outside_raises (\<lambda>e. \<not> data_error e) E"
    using assms(1,3-6) by (simp add: outside_raises_def own_not_data_error keystone_ops_def)
  from soundD(2) [OF wf_authenticate [OF this] reachable_wf [OF assms(2,1)] assms(7) refl]
  show ?thesis .
qed

lemma demo_smtp_raises: "smtp_raises C demo_env"
  by (simp add: smtp_raises_def)

lemma demo_keystone_raises:
  assumes "C AssertionError"
  shows "keystone_raises C demo_env"
proof -
  have "C e \<or> (\<exists>u. chk pw u w = (Inl e, v))"
    if "demo_authenticate chk uid pw w = (Inl e, v)" for chk uid pw w e v
    using that assms
    by (auto simp: demo_authenticate_def split: option.splits prod.splits sum.splits if_splits)
  then show ?thesis by (auto simp: keystone_raises_def)
qed

theorem login_never_data_error_witness:
  "\<exists>e v. Identity_authenticate demo_env ''nobody'' ''x'' demo_created = (Inl e, v) \<and> \<not> data_error e"
proof -
  have users: "users demo_created ''nobody'' = None"
    by (simp add: demo_created_def demo_start_def notify_user_created user_created_callback_def
        bnd_def get_user_run set_user_creation_time_run Let_def)
  have row: "table demo_created ''nobody'' = None"
    by (simp add: demo_created_def demo_start_def notify_user_created user_created_callback_def
        bnd_def get_user_run set_user_creation_time_run Let_def)
  have "fst (Identity_authenticate demo_env ''nobody'' ''x'' demo_created) = Inl (UserNotFound ''nobody'')"
    by (simp add: login_run_defs users row)
  then obtain v where
    run: "Identity_authenticate demo_env ''nobody'' ''x'' demo_created = (Inl (UserNotFound ''nobody''), v)"
    by (metis prod.collapse)
  have "keystone_raises (\<lambda>e. \<not> data_error e) demo_env"
    by (rule demo_keystone_raises) (simp add: data_error_def)
  moreover have "pwd_user_blacklist (conf demo_env) \<noteq> None" "0 \<le> pwd_max_tries (conf demo_env)"
    by simp_all
  ultimately show ?thesis
    using login_never_data_error [OF demo_keystone_ops demo_created_reachable demo_smtp_raises _ _ _ run]
      run by blast
qed

text \<open>
  C38. Every request that a handler of the plugin answers by itself, in any reachable world, is
  answered with a type that its handler is listed with: one of two statuses with its content
  type and a sentence, or status 200 and a JSON object or array with exactly the fields and
  types listed; the flags of the second factor, for one, are never \<open>null\<close>.
\<close>

theorem answers_have_types:
  assumes "keystone_ops E K" and "reachable E K w" and "dispatch meth path = Call h args"
    and "answer_types h = Some types" and "serve E K meth path j = Some m" and "m w = (Inr r, v)"
  shows "list_ex (fits r) types"
proof -
  have "m = call_handler E K h args \<lparr>request_body_json = j, view_args = map_of args\<rparr>"
    using assms(3,5) by (simp add: serve_def)
  moreover have "h = CheckSndfa \<longrightarrow> map_of args ''code'' \<noteq> None"
    using assms(3) dispatch_check_sndfa by blast
  ultimately have "sound wf_world any_exn m (answers_typed h)"
    using wf_call_handler [OF assms(1)] by simp
  from soundD(3) [OF this reachable_wf [OF assms(2,1)] assms(6)] assms(4) show ?thesis
    by (simp add: answers_typed_def)
qed

theorem answers_have_types_witness:
  "\<exists>m r v. serve demo_env demo_api GET ''/users/u1/sndfa'' JNull = Some m \<and>
     m demo_created = (Inr r, v) \<and>
     fits r (200, None, Json (TObj [(''sndfa_email'', TBool), (''sndfa'', TBool)]))"
proof -
  have path: "dispatch GET ''/users/u1/sndfa'' = Call GetSndfa [(''user_id'', ''u1'')]"
    using path_of_user [of "''u1''" "''sndfa''"]
    by (simp add: dispatch_def matching_run binds_def no_slash_def)
  let ?req = "\<lparr>request_body_json = JNull, view_args = map_of [(''user_id'', ''u1'')]\<rparr>"
  have m: "serve demo_env demo_api GET ''/users/u1/sndfa'' JNull =
      Some (get_sndfa_resource demo_env demo_api ''u1'' ?req)"
    using path by (simp add: serve_def call_handler_def py_str_opt_def)
  have "users demo_created ''u1'' = Some demo_user"
    by (simp add: demo_created_def demo_start_def notify_user_created user_created_callback_def
        bnd_def get_user_run set_user_creation_time_run Let_def)
  then obtain r v where
    run: "get_sndfa_resource demo_env demo_api ''u1'' ?req demo_created = (Inr r, v)"
    by (simp add: get_sndfa_resource_def build_user_target_enforcement_def bnd_def catch_def Let_def
        identity_get_user_run already_user_check_email_def already_email_checked_run
        user_get_sndfa_def get_sndfa_run py_str_opt_def)
  from answers_have_types [OF demo_keystone_ops demo_created_reachable path _ m run] m run
  show ?thesis by auto
qed

text \<open>
  The option \<open>pwd_max_tries\<close> has no lower bound. With a negative value, a user who was
  just created and never tried to log in counts as over the limit; the date of the last
  attempt, still \<open>NULL\<close>, is read, and every login of that user ends in \<open>AttributeError\<close>.
\<close>

lemma negative_tries_break_login:
  assumes "enabled (conf E)" and "pwd_user_blacklist (conf E) = Some ids" and "uid \<notin> set ids"
    and "pwd_max_tries (conf E) < 0" and "users w uid = Some u" and "u_id u = uid"
    and "table w uid = None" and "notify E ''created'' ''user'' uid w = (x, v)"
  shows "x = Inr () \<and> Identity_authenticate E uid pw v = (Inl (AttributeError ''tzinfo''), v)"
proof -
  let ?r = "column_defaults (user_row u (naive (clock E (ticks w))))"
  have "x = Inr () \<and> v = with_row (w\<lparr>ticks := Suc (ticks w)\<rparr>) uid ?r"
    using assms by (auto simp: notify_user_created user_created_callback_def bnd_def get_user_run
        set_user_creation_time_run Let_def)
  moreover have "login_attempts ?r = Some 0" "last_login_attempt_time ?r = None"
    by (simp_all add: column_defaults_def user_row_def no_sndfa_def blank_row_def)
  ultimately show ?thesis
    using assms(1-4) by (simp add: Identity_authenticate_def check_block_def bnd_def py_gt_def
        get_spassword_session_def)
qed

end
