(* ===== verification/SP_Threads.thy ===== *)
theory SP_Threads
  imports SP_Sound
begin

text \<open>
  Operations that share their state with others while they run. A thread is finished, or waits
  to take its next action, which happens at once on the state that it finds. \<open>run\<close> lets a thread
  run alone; \<open>schedule\<close> lets the threads of a pool take turns in any given order.
\<close>

section \<open>Threads\<close>

datatype ('s, 'a) thread = Done "exn + 'a" | Next "'s \<Rightarrow> ('s, 'a) thread \<times> 's"

text \<open>One action, and a sequence: the second part starts with the result of the first.\<close>

definition atomic :: "('s, 'a) exec \<Rightarrow> ('s, 'a) thread" where
  "atomic m = Next (\<lambda>s. (Done (fst (m s)), snd (m s)))"

primrec andthen :: "('s, 'a) thread \<Rightarrow> ('a \<Rightarrow> ('s, 'b) thread) \<Rightarrow> ('s, 'b) thread" where
  "andthen (Done r) f = (case r of Inl e \<Rightarrow> Done (Inl e) | Inr x \<Rightarrow> f x)"
| "andthen (Next g) f = Next (map_prod (\<lambda>t. andthen t f) id \<circ> g)"

primrec run :: "('s, 'a) thread \<Rightarrow> ('s, 'a) exec" where
  "run (Done r) = (\<lambda>s. (r, s))"
| "run (Next g) = (\<lambda>s. case (map_prod run id \<circ> g) s of (m, t) \<Rightarrow> m t)"

lemma andthen_simps [simp]:
  "andthen (Done (Inl e)) f = Done (Inl e)" "andthen (Done (Inr x)) f = f x"
  by simp_all

lemma andthen_atomic: "andthen (atomic m) f =
    Next (\<lambda>s. (case fst (m s) of Inl e \<Rightarrow> Done (Inl e) | Inr x \<Rightarrow> f x, snd (m s)))"
  by (simp add: atomic_def comp_def)

lemma run_atomic [simp]: "run (atomic m) = m"
  by (rule ext) (simp add: atomic_def)

lemma run_Done [simp]: "run (Done (Inr x)) = ret x" "run (Done (Inl e)) = raise e"
  by (simp_all add: fun_eq_iff)

lemma run_andthen [simp]: "run (andthen t f) = bnd (run t) (\<lambda>x. run (f x))"
proof (induction t)
  case (Done r)
  then show ?case by (cases r) (simp_all add: fun_eq_iff bnd_def)
next
  case (Next g)
  show ?case
  proof (rule ext)
    fix s
    obtain t s' where g: "g s = (t, s')" by fastforce
    then have "run (andthen t f) = bnd (run t) (\<lambda>x. run (f x))"
      by (intro Next.IH [OF rangeI [of g s]]) simp
    with g show "run (andthen (Next g) f) s = bnd (run (Next g)) (\<lambda>x. run (f x)) s"
      by (simp add: bnd_def)
  qed
qed

declare run.simps [simp del]

lemma run_cases [simp]:
  "run (if b then t else u) = (if b then run t else run u)"
  "run (case z of None \<Rightarrow> t | Some x \<Rightarrow> f x) = (case z of None \<Rightarrow> run t | Some x \<Rightarrow> run (f x))"
  "run (case y of Inl a \<Rightarrow> g a | Inr b \<Rightarrow> h b) = (case y of Inl a \<Rightarrow> run (g a) | Inr b \<Rightarrow> run (h b))"
  "run (case p of (a, b) \<Rightarrow> k a b) = (case p of (a, b) \<Rightarrow> run (k a b))"
  by (simp_all split: option.split sum.split prod.split)

lemma andthen_assoc: "andthen (andthen t f) g = andthen t (\<lambda>x. andthen (f x) g)"
proof (induction t)
  case (Done r)
  then show ?case by (cases r) simp_all
next
  case (Next h)
  have "andthen (andthen (fst (h s)) f) g = andthen (fst (h s)) (\<lambda>x. andthen (f x) g)" for s
    by (rule Next.IH [OF rangeI [of h s]]) (cases "h s"; simp)
  then show ?case by (simp add: fun_eq_iff map_prod_def split_beta)
qed

section \<open>The steps of a thread\<close>

text \<open>\<open>takes n t\<close>: whatever states \<open>t\<close> finds, it is finished after at most \<open>n\<close> actions.\<close>

inductive takes :: "nat \<Rightarrow> ('s, 'a) thread \<Rightarrow> bool" where
  takes_Done: "takes n (Done r)"
| takes_Next: "(\<And>s. takes n (fst (g s))) \<Longrightarrow> takes (Suc n) (Next g)"

inductive_cases takes_0E: "takes 0 t"
inductive_cases takes_NextE: "takes n (Next g)"

lemma takes_mono: "takes n t \<Longrightarrow> n \<le> m \<Longrightarrow> takes m t"
proof (induction arbitrary: m rule: takes.induct)
  case (takes_Done n r)
  show ?case by (rule takes.takes_Done)
next
  case (takes_Next n g)
  then obtain k where "m = Suc k" "n \<le> k" by (cases m) auto
  with takes_Next.IH show ?case by (auto intro: takes.takes_Next)
qed

lemma takes_atomic: "takes 1 (atomic m)"
  using takes_Next [of 0 "\<lambda>s. (Done (fst (m s)), snd (m s))"] by (simp add: atomic_def takes_Done)

lemma takes_andthen:
  assumes "takes n t" and "\<And>x. takes m (f x)"
  shows "takes (n + m) (andthen t f)"
  using assms(1)
proof (induction rule: takes.induct)
  case (takes_Done n r)
  then show ?case using takes_mono [OF assms(2)] by (cases r) (auto intro: takes.takes_Done)
next
  case (takes_Next n g)
  have "takes (n + m) (fst ((map_prod (\<lambda>t. andthen t f) id \<circ> g) s))" for s
    using takes_Next.IH [of s] by (cases "g s") simp
  then show ?case by (simp add: takes.takes_Next)
qed

lemma takes_then: "(\<And>x. takes n (f x)) \<Longrightarrow> takes (Suc n) (andthen (atomic m) f)"
  using takes_andthen [OF takes_atomic] by fastforce

lemma takes_last: "takes (Suc n) (atomic m)"
  by (rule takes_mono [OF takes_atomic]) simp

lemma takes_if: "takes n t \<Longrightarrow> takes n u \<Longrightarrow> takes n (if b then t else u)"
  by simp

lemma takes_option: "takes n t \<Longrightarrow> (\<And>x. takes n (f x)) \<Longrightarrow>
    takes n (case z of None \<Rightarrow> t | Some x \<Rightarrow> f x)"
  by (cases z) simp_all

lemma takes_sum: "(\<And>x. takes n (f x)) \<Longrightarrow> (\<And>x. takes n (g x)) \<Longrightarrow>
    takes n (case z of Inl x \<Rightarrow> f x | Inr x \<Rightarrow> g x)"
  by (cases z) simp_all

lemma takes_prod: "(\<And>x y. takes n (f x y)) \<Longrightarrow> takes n (case z of (x, y) \<Rightarrow> f x y)"
  by (cases z) simp_all

lemmas takes_rules = takes_Done takes_then takes_last takes_if takes_option takes_sum takes_prod

section \<open>Threads that keep an invariant\<close>

text \<open>
  \<open>safe I C S t\<close>: every action of \<open>t\<close> that finds the invariant \<open>I\<close> leaves it, an exception that
  ends \<open>t\<close> satisfies \<open>C\<close>, a result satisfies \<open>S\<close>. Others may act in between, as long as they
  keep \<open>I\<close>.
\<close>

inductive safe ::
    "('s \<Rightarrow> bool) \<Rightarrow> (exn \<Rightarrow> bool) \<Rightarrow> ('a \<Rightarrow> bool) \<Rightarrow> ('s, 'a) thread \<Rightarrow> bool" for I C S where
  safe_Inl: "C e \<Longrightarrow> safe I C S (Done (Inl e))"
| safe_Inr: "S x \<Longrightarrow> safe I C S (Done (Inr x))"
| safe_Next: "(\<And>s. I s \<Longrightarrow> I (snd (g s)) \<and> safe I C S (fst (g s))) \<Longrightarrow> safe I C S (Next g)"

inductive_simps safe_simps [simp]:
  "safe I C S (Done (Inl e))" "safe I C S (Done (Inr x))" "safe I C S (Next g)"

lemma safe_atomic:
  assumes "sound I C m S"
  shows "safe I C S (atomic m)"
proof -
  have "I (snd (m s)) \<and> safe I C S (Done (fst (m s)))" if s: "I s" for s
  proof (cases "m s")
    case (Pair r t)
    from soundD [OF assms s Pair] Pair show ?thesis by (cases r) auto
  qed
  then show ?thesis by (simp add: atomic_def)
qed

lemma safe_andthen:
  assumes "safe I C R t" and "\<And>x. R x \<Longrightarrow> safe I C S (f x)"
  shows "safe I C S (andthen t f)"
  using assms(1)
proof (induction rule: safe.induct)
  case (safe_Next g)
  have "I (snd ((map_prod (\<lambda>t. andthen t f) id \<circ> g) s)) \<and>
      safe I C S (fst ((map_prod (\<lambda>t. andthen t f) id \<circ> g) s))" if "I s" for s
    using safe_Next.IH [OF that] by (cases "g s") auto
  then show ?case by simp
qed (simp_all add: assms(2))

lemma safe_if: "(b \<Longrightarrow> safe I C S t) \<Longrightarrow> (\<not> b \<Longrightarrow> safe I C S u) \<Longrightarrow> safe I C S (if b then t else u)"
  by simp

lemma safe_option:
  "(z = None \<Longrightarrow> safe I C S t) \<Longrightarrow> (\<And>x. z = Some x \<Longrightarrow> safe I C S (f x)) \<Longrightarrow>
     safe I C S (case z of None \<Rightarrow> t | Some x \<Rightarrow> f x)"
  by (cases z) simp_all

lemma safe_sum:
  "(\<And>x. z = Inl x \<Longrightarrow> safe I C S (f x)) \<Longrightarrow> (\<And>x. z = Inr x \<Longrightarrow> safe I C S (g x)) \<Longrightarrow>
     safe I C S (case z of Inl x \<Rightarrow> f x | Inr x \<Rightarrow> g x)"
  by (cases z) simp_all

lemma safe_prod:
  "(\<And>x y. z = (x, y) \<Longrightarrow> safe I C S (f x y)) \<Longrightarrow> safe I C S (case z of (x, y) \<Rightarrow> f x y)"
  by (cases z) simp_all

section \<open>Pools\<close>

fun resume :: "('s, 'a) thread \<Rightarrow> 's \<Rightarrow> ('s, 'a) thread \<times> 's" where
  "resume (Done r) s = (Done r, s)"
| "resume (Next g) s = g s"

fun schedule :: "nat list \<Rightarrow> ('s, 'a) thread list \<Rightarrow> 's \<Rightarrow> ('s, 'a) thread list \<times> 's" where
  "schedule [] ts s = (ts, s)"
| "schedule (i # is) ts s = (if i < length ts
     then schedule is (ts[i := fst (resume (ts ! i) s)]) (snd (resume (ts ! i) s))
     else schedule is ts s)"

lemma length_schedule [simp]: "length (fst (schedule is ts s)) = length ts"
  by (induction "is" ts s rule: schedule.induct) simp_all

lemma schedule_append:
  "schedule (is @ js) ts s = (case schedule is ts s of (us, t) \<Rightarrow> schedule js us t)"
  by (induction "is" ts s rule: schedule.induct) simp_all

lemma resume_simps [simp]:
  "resume (atomic m) s = (Done (fst (m s)), snd (m s))"
  "m s = (Inr x, t) \<Longrightarrow> resume (andthen (atomic m) f) s = (f x, t)"
  "m s = (Inl e, t) \<Longrightarrow> resume (andthen (atomic m) f) s = (Done (Inl e), t)"
  by (simp_all add: atomic_def)

text \<open>An invariant of the pool and its state that every turn keeps holds after every schedule.\<close>

lemma schedule_invariant:
  assumes "P ts s" and "\<And>ts s i. P ts s \<Longrightarrow> i < length ts \<Longrightarrow>
     P (ts[i := fst (resume (ts ! i) s)]) (snd (resume (ts ! i) s))"
  shows "P (fst (schedule is ts s)) (snd (schedule is ts s))"
  using assms(1)
  by (induction "is" ts s rule: schedule.induct) (simp_all add: assms(2))

lemma takes_resume: "takes (Suc n) t \<Longrightarrow> takes n (fst (resume t s))"
  by (cases t) (auto intro: takes_Done elim: takes_NextE)

text \<open>A schedule that gives every thread as many turns as it can use finishes them all.\<close>

lemma schedule_finishes:
  assumes "\<And>i. i < length ts \<Longrightarrow> takes (count_list is i) (ts ! i)"
  shows "\<forall>t\<in>set (fst (schedule is ts s)). \<exists>r. t = Done r"
  using assms
proof (induction "is" ts s rule: schedule.induct)
  case (1 ts s)
  then show ?case by (fastforce simp: in_set_conv_nth elim: takes_0E)
next
  case (2 i "is" ts s)
  show ?case
  proof (cases "i < length ts")
    case True
    have "takes (count_list is j) (ts[i := fst (resume (ts ! i) s)] ! j)" if "j < length ts" for j
      using 2(3) [OF that] that True takes_resume [of "count_list is i" "ts ! i" s]
      by (cases "j = i") simp_all
    with 2(1) [OF True] True show ?thesis by simp
  next
    case False
    have "takes (count_list is j) (ts ! j)" if "j < length ts" for j
      using 2(3) [OF that] that False by (cases "j = i") simp_all
    with 2(2) [OF False] False show ?thesis by simp
  qed
qed

lemma schedule_safe:
  assumes "\<forall>t\<in>set ts. safe I C S t" and "I s"
  shows "(\<forall>t\<in>set (fst (schedule is ts s)). safe I C S t) \<and> I (snd (schedule is ts s))"
proof (rule schedule_invariant [where P = "\<lambda>ts s. (\<forall>t\<in>set ts. safe I C S t) \<and> I s"])
  fix ts :: "('a, 'b) thread list" and s i
  assume P: "(\<forall>t\<in>set ts. safe I C S t) \<and> I s" and i: "i < length ts"
  then have "safe I C S (ts ! i)" by simp
  with P have "safe I C S (fst (resume (ts ! i) s)) \<and> I (snd (resume (ts ! i) s))"
    by (cases "ts ! i") auto
  with P show "(\<forall>t\<in>set (ts[i := fst (resume (ts ! i) s)]). safe I C S t) \<and> I (snd (resume (ts ! i) s))"
    by (auto dest: set_update_subset_insert [THEN subsetD])
qed (use assms in simp)

section \<open>Threads that keep a relation\<close>

text \<open>
  \<open>acts R t\<close>: every action of \<open>t\<close> changes the state it finds only as \<open>R\<close> allows, whatever
  others did before it.
\<close>

inductive acts :: "('s \<Rightarrow> 's \<Rightarrow> bool) \<Rightarrow> ('s, 'a) thread \<Rightarrow> bool" for R where
  acts_Done: "acts R (Done r)"
| acts_Next: "(\<And>s. R s (snd (g s)) \<and> acts R (fst (g s))) \<Longrightarrow> acts R (Next g)"

inductive_cases acts_NextE: "acts R (Next g)"

lemma acts_atomic: "keeps R m \<Longrightarrow> acts R (atomic m)"
  by (auto simp: atomic_def keeps_def intro!: acts_Next acts_Done)

lemma acts_andthen:
  assumes "acts R t" and "\<And>x. acts R (f x)"
  shows "acts R (andthen t f)"
  using assms(1)
proof (induction rule: acts.induct)
  case (acts_Done r)
  then show ?case using assms(2) by (cases r) (auto intro: acts.acts_Done)
next
  case (acts_Next g)
  have "R s (snd ((map_prod (\<lambda>t. andthen t f) id \<circ> g) s)) \<and>
      acts R (fst ((map_prod (\<lambda>t. andthen t f) id \<circ> g) s))" for s
    using acts_Next.IH [of s] by (cases "g s") auto
  then show ?case by (simp add: acts.acts_Next)
qed

lemma acts_then: "keeps R m \<Longrightarrow> (\<And>x. acts R (f x)) \<Longrightarrow> acts R (andthen (atomic m) f)"
  by (intro acts_andthen acts_atomic)

lemma acts_cases:
  "acts R t \<Longrightarrow> acts R u \<Longrightarrow> acts R (if b then t else u)"
  "acts R t \<Longrightarrow> (\<And>x. acts R (h x)) \<Longrightarrow> acts R (case z of None \<Rightarrow> t | Some x \<Rightarrow> h x)"
  "(\<And>x. acts R (k x)) \<Longrightarrow> (\<And>x. acts R (l x)) \<Longrightarrow> acts R (case y of Inl x \<Rightarrow> k x | Inr x \<Rightarrow> l x)"
  "(\<And>x y. acts R (m x y)) \<Longrightarrow> acts R (case p of (x, y) \<Rightarrow> m x y)"
  by (simp_all split: option.split sum.split prod.split)

lemmas acts_rules = acts_Done acts_then acts_atomic acts_cases

lemma acts_resume:
  assumes "acts R t"
  shows "acts R (fst (resume t s))" and "(\<And>s. R s s) \<Longrightarrow> R s (snd (resume t s))"
  using assms by (cases t; auto intro: acts_Done elim: acts_NextE)+

lemma acts_run:
  assumes "acts R t" and "frame R"
  shows "keeps R (run t)"
  using assms(1)
proof (induction rule: acts.induct)
  case (acts_Done r)
  then show ?case using frame.R_refl [OF assms(2)] by (simp add: keeps_def run.simps)
next
  case (acts_Next g)
  have "R s (snd (run (Next g) s))" for s
  proof (cases "g s")
    case (Pair t v)
    with acts_Next.IH [of s] have "R s v" "R v (snd (run t v))" by (auto simp: keeps_def)
    with Pair show ?thesis by (auto simp: run.simps intro: frame.R_trans [OF assms(2)])
  qed
  then show ?case by (rule keepsI)
qed

lemma schedule_acts:
  assumes "frame R" and "\<forall>t\<in>set ts. acts R t"
  shows "(\<forall>t\<in>set (fst (schedule is ts s)). acts R t) \<and> R s (snd (schedule is ts s))"
proof (rule schedule_invariant [where P = "\<lambda>ts v. (\<forall>t\<in>set ts. acts R t) \<and> R s v"])
  fix ts :: "('a, 'b) thread list" and v i
  assume P: "(\<forall>t\<in>set ts. acts R t) \<and> R s v" and i: "i < length ts"
  then have t: "acts R (ts ! i)" by simp
  have "R s (snd (resume (ts ! i) v))"
    using P acts_resume(2) [OF t frame.R_refl [OF assms(1)], of v] frame.R_trans [OF assms(1)] by blast
  with P acts_resume(1) [OF t, of v]
  show "(\<forall>t\<in>set (ts[i := fst (resume (ts ! i) v)]). acts R t) \<and> R s (snd (resume (ts ! i) v))"
    by (auto dest: set_update_subset_insert [THEN subsetD])
qed (use assms frame.R_refl [OF assms(1)] in simp)

end
