(* ===== verification/SP_Interleaving.thy ===== *)
theory SP_Interleaving
  imports SP_System SP_Threads
begin

text \<open>
  Logins that run at the same time. The login of \<open>SP_Identity\<close> is cut where it reads or writes
  the database or sends a mail; between two of these actions other logins, requests and
  notifications may act. A commit writes the columns that were assigned, whatever the row holds
  by then; a count of attempts that was assigned the value it had when it was read is left out,
  as the ORM does. A date that is assigned is taken to differ from the one that was read, and a
  fresh code from the one it replaces.
\<close>

section \<open>The login as a thread\<close>

text \<open>
  What an UPDATE leaves in a column that was read as \<open>old\<close> and assigned \<open>new\<close>, and that holds
  \<open>now\<close> when it is written: a column that was assigned the value it had is left out of it.
\<close>

definition written :: "'a \<Rightarrow> 'a \<Rightarrow> 'a \<Rightarrow> 'a" where
  "written old new now = (if new = old then now else new)"

lemma written_same [simp]: "written old new old = new"
  by (simp add: written_def)

definition set_code_thread :: "env \<Rightarrow> user \<Rightarrow> string \<Rightarrow> (world, unit) thread" where
  "set_code_thread E user newcode =
     andthen (atomic (get_spassword_session (u_id user))) (\<lambda>spassword_ref.
     case spassword_ref of
       None \<Rightarrow> Done (Inr ())
     | Some r \<Rightarrow>
         if in_to_dict r ''sndfa'' then
           if truthy (sndfa r) \<and> truthy (sndfa_email r) then
             atomic (bnd (utcnow E) (\<lambda>now.
               bnd (session_save (u_id user) (\<lambda>s. s\<lparr>
                 sndfa_time_code := Some now, sndfa_code := Some newcode\<rparr>)) (\<lambda>_. ret ())))
           else Done (Inr ())
         else atomic (bnd (session_insert (no_sndfa blank_row)) (\<lambda>_. ret ())))"

definition code_to_send_thread ::
    "env \<Rightarrow> string \<Rightarrow> spassword_row \<Rightarrow> (world, string) thread" where
  "code_to_send_thread E uid r =
     andthen (atomic (within_window E (sndfa_time_code r))) (\<lambda>recent.
     if recent then Done (Inr (py_str_opt (sndfa_code r)))
     else
       andthen (atomic (fresh_uuid E)) (\<lambda>u.
       let code = take 6 (uuid_hex u) in
       andthen (atomic (identity_get_user uid)) (\<lambda>user.
       andthen (set_code_thread E user code) (\<lambda>_. Done (Inr code)))))"

definition second_factor_thread ::
    "env \<Rightarrow> string \<Rightarrow> spassword_row \<Rightarrow> auth_ref \<Rightarrow> (world, string + auth_ref) thread" where
  "second_factor_thread E uid r res =
     (let res = set_extra ''sndfa'' (py_opt PBool (sndfa r)) res in
      if truthy (sndfa_email r) then
        andthen (atomic (within_window E (sndfa_last r))) (\<lambda>validated.
        if validated then Done (Inr (Inr res))
        else
          andthen (code_to_send_thread E uid r) (\<lambda>code.
          andthen (atomic (bnd (identity_get_user uid) (\<lambda>user. lift (user_email user)))) (\<lambda>to.
          andthen (atomic (send_email E to (Brand @ '' second factor auth procedure'')
                 (sndfa_text (conf E) uid code))) (\<lambda>_.
          Done (Inr (Inl expecting_msg))))))
      else Done (Inr (Inl unverified_msg)))"

definition demand_thread :: "env \<Rightarrow> string \<Rightarrow> spassword_row \<Rightarrow> string + auth_ref \<Rightarrow>
    (world, string + auth_ref) thread" where
  "demand_thread E uid r res = (case res of
      Inl msg \<Rightarrow> Done (Inr (Inl msg))
    | Inr a \<Rightarrow>
        let a = (if conf_sndfa (conf E) \<and> in_to_dict r ''sndfa_email''
                 then set_extra ''sndfa_email'' (py_opt PBool (sndfa_email r)) a
                 else a) in
        if conf_sndfa (conf E) \<and> in_to_dict r ''sndfa'' \<and> truthy (sndfa r)
        then second_factor_thread E uid r a
        else Done (Inr (Inr a)))"

text \<open>The commit at the end of a login of a user with the row \<open>r\<close>.\<close>

definition commit_attempt :: "string \<Rightarrow> spassword_row \<Rightarrow> int \<Rightarrow> datetime \<Rightarrow> unit wexec" where
  "commit_attempt uid r n now =
     bnd (session_save uid (\<lambda>s. s\<lparr>
       login_attempts := written (login_attempts r) (Some n) (login_attempts s),
       last_login_attempt_time := Some now\<rparr>)) (\<lambda>_. ret ())"

definition known_thread :: "env \<Rightarrow> string \<Rightarrow> spassword_row \<Rightarrow> datetime \<Rightarrow> string + user \<Rightarrow>
    (world, string + auth_ref) thread" where
  "known_thread E uid r now res =
     andthen (atomic (count_attempt E uid r res)) (\<lambda>(res, n).
     andthen (demand_thread E uid r res) (\<lambda>res.
     andthen (atomic (commit_attempt uid r n now)) (\<lambda>_.
     Done (Inr res))))"

definition new_thread :: "env \<Rightarrow> string \<Rightarrow> datetime \<Rightarrow> string + user \<Rightarrow>
    (world, string + auth_ref) thread" where
  "new_thread E uid now res =
     andthen (atomic (identity_get_user uid)) (\<lambda>user.
     let row = (user_row user now)\<lparr>last_login_attempt_time := Some now\<rparr> in
     case res of
       Inl msg \<Rightarrow>
         atomic (bnd (session_insert (row\<lparr>login_attempts := Some 1\<rparr>)) (\<lambda>_. ret (Inl msg)))
     | Inr u \<Rightarrow>
         andthen (atomic (lift (dt_add now (timedelta_days (pwd_exp_days (conf E)))))) (\<lambda>expiration.
         andthen (atomic (lift (in_blacklist (conf E) uid))) (\<lambda>listed.
         atomic (bnd (session_insert (row\<lparr>login_attempts := Some 0\<rparr>)) (\<lambda>_.
           ret (Inr \<lparr>ref_user = u,
             ref_extras = Some (registration_extras now expiration listed)\<rparr>))))))"

definition record_thread :: "env \<Rightarrow> string \<Rightarrow> string + user \<Rightarrow> (world, string + auth_ref) thread" where
  "record_thread E uid res =
     (if enabled (conf E) then
        andthen (atomic (get_spassword_session uid)) (\<lambda>spassword_ref.
        andthen (atomic (utcnow E)) (\<lambda>now.
        case spassword_ref of
          Some r \<Rightarrow> known_thread E uid r now res
        | None \<Rightarrow> new_thread E uid now res))
      else Done (Inr (case res of Inl msg \<Rightarrow> Inl msg
                | Inr u \<Rightarrow> Inr \<lparr>ref_user = u, ref_extras = None\<rparr>)))"

abbreviation finish_thread :: "string + auth_ref \<Rightarrow> (world, auth_ref) thread" where
  "finish_thread res \<equiv> (case res of
     Inl auth_error_msg \<Rightarrow> Done (Inl (SPasswordUnauthorized auth_error_msg))
   | Inr a \<Rightarrow> Done (Inr a))"

text \<open>
  The superclass's \<open>authenticate\<close>, a parameter that only reads, is one action, and so is the
  check of the block, which reads one row.
\<close>

definition login_thread :: "env \<Rightarrow> string \<Rightarrow> string \<Rightarrow> (world, auth_ref) thread" where
  "login_thread E uid password =
     andthen (atomic (check_block E uid)) (\<lambda>_.
     andthen (atomic (base_authenticate E uid password)) (\<lambda>res.
     andthen (record_thread E uid res) finish_thread))"

section \<open>A login that runs alone\<close>

lemma run_set_code: "run (set_code_thread E u code) = set_user_sndfa_code E u code"
proof (rule ext)
  fix w
  show "run (set_code_thread E u code) w = set_user_sndfa_code E u code w"
    by (cases "table w (u_id u)")
      (simp_all add: set_code_thread_def set_user_sndfa_code_def run_Done bnd_def session_save_def
        get_spassword_session_def utcnow_def)
qed

lemma run_second_factor: "run (second_factor_thread E uid r a) = second_factor E uid r a"
  by (simp add: second_factor_thread_def second_factor_def code_to_send_thread_def
      sndfa_code_to_send_def run_set_code run_Done bnd_assoc Let_def cong: if_cong)

lemma run_demand: "run (demand_thread E uid r res) = demand_sndfa E uid r res"
  by (simp add: demand_thread_def demand_sndfa_def run_second_factor run_Done Let_def
      cong: sum.case_cong if_cong)

lemma run_new: "run (new_thread E uid now res) = new_user E uid now res"
  by (simp add: new_thread_def new_user_def Let_def cong: sum.case_cong)

text \<open>Nothing before the commit touches the count.\<close>

definition same_count :: "string \<Rightarrow> world \<Rightarrow> world \<Rightarrow> bool" where
  "same_count uid w v \<longleftrightarrow>
     map_option login_attempts (table v uid) = map_option login_attempts (table w uid)"

interpretation same_count: frame "same_count uid" for uid
  by unfold_locales (simp_all add: same_count_def)

lemma same_count_table: "keeps same_table m \<Longrightarrow> keeps (same_count uid) m"
  by (simp add: keeps_def same_count_def same_table_def)

lemma same_count_ticks:
  assumes "keeps only_ticks m"
  shows "keeps (same_count uid) m"
proof (rule keepsI)
  fix w
  have "only_ticks w (snd (m w))" using assms by (simp add: keeps_def)
  from only_ticks_same(1) [OF this] show "same_count uid w (snd (m w))"
    by (simp add: same_count_def)
qed

lemma same_count_readonly: "keeps (=) m \<Longrightarrow> keeps (same_count uid) m"
  unfolding keeps_def by (metis same_count.R_refl)

lemma same_count_set_code: "keeps (same_count uid) (set_user_sndfa_code E u code)"
proof (rule keepsI)
  fix w
  show "same_count uid w (snd (set_user_sndfa_code E u code w))"
    by (cases "table w (u_id u)") (simp_all add: set_user_sndfa_code_run same_count_def)
qed

lemma same_count_demand: "keeps (same_count uid) (demand_sndfa E i r res)"
  unfolding demand_sndfa_def second_factor_def sndfa_code_to_send_def Let_def
  by (intro same_count.keeps_rules same_count_table [OF mailer.keeps_table] same_count_set_code
      same_count_table [OF keeps_same_table_prims(2)] same_count_ticks [OF keeps_within_window]
      same_count_readonly [OF keeps_identity_get_user])

text \<open>A commit on the row as it was read writes what was assigned.\<close>

lemma commit_attempt_alone:
  assumes "table v uid = Some s" and "login_attempts s = login_attempts r"
  shows "commit_attempt uid r n now v = bnd (session_save uid
      (\<lambda>s. s\<lparr>login_attempts := Some n, last_login_attempt_time := Some now\<rparr>)) (\<lambda>_. ret ()) v"
  using assms by (simp add: commit_attempt_def session_save_def bnd_def flip: assms(2))

lemma run_known:
  assumes "table w uid = Some r"
  shows "run (known_thread E uid r now res) w = known_user E uid r now res w"
proof -
  have tail: "bnd (demand_sndfa E uid r res') (\<lambda>y. bnd (commit_attempt uid r n now) (\<lambda>_. ret y)) w =
      bnd (demand_sndfa E uid r res') (\<lambda>y. bnd (session_save uid (\<lambda>r. r\<lparr>login_attempts := Some n,
        last_login_attempt_time := Some now\<rparr>)) (\<lambda>_. ret y)) w" for res' n
  proof (cases "demand_sndfa E uid r res' w")
    case (Pair x v)
    then have "same_count uid w v" by (rule keepsD [OF same_count_demand])
    then obtain s where "table v uid = Some s" "login_attempts s = login_attempts r"
      using assms by (auto simp: same_count_def)
    from commit_attempt_alone [OF this] Pair show ?thesis
      by (cases x) (simp_all add: bnd_def split: prod.splits sum.splits)
  qed
  obtain x where c: "count_attempt E uid r res w = (x, w)"
    using keepsD [OF count_attempt_frame] by (metis prod.collapse)
  show ?thesis
  proof (cases x)
    case (Inl e)
    with c show ?thesis by (simp add: known_thread_def known_user_def bnd_Inl)
  next
    case (Inr y)
    with c tail show ?thesis
      by (cases y) (simp add: known_thread_def known_user_def run_demand bnd_Inr)
  qed
qed

lemma run_record: "run (record_thread E uid res) = record_attempt E uid res"
proof (rule ext)
  fix w
  show "run (record_thread E uid res) w = record_attempt E uid res w"
    by (cases "table w uid") (simp_all add: record_thread_def record_attempt_def run_new run_known)
qed

lemma run_login: "run (login_thread E uid pw) = Identity_authenticate E uid pw"
  by (simp add: login_thread_def Identity_authenticate_def run_record cong: sum.case_cong)

text \<open>
  Cutting the login into actions changes nothing for a login that runs alone: the thread
  run without interruption is \<open>Identity_authenticate\<close>, on every world and with every result.
\<close>

lemma login_thread_alone: "run (login_thread E uid pw) = Identity_authenticate E uid pw"
  by (rule run_login)

section \<open>Every login ends, whatever the others do\<close>

lemma takes_set_code: "takes 2 (set_code_thread E u code)"
  unfolding set_code_thread_def numeral_2_eq_2 by (intro takes_rules)

lemma takes_code_to_send: "takes 5 (code_to_send_thread E uid r)"
proof -
  have "takes (2 + 0) (andthen (set_code_thread E u c) (\<lambda>_. Done (Inr c)))" for u c
    by (intro takes_andthen takes_set_code takes_Done)
  then have "takes (Suc (Suc 0)) (andthen (set_code_thread E u c) (\<lambda>_. Done (Inr c)))" for u c
    by (simp add: numeral_2_eq_2)
  then have "takes (Suc (Suc (Suc (Suc (Suc 0))))) (code_to_send_thread E uid r)"
    unfolding code_to_send_thread_def Let_def by (intro takes_rules)
  then show ?thesis by (simp add: eval_nat_numeral)
qed

lemma takes_demand: "takes 8 (demand_thread E uid r res)"
proof -
  have "takes (5 + Suc (Suc 0)) (andthen (code_to_send_thread E uid r) (\<lambda>code.
      andthen (atomic (m code)) (\<lambda>to. andthen (atomic (k code to)) (\<lambda>_. Done (Inr x)))))"
    for m :: "string \<Rightarrow> string wexec" and k :: "string \<Rightarrow> string \<Rightarrow> bool wexec" and x :: "string + auth_ref"
    by (intro takes_andthen takes_code_to_send takes_rules)
  then have "takes (Suc 7) (second_factor_thread E uid r a)" for a
    unfolding second_factor_thread_def Let_def by (intro takes_rules) simp
  then show ?thesis
    unfolding demand_thread_def Let_def by (intro takes_rules) simp
qed

lemma takes_login: "takes 14 (login_thread E uid pw)"
proof -
  have "takes (8 + Suc 0) (andthen (demand_thread E uid r res) (\<lambda>res.
      andthen (atomic (commit_attempt uid r n now)) (\<lambda>_. Done (Inr res))))" for r res n now
    by (intro takes_andthen takes_demand takes_rules)
  then have "takes (Suc 9) (known_thread E uid r now res)" for r now res
    unfolding known_thread_def by (intro takes_rules) simp
  moreover have "takes (Suc (Suc (Suc (Suc 6)))) (new_thread E uid now res)" for now res
    unfolding new_thread_def Let_def by (intro takes_rules)
  ultimately have "takes (Suc (Suc 10)) (record_thread E uid res)" for res
    unfolding record_thread_def by (intro takes_rules) simp_all
  then have "takes (12 + 0) (andthen (record_thread E uid res) finish_thread)" for res
    by (intro takes_andthen takes_rules) simp
  then have "takes (Suc (Suc 12)) (login_thread E uid pw)"
    unfolding login_thread_def by (intro takes_rules) simp
  then show ?thesis by simp
qed

definition login_pool :: "env \<Rightarrow> (string \<times> string) list \<Rightarrow> (world, auth_ref) thread list" where
  "login_pool E attempts = map (\<lambda>(uid, pw). login_thread E uid pw) attempts"

section \<open>The invariant between the actions of others\<close>

lemma safe_set_code:
  assumes "own C" and "code_ok (Some code)"
  shows "safe (world_ok strict) C (\<lambda>_. True) (set_code_thread E u code)"
  unfolding set_code_thread_def
proof (rule safe_andthen [OF safe_atomic [OF wf_prims(3)]], rule safe_option)
  fix x :: "spassword_row option" and r
  show "safe (world_ok strict) C (\<lambda>_. True) (if in_to_dict r ''sndfa'' then
           if truthy (sndfa r) \<and> truthy (sndfa_email r) then
             atomic (bnd (utcnow E) (\<lambda>now.
               bnd (session_save (u_id u) (\<lambda>s. s\<lparr>
                 sndfa_time_code := Some now, sndfa_code := Some code\<rparr>)) (\<lambda>_. ret ())))
           else Done (Inr ())
         else atomic (bnd (session_insert (no_sndfa blank_row)) (\<lambda>_. ret ())))"
    using assms(2)
    by (simp add: safe_atomic sound_bnd [OF wf_prims(1)] sound_bnd [OF wf_session_save [OF assms(1)]]
        sound_ret wf_row_updates)
qed simp

lemma safe_code_to_send:
  assumes "own C"
  shows "safe (world_ok strict) C (\<lambda>_. True) (code_to_send_thread E uid r)"
  unfolding code_to_send_thread_def Let_def
  by (intro safe_andthen [OF safe_atomic [OF wf_within_window [OF assms]]] safe_if safe_Inr
      safe_andthen [OF safe_atomic [OF wf_prims(2)]]
      safe_andthen [OF safe_atomic [OF wf_identity_get_user [OF assms]]]
      safe_andthen [OF safe_set_code [OF assms]]) simp_all

lemma safe_demand:
  assumes "outside_raises C E"
  shows "safe (world_ok strict) C (\<lambda>_. True) (demand_thread E uid r res)"
proof -
  note own = outside_own [OF assms]
  have to: "sound (world_ok strict) C (bnd (identity_get_user uid) (\<lambda>user. lift (user_email user))) (\<lambda>_. True)"
    by (intro sound_bnd [OF wf_identity_get_user [OF own]] sound_lift)
      (auto simp: user_email_def own_simps [OF own] split: option.splits)
  have "safe (world_ok strict) C (\<lambda>_. True) (second_factor_thread E uid r a)" for a
    unfolding second_factor_thread_def Let_def
    by (intro safe_if safe_Inr safe_andthen [OF safe_atomic [OF wf_within_window [OF own]]]
        safe_andthen [OF safe_code_to_send [OF own]] safe_andthen [OF safe_atomic [OF to]]
        safe_andthen [OF safe_atomic [OF wf_send_email [OF assms]]]) simp_all
  then show ?thesis
    unfolding demand_thread_def Let_def by (intro safe_sum safe_if safe_Inr) simp_all
qed

lemma wf_commit_attempt:
  assumes "own C" and "0 \<le> n"
  shows "sound (world_ok strict) C (commit_attempt uid r n now) (\<lambda>_. True)"
proof -
  have "row_ok strict uid (s\<lparr>login_attempts := written (login_attempts r) (Some n) (login_attempts s),
      last_login_attempt_time := Some now\<rparr>)" if "row_ok strict uid s" for s
    using that assms(2) by (auto simp: written_def row_ok_def)
  then show ?thesis
    unfolding commit_attempt_def
    by (intro sound_bnd [OF wf_session_save [OF assms(1)]] sound_ret) simp_all
qed

lemma safe_known:
  assumes "outside_raises C E" and "row_ok strict uid r"
  shows "safe (world_ok strict) C (\<lambda>_. True) (known_thread E uid r now res)"
  unfolding known_thread_def
proof (rule safe_andthen [OF safe_atomic [OF wf_count_attempt [OF assms]]], rule safe_prod)
  fix x and res' :: "string + auth_ref" and n :: int
  assume "case x of (_, n) \<Rightarrow> 0 \<le> n" and "x = (res', n)"
  then have "0 \<le> n" by simp
  then show "safe (world_ok strict) C (\<lambda>_. True) (andthen (demand_thread E uid r res') (\<lambda>res.
      andthen (atomic (commit_attempt uid r n now)) (\<lambda>_. Done (Inr res))))"
    by (intro safe_andthen [OF safe_demand [OF assms(1)]] safe_Inr
        safe_andthen [OF safe_atomic [OF wf_commit_attempt [OF outside_own [OF assms(1)]]]]) simp_all
qed

lemma safe_login:
  assumes "outside_raises C E"
  shows "safe (world_ok strict) C (\<lambda>_. True) (login_thread E uid pw)"
proof -
  note own = outside_own [OF assms]
  have new: "safe (world_ok strict) C (\<lambda>_. True) (new_thread E uid now res)" for now res
    unfolding new_thread_def Let_def
    by (intro safe_andthen [OF safe_atomic [OF wf_identity_get_user [OF own]]] safe_sum
        safe_atomic sound_bnd [OF wf_registration(1) [OF assms]] sound_ret
        safe_andthen [OF safe_atomic [OF wf_registration(2) [OF assms]]]
        safe_andthen [OF safe_atomic [OF wf_registration(3) [OF assms]]]) simp_all
  have "safe (world_ok strict) C (\<lambda>_. True) (record_thread E uid res)" for res
    unfolding record_thread_def
    by (intro safe_if safe_Inr safe_andthen [OF safe_atomic [OF wf_prims(3)]]
        safe_andthen [OF safe_atomic [OF wf_prims(1)]] safe_option new safe_known [OF assms]) simp_all
  then show ?thesis
    unfolding login_thread_def
    by (intro safe_andthen [OF safe_atomic [OF wf_check_block [OF assms]]]
        safe_andthen [OF safe_atomic [OF wf_base_authenticate [OF assms]]]
        safe_andthen [where R = "\<lambda>_. True"] safe_sum safe_Inr safe_Inl)
      (simp_all add: own_simps [OF own])
qed

text \<open>
  The jobs that may run at the same time: logins, action by action, and any request, notification
  or change by keystone as one action.
\<close>

inductive job :: "env \<Rightarrow> keystone_api \<Rightarrow> (world, unit) thread \<Rightarrow> bool" for E K where
  job_login: "job E K (andthen (login_thread E uid pw) (\<lambda>_. Done (Inr ())))"
| job_step: "(\<And>w. step E K w (f w)) \<Longrightarrow> job E K (atomic (modify f))"

lemma safe_job:
  assumes "job E K t" and "keystone_ops E K" and "outside_raises C E"
  shows "safe (world_ok strict) C (\<lambda>_. True) t"
  using assms(1)
proof cases
  case (job_login uid pw)
  then show ?thesis by (auto intro: safe_andthen [OF safe_login [OF assms(3)]])
next
  case (job_step f)
  then have "sound (world_ok strict) C (modify f) (\<lambda>_. True)"
    using wf_step [OF assms(2)] by (auto simp: sound_def)
  then show ?thesis using job_step(1) by (simp add: safe_atomic)
qed

text \<open>
  The rows stay well formed however logins interleave with each other, with requests, with
  changes by keystone and with its notifications, a user deleted or updated in the middle of a
  login included; and no login that is cut into by others fails on the data it reads.
\<close>

lemma concurrent_logins_sound:
  assumes "keystone_ops E K" and "reachable E K w"
    and "smtp_raises (\<lambda>e. \<not> data_error e) E" and "keystone_raises (\<lambda>e. \<not> data_error e) E"
    and "pwd_user_blacklist (conf E) \<noteq> None" and "0 \<le> pwd_max_tries (conf E)"
    and "\<forall>t\<in>set jobs. job E K t" and "schedule turns jobs w = (ts, v)"
  shows "(\<forall>uid r. table v uid = Some r \<longrightarrow> wf_row uid r) \<and>
     (\<forall>e. Done (Inl e) \<in> set ts \<longrightarrow> \<not> data_error e)"
proof -
  have "outside_raises (\<lambda>e. \<not> data_error e) E"
    using assms(1,3-6) by (simp add: outside_raises_def own_not_data_error keystone_ops_def)
  then have "\<forall>t\<in>set jobs. safe wf_world (\<lambda>e. \<not> data_error e) (\<lambda>_. True) t"
    using assms(1,7) safe_job by blast
  from schedule_safe [OF this reachable_wf [OF assms(2,1)], of turns] assms(8)
  have "\<forall>t\<in>set ts. safe wf_world (\<lambda>e. \<not> data_error e) (\<lambda>_. True) t" "wf_world v" by simp_all
  then show ?thesis by (auto dest: wf_worldD)
qed

end
