(* ===== verification/SP_Account.thy ===== *)
theory SP_Account
  imports SP_Invariant
begin

text \<open>
  What \<open>Identity.authenticate\<close> promises, without its data: an account that counts bad
  attempts, blocks, expires and asks for a second factor, as a function of the time, of
  whether the password is right and of the account. The login of \<open>SP_Identity\<close> refines it
  through the abstraction of a row to its account.
\<close>

section \<open>The account\<close>

record policy =
  p_tries :: int
  p_block :: int
  p_life :: int
  p_sndfa :: bool
  p_window :: int

datatype factor = Off | Unverified | Unconfirmed | Confirmed int

record account =
  attempts :: int
  tried_at :: "int option"
  since :: int
  factor :: factor

datatype verdict = Granted | Blocked | Expired | Wrong | EmailUnverified | CodeNeeded

definition blocked_at :: "policy \<Rightarrow> int \<Rightarrow> account \<Rightarrow> bool" where
  "blocked_at p t a \<longleftrightarrow> p_tries p < attempts a \<and>
     (case tried_at a of None \<Rightarrow> False | Some s \<Rightarrow> t - p_block p < s)"

definition factor_verdict :: "policy \<Rightarrow> int \<Rightarrow> factor \<Rightarrow> verdict" where
  "factor_verdict p t f = (if \<not> p_sndfa p then Granted else case f of
      Off \<Rightarrow> Granted
    | Unverified \<Rightarrow> EmailUnverified
    | Unconfirmed \<Rightarrow> CodeNeeded
    | Confirmed s \<Rightarrow> if t - p_window p < s then Granted else CodeNeeded)"

definition account_login :: "policy \<Rightarrow> int \<Rightarrow> bool \<Rightarrow> account \<Rightarrow> verdict \<times> account" where
  "account_login p t right a =
     (if blocked_at p t a then (Blocked, a)
      else if since a < t - p_life p then (Expired, a)
      else if \<not> right then (Wrong, a\<lparr>attempts := attempts a + 1, tried_at := Some t\<rparr>)
      else (factor_verdict p t (factor a), a\<lparr>attempts := 0, tried_at := Some t\<rparr>))"

text \<open>The safety of the abstract account: it grants nothing but what the policy allows.\<close>

lemma account_granted:
  "fst (account_login p t right a) = Granted \<Longrightarrow>
     right \<and> \<not> blocked_at p t a \<and> t - p_life p \<le> since a \<and> factor_verdict p t (factor a) = Granted"
  by (auto simp: account_login_def split: if_splits)

section \<open>The abstraction\<close>

definition policy_of :: "conf \<Rightarrow> policy" where
  "policy_of c = \<lparr>
     p_tries = pwd_max_tries c,
     p_block = timedelta_minutes (pwd_block_minutes c),
     p_life = timedelta_days (pwd_exp_days c),
     p_sndfa = conf_sndfa c,
     p_window = timedelta_hours (sndfa_time_window c)\<rparr>"

definition factor_of :: "spassword_row \<Rightarrow> factor" where
  "factor_of r = (if \<not> truthy (sndfa r) then Off
     else if \<not> truthy (sndfa_email r) then Unverified
     else case sndfa_last r of None \<Rightarrow> Unconfirmed | Some d \<Rightarrow> Confirmed (wall d))"

definition account_of :: "spassword_row \<Rightarrow> account" where
  "account_of r = \<lparr>
     attempts = the (login_attempts r),
     tried_at = map_option wall (last_login_attempt_time r),
     since = wall (the (creation_time r)),
     factor = factor_of r\<rparr>"

text \<open>The message of each refusal, and what an answer of the login says.\<close>

definition refusal :: "string option \<Rightarrow> verdict \<Rightarrow> string" where
  "refusal name v = (case v of
      Granted \<Rightarrow> '''' | Blocked \<Rightarrow> blocked_msg name | Expired \<Rightarrow> expired_msg name
    | Wrong \<Rightarrow> invalid_msg | EmailUnverified \<Rightarrow> unverified_msg | CodeNeeded \<Rightarrow> expecting_msg)"

definition says :: "exn + auth_ref \<Rightarrow> string option \<Rightarrow> verdict \<Rightarrow> bool" where
  "says x name v \<longleftrightarrow> (if v = Granted then \<exists>a. x = Inr a
     else x = Inl (SPasswordUnauthorized (refusal name v)))"

text \<open>What a login leaves as it is in the row: all of the account but the count of attempts.\<close>

definition same_account :: "spassword_row \<Rightarrow> spassword_row \<Rightarrow> bool" where
  "same_account r s \<longleftrightarrow> user_name s = user_name r \<and> creation_time s = creation_time r \<and>
     extra s = extra r \<and> sndfa s = sndfa r \<and> sndfa_email s = sndfa_email r \<and>
     sndfa_last s = sndfa_last r"

lemma account_attempt:
  assumes "same_account r s"
  shows "account_of (s\<lparr>login_attempts := Some n, last_login_attempt_time := Some (naive t)\<rparr>) =
     (account_of r)\<lparr>attempts := n, tried_at := Some t\<rparr>"
  using assms by (simp add: account_of_def factor_of_def same_account_def)

section \<open>The installation of the refinement\<close>

text \<open>
  One login at the time \<open>t\<close>: the readings of the clock during it are the same, dates stay
  within the years, keystone follows the plain contract, the mailer raises nothing.
\<close>

definition calm :: "env \<Rightarrow> int \<Rightarrow> bool" where
  "calm E t \<longleftrightarrow> (\<forall>n. clock E n = t) \<and> keystone_auth_plain E \<and> enabled (conf E) \<and>
     (\<forall>to subject body_text v. \<exists>sent v'. send_email E to subject body_text v = (Inr sent, v')) \<and>
     0 \<le> pwd_max_tries (conf E) \<and>
     in_years (t - timedelta_minutes (pwd_block_minutes (conf E))) \<and>
     in_years (t - timedelta_days (pwd_exp_days (conf E))) \<and>
     in_years (t - timedelta_hours (sndfa_time_window (conf E)))"

text \<open>A user with an e-mail and a well-formed row who is on no black list.\<close>

definition member :: "conf \<Rightarrow> user \<Rightarrow> spassword_row \<Rightarrow> world \<Rightarrow> bool" where
  "member c u r w \<longleftrightarrow> (\<exists>ids. pwd_user_blacklist c = Some ids \<and> u_id u \<notin> set ids) \<and>
     in_user_black r = Inr False \<and> users w (u_id u) = Some u \<and> u_email u \<noteq> None \<and>
     table w (u_id u) = Some r \<and> wf_row (u_id u) r \<and>
     in_years (wall (the (creation_time r)) + timedelta_days (pwd_exp_days c))"

definition login_at :: "env \<Rightarrow> int \<Rightarrow> user \<Rightarrow> spassword_row \<Rightarrow> world \<Rightarrow> bool" where
  "login_at E t u r w \<longleftrightarrow> calm E t \<and> member (conf E) u r w"

lemmas at_defs = login_at_def calm_def member_def

definition recent :: "env \<Rightarrow> int \<Rightarrow> datetime option \<Rightarrow> bool" where
  "recent E t d \<longleftrightarrow> (case d of None \<Rightarrow> False
     | Some x \<Rightarrow> t - timedelta_hours (sndfa_time_window (conf E)) < wall x)"

lemma within_window_at:
  assumes "\<forall>n. clock E n = t" and "in_years (t - timedelta_hours (sndfa_time_window (conf E)))"
  obtains v where "within_window E d w = (Inr (recent E t d), v)" "only_ticks w v"
proof -
  have "\<exists>v. within_window E d w = (Inr (recent E t d), v)"
    using assms by (cases d) (auto simp: within_window_def recent_def)
  then show thesis using that keepsD [OF keeps_within_window] by blast
qed

text \<open>
  The code that a login at \<open>t\<close> sends is the one stored, issued now or still within the window, and
  a server that takes mails gets it.
\<close>

definition takes_mail :: "env \<Rightarrow> bool" where
  "takes_mail E \<longleftrightarrow>
     (\<forall>n. smtp_ready E (smtp E n) \<and> (\<forall>m. smtp_sendmail (smtp E n) m = None))"

definition sndfa_mail :: "env \<Rightarrow> string \<Rightarrow> string \<Rightarrow> string \<Rightarrow> mail" where
  "sndfa_mail E to uid code =
     mime E to (Brand @ '' second factor auth procedure'') (sndfa_text (conf E) uid code)"

definition code_sent :: "env \<Rightarrow> int \<Rightarrow> user \<Rightarrow> spassword_row \<Rightarrow> world \<Rightarrow> world \<Rightarrow> bool" where
  "code_sent E t u s w v \<longleftrightarrow> (\<exists>code to. sndfa_code s = Some code \<and> u_email u = Some to \<and>
     (sndfa_time_code s = Some (naive t) \<or> recent E t (sndfa_time_code s)) \<and>
     (takes_mail E \<longrightarrow> outbox v = outbox w @ [sndfa_mail E to (u_id u) code]))"

lemma takes_mail_sends:
  assumes "takes_mail E" and "send_email E to subject body_text w = (x, v)"
  shows "outbox v = outbox w @ [mime E to subject body_text]"
  using assms by (auto simp: takes_mail_def send_email_ready smtp_deliver_def smtp_try_def
      split: option.splits)

lemma code_sent_ticks: "only_ticks w w' \<Longrightarrow> code_sent E t u s w' v = code_sent E t u s w v"
  by (simp add: code_sent_def only_ticks_same)

lemma code_to_send_at:
  assumes "login_at E t u r w" and "truthy (sndfa r)" and "truthy (sndfa_email r)"
  obtains code v s where "sndfa_code_to_send E (u_id u) r w = (Inr code, v)"
    "users v = users w" "table v (u_id u) = Some s" "same_account r s"
    "sndfa_code s = Some code" "outbox v = outbox w"
    "sndfa_time_code s = Some (naive t) \<or> recent E t (sndfa_time_code s)"
proof -
  let ?uid = "u_id u"
  have E: "\<forall>n. clock E n = t" "in_years (t - timedelta_hours (sndfa_time_window (conf E)))"
    and w: "users w ?uid = Some u" "table w ?uid = Some r"
    using assms by (simp_all add: at_defs)
  from E obtain v where win: "within_window E (sndfa_time_code r) w =
      (Inr (recent E t (sndfa_time_code r)), v)" "only_ticks w v" by (rule within_window_at)
  have v: "users v ?uid = Some u" "table v ?uid = Some r" "users v = users w" "outbox v = outbox w"
    using only_ticks_same [OF win(2)] w by simp_all
  show thesis
  proof (cases "recent E t (sndfa_time_code r)")
    case True
    with win have "sndfa_code_to_send E ?uid r w = (Inr (py_str_opt (sndfa_code r)), v)"
      by (simp add: sndfa_code_to_send_def bnd_def)
    moreover obtain c where "sndfa_code r = Some c"
      using True assms by (cases "sndfa_code r") (auto simp: recent_def at_defs row_ok_def)
    ultimately show thesis
      using v True by (intro that [of c v r]) (simp_all add: same_account_def py_str_opt_def)
  next
    case False
    let ?code = "take 6 (uuid_hex (uuid4 E (uuids v)))"
    obtain x v' where set: "set_user_sndfa_code E u ?code (v\<lparr>uuids := Suc (uuids v)\<rparr>) = (x, v')"
      by fastforce
    then have "x = Inr () \<and> users v' = users w \<and> outbox v' = outbox w \<and>
        (\<exists>s. table v' ?uid = Some s \<and> same_account r s \<and> sndfa_code s = Some ?code \<and>
           sndfa_time_code s = Some (naive t))"
      using v assms(2,3) E(1) by (auto simp: set_user_sndfa_code_run same_account_def)
    moreover from this have "sndfa_code_to_send E ?uid r w = (Inr ?code, v')"
      using False win v set
      by (simp add: sndfa_code_to_send_def bnd_def fresh_uuid_def identity_get_user_run Let_def)
    ultimately show thesis by (blast intro: that)
  qed
qed

text \<open>The second factor: not confirmed of late, so a code is sent; and its verdict.\<close>

lemma code_mailed_at:
  assumes at: "login_at E t u r w" and on: "truthy (sndfa r)" "truthy (sndfa_email r)"
    and win: "within_window E (sndfa_last r) w = (Inr False, w1)"
  obtains v s where "second_factor E (u_id u) r a w = (Inr (Inl expecting_msg), v)"
    "table v (u_id u) = Some s" "same_account r s" "code_sent E t u s w v"
proof -
  have w1: "only_ticks w w1" by (rule keepsD [OF keeps_within_window win])
  note same = only_ticks_same [OF w1]
  obtain to where to: "u_email u = Some to" using at by (auto simp: at_defs)
  have "login_at E t u r w1" using at same by (simp add: at_defs)
  then obtain code w2 s where send: "sndfa_code_to_send E (u_id u) r w1 = (Inr code, w2)"
    "users w2 = users w1" "table w2 (u_id u) = Some s" "same_account r s"
    "sndfa_code s = Some code" "outbox w2 = outbox w1"
    "sndfa_time_code s = Some (naive t) \<or> recent E t (sndfa_time_code s)"
    using on by (rule code_to_send_at)
  have u2: "users w2 (u_id u) = Some u" using send(2) same at by (simp add: at_defs)
  obtain sent w3 where m: "send_email E to (Brand @ '' second factor auth procedure'')
      (sndfa_text (conf E) (u_id u) code) w2 = (Inr sent, w3)"
    using at unfolding at_defs by blast
  then have "table w3 = table w2"
    using keepsD [OF mailer.keeps_table m] by (simp add: same_table_def)
  moreover have "code_sent E t u s w w3"
    using send(5-7) to takes_mail_sends [OF _ m] same by (simp add: code_sent_def sndfa_mail_def)
  moreover have "second_factor E (u_id u) r a w = (Inr (Inl expecting_msg), w3)"
    using on(2) win send u2 to m
    by (simp add: second_factor_def Let_def bnd_def identity_get_user_run user_email_def)
  ultimately show thesis using send(3,4) that by simp
qed

lemma second_factor_at:
  assumes at: "login_at E t u r w" and on: "truthy (sndfa r)" "conf_sndfa (conf E)"
  obtains x v s where "second_factor E (u_id u) r a w = (Inr x, v)" "table v (u_id u) = Some s"
    "same_account r s"
    "factor_verdict (policy_of (conf E)) t (factor_of r) = CodeNeeded \<longrightarrow> code_sent E t u s w v"
    "x = (let v = factor_verdict (policy_of (conf E)) t (factor_of r) in
       if v = Granted then Inr (set_extra ''sndfa'' (py_opt PBool (sndfa r)) a)
       else Inl (refusal (user_name r) v))"
proof (cases "truthy (sndfa_email r)")
  case False
  have "table w (u_id u) = Some r" using at by (simp add: at_defs)
  with False on show thesis
    by (rule_tac that) (simp_all add: second_factor_def factor_verdict_def factor_of_def policy_of_def
        refusal_def same_account_def Let_def)
next
  case True
  have E: "\<forall>n. clock E n = t" "in_years (t - timedelta_hours (sndfa_time_window (conf E)))"
    using at by (simp_all add: at_defs)
  then obtain w1 where win: "within_window E (sndfa_last r) w = (Inr (recent E t (sndfa_last r)), w1)"
    "only_ticks w w1" by (rule within_window_at)
  have fv: "factor_verdict (policy_of (conf E)) t (factor_of r) =
      (if recent E t (sndfa_last r) then Granted else CodeNeeded)"
    using True on by (auto simp: factor_verdict_def factor_of_def policy_of_def recent_def
        split: option.splits)
  show thesis
  proof (cases "recent E t (sndfa_last r)")
    case True': True
    have "table w1 (u_id u) = Some r" using only_ticks_same [OF win(2)] at by (simp add: at_defs)
    with True True' win fv show thesis
      by (rule_tac that) (simp_all add: second_factor_def same_account_def Let_def bnd_def)
  next
    case False
    then have "within_window E (sndfa_last r) w = (Inr False, w1)" using win(1) by simp
    then obtain v s where "second_factor E (u_id u) r a w = (Inr (Inl expecting_msg), v)"
      "table v (u_id u) = Some s" "same_account r s" "code_sent E t u s w v"
      by (rule code_mailed_at [OF at on(1) True])
    with False fv show thesis
      by (intro that [of "Inl expecting_msg" v s]) (simp_all add: refusal_def)
  qed
qed

lemma demand_sndfa_at:
  assumes at: "login_at E t u r w"
  obtains x v s where "demand_sndfa E (u_id u) r (Inr a) w = (Inr x, v)"
    "table v (u_id u) = Some s" "same_account r s"
    "factor_verdict (policy_of (conf E)) t (factor_of r) = CodeNeeded \<longrightarrow> code_sent E t u s w v"
    "let v = factor_verdict (policy_of (conf E)) t (factor_of r) in
       if v = Granted then \<exists>b. x = Inr b else x = Inl (refusal (user_name r) v)"
proof (cases "conf_sndfa (conf E) \<and> truthy (sndfa r)")
  case True
  then have on: "truthy (sndfa r)" "conf_sndfa (conf E)" by simp_all
  obtain x v s where "second_factor E (u_id u) r
        (set_extra ''sndfa_email'' (py_opt PBool (sndfa_email r)) a) w = (Inr x, v)"
    "table v (u_id u) = Some s" "same_account r s"
    "factor_verdict (policy_of (conf E)) t (factor_of r) = CodeNeeded \<longrightarrow> code_sent E t u s w v"
    "x = (let v = factor_verdict (policy_of (conf E)) t (factor_of r) in
       if v = Granted then Inr (set_extra ''sndfa'' (py_opt PBool (sndfa r))
            (set_extra ''sndfa_email'' (py_opt PBool (sndfa_email r)) a))
       else Inl (refusal (user_name r) v))"
    by (rule second_factor_at [OF at on])
  with True show thesis by (rule_tac that) (auto simp: demand_sndfa_def Let_def)
next
  case False
  have "table w (u_id u) = Some r" using at by (simp add: at_defs)
  moreover have "factor_verdict (policy_of (conf E)) t (factor_of r) = Granted"
    using False by (auto simp: factor_verdict_def factor_of_def policy_of_def)
  moreover from False have "\<exists>b. demand_sndfa E (u_id u) r (Inr a) w = (Inr (Inr b), w)"
    by (auto simp: demand_sndfa_def Let_def)
  ultimately show thesis by (auto intro: that simp: same_account_def)
qed

lemma right_login_at:
  assumes at: "login_at E t u r w"
  obtains x v s where "record_attempt E (u_id u) (Inr u) w = (Inr x, v)"
    "table v (u_id u) = Some s" "account_of s = (account_of r)\<lparr>attempts := 0, tried_at := Some t\<rparr>"
    "same_account r s"
    "factor_verdict (policy_of (conf E)) t (factor_of r) = CodeNeeded \<longrightarrow> code_sent E t u s w v"
    "let v = factor_verdict (policy_of (conf E)) t (factor_of r) in
       if v = Granted then \<exists>b. x = Inr b else x = Inl (refusal (user_name r) v)"
proof -
  have E: "enabled (conf E)" "\<forall>n. clock E n = t" and row: "table w (u_id u) = Some r"
    using at by (simp_all add: at_defs)
  have "login_at E t u r (tick w)" using at by (simp add: at_defs)
  obtain ids c where ids: "pwd_user_blacklist (conf E) = Some ids" and c: "creation_time r = Some c"
    "in_years (wall c + timedelta_days (pwd_exp_days (conf E)))"
    using at by (auto simp: at_defs row_ok_def)
  then obtain a where count: "count_attempt E (u_id u) r (Inr u) (tick w) = (Inr (Inr a, 0), tick w)"
    by (simp add: count_attempt_def)
  obtain x v s where demand: "demand_sndfa E (u_id u) r (Inr a) (tick w) = (Inr x, v)"
    "table v (u_id u) = Some s" "same_account r s"
    "factor_verdict (policy_of (conf E)) t (factor_of r) = CodeNeeded \<longrightarrow>
       code_sent E t u s (tick w) v"
    and verdict: "let v = factor_verdict (policy_of (conf E)) t (factor_of r) in
       if v = Granted then \<exists>b. x = Inr b else x = Inl (refusal (user_name r) v)"
    by (rule demand_sndfa_at [OF \<open>login_at E t u r (tick w)\<close>])
  let ?s = "s\<lparr>login_attempts := Some 0, last_login_attempt_time := Some (naive t)\<rparr>"
  have "record_attempt E (u_id u) (Inr u) w = (Inr x, with_row v (u_id u) ?s)"
    using E row count demand
    by (simp add: record_known known_user_def bnd_def session_save_def)
  then show thesis
    using verdict demand(3,4) account_attempt [OF demand(3), where n = 0 and t = t]
    by (intro that [where v = "with_row v (u_id u) ?s" and s = ?s and x = x])
      (simp_all add: same_account_def code_sent_def)
qed

lemma check_block_at:
  assumes at: "login_at E t u r w"
  obtains w1 where "check_block E (u_id u) w = (if blocked_at (policy_of (conf E)) t (account_of r)
      then Inl (SPasswordUnauthorized (blocked_msg (user_name r))) else Inr (), w1)" "only_ticks w w1"
proof -
  obtain ids n where "pwd_user_blacklist (conf E) = Some ids" "u_id u \<notin> set ids"
    and n: "login_attempts r = Some n" "0 < n \<longrightarrow> last_login_attempt_time r \<noteq> None"
      "0 \<le> pwd_max_tries (conf E)"
    using at by (auto simp: at_defs row_ok_def)
  note run = check_block_run [OF _ this(1,2) _ n(1)]
  have E: "enabled (conf E)" "\<And>n. clock E n = t" "table w (u_id u) = Some r"
    "in_years (t - timedelta_minutes (pwd_block_minutes (conf E)))"
    using at by (simp_all add: at_defs)
  have "\<exists>w1. check_block E (u_id u) w = (if blocked_at (policy_of (conf E)) t (account_of r)
      then Inl (SPasswordUnauthorized (blocked_msg (user_name r))) else Inr (), w1)"
  proof (cases "n \<le> pwd_max_tries (conf E)")
    case True
    with run(1) E n show ?thesis
      by (auto simp: blocked_at_def policy_of_def account_of_def)
  next
    case False
    with n obtain d where "last_login_attempt_time r = Some d" by auto
    with run(2) [of w d] False E n show ?thesis
      by (simp add: blocked_at_def policy_of_def account_of_def)
  qed
  then show thesis using that keepsD [OF keeps_check_block] by blast
qed

lemma check_expiration_at:
  assumes at: "login_at E t u r w"
  shows "check_expiration E u w = (if since (account_of r) < t - p_life (policy_of (conf E))
      then Inl (SPasswordUnauthorized (expired_msg (user_name r))) else Inr (), tick w)"
proof -
  obtain ids c where "pwd_user_blacklist (conf E) = Some ids" "u_id u \<notin> set ids"
    "creation_time r = Some c"
    using at by (auto simp: at_defs row_ok_def)
  with at show ?thesis
    by (subst check_expiration_run) (auto simp: at_defs account_of_def policy_of_def)
qed

lemma login_at_ticks: "login_at E t u r w \<Longrightarrow> only_ticks w v \<Longrightarrow> login_at E t u r v"
  by (simp add: at_defs only_ticks_same)

text \<open>The gates before the password: a refusal that changes nothing, or the recorded attempt.\<close>

lemma gates_at:
  assumes at: "login_at E t u r w" and "ks_check_password E pw u = Inr right"
  obtains (refused) d w1 where "d \<in> {Blocked, Expired}" "only_ticks w w1"
      "account_login (policy_of (conf E)) t right (account_of r) = (d, account_of r)"
      "Identity_authenticate E (u_id u) pw w =
        (Inl (SPasswordUnauthorized (refusal (user_name r) d)), w1)"
  | (passed) w1 where "only_ticks w w1" "account_login (policy_of (conf E)) t right (account_of r) =
        (if right then (factor_verdict (policy_of (conf E)) t (factor_of r),
            (account_of r)\<lparr>attempts := 0, tried_at := Some t\<rparr>)
         else (Wrong, (account_of r)\<lparr>attempts := the (login_attempts r) + 1, tried_at := Some t\<rparr>))"
      "Identity_authenticate E (u_id u) pw w =
        bnd (record_attempt E (u_id u) (if right then Inr u else Inl invalid_msg))
          (\<lambda>res. case res of Inl msg \<Rightarrow> raise (SPasswordUnauthorized msg) | Inr a \<Rightarrow> ret a) w1"
proof -
  let ?p = "policy_of (conf E)" and ?a = "account_of r"
  have plain: "keystone_auth_plain E" and u: "users w (u_id u) = Some u"
    using at by (simp_all add: at_defs)
  have a: "factor ?a = factor_of r" "attempts ?a = the (login_attempts r)"
    by (simp_all add: account_of_def)
  obtain w1 where block: "check_block E (u_id u) w = (if blocked_at ?p t ?a
      then Inl (SPasswordUnauthorized (blocked_msg (user_name r))) else Inr (), w1)"
    and w1: "only_ticks w w1" by (rule check_block_at [OF at])
  note expiry = check_expiration_at [OF login_at_ticks [OF at w1]]
  show thesis
  proof (cases "blocked_at ?p t ?a")
    case True
    with block w1 show thesis
      by (intro refused [of Blocked w1])
        (simp_all add: Identity_authenticate_def bnd_def account_login_def refusal_def)
  next
    case pass: False
    then have passed_block: "check_block E (u_id u) w = (Inr (), w1)" using block by simp
    show thesis
    proof (cases "since ?a < t - p_life ?p")
      case True
      then have "base_authenticate E (u_id u) pw w1 =
          (Inl (SPasswordUnauthorized (expired_msg (user_name r))), tick w1)"
        using base_authenticate_plain(2) [OF plain, of w1] expiry only_ticks_same [OF w1] u by simp
      moreover have "only_ticks w (tick w1)"
        using only_ticks.R_trans [OF w1 keepsD [OF keeps_check_expiration expiry]] .
      ultimately show thesis
        using True pass passed_block
        by (intro refused [of Expired "tick w1"])
          (simp_all add: Identity_authenticate_def bnd_def account_login_def refusal_def)
    next
      case False
      with expiry have "check_expiration E u w1 = (Inr (), tick w1)" by simp
      note reach = login_reaches_record [OF plain passed_block u this assms(2)]
      show thesis
        using pass False reach a by (intro passed [of "tick w1"]) (simp_all add: account_login_def)
    qed
  qed
qed

lemma login_account:
  assumes at: "login_at E t u r w" and "ks_check_password E pw u = Inr right"
    and "account_login (policy_of (conf E)) t right (account_of r) = (verdict, a)"
  shows "\<exists>x v s. Identity_authenticate E (u_id u) pw w = (x, v) \<and> says x (user_name r) verdict \<and>
     table v (u_id u) = Some s \<and> same_account r s \<and> account_of s = a \<and>
     (verdict = CodeNeeded \<longrightarrow> code_sent E t u s w v)"
  using assms(1,2)
proof (cases rule: gates_at)
  case (refused d w1)
  have "table w1 (u_id u) = Some r" using only_ticks_same [OF refused(2)] at by (simp add: at_defs)
  with refused(1,3,4) assms(3) show ?thesis by (auto simp: says_def same_account_def)
next
  case (passed w1)
  note at1 = login_at_ticks [OF at passed(1)]
  show ?thesis
  proof (cases right)
    case True
    obtain x v s where "record_attempt E (u_id u) (Inr u) w1 = (Inr x, v)"
      "table v (u_id u) = Some s" "account_of s = (account_of r)\<lparr>attempts := 0, tried_at := Some t\<rparr>"
      "same_account r s"
      "factor_verdict (policy_of (conf E)) t (factor_of r) = CodeNeeded \<longrightarrow> code_sent E t u s w1 v"
      "let v = factor_verdict (policy_of (conf E)) t (factor_of r) in
         if v = Granted then \<exists>b. x = Inr b else x = Inl (refusal (user_name r) v)"
      by (rule right_login_at [OF at1])
    with True passed(2,3) assms(3) code_sent_ticks [OF passed(1)] show ?thesis
      by (auto simp: bnd_def says_def Let_def split: if_splits)
  next
    case wrong: False
    obtain n c where "login_attempts r = Some n" "creation_time r = Some c"
      using at by (auto simp: at_defs row_ok_def)
    with wrong at1 passed(2,3) assms(3) show ?thesis
      by (auto simp: at_defs wrong_attempt_recorded bnd_def says_def refusal_def same_account_def
          account_of_def factor_of_def)
  qed
qed

text \<open>One login as a step of the account, from a well-formed world into one.\<close>

lemma login_step:
  assumes at: "login_at E t u r w" and wf: "wf_world w" and "ks_check_password E pw u = Inr right"
    and "account_login (policy_of (conf E)) t right (account_of r) = (verdict, a)"
  obtains x v s where "Identity_authenticate E (u_id u) pw w = (x, v)" "says x (user_name r) verdict"
    "member (conf E) u s v" "wf_world v" "same_account r s" "account_of s = a"
    "verdict = CodeNeeded \<longrightarrow> code_sent E t u s w v"
proof -
  obtain x v s where run: "Identity_authenticate E (u_id u) pw w = (x, v)"
    and says: "says x (user_name r) verdict"
    and row: "table v (u_id u) = Some s" "same_account r s" "account_of s = a"
      "verdict = CodeNeeded \<longrightarrow> code_sent E t u s w v"
    using login_account [OF at assms(3,4)] by blast
  have auth: "keystone_auth E" using at by (simp add: at_defs keystone_auth_plain)
  then have "outside_raises (\<lambda>_. True) E"
    by (simp add: outside_raises_def own_def smtp_raises_def keystone_raises_def)
  from soundD(1) [OF wf_authenticate [OF this] wf run] have v: "wf_world v" .
  have "users v = users w"
    using keepsD [OF own_row_authenticate [OF auth] run] wf
    by (simp add: own_row_def same_users_def world_ok_def)
  then have m: "member (conf E) u s v"
    using at row(1,2) wf_worldD [OF v row(1)]
    by (simp add: at_defs same_account_def in_user_black_def)
  show thesis by (rule that [OF run says m v row(2-4)])
qed

section \<open>A history of logins\<close>

text \<open>
  The attempts to log in as one user, each with its environment, its time, its password and
  whether that is right: between two of them the clock may move and keystone and the mail server
  may be replaced, while the configuration stays.
\<close>

type_synonym attempt = "env \<times> int \<times> string \<times> bool"

fun attempt_on :: "conf \<Rightarrow> user \<Rightarrow> attempt \<Rightarrow> bool" where
  "attempt_on c u (E, t, pw, right) \<longleftrightarrow>
     calm E t \<and> conf E = c \<and> ks_check_password E pw u = Inr right"

fun logins_at :: "string \<Rightarrow> attempt list \<Rightarrow> world \<Rightarrow> (exn + auth_ref) list \<times> world" where
  "logins_at uid [] w = ([], w)"
| "logins_at uid ((E, t, pw, right) # xs) w =
     (case Identity_authenticate E uid pw w of (r, v) \<Rightarrow>
        (case logins_at uid xs v of (rs, v') \<Rightarrow> (r # rs, v')))"

fun account_run :: "policy \<Rightarrow> attempt list \<Rightarrow> account \<Rightarrow> verdict list \<times> account" where
  "account_run p [] a = ([], a)"
| "account_run p ((E, t, pw, right) # xs) a =
     (case account_login p t right a of (d, b) \<Rightarrow>
        (case account_run p xs b of (ds, b') \<Rightarrow> (d # ds, b')))"

lemma run_refines:
  assumes "\<forall>x\<in>set xs. attempt_on c u x" and "member c u r w" and "wf_world w"
    and "account_run (policy_of c) xs (account_of r) = (verdicts, a)"
  shows "\<exists>answers v s. logins_at (u_id u) xs w = (answers, v) \<and>
     list_all2 (\<lambda>x. says x (user_name r)) answers verdicts \<and>
     member c u s v \<and> wf_world v \<and> same_account r s \<and> account_of s = a"
  using assms
proof (induction xs arbitrary: r w verdicts)
  case Nil
  then show ?case by (auto simp: same_account_def)
next
  case (Cons x xs)
  obtain E t pw right where x: "x = (E, t, pw, right)" by (cases x)
  obtain d b where d: "account_login (policy_of c) t right (account_of r) = (d, b)" by fastforce
  from Cons.prems(1) x have E: "calm E t" "conf E = c" "ks_check_password E pw u = Inr right"
    by simp_all
  have at: "login_at E t u r w" using E Cons.prems(2) by (simp add: login_at_def)
  obtain y w1 r1 where one: "Identity_authenticate E (u_id u) pw w = (y, w1)"
    "says y (user_name r) d" "member (conf E) u r1 w1" "wf_world w1" "same_account r r1"
    "account_of r1 = b" "d = CodeNeeded \<longrightarrow> code_sent E t u r1 w w1"
    by (rule login_step [OF at Cons.prems(3) E(3) d [folded E(2)]])
  obtain ds where ds: "account_run (policy_of c) xs (account_of r1) = (ds, a)" "verdicts = d # ds"
    using Cons.prems(4) d one(6) by (auto simp: x split: prod.splits)
  have m: "member c u r1 w1" using one(3) E(2) by simp
  obtain ys v s where rest: "logins_at (u_id u) xs w1 = (ys, v)"
    "list_all2 (\<lambda>x. says x (user_name r1)) ys ds" "member c u s v" "wf_world v"
    "same_account r1 s" "account_of s = a"
    using Cons.IH [OF _ m one(4) ds(1)] Cons.prems(1) by auto
  have "user_name r1 = user_name r" "same_account r s"
    using one(5) rest(5) by (simp_all add: same_account_def)
  with one rest ds(2) show ?case
    by (intro exI [of _ "y # ys"] exI [of _ v] exI [of _ s]) (simp add: x)
qed

text \<open>
  C2. The logins of a user implement the account: over any series of attempts, each at its own
  time, the answers are exactly the verdicts of the abstract account run on the abstracted row,
  each with the message of its verdict, and the row they leave abstracts to the account's last
  state.
\<close>

theorem logins_refine_account:
  assumes "\<forall>x\<in>set xs. attempt_on c u x" and "member c u r w" and "wf_world w"
    and "account_run (policy_of c) xs (account_of r) = (verdicts, a)"
  shows "\<exists>answers v s. logins_at (u_id u) xs w = (answers, v) \<and>
     list_all2 (\<lambda>x. says x (user_name r)) answers verdicts \<and>
     table v (u_id u) = Some s \<and> account_of s = a"
  using run_refines [OF assms] unfolding member_def by blast

lemma demo_frozen_send_email: "\<exists>v. send_email (demo_env\<lparr>clock := f\<rparr>) to subject text w = (Inr True, v)"
  by (simp add: send_email_def smtp_open_def smtp_try_def bnd_def smtp_deliver_def Let_def)

text \<open>The demo installation at one time.\<close>

definition demo_at :: "int \<Rightarrow> env" where
  "demo_at t = demo_env\<lparr>clock := (\<lambda>_. t)\<rparr>"

lemma demo_at_simps [simp]:
  "conf (demo_at t) = demo_conf" "clock (demo_at t) n = t"
  "ks_check_password (demo_at t) pw u = Inr (pw = u_hash u)"
  by (simp_all add: demo_at_def)

lemma demo_calm:
  assumes "demo_now \<le> t" and "t \<le> demo_now + 1000000000000"
  shows "calm (demo_at t) t"
proof -
  have mail: "\<exists>sent v'. send_email (demo_at t) to subject body_text v = (Inr sent, v')"
    for to subject body_text v
    using demo_frozen_send_email [of "\<lambda>_. t" to subject body_text v] unfolding demo_at_def by blast
  have "keystone_auth_plain (demo_at t)" by (simp add: demo_at_def demo_keystone)
  with mail assms show ?thesis
    unfolding calm_def by (simp add: demo_times in_years_def)
qed

lemma demo_member:
  "member demo_conf demo_user demo_row (demo_world demo_row)"
  "member demo_conf demo_user demo_row_2fa (demo_world demo_row_2fa)"
  "wf_world (demo_world demo_row)" "wf_world (demo_world demo_row_2fa)"
  by (simp_all add: member_def in_user_black_def row_ok_def code_ok_def demo_times in_years_def
      world_ok_def users_keyed_def del: not_None_eq)

theorem logins_refine_account_witness:
  "\<exists>answers v s. logins_at ''u1'' [(demo_at demo_now, demo_now, ''a'', False),
       (demo_at (demo_now + 5), demo_now + 5, ''right'', True)] (demo_world demo_row) = (answers, v) \<and>
     list_all2 (\<lambda>x. says x (Some ''demo'')) answers [Wrong, Granted] \<and>
     table v ''u1'' = Some s \<and> attempts (account_of s) = 0"
proof -
  let ?xs = "[(demo_at demo_now, demo_now, ''a'', False),
       (demo_at (demo_now + 5), demo_now + 5, ''right'', True)]"
  let ?a = "(account_of demo_row)\<lparr>attempts := 0, tried_at := Some (demo_now + 5)\<rparr>"
  have xs: "\<forall>x\<in>set ?xs. attempt_on demo_conf demo_user x" by (simp add: demo_calm)
  have "account_run (policy_of demo_conf) ?xs (account_of demo_row) = ([Wrong, Granted], ?a)"
    by (simp add: account_login_def account_of_def factor_of_def factor_verdict_def policy_of_def
        blocked_at_def demo_times)
  from logins_refine_account [OF xs demo_member(1,3) this] show ?thesis by auto
qed

end
