(* ===== verification/SP_Access.thy ===== *)
theory SP_Access
  imports SP_Account
begin

text \<open>
  What a legitimate user can count on: a block does not last, and the two steps of a login with
  a second factor, the code mailed by the first and confirmed in between, end in a login.
\<close>

section \<open>A block does not last\<close>

lemma account_login_frame:
  assumes "account_login p t right a = (d, b)"
  shows "since b = since a" and "factor b = factor a" and "tried_at b \<in> {tried_at a, Some t}"
  using assms by (auto simp: account_login_def split: if_splits)

lemma account_run_frame:
  assumes "account_run p xs a = (ds, b)"
  shows "since b = since a \<and> factor b = factor a \<and>
     (tried_at b = tried_at a \<or> (\<exists>(E, t, pw, right) \<in> set xs. tried_at b = Some t))"
  using assms
proof (induction xs arbitrary: a ds)
  case Nil
  then show ?case by simp
next
  case (Cons x xs)
  obtain E t pw right where x: "x = (E, t, pw, right)" by (cases x)
  obtain d a1 where d: "account_login p t right a = (d, a1)" by fastforce
  obtain ds' where "account_run p xs a1 = (ds', b)"
    using Cons.prems d by (auto simp: x split: prod.splits)
  from Cons.IH [OF this] account_login_frame [OF d] show ?case by (auto simp: x)
qed

text \<open>
  C4. After any series of attempts, right or wrong, once \<open>pwd_block_minutes\<close> have passed since
  the last of them the right password logs in, as long as it has not expired and the service does
  not ask for a second factor: nobody can lock a user out for longer than they keep trying.
\<close>

theorem block_is_lifted:
  assumes "\<forall>x\<in>set xs. attempt_on c u x" and "attempt_on c u (E, t, pw, True)"
    and "member c u r w" and "wf_world w" and "\<not> conf_sndfa c \<or> sndfa r = Some False"
    and "\<And>d. last_login_attempt_time r = Some d \<Longrightarrow>
      wall d \<le> t - timedelta_minutes (pwd_block_minutes c)"
    and "\<forall>(E', t', pw', right) \<in> set xs. t' \<le> t - timedelta_minutes (pwd_block_minutes c)"
    and "\<And>d. creation_time r = Some d \<Longrightarrow> t - timedelta_days (pwd_exp_days c) \<le> wall d"
  shows "\<exists>a. fst (Identity_authenticate E (u_id u) pw (snd (logins_at (u_id u) xs w))) = Inr a"
proof -
  obtain ds b where run: "account_run (policy_of c) xs (account_of r) = (ds, b)" by fastforce
  obtain ys v s where xs: "logins_at (u_id u) xs w = (ys, v)" "member c u s v" "wf_world v"
    "same_account r s" "account_of s = b"
    using run_refines [OF assms(1,3,4) run] by blast
  have E: "calm E t" "conf E = c" "ks_check_password E pw u = Inr True" using assms(2) by simp_all
  have at: "login_at E t u s v" using E(1,2) xs(2) by (simp add: login_at_def)
  obtain created where created: "creation_time r = Some created"
    using assms(3) by (auto simp: member_def row_ok_def)
  note frame = account_run_frame [OF run]
  have "tried \<le> t - timedelta_minutes (pwd_block_minutes c)" if "tried_at b = Some tried" for tried
    using frame that assms(6,7) by (fastforce simp: account_of_def)
  then have "\<not> blocked_at (policy_of c) t b"
    by (auto simp: blocked_at_def policy_of_def not_less split: option.splits)
  moreover have "\<not> since b < t - p_life (policy_of c)"
    using frame assms(8) [OF created] created by (simp add: account_of_def policy_of_def)
  moreover have "factor_verdict (policy_of c) t (factor b) = Granted"
    using assms(5) frame by (auto simp: factor_verdict_def policy_of_def account_of_def factor_of_def)
  ultimately obtain b' where "account_login (policy_of (conf E)) t True (account_of s) = (Granted, b')"
    using E(2) xs(5) by (simp add: account_login_def)
  from login_account [OF at E(3) this] xs(1) show ?thesis by (auto simp: says_def)
qed

theorem block_is_lifted_witness:
  "\<exists>a. fst (Identity_authenticate (demo_at (demo_now + 2000000000)) ''u1'' ''right''
     (snd (logins_at ''u1'' (replicate 5 (demo_at demo_now, demo_now, ''a'', False))
        (demo_world demo_row)))) = Inr a"
proof -
  let ?xs = "replicate 5 (demo_at demo_now, demo_now, ''a'', False)"
  have "\<forall>x\<in>set ?xs. attempt_on demo_conf demo_user x" by (simp add: demo_calm)
  moreover have "attempt_on demo_conf demo_user
      (demo_at (demo_now + 2000000000), demo_now + 2000000000, ''right'', True)"
    by (simp add: demo_calm)
  ultimately show ?thesis
    using block_is_lifted [OF _ _ demo_member(1,3), of ?xs "demo_at (demo_now + 2000000000)"
        "demo_now + 2000000000" "''right''"]
    by (simp add: demo_times)
qed

section \<open>The two steps of a login\<close>

lemma confirmed_by_link:
  assumes "enabled (conf E)" and "conf_sndfa (conf E)" and "users w uid = Some u" and "u_id u = uid"
    and "table w uid = Some s" and "sndfa s = Some True" and "sndfa_email s = Some True"
    and "sndfa_code s = Some code"
  shows "\<exists>resp. check_sndfa_resource E uid (Some code) w = (Inr resp,
      with_row (tick w) uid (s\<lparr>sndfa_last := Some (naive (clock E (ticks w)))\<rparr>)) \<and> status resp = 200"
  using assms
  by (simp add: check_sndfa_resource_def check_spassword_configured_def
      check_user_has_email_validated_def already_user_check_email_def already_email_checked_run
      user_check_sndfa_code_def check_sndfa_code_run identity_get_user_run bnd_Inr make_response_def)

lemma account_code_needed:
  assumes "account_login (policy_of c) t right (account_of r) = (CodeNeeded, a)"
  shows "conf_sndfa c" and "sndfa r = Some True" and "sndfa_email r = Some True"
    and "attempts a = 0" and "since a = since (account_of r)"
  using assms by (auto simp: account_login_def factor_verdict_def account_of_def factor_of_def
      policy_of_def truthy_def split: if_splits option.splits)

lemma account_confirmed:
  assumes "attempts a = 0" and "0 \<le> p_tries p" and "t - p_life p \<le> since a"
    and "t - p_window p < t1"
  obtains b where "account_login p t True (a\<lparr>factor := Confirmed t1\<rparr>) = (Granted, b)"
  using assms by (simp add: account_login_def blocked_at_def factor_verdict_def)

text \<open>
  The code of a login that asks for the second factor, given back at \<open>t1\<close>, and the login at \<open>t2\<close>.
\<close>

lemma second_factor_steps:
  assumes "login_at E t u r w" and "wf_world w" and "takes_mail E"
    and "ks_check_password E pw u = Inr True"
    and "account_login (policy_of (conf E)) t True (account_of r) = (CodeNeeded, a)"
    and "conf E1 = conf E" and "\<forall>n. clock E1 n = t1"
    and "attempt_on (conf E) u (E2, t2, pw, True)"
    and "t2 - timedelta_hours (sndfa_time_window (conf E)) < t1"
    and "t2 - timedelta_days (pwd_exp_days (conf E)) \<le> since (account_of r)"
  shows "\<exists>to code v s d resp v1 b. u_email u = Some to \<and>
     Identity_authenticate E (u_id u) pw w = (Inl (SPasswordUnauthorized expecting_msg), v) \<and>
     outbox v = outbox w @ [sndfa_mail E to (u_id u) code] \<and>
     table v (u_id u) = Some s \<and> sndfa_code s = Some code \<and> sndfa_time_code s = Some d \<and>
     (wall d = t \<or> t - timedelta_hours (sndfa_time_window (conf E)) < wall d) \<and>
     check_sndfa_resource E1 (u_id u) (Some code) v = (Inr resp, v1) \<and> status resp = 200 \<and>
     fst (Identity_authenticate E2 (u_id u) pw v1) = Inr b"
proof -
  obtain x v s where first: "Identity_authenticate E (u_id u) pw w = (x, v)"
    "says x (user_name r) CodeNeeded" "member (conf E) u s v" "wf_world v" "same_account r s"
    "account_of s = a" "CodeNeeded = CodeNeeded \<longrightarrow> code_sent E t u s w v"
    by (rule login_step [OF assms(1,2,4,5)])
  obtain code to where code: "sndfa_code s = Some code" "u_email u = Some to"
    "outbox v = outbox w @ [sndfa_mail E to (u_id u) code]"
    and issued: "sndfa_time_code s = Some (naive t) \<or> recent E t (sndfa_time_code s)"
    using first(7) assms(3) by (auto simp: code_sent_def)
  from issued obtain d where d: "sndfa_time_code s = Some d"
    "wall d = t \<or> t - timedelta_hours (sndfa_time_window (conf E)) < wall d"
    by (cases "sndfa_time_code s") (auto simp: recent_def)
  note on = account_code_needed [OF assms(5)]
  let ?s = "s\<lparr>sndfa_last := Some (naive t1)\<rparr>"
  have E1: "enabled (conf E1)" "conf_sndfa (conf E1)" "conf E1 = conf E"
    using assms(1,6) on(1) by (simp_all add: at_defs)
  have m: "users v (u_id u) = Some u" "table v (u_id u) = Some s"
    using first(3) by (simp_all add: member_def)
  have s: "sndfa s = Some True" "sndfa_email s = Some True"
    using on(2,3) first(5) by (simp_all add: same_account_def)
  obtain resp where confirm: "check_sndfa_resource E1 (u_id u) (Some code) v =
      (Inr resp, with_row (tick v) (u_id u) ?s)" "status resp = 200"
    using confirmed_by_link [OF E1(1,2) m(1) refl m(2) s code(1)] assms(7) by auto
  have "login_at E2 t2 u ?s (with_row (tick v) (u_id u) ?s)"
    using assms(8) first(3) code(1) wf_row_updates(6)
    by (simp add: login_at_def member_def in_user_black_def)
  then have at2: "login_at E2 t2 u ?s (with_row (tick v) (u_id u) ?s)" .
  have E2: "conf E2 = conf E" "ks_check_password E2 pw u = Inr True"
    using assms(8) by simp_all
  have "account_of ?s = a\<lparr>factor := Confirmed t1\<rparr>"
    using first(6) s by (auto simp: account_of_def factor_of_def)
  then obtain b where "account_login (policy_of (conf E2)) t2 True (account_of ?s) = (Granted, b)"
    using account_confirmed [of a "policy_of (conf E2)" t2 t1] on(4,5) assms(1,9,10) E2(1)
    by (auto simp: policy_of_def at_defs)
  from login_account [OF at2 E2(2) this] obtain g where
    "fst (Identity_authenticate E2 (u_id u) pw (with_row (tick v) (u_id u) ?s)) = Inr g"
    by (auto simp: says_def)
  moreover have "x = Inl (SPasswordUnauthorized expecting_msg)"
    using first(2) by (simp add: says_def refusal_def)
  ultimately show ?thesis using code(1-3) first(1) confirm d m(2) by blast
qed

text \<open>
  C3. The second factor can be met. A login with the right password that asks for it mails the
  code that is stored for the user, issued by this login or within \<open>sndfa_time_window\<close> before it.
  Given back within \<open>sndfa_time_window\<close> of its issue, the code is accepted; and a login with the
  right password within \<open>sndfa_time_window\<close> of that gets in, while the password has not expired.
\<close>

theorem second_factor_completes:
  assumes "login_at E t u r w" and "wf_world w" and "takes_mail E"
    and "ks_check_password E pw u = Inr True"
    and "account_login (policy_of (conf E)) t True (account_of r) = (CodeNeeded, a)"
    and "conf E1 = conf E" and "\<forall>n. clock E1 n = t1"
    and "attempt_on (conf E) u (E2, t2, pw, True)"
    and "t2 - timedelta_hours (sndfa_time_window (conf E)) < t1"
    and "t2 - timedelta_days (pwd_exp_days (conf E)) \<le> since (account_of r)"
  shows "\<exists>to code v s d. u_email u = Some to \<and>
     Identity_authenticate E (u_id u) pw w = (Inl (SPasswordUnauthorized expecting_msg), v) \<and>
     outbox v = outbox w @ [sndfa_mail E to (u_id u) code] \<and>
     table v (u_id u) = Some s \<and> sndfa_code s = Some code \<and> sndfa_time_code s = Some d \<and>
     (wall d = t \<or> t - timedelta_hours (sndfa_time_window (conf E)) < wall d) \<and>
     (t1 - timedelta_hours (sndfa_time_window (conf E)) < wall d \<longrightarrow> (\<exists>resp v1 b.
        check_sndfa_resource E1 (u_id u) (Some code) v = (Inr resp, v1) \<and> status resp = 200 \<and>
        fst (Identity_authenticate E2 (u_id u) pw v1) = Inr b))"
  using second_factor_steps [OF assms] by blast

text \<open>A day and more after the last confirmation of the demo user.\<close>

definition demo_later :: env where
  "demo_later = demo_at (demo_now + 100000000000)"

theorem second_factor_completes_witness:
  "\<exists>to code v resp v1 b. u_email demo_user = Some to \<and>
     Identity_authenticate demo_later ''u1'' ''right'' (demo_world demo_row_2fa) =
       (Inl (SPasswordUnauthorized expecting_msg), v) \<and>
     outbox v = [sndfa_mail demo_later to ''u1'' code] \<and>
     check_sndfa_resource demo_later ''u1'' (Some code) v = (Inr resp, v1) \<and> status resp = 200 \<and>
     fst (Identity_authenticate demo_later ''u1'' ''right'' v1) = Inr b"
proof -
  let ?t = "demo_now + 100000000000"
  let ?a = "(account_of demo_row_2fa)\<lparr>attempts := 0, tried_at := Some ?t\<rparr>"
  have calm: "calm demo_later ?t" unfolding demo_later_def by (rule demo_calm) simp_all
  have conf: "conf demo_later = demo_conf" "\<forall>n. clock demo_later n = ?t"
    "\<And>pw u. ks_check_password demo_later pw u = Inr (pw = u_hash u)"
    by (simp_all add: demo_later_def)
  have at: "login_at demo_later ?t demo_user demo_row_2fa (demo_world demo_row_2fa)"
    using calm conf(1) demo_member(2) by (simp add: login_at_def)
  have mail: "takes_mail demo_later"
    by (simp add: takes_mail_def smtp_ready_def demo_later_def demo_at_def Let_def)
  have needed: "account_login (policy_of (conf demo_later)) ?t True (account_of demo_row_2fa) =
      (CodeNeeded, ?a)"
    by (simp add: conf account_login_def account_of_def factor_of_def factor_verdict_def
        policy_of_def blocked_at_def demo_times)
  have right: "ks_check_password demo_later ''right'' demo_user = Inr True" by (simp add: conf)
  have again: "attempt_on (conf demo_later) demo_user (demo_later, ?t, ''right'', True)"
    using calm by (simp add: conf)
  have soon: "?t - timedelta_hours (sndfa_time_window (conf demo_later)) < ?t"
    "?t - timedelta_days (pwd_exp_days (conf demo_later)) \<le> since (account_of demo_row_2fa)"
    by (simp_all add: conf account_of_def demo_times)
  have window: "0 < timedelta_hours (sndfa_time_window (conf demo_later))"
    by (simp add: conf timedelta_hours_def)
  from second_factor_completes [OF at demo_member(4) mail right needed refl conf(2) again soon]
  obtain to code v s d where first: "u_email demo_user = Some to \<and>
     Identity_authenticate demo_later (u_id demo_user) ''right'' (demo_world demo_row_2fa) =
       (Inl (SPasswordUnauthorized expecting_msg), v) \<and>
     outbox v = outbox (demo_world demo_row_2fa) @ [sndfa_mail demo_later to (u_id demo_user) code] \<and>
     table v (u_id demo_user) = Some s \<and> sndfa_code s = Some code \<and> sndfa_time_code s = Some d \<and>
     (wall d = ?t \<or> ?t - timedelta_hours (sndfa_time_window (conf demo_later)) < wall d) \<and>
     (?t - timedelta_hours (sndfa_time_window (conf demo_later)) < wall d \<longrightarrow> (\<exists>resp v1 b.
        check_sndfa_resource demo_later (u_id demo_user) (Some code) v = (Inr resp, v1) \<and> status resp = 200 \<and>
        fst (Identity_authenticate demo_later (u_id demo_user) ''right'' v1) = Inr b))"
    by (elim exE) (rule that)
  then have issued: "wall d = ?t \<or> ?t - timedelta_hours (sndfa_time_window (conf demo_later)) < wall d"
    by (elim conjE)
  have "?t - timedelta_hours (sndfa_time_window (conf demo_later)) < wall d"
    using issued window by auto
  with first show ?thesis by auto
qed

end
