(* ===== verification/SP_Confirming.thy ===== *)
theory SP_Confirming
  imports SP_Interleaving SP_Access
begin

text \<open>
  What logins that are under way leave alone: the flags, the dates of the password and of the
  last confirmation, the code of the e-mail and the black list. A confirmation of the second
  factor that arrives while logins of the same user run is therefore kept by all of them.
\<close>

section \<open>The columns that a login writes\<close>

definition spared :: "spassword_row \<Rightarrow> spassword_row" where
  "spared r = r\<lparr>login_attempts := None, last_login_attempt_time := None,
     sndfa_code := None, sndfa_time_code := None\<rparr>"

lemma spared_updates [simp]:
  "spared (r\<lparr>login_attempts := n\<rparr>) = spared r" "spared (r\<lparr>last_login_attempt_time := d\<rparr>) = spared r"
  "spared (r\<lparr>sndfa_code := c\<rparr>) = spared r" "spared (r\<lparr>sndfa_time_code := d\<rparr>) = spared r"
  by (simp_all add: spared_def)

lemma spared_last: "sndfa_last (spared r) = sndfa_last r"
  by (simp add: spared_def)

definition spares :: "world \<Rightarrow> world \<Rightarrow> bool" where
  "spares w v \<longleftrightarrow> (\<forall>uid r. table w uid = Some r \<longrightarrow>
     (\<exists>s. table v uid = Some s \<and> spared s = spared r))"

interpretation spares: frame spares
proof unfold_locales
  fix s t u
  assume "spares s t" and "spares t u"
  then show "spares s u" unfolding spares_def by metis
qed (simp add: spares_def)

lemma spares_same_table: "keeps same_table m \<Longrightarrow> keeps spares m"
  by (simp add: keeps_def same_table_def spares_def)

lemma spares_ticks:
  assumes "keeps only_ticks m"
  shows "keeps spares m"
proof (rule spares_same_table, rule keepsI)
  fix w
  have "only_ticks w (snd (m w))" using assms by (simp add: keeps_def)
  from only_ticks_same(1) [OF this] show "same_table w (snd (m w))" by (simp add: same_table_def)
qed

lemma spares_readonly: "keeps (=) m \<Longrightarrow> keeps spares m"
  unfolding keeps_def by (metis spares.R_refl)

lemma spares_save:
  "(\<And>r. spared (f r) = spared r) \<Longrightarrow> keeps spares (session_save uid f)"
  by (rule keepsI) (auto simp: session_save_def spares_def split: option.splits)

lemma spares_insert: "keeps spares (session_insert r)"
  by (rule keepsI) (auto simp: session_insert_def spares_def split: option.splits)

lemmas spares_steps = spares.keeps_rules spares_insert
  spares_same_table [OF keeps_same_table_prims(1)] spares_same_table [OF keeps_same_table_prims(2)]
  spares_same_table [OF keeps_same_table_prims(3)] spares_same_table [OF mailer.keeps_table]
  spares_ticks [OF keeps_within_window] spares_ticks [OF keeps_check_block]
  spares_readonly [OF keeps_identity_get_user] spares_readonly [OF count_attempt_frame]

lemma acts_set_code: "acts spares (set_code_thread E u c)"
  unfolding set_code_thread_def by (intro acts_rules spares_steps spares_save) simp_all

lemma acts_demand: "acts spares (demand_thread E uid r res)"
  unfolding demand_thread_def second_factor_thread_def code_to_send_thread_def Let_def
  by (intro acts_rules acts_andthen [OF acts_set_code] spares_steps acts_andthen)

lemma acts_record: "acts spares (record_thread E uid res)"
proof -
  have "keeps spares (commit_attempt uid r n now)" for r n now
    unfolding commit_attempt_def by (intro spares_steps spares_save) simp
  then show ?thesis
    unfolding record_thread_def known_thread_def new_thread_def Let_def
    by (intro acts_rules acts_andthen [OF acts_demand] spares_steps)
qed

lemma acts_login: "keystone_auth E \<Longrightarrow> acts spares (login_thread E uid pw)"
  unfolding login_thread_def
  by (intro acts_rules acts_andthen [OF acts_record] spares_steps
      spares_ticks [OF keeps_base_authenticate])

section \<open>A pool of logins that is under way\<close>

lemma accepted_code:
  assumes "check_sndfa_resource E uid code w = (Inr resp, v)" and "status resp = 200"
  shows "\<exists>r. table v uid = Some r \<and> sndfa_last r = Some (naive (clock E (ticks w)))"
proof -
  obtain valid where check: "check_sndfa_code E uid code w = (Inr valid, v)"
    and resp: "status resp = (if valid then 200 else 401)"
    using assms(1) unfolding check_sndfa_resource_def user_check_sndfa_code_def
    by (auto simp: bnd_def make_response_def split: prod.splits sum.splits if_splits
        dest!: keepsD [OF keeps_checks(1)] keepsD [OF keeps_checks(3)] keepsD [OF keeps_identity_get_user])
  show ?thesis
  proof (cases "table w uid")
    case None
    with check resp assms(2) show ?thesis by (simp add: check_sndfa_code_run)
  next
    case (Some r)
    with check resp assms(2) show ?thesis
      by (auto simp: check_sndfa_code_run split: if_splits)
  qed
qed

text \<open>
  C8. A confirmation is not lost to logins that are under way. When the link with a code is
  accepted at any moment, whatever logins of the same or other users have done up to then, the
  time of the confirmation is still in the row after they all have gone on, in any order; with
  it, all columns but those for attempts and the code are as the link left them.
\<close>

theorem confirmation_survives_logins:
  assumes "keystone_auth E" and "schedule before (login_pool E guesses) w = (ts, w1)"
    and "check_sndfa_resource E uid code w1 = (Inr resp, w2)" and "status resp = 200"
    and "schedule after ts w2 = (us, v)"
  shows "\<exists>r s. table w2 uid = Some r \<and> table v uid = Some s \<and> spared s = spared r \<and>
     sndfa_last s = Some (naive (clock E (ticks w1)))"
proof -
  have "\<forall>t\<in>set (login_pool E guesses). acts spares t"
    using acts_login [OF assms(1)] by (auto simp: login_pool_def)
  from schedule_acts [OF spares.frame_axioms this, of before w] assms(2)
  have "\<forall>t\<in>set ts. acts spares t" by simp
  from schedule_acts [OF spares.frame_axioms this, of after w2] assms(5)
  have "spares w2 v" by simp
  moreover obtain r where r: "table w2 uid = Some r" "sndfa_last r = Some (naive (clock E (ticks w1)))"
    using accepted_code [OF assms(3,4)] by blast
  ultimately obtain s where "table v uid = Some s" "spared s = spared r"
    unfolding spares_def by blast
  with r show ?thesis using spared_last by metis
qed

text \<open>A wrong password has read the row when the code is accepted, and commits after it.\<close>

theorem confirmation_survives_logins_witness:
  "\<exists>ts w1 resp w2 us v s.
     schedule [0, 0, 0] (login_pool demo_env [(''u1'', ''wrong'')]) (demo_world demo_row_2fa) = (ts, w1) \<and>
     check_sndfa_resource demo_env ''u1'' (Some ''00ff00'') w1 = (Inr resp, w2) \<and>
     schedule [0, 0, 0] ts w2 = (us, v) \<and> table v ''u1'' = Some s \<and>
     sndfa_last s = Some (naive (demo_now + 1000000))"
proof -
  let ?w = "demo_world demo_row_2fa" and ?pool = "login_pool demo_env [(''u1'', ''wrong'')]"
  have "check_block demo_env ''u1'' ?w = (Inr (), ?w)"
    by (simp add: login_run_defs)
  moreover have "base_authenticate demo_env ''u1'' ''wrong'' ?w = (Inr (Inl invalid_msg), tick ?w)"
    by (simp add: login_run_defs demo_times in_years_def invalid_msg_def)
  ultimately obtain ts where before: "schedule [0, 0, 0] ?pool ?w = (ts, tick ?w)"
    by (simp add: login_pool_def login_thread_def record_thread_def andthen_assoc
        get_spassword_session_def)
  obtain resp w2 where confirm:
    "check_sndfa_resource demo_env ''u1'' (Some ''00ff00'') (tick ?w) = (Inr resp, w2)" "status resp = 200"
    using confirmed_by_link [of demo_env "tick ?w" "''u1''" demo_user demo_row_2fa "''00ff00''"]
    by (auto simp: demo_row_2fa_def)
  obtain us v where after: "schedule [0, 0, 0] ts w2 = (us, v)" by fastforce
  from confirmation_survives_logins [OF _ before confirm after] before confirm(1) after
  show ?thesis by auto
qed

end
