(* ===== verification/SP_Lockout.thy ===== *)
theory SP_Lockout
  imports SP_Confirming
begin

text \<open>
  How the check of the e-mail and the login interact. The link that checks an e-mail asks for no
  token, and a code that is not the pending one takes the verification of the e-mail back; a
  user with the second factor on needs it to log in, to recover the password, and to switch the
  second factor off.
\<close>

section \<open>A user with the second factor on and an unverified e-mail\<close>

definition locked_out :: "string \<Rightarrow> world \<Rightarrow> bool" where
  "locked_out uid w \<longleftrightarrow>
     (\<exists>r. table w uid = Some r \<and> sndfa r = Some True \<and> sndfa_email r = Some False)"

lemma spared_flags: "sndfa (spared r) = sndfa r" "sndfa_email (spared r) = sndfa_email r"
  by (simp_all add: spared_def)

lemma locked_out_spared: "spares w v \<Longrightarrow> locked_out uid w \<Longrightarrow> locked_out uid v"
  unfolding spares_def locked_out_def by (metis spared_flags)

lemma keeps_spares_login: "keystone_auth E \<Longrightarrow> keeps spares (Identity_authenticate E uid pw)"
  using acts_run [OF acts_login spares.frame_axioms] by (simp add: run_login)

lemma locked_out_login:
  assumes "keystone_auth E" and "enabled (conf E)" and "conf_sndfa (conf E)" and "locked_out uid w"
  shows "isl (fst (Identity_authenticate E uid pw w))"
    and "locked_out uid (snd (Identity_authenticate E i pw w))"
proof -
  obtain r where r: "table w uid = Some r" "sndfa r = Some True" "sndfa_email r = Some False"
    using assms(4) by (auto simp: locked_out_def)
  have "Identity_authenticate E uid pw w \<noteq> (Inr a, v)" for a v
    using granted_login [OF assms(1-3) r(1,2), of pw a v] r(3) by auto
  then show "isl (fst (Identity_authenticate E uid pw w))"
    by (metis prod.collapse sum.collapse(2))
  have "spares w (snd (Identity_authenticate E i pw w))"
    using keeps_spares_login [OF assms(1)] by (simp add: keeps_def)
  from locked_out_spared [OF this assms(4)]
  show "locked_out uid (snd (Identity_authenticate E i pw w))" .
qed

lemma login_keeps_users:
  assumes "keystone_auth E" and "users_keyed w"
  shows "users (snd (Identity_authenticate E uid pw w)) = users w"
  using own_row_authenticate [OF assms(1), of uid pw] assms(2)
  by (simp add: keeps_def own_row_def same_users_def)

lemma locked_out_logins:
  assumes "keystone_auth E" and "enabled (conf E)" and "conf_sndfa (conf E)"
    and "locked_out uid w" and "users_keyed w"
  shows "list_all isl (fst (logins E uid pws w)) \<and> locked_out uid (snd (logins E uid pws w)) \<and>
     users (snd (logins E uid pws w)) = users w"
  using assms(4,5)
proof (induction pws arbitrary: w)
  case (Cons pw pws)
  obtain x v where first: "Identity_authenticate E uid pw w = (x, v)" by fastforce
  with locked_out_login [OF assms(1-3) Cons.prems(1)] login_keeps_users [OF assms(1) Cons.prems(2)]
  have "isl x" "locked_out uid v" "users v = users w" by (metis fst_conv snd_conv)+
  with Cons.IH [of v] Cons.prems(2) first show ?case
    by (auto simp: users_keyed_def split: prod.splits)
qed simp

section \<open>What such a user cannot do\<close>

lemma locked_out_validated:
  assumes "locked_out (u_id u) w"
  shows "\<exists>e. check_user_has_email_validated u w = (Inl e, w)"
  using assms
  by (auto simp: locked_out_def check_user_has_email_validated_def already_user_check_email_def
      already_email_checked_run bnd_def truthy_def)

lemma locked_out_requests:
  assumes "enabled (conf E)" and "conf_sndfa (conf E)" and "enforcer_reads K"
    and "users w uid = Some u" and "u_id u = uid" and "locked_out uid w"
  shows "\<exists>e. recover_password E uid w = (Inl e, w)"
    and "\<exists>e. modify_sndfa_resource E K uid req w = (Inl e, w)"
proof -
  obtain e where no: "check_user_has_email_validated u w = (Inl e, w)"
    using locked_out_validated assms(5,6) by blast
  obtain d where defined: "check_user_has_email_defined u w = (d, w)"
    by (metis keepsD [OF keeps_checks(2)] prod.exhaust)
  obtain x where policy:
    "enforce_call K ''identity:update_user'' (build_user_target_enforcement K req) w = (x, w)"
    by (metis keepsD [OF keeps_enforce [OF assms(3)]] prod.exhaust)
  show "\<exists>e. recover_password E uid w = (Inl e, w)"
    using assms(1,2,4) no defined
    by (cases d) (simp_all add: recover_password_def configured_run identity_get_user_run bnd_def)
  show "\<exists>e. modify_sndfa_resource E K uid req w = (Inl e, w)"
    using assms(1,2,4) no defined policy
    by (cases d; cases x) (simp_all add: modify_sndfa_resource_def configured_run
        identity_get_user_run bnd_def split: sum.split)
qed

section \<open>How a user gets there\<close>

lemma wrong_code_locks:
  assumes "users w uid = Some u" and "u_id u = uid" and "u_email u \<noteq> None"
    and "table w uid = Some r" and "sndfa r = Some True"
    and "sndfa_email_code r = Some c" and "c \<noteq> ''''" and "g \<noteq> c"
  shows "\<exists>resp v. check_email_resource uid (Some g) w = (Inr resp, v) \<and> status resp = 401 \<and>
     users v = users w \<and> locked_out uid v"
  using assms
  by (simp add: check_email_resource_def identity_get_user_run check_user_has_email_defined_def
      user_check_email_code_def check_email_code_run(3) bnd_def make_response_def locked_out_def)

text \<open>
  C19. One request without a token shuts a user out. For a user with the second factor on, a
  GET of the e-mail link with any code but the pending one is answered 401 and takes the
  verification of the e-mail back. From then on every login of the user is refused, whatever the
  password and however often it is tried; and neither the recovery of the password nor switching
  the second factor off is open to the user, who would need a verified e-mail for both.
\<close>

theorem wrong_code_shuts_out:
  assumes "keystone_auth E" and "enforcer_reads K" and "enabled (conf E)" and "conf_sndfa (conf E)"
    and "users_keyed w" and "users w uid = Some u" and "u_email u \<noteq> None"
    and "table w uid = Some r" and "sndfa r = Some True"
    and "sndfa_email_code r = Some c" and "c \<noteq> ''''" and "g \<noteq> c"
    and "no_slash uid" and "uid \<noteq> ''''" and "no_slash g" and "g \<noteq> ''''"
  shows "\<exists>m resp v. serve E K GET (''/users/'' @ uid @ ''/checkemail/'' @ g) j = Some m \<and>
     m w = (Inr resp, v) \<and> status resp = 401 \<and>
     (\<forall>pws req. list_all isl (fst (logins E uid pws v)) \<and>
        (\<exists>e. recover_password E uid (snd (logins E uid pws v)) = (Inl e, snd (logins E uid pws v))) \<and>
        (\<exists>e. modify_sndfa_resource E K uid req (snd (logins E uid pws v)) =
           (Inl e, snd (logins E uid pws v))))"
proof -
  have id: "u_id u = uid" using assms(5,6) by (simp add: users_keyed_def)
  from wrong_code_locks [OF assms(6) id assms(7-12)] obtain resp v where
    wrong: "check_email_resource uid (Some g) w = (Inr resp, v)" "status resp = 401"
    "users v = users w" "locked_out uid v" by blast
  have route: "serve E K GET (''/users/'' @ uid @ ''/checkemail/'' @ g) j =
      Some (check_email_resource uid (Some g))"
    using code_route(2) [OF assms(13-16)] by (simp add: serve_def call_handler_def py_str_opt_def)
  have keyed: "users_keyed v" using assms(5) wrong(3) by (simp add: users_keyed_def)
  have "list_all isl (fst (logins E uid pws v)) \<and> locked_out uid (snd (logins E uid pws v)) \<and>
      users (snd (logins E uid pws v)) uid = Some u" for pws
    using locked_out_logins [OF assms(1,3,4) wrong(4) keyed, of pws] wrong(3) assms(6) by simp
  with locked_out_requests [OF assms(3,4,2) _ id] route wrong(1,2) show ?thesis by blast
qed

theorem wrong_code_shuts_out_witness:
  "\<exists>m resp v. serve demo_env demo_api GET ''/users/u1/checkemail/x'' JNull = Some m \<and>
     m (demo_world demo_row_2fa) = (Inr resp, v) \<and> status resp = 401 \<and>
     list_all isl (fst (logins demo_env ''u1'' [''wrong'', ''right'', ''right''] v))"
proof -
  let ?w = "demo_world demo_row_2fa"
  have keyed: "users_keyed ?w" by (simp add: users_keyed_def)
  have row: "sndfa demo_row_2fa = Some True" "sndfa_email_code demo_row_2fa = Some ''0a1b2c''"
    by (simp_all add: demo_row_2fa_def)
  obtain m resp v where "serve demo_env demo_api GET ''/users/u1/checkemail/x'' JNull = Some m"
    "m ?w = (Inr resp, v)" "status resp = 401"
    "\<forall>pws. list_all isl (fst (logins demo_env ''u1'' pws v))"
    using wrong_code_shuts_out [OF demo_keystone_auth demo_enforcer_reads _ _ keyed _ _ _ row,
        where uid = "''u1''" and u = demo_user and g = "''x''" and j = JNull]
    by (simp add: no_slash_def) blast
  then show ?thesis by blast
qed

section \<open>An e-mail address that changes\<close>

text \<open>
  C23. The verification belongs to the user and not to the address. When the e-mail of a user
  with a verified e-mail is changed, and the plugin notified, the new address counts as
  verified without ever having been asked: a recovery, which needs no token, sends to it the
  link that resets the password.
\<close>

theorem changed_email_stays_verified:
  assumes "enabled (conf E)" and "conf_sndfa (conf E)" and "takes_mail E"
    and "email_verified uid w" and "u_id u = uid" and "u_email u = Some to"
    and "notify E ''updated'' ''user'' uid (w\<lparr>users := (users w)(uid \<mapsto> u)\<rparr>) = (x, v)"
    and "recover_password E uid v = (y, v')"
  shows "email_verified uid v \<and> (\<exists>c r. outbox v' = outbox w @ [recovery_mail E u to c] \<and>
     table v' uid = Some r \<and> sndfa_email_code r = Some c)"
proof -
  obtain r where r: "table w uid = Some r" "sndfa_email r = Some True"
    using assms(4) by (auto simp: email_verified_def truthy_def split: option.splits)
  let ?r = "r\<lparr>creation_time := Some (naive (clock E (ticks w))), login_attempts := Some 0\<rparr>"
  have v: "table v uid = Some ?r" "users v uid = Some u" "outbox v = outbox w"
    using assms(1,5,7) r(1)
    by (auto simp: notify_user_updated user_updated_callback_def get_user_run bnd_def
        update_user_modification_time_run)
  let ?c = "email_code E v" and ?W = "recovery_world E uid v ?r"
  let ?m = "recovery_mail E u to ?c"
  obtain z u' where send: "send_email E to (mail_subject ?m) (mail_body ?m) ?W = (z, u')" by fastforce
  have "truthy (sndfa_email ?r)" using r(2) by (simp add: truthy_def)
  from recover_run [OF v(2) assms(5,6) v(1) this assms(1,2)] assms(8) send
  have "v' = u'" by (cases z) (auto simp: bnd_def split: if_splits)
  moreover have "outbox u' = outbox ?W @ [mime E to (mail_subject ?m) (mail_body ?m)]"
    by (rule takes_mail_sends [OF assms(3) send])
  moreover have "table u' = table ?W"
    using keepsD [OF mailer.keeps_table send] by (simp add: same_table_def)
  moreover have "mime E to (mail_subject ?m) (mail_body ?m) = ?m"
    by (simp add: recovery_mail_def mime_def)
  moreover have "email_verified uid v" using v(1) r(2) by (simp add: email_verified_def truthy_def)
  ultimately show ?thesis using v(3) by (simp add: recovery_world_def)
qed

text \<open>The demo user moves to an address that was never asked.\<close>

theorem changed_email_stays_verified_witness:
  "\<exists>v y v' c. notify demo_env ''updated'' ''user'' ''u1'' ((demo_world demo_row_2fa)\<lparr>users :=
       [''u1'' \<mapsto> demo_user\<lparr>u_email := Some ''new@example.org''\<rparr>]\<rparr>) = (Inr (), v) \<and>
     recover_password demo_env ''u1'' v = (y, v') \<and>
     outbox v' = [recovery_mail demo_env (demo_user\<lparr>u_email := Some ''new@example.org''\<rparr>)
       ''new@example.org'' c]"
proof -
  let ?u = "demo_user\<lparr>u_email := Some ''new@example.org''\<rparr>" and ?w = "demo_world demo_row_2fa"
  have world: "?w\<lparr>users := (users ?w)(''u1'' \<mapsto> ?u)\<rparr> = ?w\<lparr>users := [''u1'' \<mapsto> ?u]\<rparr>" by simp
  obtain v where told: "notify demo_env ''updated'' ''user'' ''u1'' (?w\<lparr>users := [''u1'' \<mapsto> ?u]\<rparr>) =
      (Inr (), v)"
    by (simp add: notify_user_updated user_updated_callback_def get_user_run bnd_def
        update_user_modification_time_run)
  obtain y v' where run: "recover_password demo_env ''u1'' v = (y, v')" by fastforce
  have mail: "takes_mail demo_env"
    by (simp add: takes_mail_def smtp_ready_def Let_def)
  have verified: "email_verified ''u1'' ?w" by (simp add: email_verified_def)
  from changed_email_stays_verified [OF _ _ mail verified _ _ told [folded world] run, of "''new@example.org''"]
  obtain c where "outbox v' = [recovery_mail demo_env ?u ''new@example.org'' c]" by auto
  with told run show ?thesis by blast
qed

section \<open>The age of a code\<close>

text \<open>
  C20. The link for the second factor is accepted however old its code is. The documentation says
  that a code is valid only during \<open>sndfa_time_window\<close>; but a GET of the link with a code that was
  issued at least that long ago is answered 200, and the confirmation is recorded as of now, so that
  the window in which logins need no code starts then.
\<close>

theorem expired_code_accepted:
  assumes "enabled (conf E)" and "conf_sndfa (conf E)" and "users w uid = Some u" and "u_id u = uid"
    and "table w uid = Some r" and "sndfa r = Some True" and "sndfa_email r = Some True"
    and "sndfa_code r = Some code" and "sndfa_time_code r = Some d"
    and "wall d \<le> clock E (ticks w) - timedelta_hours (sndfa_time_window (conf E))"
    and "no_slash uid" and "uid \<noteq> ''''" and "no_slash code" and "code \<noteq> ''''"
  shows "\<exists>m resp. serve E K GET (''/users/'' @ uid @ ''/sndfa/'' @ code) j = Some m \<and>
     m w = (Inr resp, with_row (tick w) uid (r\<lparr>sndfa_last := Some (naive (clock E (ticks w)))\<rparr>)) \<and>
     status resp = 200"
proof -
  have "serve E K GET (''/users/'' @ uid @ ''/sndfa/'' @ code) j =
      Some (check_sndfa_resource E uid (Some code))"
    using code_route(3) [OF assms(11-14)] by (simp add: serve_def call_handler_def py_str_opt_def)
  with confirmed_by_link [OF assms(1-8)] show ?thesis by blast
qed

text \<open>A year after the code was issued.\<close>

theorem expired_code_accepted_witness:
  "\<exists>m resp v. serve demo_env demo_api GET ''/users/u1/sndfa/00ff00'' JNull = Some m \<and>
     m (demo_world (demo_row_2fa\<lparr>sndfa_time_code := Some (naive (demo_now - 31536000000000))\<rparr>)) =
       (Inr resp, v) \<and> status resp = 200"
proof -
  let ?r = "demo_row_2fa\<lparr>sndfa_time_code := Some (naive (demo_now - 31536000000000))\<rparr>"
  have row: "table (demo_world ?r) ''u1'' = Some ?r" "sndfa ?r = Some True" "sndfa_email ?r = Some True"
    "sndfa_code ?r = Some ''00ff00''" "sndfa_time_code ?r = Some (naive (demo_now - 31536000000000))"
    by simp_all
  have old: "wall (naive (demo_now - 31536000000000)) \<le>
      clock demo_env (ticks (demo_world ?r)) - timedelta_hours (sndfa_time_window (conf demo_env))"
    by (simp add: timedelta_hours_def)
  show ?thesis
    using expired_code_accepted [OF _ _ _ _ row old, where u = demo_user and K = demo_api and j = JNull]
    by (simp add: no_slash_def) blast
qed

end
