(* ===== verification/SP_Disabled.thy ===== *)
theory SP_Disabled
  imports SP_System
begin

text \<open>
  The switch \<open>enabled\<close>. Not every operation asks for it: the e-mail of a user can be checked
  while the plugin is off. Everything else in the table stays as it was, whatever happens.
\<close>

section \<open>What may change\<close>

text \<open>A row without the two columns of the check of the e-mail.\<close>

definition other_columns :: "spassword_row \<Rightarrow> spassword_row" where
  "other_columns r = r\<lparr>sndfa_email := None, sndfa_email_code := None\<rparr>"

lemma other_columns_simps [simp]:
  "other_columns (r\<lparr>sndfa_email := a\<rparr>) = other_columns r"
  "other_columns (r\<lparr>sndfa_email_code := c\<rparr>) = other_columns r"
  by (simp_all add: other_columns_def)

lemma other_columns_attempts: "login_attempts (other_columns r) = login_attempts r"
  by (simp add: other_columns_def)

definition email_only :: "world \<Rightarrow> world \<Rightarrow> bool" where
  "email_only w v \<longleftrightarrow>
     (\<forall>uid. map_option other_columns (table v uid) = map_option other_columns (table w uid))"

interpretation email_only: frame email_only
  by unfold_locales (simp_all add: email_only_def)

lemma email_only_table: "table v = table w \<Longrightarrow> email_only w v"
  by (simp add: email_only_def)

lemma keeps_email_table: "keeps same_table m \<Longrightarrow> keeps email_only m"
  by (simp add: keeps_def same_table_def email_only_def)

lemma keeps_email_ticks: "keeps only_ticks m \<Longrightarrow> keeps email_only m"
  unfolding keeps_def using only_ticks_same(1) email_only_table by blast

lemma keeps_email_readonly: "keeps (=) m \<Longrightarrow> keeps email_only m"
  unfolding keeps_def by (metis email_only.R_refl)

section \<open>The operations that do not ask for the switch\<close>

lemma keeps_email_driver:
  "keeps email_only (set_check_email_code uid c)" "keeps email_only (check_email_code uid code)"
  "keeps email_only (get_sndfa uid)" "keeps email_only (already_email_checked uid)"
  "keeps email_only (get_black uid)" "keeps email_only (get_pwd_expiration E uid)"
proof -
  have "email_only w (snd (set_check_email_code uid c w))" for w
    by (cases "table w uid") (simp_all add: set_check_email_code_run email_only_def)
  then show "keeps email_only (set_check_email_code uid c)" by (rule keepsI)
  have "email_only w (snd (check_email_code uid code w))" for w
  proof (cases "table w uid")
    case (Some r)
    then show ?thesis
      by (cases "sndfa_email_code r \<in> {None, Some ''''}")
        (auto simp: check_email_code_run email_only_def)
  qed (simp add: check_email_code_run email_only_def)
  then show "keeps email_only (check_email_code uid code)" by (rule keepsI)
  show "keeps email_only (get_sndfa uid)" "keeps email_only (already_email_checked uid)"
    by (auto intro!: keepsI simp: get_sndfa_run already_email_checked_run email_only_def)
  have "snd (get_black uid w) = w" for w
    by (cases "table w uid") (simp_all add: get_black_run)
  then show "keeps email_only (get_black uid)" by (simp add: keeps_def email_only_def)
  show "keeps email_only (get_pwd_expiration E uid)"
    unfolding get_pwd_expiration_def
    by (intro email_only.keeps_rules keeps_email_table keeps_same_table_prims)
qed

lemma keeps_email_ask: "keeps email_only (user_ask_check_email_code E uid)"
  unfolding user_ask_check_email_code_def Let_def
  by (intro email_only.keeps_rules keeps_email_driver keeps_email_table [OF keeps_same_table_prims(2)])

lemmas keeps_email_steps = email_only.keeps_rules keeps_email_driver keeps_email_ask
  keeps_email_table [OF mailer.keeps_table] keeps_email_table [OF keeps_same_table_prims(2)]
  keeps_email_readonly [OF keeps_identity_get_user] keeps_email_readonly [OF keeps_checks(2)]

section \<open>The operations that do\<close>

lemma off_notify:
  assumes "\<not> enabled (conf E)"
  shows "keeps (=) (notify E operation resource_type uid)"
proof -
  note off = SPassword.disabled_plugin [OF assms, of E, unfolded callbacks_on_SPassword]
  show ?thesis
    unfolding notify_def event_callbacks_def
    by (auto intro!: readonly.keeps_rules off)
qed

lemma off_keystone_effect: "keystone_effect E w v \<Longrightarrow> \<not> enabled (conf E) \<Longrightarrow> email_only w v"
proof (induction rule: keystone_effect.induct)
  case (effect_users w v us)
  then show ?case by (simp add: email_only_def)
next
  case (effect_notify w v operation resource_type resource_info)
  moreover from this have "v = snd (notify E operation resource_type resource_info v)"
    using off_notify [of E operation resource_type resource_info] by (simp add: keeps_def)
  ultimately show ?case by simp
qed (rule email_only.R_refl)

lemma off_login:
  assumes "\<not> enabled (conf E)" and "keystone_auth E"
  shows "keeps email_only (Identity_authenticate E uid pw)"
  unfolding Identity_authenticate_def record_attempt_def using assms(1)
  by (simp cong: sum.case_cong)
    (intro email_only.keeps_rules keeps_email_ticks [OF keeps_check_block]
      keeps_email_ticks [OF keeps_base_authenticate [OF assms(2)]])

lemma off_update_user:
  assumes "\<not> enabled (conf E)" and "keystone_update E"
  shows "keeps email_only (ks_update_user E (notify E ''updated'' ''user'') uid pw)"
proof (rule keepsI)
  fix w
  have "keystone_update_at E (notify E ''updated'' ''user'') uid pw w"
    using assms(2) by (simp add: keystone_update_def)
  moreover have "snd (notify E ''updated'' ''user'' uid v) = v" for v
    using off_notify [OF assms(1), of "''updated''" "''user''" uid] unfolding keeps_def by metis
  ultimately show "email_only w (snd (ks_update_user E (notify E ''updated'' ''user'') uid pw w))"
    by (auto simp: keystone_update_at_def email_only_table split: option.splits)
qed

lemma off_reset:
  assumes "\<not> enabled (conf E)" and "keystone_update E"
  shows "keeps email_only (reset_password E uid code)"
  unfolding reset_password_def send_new_password_email_def user_check_email_code_def Let_def
  by (intro keeps_email_steps email_only.keeps_catch off_update_user [OF assms])
    (auto intro: keeps_email_steps split: if_splits)

lemma off_guarded:
  assumes "\<not> enabled (conf E)"
  shows "bnd (check_spassword_configured E) f w = (Inl SPasswordNotConfigured, w)"
  using assms by (simp add: check_spassword_configured_def bnd_def)

lemma off_handlers:
  assumes "\<not> enabled (conf E)" and "enforcer_reads K"
  shows "keeps email_only (recover_password E uid)"
    "keeps email_only (modify_sndfa_resource E K uid req)"
    "keeps email_only (check_sndfa_resource E uid code)"
    "keeps email_only (modify_black_resource E K uid req)"
    "keeps email_only (get_sndfa_resource E K uid req)"
    "keeps email_only (get_black_resource E K uid req)"
    "keeps email_only (ask_check_email_resource E K uid req)"
    "keeps email_only (check_email_resource uid code)"
    "keeps email_only (user_project_roles_resource K uid req)"
proof -
  show "keeps email_only (recover_password E uid)"
    "keeps email_only (modify_sndfa_resource E K uid req)"
    "keeps email_only (check_sndfa_resource E uid code)"
    "keeps email_only (modify_black_resource E K uid req)"
    by (simp_all add: keeps_def recover_password_def modify_sndfa_resource_def email_only.R_refl
        check_sndfa_resource_def modify_black_resource_def off_guarded [OF assms(1)])
qed (unfold get_sndfa_resource_def get_black_resource_def ask_check_email_resource_def
    check_email_resource_def user_project_roles_resource_def project_roles_def
    already_user_check_email_def user_get_sndfa_def user_get_black_def user_get_pwd_expiration_def
    user_check_email_code_def Let_def,
    (intro keeps_email_steps keeps_email_readonly [OF keeps_enforce [OF assms(2)]])+)

lemma off_effect:
  "\<not> enabled (conf E) \<Longrightarrow> (\<And>w. keystone_effect E w (snd (m w))) \<Longrightarrow> keeps email_only m"
  by (auto intro: keepsI off_keystone_effect)

lemma off_password_handlers:
  assumes "\<not> enabled (conf E)" and "keystone_ops E K"
  shows "keeps email_only (scim_user_patch E K uid req)" "keeps email_only (scim_user_put K uid req)"
    "keeps email_only (scim_user_post E K req)" "keeps email_only (scim_user_delete K uid req)"
    "keeps email_only (user_post E K req)" "keeps email_only (user_patch E K uid req)"
    "keeps email_only (user_delete K uid req)" "keeps email_only (user_password_post E K uid req)"
  using assms(2)
  unfolding scim_user_patch_def scim_user_put_def scim_user_post_def scim_user_delete_def
    user_post_def user_patch_def user_delete_def user_password_post_def keystone_ops_def Let_def
  by (intro email_only.keeps_rules off_effect [OF assms(1)]; simp)+

lemma off_call_handler:
  assumes "\<not> enabled (conf E)" and "keystone_ops E K"
  shows "keeps email_only (call_handler E K h args req)"
proof -
  have "enforcer_reads K" "keystone_update E" using assms(2) by (simp_all add: keystone_ops_def)
  then show ?thesis
    using off_password_handlers [OF assms] off_handlers [OF assms(1)] off_reset [OF assms(1)]
    by (cases h) (simp_all add: call_handler_def Let_def)
qed

section \<open>Any number of steps\<close>

lemma off_step:
  assumes "\<not> enabled (conf E)" and "keystone_ops E K" and "step E K w v"
  shows "email_only w v"
  using assms(3)
proof (cases rule: stepE [consumes 1, case_names login request keystone])
  case (login uid pw x)
  have "keystone_auth E" using assms(2) by (simp add: keystone_ops_def)
  from keepsD [OF off_login [OF assms(1) this] login] show ?thesis .
next
  case (request meth path j m y)
  then have "keeps email_only m"
    by (auto simp: serve_def split: dispatched.splits
        intro: off_call_handler [OF assms(1,2)] email_only.keeps_raise)
  from keepsD [OF this request(2)] show ?thesis .
next
  case keystone
  from off_keystone_effect [OF this assms(1)] show ?thesis .
qed

text \<open>
  C10. While the plugin is switched off, no login, no request and no notification creates,
  deletes or changes a row, apart from the two columns of the check of the e-mail: counts of
  bad attempts, dates of passwords, second factors and black list flags are the same after any
  number of steps, whatever passwords were tried or changed meanwhile.
\<close>

theorem disabled_plugin_inert:
  assumes "\<not> enabled (conf E)" and "keystone_ops E K" and "(step E K)\<^sup>*\<^sup>* w v"
  shows "map_option other_columns (table v uid) = map_option other_columns (table w uid)"
proof -
  have "email_only w v"
    using assms(3)
    by induction (blast intro: email_only.R_refl email_only.R_trans off_step [OF assms(1,2)])+
  then show ?thesis by (simp add: email_only_def)
qed

text \<open>The demo installation switched off: a wrong password is refused and not counted.\<close>

definition demo_off :: env where
  "demo_off = demo_env\<lparr>conf := demo_conf\<lparr>enabled := False\<rparr>\<rparr>"

lemma demo_off_same:
  "ks_update_user demo_off = ks_update_user demo_env"
  "ks_check_password demo_off = ks_check_password demo_env"
  by (simp_all add: demo_off_def fun_eq_iff)

lemma demo_off_ops: "keystone_ops demo_off demo_api"
proof -
  have "keystone_auth demo_off"
    by (intro keystone_auth_plain demo_keystone) (simp add: demo_off_def)
  moreover have "keystone_update demo_off"
    using demo_keystone_update unfolding keystone_update_def keystone_update_at_def demo_off_same .
  ultimately show ?thesis
    using demo_keystone_ops by (simp add: keystone_ops_def demo_api_def effect_refl)
qed

theorem disabled_plugin_inert_witness:
  "\<exists>x v r. Identity_authenticate demo_off ''u1'' ''wrong'' (demo_world demo_row) = (x, v) \<and>
     table v ''u1'' = Some r \<and> login_attempts r = Some 0"
proof -
  obtain x v where run: "Identity_authenticate demo_off ''u1'' ''wrong'' (demo_world demo_row) = (x, v)"
    by fastforce
  then have "(step demo_off demo_api)\<^sup>*\<^sup>* (demo_world demo_row) v"
    by (blast intro: step_login)
  moreover have "\<not> enabled (conf demo_off)" by (simp add: demo_off_def)
  ultimately have "map_option other_columns (table v ''u1'') = Some (other_columns demo_row)"
    using disabled_plugin_inert [OF _ demo_off_ops, of "demo_world demo_row" v "''u1''"] by simp
  then obtain r where "table v ''u1'' = Some r" "other_columns r = other_columns demo_row" by auto
  moreover from this(2) have "login_attempts r = login_attempts demo_row"
    using other_columns_attempts by metis
  ultimately show ?thesis using run by auto
qed

end
