(* ===== verification/SP_Requests.thy ===== *)
theory SP_Requests
  imports SP_Lockout SP_Disabled
begin

text \<open>
  The requests about the e-mail of a user, and the notification that a user was updated, cut
  where they reach the database, the source of randomness or the mail server, as the login is in
  \<open>SP_Interleaving\<close>. A commit writes the columns that were assigned another value than the one
  read; a fresh code and the date of a password are taken to differ from the ones they replace.
\<close>

section \<open>The driver\<close>

definition set_check_email_thread :: "string \<Rightarrow> string \<Rightarrow> (world, unit) thread" where
  "set_check_email_thread uid newcode =
     andthen (atomic (get_spassword_session uid)) (\<lambda>spassword_ref.
     case spassword_ref of
       None \<Rightarrow> Done (Inr ())
     | Some r \<Rightarrow> atomic (bnd (session_save uid (\<lambda>s. s\<lparr>sndfa_email_code := Some newcode,
         sndfa_email := written (sndfa_email r) (Some False) (sndfa_email s)\<rparr>)) (\<lambda>_. ret ())))"

text \<open>Where the check comes out as the row already says, nothing is left to commit.\<close>

definition check_email_thread :: "string \<Rightarrow> string option \<Rightarrow> (world, bool) thread" where
  "check_email_thread uid code =
     andthen (atomic (get_spassword_session uid)) (\<lambda>spassword_ref.
     case spassword_ref of
       None \<Rightarrow> Done (Inr False)
     | Some r \<Rightarrow>
         if sndfa_email_code r \<noteq> None \<and> sndfa_email_code r \<noteq> Some '''' then
           (let check = (sndfa_email_code r = code) in
            if sndfa_email r = Some check then Done (Inr check)
            else atomic (bnd (session_save uid (\<lambda>s. s\<lparr>sndfa_email := Some check\<rparr>))
                   (\<lambda>_. ret check)))
         else Done (Inr False))"

definition update_time_thread :: "env \<Rightarrow> user \<Rightarrow> (world, unit) thread" where
  "update_time_thread E user =
     andthen (atomic (get_spassword_session (u_id user))) (\<lambda>spassword_ref.
     andthen (atomic (utcnow E)) (\<lambda>now.
     case spassword_ref of
       Some r \<Rightarrow> atomic (bnd (session_save (u_id user) (\<lambda>s. s\<lparr>creation_time := Some now,
         login_attempts := written (login_attempts r) (Some 0) (login_attempts s)\<rparr>)) (\<lambda>_. ret ()))
     | None \<Rightarrow>
         atomic (bnd (session_insert ((user_row user now)\<lparr>login_attempts := Some 0\<rparr>)) (\<lambda>_. ret ()))))"

section \<open>The manager and the resources\<close>

definition ask_code_thread :: "env \<Rightarrow> string \<Rightarrow> (world, string) thread" where
  "ask_code_thread E uid =
     andthen (atomic (already_email_checked uid)) (\<lambda>_.
     andthen (atomic (fresh_uuid E)) (\<lambda>u.
     let code = take 6 (uuid_hex u) in
     andthen (set_check_email_thread uid code) (\<lambda>_. Done (Inr code))))"

definition updated_thread :: "env \<Rightarrow> string \<Rightarrow> (world, unit) thread" where
  "updated_thread E resource_info =
     andthen (atomic (get_user resource_info)) (\<lambda>user.
     if enabled (conf E) then update_time_thread E user else Done (Inr ()))"

definition recover_mail_thread :: "env \<Rightarrow> user \<Rightarrow> string \<Rightarrow> (world, response) thread" where
  "recover_mail_thread E user_info code = atomic (
     bnd (lift (user_email user_info)) (\<lambda>to.
     let subject = Brand @ '' reset password procedure '';
         link = mail_link (conf E) user_info ''/reset_password/'' code;
         text = ''The reset password procedure has been started'' @ [CHR 0x0A] @
           ''Press in following link to complete your password reset: '' @ link in
     bnd (send_email E to subject text) (\<lambda>sent.
     if sent
     then ret (make_response (Text (''reset password email link sent to '' @ to))
                 200 (Some ''application/json''))
     else ret (make_response (Text (''reset password email link was not sent to '' @ to))
                 400 (Some ''application/json'')))))"

definition recover_thread :: "env \<Rightarrow> string \<Rightarrow> (world, response) thread" where
  "recover_thread E uid =
     andthen (atomic (bnd (check_spassword_configured E) (\<lambda>_.
       bnd (identity_get_user uid) (\<lambda>user_info.
       bnd (check_user_has_email_defined user_info) (\<lambda>_. ret user_info))))) (\<lambda>user_info.
     andthen (atomic (check_user_has_email_validated user_info)) (\<lambda>_.
     andthen (ask_code_thread E uid) (\<lambda>code.
     andthen (check_email_thread uid (Some code)) (\<lambda>_.
     recover_mail_thread E user_info code))))"

definition check_email_request_thread :: "string \<Rightarrow> string option \<Rightarrow> (world, response) thread" where
  "check_email_request_thread uid code =
     andthen (atomic (bnd (identity_get_user uid) (\<lambda>user_info.
       bnd (check_user_has_email_defined user_info) (\<lambda>_. ret ())))) (\<lambda>_.
     andthen (check_email_thread uid code) (\<lambda>valid.
     Done (Inr (if valid
       then make_response (Text ''Valid code. Email sucessfully checked'') 200 (Some ''text/html'')
       else make_response (Text ''No valid code. Email not checked'') 401
              (Some ''application/json'')))))"

definition ask_check_email_thread ::
    "env \<Rightarrow> keystone_api \<Rightarrow> string \<Rightarrow> request \<Rightarrow> (world, response) thread" where
  "ask_check_email_thread E K uid req =
     andthen (atomic (enforce_call K ''identity:update_user''
       (build_user_target_enforcement K req))) (\<lambda>_.
     andthen (atomic (bnd (identity_get_user uid) (\<lambda>user_info.
       bnd (check_user_has_email_defined user_info) (\<lambda>_. ret user_info)))) (\<lambda>user_info.
     andthen (ask_code_thread E uid) (\<lambda>code. atomic (
     bnd (lift (user_email user_info)) (\<lambda>to.
     let subject = Brand @ '' verify email '';
         link = mail_link (conf E) user_info ''/checkemail/'' code;
         text = ''The code for verify your email is '' @ code @ [CHR 0x0A] @ ''Link is: '' @ link in
     bnd (send_email E to subject text) (\<lambda>sent.
     if sent
     then ret (make_response (Text (''check email code sent to '' @ to))
                 200 (Some ''application/json''))
     else ret (make_response (Text (''check email code was not sent to '' @ to))
                 400 (Some ''application/json''))))))))"

text \<open>Keystone's update of the password, with the notifications it sends, is one action.\<close>

definition reset_thread :: "env \<Rightarrow> string \<Rightarrow> string option \<Rightarrow> (world, response) thread" where
  "reset_thread E uid code =
     andthen (atomic (identity_get_user uid)) (\<lambda>user_info.
     andthen (check_email_thread uid code) (\<lambda>valid.
     if valid then
       andthen (atomic (fresh_uuid E)) (\<lambda>u.
       let new_password = take 12 (uuid_str u) in
       andthen (atomic (catch (ks_update_user E (notify E ''updated'' ''user'') uid new_password)
              (\<lambda>e. if e = AssertionError
                    then Some (raise (Unauthorized ''Invalid username or password''))
                    else None))) (\<lambda>_. atomic (
       bnd (lift (user_email user_info)) (\<lambda>to.
       bnd (send_new_password_email E to new_password) (\<lambda>sent.
       let msg = (if sent then '' New password was sent by email to '' @ to
                  else '' New password was not sent by email to '' @ to) in
       ret (make_response
              (Text (''Request with valid code. Password sucessfully reset.'' @ msg))
              200 (Some ''text/html'')))))))
     else Done (Inr (make_response (Text ''No valid code. Password not reset'')
                 401 (Some ''text/html'')))))"

section \<open>Each of them alone\<close>

lemma run_set_check_email: "run (set_check_email_thread uid c) = set_check_email_code uid c"
proof (rule ext)
  fix w
  show "run (set_check_email_thread uid c) w = set_check_email_code uid c w"
    by (cases "table w uid") (simp_all add: set_check_email_thread_def set_check_email_code_run
        bnd_def session_save_def get_spassword_session_def)
qed

lemma run_check_email: "run (check_email_thread uid code) = check_email_code uid code"
proof (rule ext)
  fix w
  show "run (check_email_thread uid code) w = check_email_code uid code w"
  proof (cases "table w uid")
    case (Some r)
    have same: "sndfa_email r = Some b \<Longrightarrow> with_row w uid (r\<lparr>sndfa_email := Some b\<rparr>) = w" for b
      using Some by (cases w; cases r) auto
    show ?thesis
    proof (cases "sndfa_email_code r \<in> {None, Some ''''}")
      case True
      with Some show ?thesis
        by (auto simp: check_email_thread_def check_email_code_run bnd_def get_spassword_session_def)
    next
      case False
      with Some same show ?thesis
        by (auto simp: check_email_thread_def check_email_code_run(3) bnd_def session_save_def
            get_spassword_session_def Let_def eq_commute [of code])
    qed
  qed (simp add: check_email_thread_def check_email_code_run bnd_def get_spassword_session_def)
qed

lemma run_update_time: "run (update_time_thread E u) = update_user_modification_time E u"
proof (rule ext)
  fix w
  show "run (update_time_thread E u) w = update_user_modification_time E u w"
    by (cases "table w (u_id u)") (simp_all add: update_time_thread_def
        update_user_modification_time_def bnd_def session_save_def get_spassword_session_def)
qed

lemma run_ask_code: "run (ask_code_thread E uid) = user_ask_check_email_code E uid"
  by (simp add: ask_code_thread_def user_ask_check_email_code_def run_set_check_email Let_def)

text \<open>
  Cutting the requests changes nothing for one that runs alone: without interruption the
  threads of recovery, reset, the request for a check of the e-mail, the check, and the
  notification of an update are the handlers, on every world and with every answer.
\<close>

lemma request_threads_alone:
  "run (recover_thread E uid) = recover_password E uid \<and>
   run (reset_thread E uid code) = reset_password E uid code \<and>
   run (ask_check_email_thread E K uid req) = ask_check_email_resource E K uid req \<and>
   run (check_email_request_thread uid code) = check_email_resource uid code \<and>
   run (updated_thread E uid) = user_updated_callback E uid"
proof (intro conjI)
  show "run (recover_thread E uid) = recover_password E uid"
    by (simp add: recover_thread_def recover_mail_thread_def recover_password_def run_ask_code
        run_check_email user_check_email_code_def bnd_assoc Let_def)
  show "run (reset_thread E uid code) = reset_password E uid code"
    by (simp add: reset_thread_def reset_password_def run_check_email user_check_email_code_def
        Let_def cong: if_cong)
  show "run (ask_check_email_thread E K uid req) = ask_check_email_resource E K uid req"
    by (simp add: ask_check_email_thread_def ask_check_email_resource_def run_ask_code bnd_assoc Let_def)
  show "run (check_email_request_thread uid code) = check_email_resource uid code"
    by (simp add: check_email_request_thread_def check_email_resource_def run_check_email
        user_check_email_code_def bnd_assoc if_distrib cong: if_cong)
  show "run (updated_thread E uid) = user_updated_callback E uid"
    by (simp add: updated_thread_def user_updated_callback_def run_update_time cong: if_cong)
qed

end
