(* ===== verification/SP_Calls.thy ===== *)
theory SP_Calls
  imports SP_Requests
begin

text \<open>
  Pools in which logins, requests about the e-mail, resets and notifications run at the same
  time, each of them cut into its actions.
\<close>

section \<open>Pools of calls\<close>

datatype call =
    LoginCall string string
  | RecoverCall string
  | CheckCall string "string option"
  | AskCall string request
  | ResetCall string "string option"
  | UpdatedCall string

definition silent :: "('s, 'a) thread \<Rightarrow> ('s, unit) thread" where
  "silent t = andthen t (\<lambda>_. Done (Inr ()))"

fun call_thread :: "env \<Rightarrow> keystone_api \<Rightarrow> call \<Rightarrow> (world, unit) thread" where
  "call_thread E K (LoginCall uid pw) = silent (login_thread E uid pw)"
| "call_thread E K (RecoverCall uid) = silent (recover_thread E uid)"
| "call_thread E K (CheckCall uid code) = silent (check_email_request_thread uid code)"
| "call_thread E K (AskCall uid req) = silent (ask_check_email_thread E K uid req)"
| "call_thread E K (ResetCall uid code) = silent (reset_thread E uid code)"
| "call_thread E K (UpdatedCall uid) = silent (updated_thread E uid)"

definition call_pool :: "env \<Rightarrow> keystone_api \<Rightarrow> call list \<Rightarrow> (world, unit) thread list" where
  "call_pool E K calls = map (call_thread E K) calls"

section \<open>Every call ends\<close>

lemma takes_set_check_email: "takes 2 (set_check_email_thread uid c)"
  unfolding set_check_email_thread_def numeral_2_eq_2 by (intro takes_rules)

lemma takes_check_email: "takes 2 (check_email_thread uid code)"
  unfolding check_email_thread_def numeral_2_eq_2 Let_def by (intro takes_rules)

lemma takes_ask_code: "takes 4 (ask_code_thread E uid)"
proof -
  have "takes (2 + 0) (andthen (set_check_email_thread uid c) (\<lambda>_. Done (Inr c)))" for c
    by (intro takes_andthen takes_set_check_email takes_Done)
  then have "takes 2 (andthen (set_check_email_thread uid c) (\<lambda>_. Done (Inr c)))" for c
    by simp
  then have "takes (Suc (Suc 2)) (ask_code_thread E uid)"
    unfolding ask_code_thread_def Let_def by (intro takes_rules)
  then show ?thesis by (simp add: eval_nat_numeral)
qed

lemma takes_recover: "takes 9 (recover_thread E uid)"
proof -
  have "takes (4 + (2 + Suc 0)) (andthen (ask_code_thread E uid) (\<lambda>c.
      andthen (check_email_thread uid (Some c)) (\<lambda>_. recover_mail_thread E u c)))" for u
    unfolding recover_mail_thread_def
    by (intro takes_andthen takes_ask_code takes_check_email takes_rules)
  then have "takes (Suc (Suc 7)) (recover_thread E uid)"
    unfolding recover_thread_def by (intro takes_rules) (simp add: eval_nat_numeral)
  then show ?thesis by simp
qed

lemma takes_check_request: "takes 3 (check_email_request_thread uid code)"
proof -
  have "takes (2 + 0) (andthen (check_email_thread uid code) (\<lambda>v. Done (Inr (f v))))" for f :: "bool \<Rightarrow> response"
    by (intro takes_andthen takes_check_email takes_Done)
  then have "takes (Suc 2) (check_email_request_thread uid code)"
    unfolding check_email_request_thread_def by (intro takes_rules) simp
  then show ?thesis by simp
qed

lemma takes_ask_request: "takes 7 (ask_check_email_thread E K uid req)"
proof -
  have "takes (4 + Suc 0) (andthen (ask_code_thread E uid) (\<lambda>c. atomic (m c)))"
    for m :: "string \<Rightarrow> response wexec"
    by (intro takes_andthen takes_ask_code takes_rules)
  then have "takes (Suc (Suc 5)) (ask_check_email_thread E K uid req)"
    unfolding ask_check_email_thread_def by (intro takes_rules) simp
  then show ?thesis by simp
qed

lemma takes_reset: "takes 6 (reset_thread E uid code)"
proof -
  have "takes (2 + Suc (Suc (Suc 0))) (andthen (check_email_thread uid code) (\<lambda>valid.
      if valid then andthen (atomic (fresh_uuid E)) (\<lambda>u. andthen (atomic (m u)) (\<lambda>_. atomic (k u)))
      else Done (Inr x)))" for m :: "128 word \<Rightarrow> 'c wexec" and k :: "128 word \<Rightarrow> response wexec" and x
    by (intro takes_andthen takes_check_email takes_rules)
  then have "takes (Suc 5) (reset_thread E uid code)"
    unfolding reset_thread_def Let_def by (intro takes_rules) (simp add: eval_nat_numeral)
  then show ?thesis by simp
qed

lemma takes_updated: "takes 4 (updated_thread E uid)"
proof -
  have "takes (Suc (Suc (Suc (Suc 0)))) (updated_thread E uid)"
    unfolding updated_thread_def update_time_thread_def by (intro takes_rules)
  then show ?thesis by (simp add: eval_nat_numeral)
qed

lemma takes_silent: "takes n t \<Longrightarrow> takes n (silent t)"
  using takes_andthen [where m = 0 and f = "\<lambda>_. Done (Inr ())", of n t]
  by (simp add: silent_def takes_Done)

lemma takes_call: "takes 14 (call_thread E K c)"
  by (cases c; simp; rule takes_silent; rule takes_mono)
    (rule takes_login takes_recover takes_check_request takes_ask_request takes_reset takes_updated,
      simp)+

text \<open>
  However many logins, recoveries, resets, requests about e-mails and notifications run at
  the same time, and in whatever order they take turns, each of them ends, with a result or an
  exception, after at most fourteen actions: no call can keep another one waiting.
\<close>

lemma concurrent_calls_end:
  assumes "\<And>i. i < length calls \<Longrightarrow> 14 \<le> count_list turns i"
  shows "\<forall>t\<in>set (fst (schedule turns (call_pool E K calls) w)). \<exists>r. t = Done r"
proof (rule schedule_finishes)
  fix i
  assume "i < length (call_pool E K calls)"
  then show "takes (count_list turns i) (call_pool E K calls ! i)"
    using takes_mono [OF takes_call assms, of i] by (simp add: call_pool_def)
qed

section \<open>What calls about the e-mail leave alone\<close>

text \<open>
  The columns that neither a login nor a call about the e-mail writes: all but the counts and
  dates of attempts, the code of the second factor, and the check of the e-mail.
\<close>

definition settled_columns :: "spassword_row \<Rightarrow> spassword_row" where
  "settled_columns r = spared (other_columns r)"

lemma settled_columns_update [simp]:
  "settled_columns (r\<lparr>sndfa_email := a\<rparr>) = settled_columns r"
  "settled_columns (r\<lparr>sndfa_email_code := c\<rparr>) = settled_columns r"
  by (simp_all add: settled_columns_def)

lemma settled_columns_spared: "settled_columns r = other_columns (spared r)"
  by (simp add: settled_columns_def spared_def other_columns_def)

lemma settled_columns_fields:
  "user_id (settled_columns r) = user_id r" "user_name (settled_columns r) = user_name r"
  "domain_id (settled_columns r) = domain_id r"
  "creation_time (settled_columns r) = creation_time r" "extra (settled_columns r) = extra r"
  "sndfa (settled_columns r) = sndfa r" "sndfa_last (settled_columns r) = sndfa_last r"
  by (simp_all add: settled_columns_def spared_def other_columns_def)

definition settles :: "world \<Rightarrow> world \<Rightarrow> bool" where
  "settles w v \<longleftrightarrow> (\<forall>uid r. table w uid = Some r \<longrightarrow>
     (\<exists>s. table v uid = Some s \<and> settled_columns s = settled_columns r))"

interpretation settles: frame settles
proof unfold_locales
  fix s t u
  assume "settles s t" and "settles t u"
  then show "settles s u" unfolding settles_def by metis
qed (simp add: settles_def)

lemma spares_settles: "spares w v \<Longrightarrow> settles w v"
  unfolding spares_def settles_def by (metis settled_columns_spared)

lemma acts_settles: "acts spares t \<Longrightarrow> acts settles t"
proof (induction rule: acts.induct)
  case (acts_Next g)
  then show ?case by (blast intro: acts.acts_Next spares_settles)
qed (rule acts.acts_Done)

lemma settles_save:
  "(\<And>r. settled_columns (f r) = settled_columns r) \<Longrightarrow> keeps settles (session_save uid f)"
  by (rule keepsI) (auto simp: session_save_def settles_def split: option.splits)

lemma settles_spares: "keeps spares m \<Longrightarrow> keeps settles m"
  unfolding keeps_def by (blast intro: spares_settles)

lemma settles_readonly: "keeps (=) m \<Longrightarrow> keeps settles m"
  unfolding keeps_def by (metis settles.R_refl)

lemmas settles_steps = settles.keeps_rules
  settles_spares [OF spares_same_table [OF keeps_same_table_prims(2)]]
  settles_spares [OF spares_same_table [OF keeps_same_table_prims(3)]]
  settles_spares [OF spares_same_table [OF mailer.keeps_table]]
  settles_readonly [OF keeps_identity_get_user] settles_readonly [OF keeps_checks(1)]
  settles_readonly [OF keeps_checks(2)] settles_readonly [OF keeps_checks(3)]

lemma acts_email_driver:
  "acts settles (set_check_email_thread uid c)" "acts settles (check_email_thread uid code)"
  unfolding set_check_email_thread_def check_email_thread_def Let_def
  by (intro acts_rules settles_steps settles_save; simp)+

lemma acts_ask_code: "acts settles (ask_code_thread E uid)"
proof -
  have "keeps settles (already_email_checked uid)"
    by (rule keepsI) (simp add: already_email_checked_run settles.R_refl)
  then show ?thesis
    unfolding ask_code_thread_def Let_def
    by (intro acts_rules acts_andthen [OF acts_email_driver(1)] settles_steps)
qed

lemma acts_email_calls:
  "acts settles (recover_thread E uid)" "acts settles (check_email_request_thread uid code)"
  "enforcer_reads K \<Longrightarrow> acts settles (ask_check_email_thread E K uid req)"
  unfolding recover_thread_def recover_mail_thread_def check_email_request_thread_def
    ask_check_email_thread_def Let_def
  by (intro acts_rules acts_andthen [OF acts_email_driver(2)] acts_andthen [OF acts_ask_code]
      settles_steps settles_readonly [OF keeps_enforce])+

text \<open>The calls that ask for no token and no secret, and the request for a check of the e-mail.\<close>

fun about_email :: "call \<Rightarrow> bool" where
  "about_email (LoginCall uid pw) = True"
| "about_email (RecoverCall uid) = True"
| "about_email (CheckCall uid code) = True"
| "about_email (AskCall uid req) = True"
| "about_email _ = False"

lemma acts_call:
  assumes "keystone_auth E" and "enforcer_reads K" and "about_email c"
  shows "acts settles (call_thread E K c)"
  using assms(3) acts_settles [OF acts_login [OF assms(1)]] acts_email_calls(1,2)
    acts_email_calls(3) [OF assms(2)]
  by (cases c) (auto simp: silent_def intro: acts_andthen acts_Done)

text \<open>
  C9. Logins, recoveries, checks of an e-mail with any codes and requests for a check, in any
  number and any order of their actions, leave alone what they are not about: no row goes away,
  and its user's id, name and domain, its date of the password, its black list flag, whether the
  second factor is on, and when it was confirmed are the same as before. The columns they may
  write are the count and the date of the attempts, the code of the second factor and its date,
  and the code of the e-mail and whether it is verified.
\<close>

theorem calls_leave_columns_alone:
  assumes "keystone_auth E" and "enforcer_reads K" and "list_all about_email calls"
    and "schedule turns (call_pool E K calls) w = (ts, v)" and "table w uid = Some r"
  shows "\<exists>s. table v uid = Some s \<and> user_id s = user_id r \<and> user_name s = user_name r \<and>
     domain_id s = domain_id r \<and> creation_time s = creation_time r \<and> extra s = extra r \<and>
     sndfa s = sndfa r \<and> sndfa_last s = sndfa_last r"
proof -
  have "\<forall>t\<in>set (call_pool E K calls). acts settles t"
    using acts_call [OF assms(1,2)] assms(3) by (auto simp: call_pool_def list_all_iff)
  from schedule_acts [OF settles.frame_axioms this, of turns w] assms(4)
  have "settles w v" by simp
  with assms(5) obtain s where "table v uid = Some s" "settled_columns s = settled_columns r"
    unfolding settles_def by blast
  then show ?thesis using settled_columns_fields by metis
qed

theorem calls_leave_columns_alone_witness:
  "\<exists>ts v s. schedule (concat (replicate 5 [0, 1, 2])) (call_pool demo_env demo_api
       [LoginCall ''u1'' ''wrong'', RecoverCall ''u1'', CheckCall ''u1'' (Some ''guess'')])
       (demo_world demo_row_2fa) = (ts, v) \<and> table v ''u1'' = Some s \<and> sndfa s = Some True"
proof -
  let ?calls = "[LoginCall ''u1'' ''wrong'', RecoverCall ''u1'', CheckCall ''u1'' (Some ''guess'')]"
  obtain ts v where run: "schedule (concat (replicate 5 [0, 1, 2])) (call_pool demo_env demo_api ?calls)
      (demo_world demo_row_2fa) = (ts, v)" by fastforce
  have row: "table (demo_world demo_row_2fa) ''u1'' = Some demo_row_2fa" by simp
  from calls_leave_columns_alone [OF demo_keystone_auth demo_enforcer_reads _ run row]
  obtain s where "table v ''u1'' = Some s" "sndfa s = sndfa demo_row_2fa" by auto
  with run show ?thesis by (auto simp: demo_row_2fa_def)
qed

end
