(* ===== verification/SP_Counting.thy ===== *)
theory SP_Counting
  imports SP_Interleaving
begin

text \<open>
  How logins that run at the same time count wrong passwords: each attempt that is answered
  writes the count that it read plus one, so that an attempt is counted at most once, and some
  may be lost, but never all of them.
\<close>

section \<open>The phases of an attempt\<close>

text \<open>The answer to a wrong password, and the end of a login before its password is judged.\<close>

definition wrong_answer :: "(world, auth_ref) thread \<Rightarrow> bool" where
  "wrong_answer t \<longleftrightarrow> (case t of Done (Inl e) \<Rightarrow> e = SPasswordUnauthorized invalid_msg | _ \<Rightarrow> False)"

definition refused :: "(world, auth_ref) thread \<Rightarrow> bool" where
  "refused t \<longleftrightarrow> (\<exists>e. t = Done (Inl e) \<and> e \<noteq> SPasswordUnauthorized invalid_msg)"

lemma wrong_answer_simps [simp]:
  "wrong_answer (Done (Inl e)) \<longleftrightarrow> e = SPasswordUnauthorized invalid_msg"
  "\<not> wrong_answer (Next g)"
  by (simp_all add: wrong_answer_def)

lemma refused_Next [simp]: "\<not> refused (Next g)"
  by (simp add: refused_def)

text \<open>The user \<open>u\<close> exists and has a row with a count and a date.\<close>

definition counted :: "user \<Rightarrow> world \<Rightarrow> bool" where
  "counted u w \<longleftrightarrow> users w (u_id u) = Some u \<and> (\<exists>r n d. table w (u_id u) = Some r \<and>
     login_attempts r = Some n \<and> creation_time r = Some d)"

definition count :: "user \<Rightarrow> world \<Rightarrow> int" where
  "count u w = the (login_attempts (the (table w (u_id u))))"

text \<open>
  \<open>pending u m t\<close>: \<open>t\<close> has read the row and will write the count \<open>m\<close>, with its last action;
  \<open>fresh u t\<close>: \<open>t\<close> has not read the row for its count yet.
\<close>

inductive pending :: "user \<Rightarrow> int \<Rightarrow> (world, auth_ref) thread \<Rightarrow> bool" for u m where
  pendingI: "(\<And>w. counted u w \<Longrightarrow> counted u (snd (g w)) \<and>
     (count u (snd (g w)) = count u w \<and> pending u m (fst (g w)) \<or>
      count u (snd (g w)) = m \<and> wrong_answer (fst (g w)))) \<Longrightarrow> pending u m (Next g)"

inductive fresh :: "user \<Rightarrow> (world, auth_ref) thread \<Rightarrow> bool" for u where
  freshI: "(\<And>w. counted u w \<Longrightarrow> counted u (snd (g w)) \<and> count u (snd (g w)) = count u w \<and>
     (fresh u (fst (g w)) \<or> refused (fst (g w)) \<or> pending u (count u w + 1) (fst (g w)))) \<Longrightarrow>
   fresh u (Next g)"

inductive_cases pendingE: "pending u m (Next g)"
inductive_cases freshE: "fresh u (Next g)"

lemma unanswered:
  "fresh u t \<Longrightarrow> \<not> wrong_answer t" "pending u m t \<Longrightarrow> \<not> wrong_answer t" "refused t \<Longrightarrow> \<not> wrong_answer t"
  by (auto simp: refused_def elim: fresh.cases pending.cases)

lemma pending_then:
  assumes "\<And>w. counted u w \<Longrightarrow> \<exists>x v. a w = (Inr x, v) \<and> counted u v \<and> count u v = count u w \<and>
     pending u m (f x)"
  shows "pending u m (andthen (atomic a) f)"
  unfolding andthen_atomic by (rule pendingI) (drule assms, elim exE conjE, simp)

lemma fresh_then:
  assumes "\<And>w. counted u w \<Longrightarrow> \<exists>x v. a w = (x, v) \<and> counted u v \<and> count u v = count u w \<and>
     (case x of Inl e \<Rightarrow> e \<noteq> SPasswordUnauthorized invalid_msg
      | Inr y \<Rightarrow> fresh u (f y) \<or> pending u (count u w + 1) (f y))"
  shows "fresh u (andthen (atomic a) f)"
  unfolding andthen_atomic
  by (rule freshI) (drule assms, elim exE conjE, auto simp: refused_def split: sum.splits)

section \<open>A login with a wrong password\<close>

lemma counted_ticks:
  assumes "only_ticks w v"
  shows "counted u v = counted u w" and "count u v = count u w"
  using only_ticks_same [OF assms] by (simp_all add: counted_def count_def)

lemma counted_tick [simp]: "counted u (tick w) = counted u w" "count u (tick w) = count u w"
  by (simp_all add: counted_def count_def)

lemma commit_counts:
  assumes "counted u w" and "login_attempts r = Some n"
  shows "\<exists>v. commit_attempt (u_id u) r (n + 1) now w = (Inr (), v) \<and> counted u v \<and>
     count u v = n + 1"
  using assms by (auto simp: counted_def count_def commit_attempt_def session_save_def bnd_def
      written_def)

lemma pending_commit:
  assumes "login_attempts r = Some n"
  shows "pending u (n + 1) (andthen (atomic (commit_attempt (u_id u) r (n + 1) now))
     (\<lambda>_. Done (Inl (SPasswordUnauthorized invalid_msg))))"
  unfolding andthen_atomic
  by (rule pendingI) (drule commit_counts [OF _ assms, of u _ now], elim exE conjE, simp)

lemma known_thread_wrong:
  assumes "login_attempts r = Some n" and "creation_time r = Some d"
  shows "pending u (n + 1) (andthen (known_thread E (u_id u) r now (Inl invalid_msg)) finish_thread)"
proof -
  have "count_attempt E (u_id u) r (Inl invalid_msg) w = (Inr (Inl invalid_msg, n + 1), w)" for w
    using assms by (simp add: count_attempt_def py_inc_def bnd_def)
  then show ?thesis
    unfolding known_thread_def andthen_assoc
    by (intro pending_then) (simp add: demand_thread_def andthen_assoc pending_commit [OF assms(1)])
qed

lemma check_block_refusal: "check_block E uid w = (Inl e, v) \<Longrightarrow> e \<noteq> SPasswordUnauthorized invalid_msg"
  by (auto simp: check_block_def bnd_lift in_blacklist_def py_gt_def normalize_db_date_def dt_sub_def
      dt_add_def dt_less_def blocked_msg_def invalid_msg_def bnd_def get_spassword_session_def
      split: if_splits option.splits sum.splits prod.splits)

lemma check_expiration_refusal:
  "check_expiration E u w = (Inl e, v) \<Longrightarrow> e \<noteq> SPasswordUnauthorized invalid_msg"
  by (auto simp: check_expiration_def bnd_lift in_blacklist_def in_user_black_def py_eval_def
      normalize_db_date_def dt_sub_def
      dt_add_def dt_less_def expired_msg_def invalid_msg_def bnd_def get_spassword_session_def
      split: if_splits option.splits sum.splits prod.splits)

lemma base_authenticate_wrong:
  assumes "keystone_auth_plain E" and "counted u w" and "ks_check_password E pw u = Inr False"
  shows "\<exists>x v. base_authenticate E (u_id u) pw w = (x, v) \<and> counted u v \<and> count u v = count u w \<and>
     (case x of Inl e \<Rightarrow> e \<noteq> SPasswordUnauthorized invalid_msg | Inr y \<Rightarrow> y = Inl invalid_msg)"
proof -
  have u: "users w (u_id u) = Some u" using assms(2) by (simp add: counted_def)
  obtain x v where exp: "check_expiration E u w = (x, v)" by fastforce
  note same = counted_ticks [OF keepsD [OF keeps_check_expiration exp]]
  show ?thesis
  proof (cases x)
    case (Inr y)
    with exp have "check_expiration E u w = (Inr (), v)" by simp
    from base_authenticate_plain(1) [OF assms(1) u this assms(3)] same assms(2)
    show ?thesis by simp
  next
    case (Inl e)
    with exp have e: "check_expiration E u w = (Inl e, v)" by simp
    show ?thesis
    proof (cases "e = AssertionError")
      case True
      with e assms(1) u have "base_authenticate E (u_id u) pw w = (Inr (Inl invalid_msg), v)"
        by (simp add: base_authenticate_def keystone_auth_plain_def Identity_check_password_def
            catch_def bnd_def invalid_msg_def)
      with same assms(2) show ?thesis by simp
    next
      case False
      from base_authenticate_plain(2) [OF assms(1) u e False] same assms(2)
        check_expiration_refusal [OF e] show ?thesis by simp
    qed
  qed
qed

lemma fresh_record:
  assumes "enabled (conf E)"
  shows "fresh u (andthen (record_thread E (u_id u) (Inl invalid_msg)) finish_thread)"
proof -
  have "\<exists>x v. get_spassword_session (u_id u) w = (x, v) \<and> counted u v \<and>
      count u v = count u w \<and> (case x of Inl e \<Rightarrow> e \<noteq> SPasswordUnauthorized invalid_msg
      | Inr y \<Rightarrow> pending u (count u w + 1) (andthen (atomic (utcnow E)) (\<lambda>now.
          andthen (case y of Some r \<Rightarrow> known_thread E (u_id u) r now (Inl invalid_msg)
            | None \<Rightarrow> new_thread E (u_id u) now (Inl invalid_msg)) finish_thread)))"
    if w: "counted u w" for w
  proof -
    obtain r n d where r: "table w (u_id u) = Some r" "login_attempts r = Some n"
      "creation_time r = Some d" using w by (auto simp: counted_def)
    have "count u w = n" using r by (simp add: count_def)
    moreover have "pending u (n + 1) (andthen (atomic (utcnow E)) (\<lambda>now.
        andthen (known_thread E (u_id u) r now (Inl invalid_msg)) finish_thread))"
      by (intro pending_then) (simp add: known_thread_wrong [OF r(2,3)])
    ultimately show ?thesis using w r by (simp add: get_spassword_session_def)
  qed
  then show ?thesis
    unfolding record_thread_def using assms
    by (simp add: andthen_assoc) (intro fresh_then, fastforce split: sum.splits)
qed

lemma fresh_login:
  assumes "keystone_auth_plain E" and "enabled (conf E)" and "ks_check_password E pw u = Inr False"
  shows "fresh u (login_thread E (u_id u) pw)"
proof -
  let ?judge = "andthen (atomic (base_authenticate E (u_id u) pw))
     (\<lambda>res. andthen (record_thread E (u_id u) res) finish_thread)"
  have judge: "fresh u ?judge"
    by (rule fresh_then)
      (use base_authenticate_wrong [OF assms(1) _ assms(3)] fresh_record [OF assms(2)]
        in \<open>fastforce split: sum.splits\<close>)
  show ?thesis
    unfolding login_thread_def
  proof (rule fresh_then)
    fix w
    assume w: "counted u w"
    obtain x v where block: "check_block E (u_id u) w = (x, v)" by fastforce
    moreover from this have "x = Inl e \<Longrightarrow> e \<noteq> SPasswordUnauthorized invalid_msg" for e
      using check_block_refusal by blast
    moreover note counted_ticks [OF keepsD [OF keeps_check_block block]]
    ultimately show "\<exists>x v. check_block E (u_id u) w = (x, v) \<and> counted u v \<and>
        count u v = count u w \<and> (case x of Inl e \<Rightarrow> e \<noteq> SPasswordUnauthorized invalid_msg
         | Inr y \<Rightarrow> fresh u ?judge \<or> pending u (count u w + 1) ?judge)"
      using w judge by (simp split: sum.split)
  qed
qed

section \<open>A pool of attempts\<close>

definition answers :: "(world, auth_ref) thread list \<Rightarrow> nat" where
  "answers ts = length (filter wrong_answer ts)"

lemma length_filter_update:
  "i < length xs \<Longrightarrow> length (filter P (xs[i := y])) + (if P (xs ! i) then 1 else 0) =
     length (filter P xs) + (if P y then 1 else 0)"
proof (induction xs arbitrary: i)
  case (Cons x xs)
  then show ?case by (cases i) auto
qed simp

text \<open>
  Every attempt is in one of its phases; the count \<open>n\<close> of the start has grown by at least one if
  an attempt was answered, and by at most the number of those that were.
\<close>

definition counting :: "user \<Rightarrow> int \<Rightarrow> (world, auth_ref) thread list \<Rightarrow> world \<Rightarrow> bool" where
  "counting u n ts w \<longleftrightarrow> counted u w \<and> n \<le> count u w \<and> count u w \<le> n + int (answers ts) \<and>
     (0 < answers ts \<longrightarrow> n < count u w) \<and>
     (\<forall>t\<in>set ts. fresh u t \<or> refused t \<or> wrong_answer t \<or>
        (\<exists>m. pending u m t \<and> n < m \<and> m \<le> n + int (answers ts) + 1))"

lemma counting_mono:
  assumes "counting u n ts w" and "i < length ts" and "\<not> wrong_answer (ts ! i)"
    and "counted u v" and "n \<le> count u v" and "count u v \<le> n + int (answers (ts[i := t]))"
    and "0 < answers (ts[i := t]) \<longrightarrow> n < count u v"
    and "fresh u t \<or> refused t \<or> wrong_answer t \<or>
        (\<exists>m. pending u m t \<and> n < m \<and> m \<le> n + int (answers (ts[i := t])) + 1)"
  shows "counting u n (ts[i := t]) v"
proof -
  have "answers ts \<le> answers (ts[i := t])"
    using length_filter_update [OF assms(2), of wrong_answer t] assms(3) by (simp add: answers_def)
  then have "fresh u s \<or> refused s \<or> wrong_answer s \<or>
      (\<exists>m. pending u m s \<and> n < m \<and> m \<le> n + int (answers (ts[i := t])) + 1)" if "s \<in> set ts" for s
    using assms(1) that unfolding counting_def by (smt (verit) of_nat_mono)
  then show ?thesis
    using assms(4-8) set_update_subset_insert [of ts i t] unfolding counting_def by blast
qed

lemma counting_turn:
  assumes "counting u n ts w" and "i < length ts"
  shows "counting u n (ts[i := fst (resume (ts ! i) w)]) (snd (resume (ts ! i) w))"
proof (cases "ts ! i")
  case (Done r)
  with assms show ?thesis by (simp add: list_update_same_conv [THEN iffD2])
next
  case (Next g)
  let ?t = "fst (g w)" and ?v = "snd (g w)"
  have w: "counted u w" "n \<le> count u w" "count u w \<le> n + int (answers ts)"
    "0 < answers ts \<longrightarrow> n < count u w" using assms(1) by (simp_all add: counting_def)
  have new: "answers (ts[i := ?t]) = answers ts + (if wrong_answer ?t then 1 else 0)"
    using length_filter_update [OF assms(2), of wrong_answer ?t] Next by (simp add: answers_def)
  have "ts ! i \<in> set ts" using assms(2) by simp
  with assms(1) have "fresh u (Next g) \<or> (\<exists>m. pending u m (Next g) \<and> n < m \<and> m \<le> n + int (answers ts) + 1)"
    unfolding counting_def Next by fastforce
  then have "counting u n (ts[i := ?t]) ?v"
  proof (elim disjE exE conjE)
    assume "fresh u (Next g)"
    then have "counted u ?v" "count u ?v = count u w"
      "fresh u ?t \<or> refused ?t \<or> pending u (count u w + 1) ?t"
      using w(1) by (auto elim: freshE)
    moreover from this(3) have "\<not> wrong_answer ?t" using unanswered by blast
    ultimately show ?thesis
      using w new by (intro counting_mono [OF assms]) (auto simp: Next)
  next
    fix m
    assume "pending u m (Next g)" and m: "n < m" "m \<le> n + int (answers ts) + 1"
    then have "counted u ?v" "count u ?v = count u w \<and> pending u m ?t \<and> \<not> wrong_answer ?t \<or>
        count u ?v = m \<and> wrong_answer ?t"
      using w(1) by (auto elim: pendingE dest: unanswered(2))
    with w new m show ?thesis
      by (intro counting_mono [OF assms]) (auto simp: Next)
  qed
  then show ?thesis by (simp add: Next)
qed

text \<open>
  C11. Attempts with a wrong password for the same user that run at the same time, in any order
  of their actions: when \<open>c\<close> of them have been answered as wrong, the count of bad attempts
  has grown by at most \<open>c\<close>, and by at least one if there were any. Attempts may be lost to
  each other, but none is counted twice and the user's count never stays where it was.
\<close>

theorem concurrent_attempts_bounds:
  assumes "keystone_auth_plain E" and "enabled (conf E)"
    and "\<forall>pw\<in>set pws. ks_check_password E pw u = Inr False"
    and "users w (u_id u) = Some u" and "table w (u_id u) = Some r"
    and "login_attempts r = Some n" and "creation_time r = Some d"
    and "schedule turns (login_pool E (map (Pair (u_id u)) pws)) w = (ts, v)"
  shows "\<exists>s k. table v (u_id u) = Some s \<and> login_attempts s = Some (n + int k) \<and>
     k \<le> answers ts \<and> (0 < answers ts \<longrightarrow> 0 < k)"
proof -
  let ?pool = "login_pool E (map (Pair (u_id u)) pws)"
  have pool: "\<forall>t\<in>set ?pool. fresh u t"
    using fresh_login [OF assms(1,2)] assms(3) by (auto simp: login_pool_def)
  then have "answers ?pool = 0"
    using unanswered(1) by (auto simp: answers_def filter_empty_conv)
  with pool have "counting u n ?pool w"
    using assms(4-7) by (simp add: counting_def counted_def count_def)
  from schedule_invariant [where P = "counting u n", OF this counting_turn] assms(8)
  have "counting u n ts v" by (metis fst_conv snd_conv)
  then obtain s m where s: "table v (u_id u) = Some s" "login_attempts s = Some m"
    "n \<le> m" "m \<le> n + int (answers ts)" "0 < answers ts \<longrightarrow> n < m"
    by (auto simp: counting_def counted_def count_def)
  then show ?thesis by (intro exI [of _ s] exI [of _ "nat (m - n)"]) auto
qed

theorem concurrent_attempts_bounds_witness:
  "\<exists>ts v s k. schedule (concat (replicate 14 [0, 1])) (login_pool demo_env
       [(''u1'', ''wrong''), (''u1'', ''bad'')]) (demo_world demo_row) = (ts, v) \<and>
     table v ''u1'' = Some s \<and> login_attempts s = Some (int k) \<and> k \<le> answers ts"
proof -
  let ?turns = "concat (replicate 14 [0, 1])"
  obtain ts v where run: "schedule ?turns (login_pool demo_env (map (Pair (u_id demo_user))
      [''wrong'', ''bad''])) (demo_world demo_row) = (ts, v)" by fastforce
  from concurrent_attempts_bounds [OF _ _ _ _ _ _ _ run, of demo_row 0]
  obtain s k where "table v ''u1'' = Some s" "login_attempts s = Some (int k)" "k \<le> answers ts"
    by auto
  with run show ?thesis by (intro exI [of _ ts] exI [of _ v] exI [of _ s] exI [of _ k]) simp
qed

end
