(* ===== verification/SP_Lockstep.thy ===== *)
theory SP_Lockstep
  imports SP_Counting
begin

text \<open>
  The bound of \<open>SP_Counting\<close> is sharp: turns that let every attempt read the row before the
  first one commits lose all attempts but one.
\<close>

section \<open>One thread takes its turns\<close>

fun alone :: "nat \<Rightarrow> ('s, 'a) thread \<Rightarrow> 's \<Rightarrow> ('s, 'a) thread \<times> 's" where
  "alone 0 t s = (t, s)"
| "alone (Suc j) t s = (case resume t s of (u, v) \<Rightarrow> alone j u v)"

lemma schedule_alone:
  assumes "i < length ts" and "alone j (ts ! i) s = (u, v)"
  shows "schedule (replicate j i) ts s = (ts[i := u], v)"
  using assms
proof (induction j arbitrary: ts s)
  case (Suc j)
  obtain t s' where turn: "resume (ts ! i) s = (t, s')" by fastforce
  with Suc.prems have "alone j (ts[i := t] ! i) s' = (u, v)" by simp
  with Suc.IH [of "ts[i := t]" s'] Suc.prems(1) turn show ?case by simp
qed auto

lemma schedule_next:
  assumes "alone j t s = (u, v)"
  shows "schedule (replicate j (length as)) (as @ t # bs) s = ((as @ [u]) @ bs, v)"
  using schedule_alone [of "length as" "as @ t # bs" j s u v] assms by simp

section \<open>Attempts that have read the row\<close>

text \<open>A user whose password is neither blocked nor expired, whenever the clock is read.\<close>

definition open_to_guesses :: "env \<Rightarrow> user \<Rightarrow> spassword_row \<Rightarrow> int \<Rightarrow> bool" where
  "open_to_guesses E u r n \<longleftrightarrow> keystone_auth_plain E \<and> enabled (conf E) \<and>
     (\<exists>ids. pwd_user_blacklist (conf E) = Some ids \<and> u_id u \<notin> set ids) \<and>
     login_attempts r = Some n \<and> n \<le> pwd_max_tries (conf E) \<and> in_user_black r = Inr False \<and>
     (\<exists>c. creation_time r = Some c \<and>
        (\<forall>i. in_years (clock E i - timedelta_days (pwd_exp_days (conf E))) \<and>
           clock E i - timedelta_days (pwd_exp_days (conf E)) \<le> wall c))"

definition untouched :: "user \<Rightarrow> spassword_row \<Rightarrow> world \<Rightarrow> bool" where
  "untouched u r w \<longleftrightarrow> users w (u_id u) = Some u \<and> table w (u_id u) = Some r"

lemma untouched_tick [simp]: "untouched u r (tick w) = untouched u r w"
  by (simp add: untouched_def)

text \<open>An attempt that has only its commit left, of the count that it computed.\<close>

definition armed :: "user \<Rightarrow> spassword_row \<Rightarrow> int \<Rightarrow> (world, auth_ref) thread \<Rightarrow> bool" where
  "armed u r m t \<longleftrightarrow> (\<exists>now. t = andthen (atomic (commit_attempt (u_id u) r m now))
     (\<lambda>_. Done (Inl (SPasswordUnauthorized invalid_msg))))"

lemma attempt_armed:
  assumes "open_to_guesses E u r n" and "ks_check_password E pw u = Inr False" and "untouched u r w"
  shows "\<exists>t v. alone 5 (login_thread E (u_id u) pw) w = (t, v) \<and> armed u r (n + 1) t \<and> untouched u r v"
proof -
  obtain ids c where env: "keystone_auth_plain E" "enabled (conf E)"
    "pwd_user_blacklist (conf E) = Some ids" "u_id u \<notin> set ids" "login_attempts r = Some n"
    "n \<le> pwd_max_tries (conf E)" "in_user_black r = Inr False" "creation_time r = Some c"
    and clock: "in_years (clock E i - timedelta_days (pwd_exp_days (conf E)))"
    "clock E i - timedelta_days (pwd_exp_days (conf E)) \<le> wall c" for i
    using assms(1) by (auto simp: open_to_guesses_def)
  have w: "users w (u_id u) = Some u" "table w (u_id u) = Some r"
    using assms(3) by (simp_all add: untouched_def)
  have block: "check_block E (u_id u) w = (Inr (), w)"
    by (rule check_block_run(1) [OF env(2-4) w(2) env(5,6)])
  have "check_expiration E u w = (Inr (), tick w)"
    using check_expiration_run [OF env(2-4) w(2) env(7,8) clock(1)] clock(2) [of "ticks w"] by simp
  then have base: "base_authenticate E (u_id u) pw w = (Inr (Inl invalid_msg), tick w)"
    using base_authenticate_plain(1) [OF env(1) w(1) _ assms(2)] by simp
  have read: "get_spassword_session (u_id u) (tick w) = (Inr (Some r), tick w)"
    using w by (simp add: get_spassword_session_def)
  have count: "count_attempt E (u_id u) r (Inl invalid_msg) v = (Inr (Inl invalid_msg, n + 1), v)" for v
    using env(5,8) by (simp add: count_attempt_def py_inc_def bnd_def)
  show ?thesis
    using block base read env(2) assms(3)
    by (simp add: numeral_eq_Suc login_thread_def record_thread_def andthen_assoc known_thread_def
        count demand_thread_def armed_def untouched_def exI)
qed

lemma all_armed:
  assumes "open_to_guesses E u r n" and "\<forall>pw\<in>set pws. ks_check_password E pw u = Inr False"
    and "untouched u r w"
  shows "\<exists>turns ts v. schedule turns (as @ login_pool E (map (Pair (u_id u)) pws)) w = (as @ ts, v) \<and>
     length ts = length pws \<and> list_all (armed u r (n + 1)) ts \<and> untouched u r v"
  using assms(2,3)
proof (induction pws arbitrary: as w)
  case Nil
  then show ?case by (intro exI [of _ "[]"]) (simp add: login_pool_def)
next
  case (Cons pw pws)
  then obtain t v where t: "alone 5 (login_thread E (u_id u) pw) w = (t, v)" "armed u r (n + 1) t"
    "untouched u r v" using attempt_armed [OF assms(1)] by fastforce
  let ?pool = "login_pool E (map (Pair (u_id u)) pws)"
  from Cons.IH [OF _ t(3), of "as @ [t]"] Cons.prems obtain turns ts v' where
    rest: "schedule turns ((as @ [t]) @ ?pool) v = ((as @ [t]) @ ts, v')"
    "length ts = length pws" "list_all (armed u r (n + 1)) ts" "untouched u r v'" by auto
  have "schedule (replicate 5 (length as) @ turns)
      (as @ login_pool E (map (Pair (u_id u)) (pw # pws))) w = (as @ t # ts, v')"
    using schedule_next [OF t(1), of as ?pool] rest(1) by (simp add: schedule_append login_pool_def)
  with rest t(2) show ?case
    by (intro exI [of _ "replicate 5 (length as) @ turns"] exI [of _ "t # ts"] exI [of _ v']) simp
qed

section \<open>Their commits\<close>

lemma armed_commit:
  assumes "armed u r m t" and "table w (u_id u) = Some s"
  shows "\<exists>x now. alone 1 t w = (x, with_row w (u_id u) (s\<lparr>
       login_attempts := written (login_attempts r) (Some m) (login_attempts s),
       last_login_attempt_time := Some now\<rparr>)) \<and> wrong_answer x"
  using assms by (auto simp: armed_def commit_attempt_def session_save_def bnd_def)

lemma all_committed:
  assumes "login_attempts r = Some n" and "list_all (armed u r (n + 1)) ts"
    and "table w (u_id u) = Some s"
    and "login_attempts s = Some (if as = [] then n else n + 1)" and "list_all wrong_answer as"
  shows "\<exists>turns us v s'. schedule turns (as @ ts) w = (us, v) \<and> list_all wrong_answer us \<and>
     length us = length as + length ts \<and> table v (u_id u) = Some s' \<and>
     login_attempts s' = Some (if us = [] then n else n + 1)"
  using assms(2-)
proof (induction ts arbitrary: as w s)
  case Nil
  then show ?case by (intro exI [of _ "[]"] exI [of _ as] exI [of _ w] exI [of _ s]) simp
next
  case (Cons t ts)
  from armed_commit [of u r "n + 1" t w s] Cons.prems obtain x now where
    t: "alone 1 t w = (x, with_row w (u_id u) (s\<lparr>
       login_attempts := written (login_attempts r) (Some (n + 1)) (login_attempts s),
       last_login_attempt_time := Some now\<rparr>))" "wrong_answer x"
    by auto
  let ?v = "snd (alone 1 t w)"
  from Cons.IH [of ?v _ "as @ [x]"] Cons.prems t assms(1) obtain turns us v s' where
    rest: "schedule turns ((as @ [x]) @ ts) ?v = (us, v)" "list_all wrong_answer us"
    "length us = length (as @ [x]) + length ts" "table v (u_id u) = Some s'"
    "login_attempts s' = Some (if us = [] then n else n + 1)"
    by (auto simp: written_def)
  have "alone 1 t w = (x, ?v)" using t(1) by simp
  from schedule_next [OF this, of as ts] rest(1)
  have "schedule (replicate 1 (length as) @ turns) (as @ t # ts) w = (us, v)"
    by (simp add: schedule_append)
  with rest show ?case
    by (intro exI [of _ "replicate 1 (length as) @ turns"] exI [of _ us] exI [of _ v] exI [of _ s']) simp
qed

text \<open>
  C35. The count can lose all wrong passwords but one: however many are tried at the same
  time, there is an order of their actions in which every one of them is compared with the
  user's password and answered, and the count of bad attempts has grown by one. The limit of
  tries does not bound parallel guessing.
\<close>

theorem parallel_attempts_counted_once:
  assumes "open_to_guesses E u r n" and "\<forall>pw\<in>set pws. ks_check_password E pw u = Inr False"
    and "users w (u_id u) = Some u" and "table w (u_id u) = Some r" and "pws \<noteq> []"
  shows "\<exists>turns ts v s. schedule turns (login_pool E (map (Pair (u_id u)) pws)) w = (ts, v) \<and>
     length ts = length pws \<and> list_all wrong_answer ts \<and>
     table v (u_id u) = Some s \<and> login_attempts s = Some (n + 1)"
proof -
  let ?pool = "login_pool E (map (Pair (u_id u)) pws)"
  have n: "login_attempts r = Some n" using assms(1) by (simp add: open_to_guesses_def)
  have "untouched u r w" using assms(3,4) by (simp add: untouched_def)
  from all_armed [OF assms(1,2) this, of "[]"] obtain turns ts v where
    read: "schedule turns ?pool w = (ts, v)" "length ts = length pws"
    "list_all (armed u r (n + 1)) ts" "untouched u r v" by auto
  have row: "table v (u_id u) = Some r" using read(4) by (simp add: untouched_def)
  from all_committed [OF n read(3) row, of "[]"] n obtain turns' us v' s where
    commit: "schedule turns' ts v = (us, v')" "list_all wrong_answer us" "length us = length ts"
    "table v' (u_id u) = Some s" "login_attempts s = Some (if us = [] then n else n + 1)" by auto
  have "us \<noteq> []" using commit(3) read(2) assms(5) by auto
  with read(1,2) commit show ?thesis
    by (intro exI [of _ "turns @ turns'"] exI [of _ us] exI [of _ v'] exI [of _ s])
      (simp add: schedule_append)
qed

theorem parallel_attempts_counted_once_witness:
  "\<exists>turns ts v s. schedule turns (login_pool demo_frozen
       [(''u1'', ''a''), (''u1'', ''b''), (''u1'', ''c''), (''u1'', ''d''), (''u1'', ''e'')])
       (demo_world demo_row) = (ts, v) \<and>
     length ts = 5 \<and> list_all wrong_answer ts \<and> table v ''u1'' = Some s \<and> login_attempts s = Some 1"
proof -
  have "open_to_guesses demo_frozen demo_user demo_row 0"
    by (simp add: open_to_guesses_def demo_times in_years_def in_user_black_def)
  then show ?thesis
    using parallel_attempts_counted_once [of demo_frozen demo_user demo_row 0
        "[''a'', ''b'', ''c'', ''d'', ''e'']" "demo_world demo_row"]
    by (auto simp: numeral_eq_Suc)
qed

end
