(* ===== verification/SP_Races.thy ===== *)
theory SP_Races
  imports SP_Calls SP_Lockstep
begin

text \<open>
  Orders of actions in which calls that are right one by one undo each other: two recoveries of
  the same password, and an update of a user while a login with a wrong password is under way.
\<close>

section \<open>Two recoveries\<close>

lemma two_turns:
  assumes "alone j a w = (a', v)"
  shows "schedule (replicate j 0 @ turns) [a, b] w = schedule turns [a', b] v"
    and "schedule (replicate j 1 @ turns) [b, a] w = schedule turns [b, a'] v"
  using schedule_alone [of 0 "[a, b]" j w a' v] schedule_alone [of 1 "[b, a]" j w a' v] assms
  by (simp_all add: schedule_append)

text \<open>A recovery that has passed its checks, and one that has stored its code.\<close>

definition comparing :: "env \<Rightarrow> string \<Rightarrow> user \<Rightarrow> string \<Rightarrow> (world, unit) thread" where
  "comparing E uid u code =
     andthen (check_email_thread uid (Some code)) (\<lambda>_. silent (recover_mail_thread E u code))"

definition asking :: "env \<Rightarrow> string \<Rightarrow> user \<Rightarrow> (world, unit) thread" where
  "asking E uid u = andthen (ask_code_thread E uid) (comparing E uid u)"

lemma recover_passes:
  assumes "enabled (conf E)" and "conf_sndfa (conf E)" and "users w uid = Some u"
    and "u_id u = uid" and "u_email u = Some to" and "email_verified uid w"
  shows "alone 2 (silent (recover_thread E uid)) w = (asking E uid u, w)"
proof -
  have "check_user_has_email_validated u w = (Inr (), w)"
    using assms(4,6) by (simp add: email_validated_Inr)
  moreover have "bnd (check_spassword_configured E) (\<lambda>_. bnd (identity_get_user uid) (\<lambda>u.
      bnd (check_user_has_email_defined u) (\<lambda>_. ret u))) w = (Inr u, w)"
    using assms(1-3,5) by (simp add: configured_run identity_get_user_run bnd_def
        check_user_has_email_defined_def)
  ultimately show ?thesis
    by (simp add: numeral_2_eq_2 silent_def recover_thread_def asking_def comparing_def [abs_def]
        andthen_assoc)
qed

lemma asking_stores:
  assumes "table w uid = Some r"
  shows "alone 4 (asking E uid u) w = (comparing E uid u (email_code E w),
     with_row (w\<lparr>uuids := Suc (uuids w)\<rparr>) uid
       (r\<lparr>sndfa_email_code := Some (email_code E w), sndfa_email := Some False\<rparr>))"
  using assms
  by (simp add: eval_nat_numeral asking_def ask_code_thread_def set_check_email_thread_def andthen_assoc
      already_email_checked_run fresh_uuid_def get_spassword_session_def session_save_def bnd_def
      email_code_def Let_def)

lemma comparing_stores:
  assumes "table w uid = Some r" and "sndfa_email_code r = Some c" and "c \<noteq> ''''"
    and "sndfa_email r \<noteq> Some (c = code)"
  shows "alone 2 (comparing E uid u code) w =
     (silent (recover_mail_thread E u code), with_row w uid (r\<lparr>sndfa_email := Some (c = code)\<rparr>))"
  using assms
  by (simp add: numeral_2_eq_2 comparing_def check_email_thread_def andthen_assoc
      get_spassword_session_def session_save_def bnd_def Let_def)

lemma recover_mails:
  assumes "u_email u = Some to" and "takes_mail E"
  shows "\<exists>x v. alone 1 (silent (recover_mail_thread E u code)) w = (Done x, v) \<and>
     outbox v = outbox w @ [recovery_mail E u to code] \<and> table v = table w"
proof -
  let ?m = "recovery_mail E u to code"
  obtain z v where send: "send_email E to (mail_subject ?m) (mail_body ?m) w = (z, v)" by fastforce
  have m: "mime E to (mail_subject ?m) (mail_body ?m) = ?m"
    by (simp add: recovery_mail_def mime_def)
  have out: "outbox v = outbox w @ [?m]"
    using takes_mail_sends [OF assms(2) send] by (simp add: m)
  have table: "table v = table w"
    using keepsD [OF mailer.keeps_table send] by (simp add: same_table_def)
  have parts: "mail_subject ?m = Brand @ '' reset password procedure ''"
    "mail_body ?m = ''The reset password procedure has been started'' @ [CHR 0x0A] @
      ''Press in following link to complete your password reset: '' @
      mail_link (conf E) u ''/reset_password/'' code"
    by (simp_all only: recovery_mail_def mime_def mail.simps)
  show ?thesis
  proof (cases z)
    case (Inl e)
    with send out table assms(1) show ?thesis unfolding parts
      by (simp add: recover_mail_thread_def silent_def atomic_def user_email_def bnd_def Let_def)
  next
    case (Inr b)
    with send out table assms(1) show ?thesis unfolding parts
      by (simp add: recover_mail_thread_def silent_def atomic_def user_email_def bnd_def Let_def)
  qed
qed

lemma email_code_with_row [simp]: "email_code E (w\<lparr>table := t\<rparr>) = email_code E w"
  by (simp add: email_code_def)

lemma race:
  assumes "enabled (conf E)" and "conf_sndfa (conf E)" and "users w uid = Some u"
    and "u_id u = uid" and "u_email u = Some to" and "table w uid = Some r"
    and "truthy (sndfa_email r)" and "email_code E w \<noteq> email_code E (w\<lparr>uuids := Suc (uuids w)\<rparr>)"
  shows "\<exists>v s. schedule (replicate 2 0 @ replicate 2 1 @ replicate 4 0 @ replicate 4 1 @
       replicate 2 1 @ replicate 2 0 @ turns)
       [silent (recover_thread E uid), silent (recover_thread E uid)] w =
     schedule turns [silent (recover_mail_thread E u (email_code E w)),
       silent (recover_mail_thread E u (email_code E (w\<lparr>uuids := Suc (uuids w)\<rparr>)))] v \<and>
     outbox v = outbox w \<and> table v uid = Some s \<and> sndfa_email s = Some False \<and>
     sndfa_email_code s = Some (email_code E (w\<lparr>uuids := Suc (uuids w)\<rparr>))"
proof -
  let ?a = "email_code E w" and ?w1 = "w\<lparr>uuids := Suc (uuids w)\<rparr>"
  let ?b = "email_code E ?w1" and ?r1 = "r\<lparr>sndfa_email_code := Some ?a, sndfa_email := Some False\<rparr>"
  let ?v1 = "with_row ?w1 uid ?r1"
  let ?r2 = "r\<lparr>sndfa_email_code := Some ?b, sndfa_email := Some False\<rparr>"
  let ?v2 = "with_row (w\<lparr>uuids := Suc (Suc (uuids w))\<rparr>) uid ?r2"
  have verified: "email_verified uid w" using assms(6,7) by (simp add: email_verified_def)
  note passes = recover_passes [OF assms(1-5) verified]
  have 1: "alone 4 (asking E uid u) w = (comparing E uid u ?a, ?v1)"
    by (rule asking_stores [OF assms(6)])
  have 2: "alone 4 (asking E uid u) ?v1 = (comparing E uid u ?b, ?v2)"
    using asking_stores [of ?v1 uid ?r1 E u] by simp
  have 3: "alone 2 (comparing E uid u ?b) ?v2 =
      (silent (recover_mail_thread E u ?b), with_row ?v2 uid (?r2\<lparr>sndfa_email := Some True\<rparr>))"
    using comparing_stores [of ?v2 uid ?r2 ?b ?b E u] by simp
  have 4: "alone 2 (comparing E uid u ?a) (with_row ?v2 uid (?r2\<lparr>sndfa_email := Some True\<rparr>)) =
      (silent (recover_mail_thread E u ?a), with_row ?v2 uid (?r2\<lparr>sndfa_email := Some False\<rparr>))"
    using comparing_stores [of "with_row ?v2 uid (?r2\<lparr>sndfa_email := Some True\<rparr>)" uid
        "?r2\<lparr>sndfa_email := Some True\<rparr>" ?b ?a E u] assms(8) by simp
  have "schedule (replicate 2 0 @ replicate 2 1 @ replicate 4 0 @ replicate 4 1 @
       replicate 2 1 @ replicate 2 0 @ turns)
       [silent (recover_thread E uid), silent (recover_thread E uid)] w =
     schedule turns [silent (recover_mail_thread E u ?a), silent (recover_mail_thread E u ?b)]
       (with_row ?v2 uid (?r2\<lparr>sndfa_email := Some False\<rparr>))"
    by (simp only: two_turns(1) [OF passes] two_turns(2) [OF passes] two_turns(1) [OF 1]
        two_turns(2) [OF 2] two_turns(2) [OF 3] two_turns(1) [OF 4])
  then show ?thesis
    by (intro exI [of _ "with_row ?v2 uid (?r2\<lparr>sndfa_email := Some False\<rparr>)"]
        exI [of _ "?r2\<lparr>sndfa_email := Some False\<rparr>"])
      (simp only:, simp)
qed

lemma two_mails:
  assumes "u_email u = Some to" and "takes_mail E"
  shows "\<exists>x y v. schedule (replicate 1 0 @ replicate 1 1 @ [])
       [silent (recover_mail_thread E u a), silent (recover_mail_thread E u b)] w = ([Done x, Done y], v) \<and>
     outbox v = outbox w @ [recovery_mail E u to a, recovery_mail E u to b] \<and> table v = table w"
proof -
  from recover_mails [OF assms, of a w] obtain x w1 where
    1: "alone 1 (silent (recover_mail_thread E u a)) w = (Done x, w1)"
      "outbox w1 = outbox w @ [recovery_mail E u to a]" "table w1 = table w" by blast
  from recover_mails [OF assms, of b w1] obtain y v where
    2: "alone 1 (silent (recover_mail_thread E u b)) w1 = (Done y, v)"
      "outbox v = outbox w1 @ [recovery_mail E u to b]" "table v = table w1" by blast
  have "schedule (replicate 1 0 @ replicate 1 1 @ [])
       [silent (recover_mail_thread E u a), silent (recover_mail_thread E u b)] w = ([Done x, Done y], v)"
    by (simp only: two_turns(1) [OF 1(1)] two_turns(2) [OF 2(1)] schedule.simps)
  with 1 2 show ?thesis by (intro exI [of _ x] exI [of _ y] exI [of _ v]) simp
qed

text \<open>
  C36. Two requests to recover the same password can undo each other. Recovery takes away the
  mark that the e-mail is verified and gives it back by comparing its code with the stored one;
  when the other request stores its own code in between, the comparison fails. Both requests are
  answered and both mails are sent, but the code of the first mail is no longer the stored one
  and the e-mail is not verified any more: no recovery will be granted.
\<close>

theorem recoveries_undo_each_other:
  assumes "enabled (conf E)" and "conf_sndfa (conf E)" and "takes_mail E"
    and "users w uid = Some u" and "u_id u = uid" and "u_email u = Some to"
    and "table w uid = Some r" and "truthy (sndfa_email r)"
    and "email_code E w \<noteq> email_code E (w\<lparr>uuids := Suc (uuids w)\<rparr>)"
  shows "\<exists>turns x y v s a b.
     schedule turns (call_pool E K [RecoverCall uid, RecoverCall uid]) w = ([Done x, Done y], v) \<and>
     outbox v = outbox w @ [recovery_mail E u to a, recovery_mail E u to b] \<and> a \<noteq> b \<and>
     table v uid = Some s \<and> sndfa_email_code s = Some b \<and> \<not> email_verified uid v"
proof -
  let ?a = "email_code E w" and ?b = "email_code E (w\<lparr>uuids := Suc (uuids w)\<rparr>)"
  let ?last = "replicate 1 0 @ replicate 1 1 @ []"
  from race [OF assms(1,2,4-9), of ?last] obtain w1 s where
    1: "schedule (replicate 2 0 @ replicate 2 1 @ replicate 4 0 @ replicate 4 1 @
         replicate 2 1 @ replicate 2 0 @ ?last)
         [silent (recover_thread E uid), silent (recover_thread E uid)] w =
       schedule ?last [silent (recover_mail_thread E u ?a), silent (recover_mail_thread E u ?b)] w1"
      "outbox w1 = outbox w" "table w1 uid = Some s" "sndfa_email s = Some False"
      "sndfa_email_code s = Some ?b" by blast
  from two_mails [OF assms(6,3), of ?a ?b w1] obtain x y v where
    2: "schedule ?last [silent (recover_mail_thread E u ?a), silent (recover_mail_thread E u ?b)] w1 =
       ([Done x, Done y], v)"
      "outbox v = outbox w1 @ [recovery_mail E u to ?a, recovery_mail E u to ?b]" "table v = table w1"
    by blast
  have "call_pool E K [RecoverCall uid, RecoverCall uid] =
      [silent (recover_thread E uid), silent (recover_thread E uid)]"
    by (simp add: call_pool_def)
  moreover have "table v uid = Some s" "\<not> email_verified uid v"
    using 1(3,4) 2(3) by (simp_all add: email_verified_def truthy_def)
  ultimately show ?thesis using 1(1,2,5) 2(1,2) assms(9) by metis
qed

text \<open>An installation whose first two codes differ.\<close>

definition two_codes :: env where
  "two_codes = demo_env\<lparr>uuid4 := (\<lambda>n. if n = 0 then 0 else - 1)\<rparr>"

lemma two_codes_simps [simp]:
  "conf two_codes = demo_conf" "uuid4 two_codes n = (if n = 0 then 0 else - 1)"
  "smtp two_codes n = demo_smtp"
  by (simp_all add: two_codes_def)

lemma two_codes_differ: "email_code two_codes (demo_world r) \<noteq>
    email_code two_codes ((demo_world r)\<lparr>uuids := Suc (uuids (demo_world r))\<rparr>)"
proof
  assume same: "email_code two_codes (demo_world r) =
      email_code two_codes ((demo_world r)\<lparr>uuids := Suc (uuids (demo_world r))\<rparr>)"
  have first: "take 6 (uuid_hex u) ! 0 = hexdigit (unat u div 16 ^ 31)" for u
    by (simp add: uuid_hex_def)
  from same have "take 6 (uuid_hex 0) ! 0 = take 6 (uuid_hex (- 1)) ! 0"
    by (simp add: email_code_def)
  then show False by (simp only: first) (simp add: unsigned_minus_1_eq_mask mask_eq_exp_minus_1 hexdigit_def)
qed

theorem recoveries_undo_each_other_witness:
  "\<exists>turns x y v a b. schedule turns
       (call_pool two_codes demo_api [RecoverCall ''u1'', RecoverCall ''u1'']) (demo_world demo_row_2fa) =
         ([Done x, Done y], v) \<and>
     outbox v = [recovery_mail two_codes demo_user ''u1@example.org'' a,
       recovery_mail two_codes demo_user ''u1@example.org'' b] \<and> \<not> email_verified ''u1'' v"
proof -
  have mail: "takes_mail two_codes"
    by (simp add: takes_mail_def smtp_ready_def Let_def)
  show ?thesis
    using recoveries_undo_each_other [OF _ _ mail _ _ _ _ _ two_codes_differ [of demo_row_2fa],
        where uid = "''u1''" and u = demo_user and to = "''u1@example.org''" and r = demo_row_2fa and K = demo_api] by (simp add: truthy_def) blast
qed

section \<open>An update while a login is under way\<close>

lemma alone_Done [simp]: "alone j (Done r) s = (Done r, s)"
  by (induction j) simp_all

lemma alone_andthen:
  assumes "alone j t s = (Next g, v)"
  shows "alone j (andthen t f) s = (andthen (Next g) f, v)"
  using assms
proof (induction j arbitrary: t s)
  case (Suc j)
  then show ?case
  proof (cases t)
    case (Next h)
    obtain t' s' where h: "h s = (t', s')" by fastforce
    with Suc.prems Next have "alone j t' s' = (Next g, v)" by simp
    from Suc.IH [OF this] h Next show ?thesis by simp
  qed simp
qed simp

lemma update_clears:
  assumes "enabled (conf E)" and "users w uid = Some u" and "u_id u = uid"
    and "table w uid = Some r" and "login_attempts r = Some n"
  shows "alone 4 (silent (updated_thread E uid)) w = (Done (Inr ()), with_row (tick w) uid
     (r\<lparr>creation_time := Some (naive (clock E (ticks w))), login_attempts := Some 0\<rparr>))"
  using assms
  by (simp add: eval_nat_numeral silent_def updated_thread_def update_time_thread_def andthen_assoc
      get_user_run get_spassword_session_def session_save_def utcnow_def bnd_def written_def)

lemma silent_commit:
  assumes "armed u r (n + 1) t" and "login_attempts r = Some n" and "table w (u_id u) = Some s"
  shows "\<exists>x now. alone 1 (silent t) w = (Done x, with_row w (u_id u)
     (s\<lparr>login_attempts := Some (n + 1), last_login_attempt_time := Some now\<rparr>))"
  using assms
  by (auto simp: armed_def silent_def commit_attempt_def session_save_def bnd_def written_def
      andthen_assoc)

lemma pool_login: "call_pool E K [LoginCall uid pw, UpdatedCall uid] =
    [silent (login_thread E uid pw), silent (updated_thread E uid)]"
  by (simp add: call_pool_def)

text \<open>
  C37. An update of a user can lose its effect on the count of bad attempts. A login with a
  wrong password has read the row; the update runs from start to end, clears the count and
  renews the date of the password; then the login writes back the count it has read, plus one,
  and the date of the update stays. A user who stood at the limit of tries is blocked by it, after
  the update that was to unblock him.
\<close>

theorem unblock_lost:
  assumes "open_to_guesses E u r n" and "ks_check_password E pw u = Inr False"
    and "users w (u_id u) = Some u" and "table w (u_id u) = Some r"
  shows "\<exists>before after t w' s' x v s. schedule before
       (call_pool E K [LoginCall (u_id u) pw, UpdatedCall (u_id u)]) w = ([t, Done (Inr ())], w') \<and>
     table w' (u_id u) = Some s' \<and> login_attempts s' = Some 0 \<and>
     (\<exists>i. creation_time s' = Some (naive (clock E i))) \<and>
     schedule after [t, Done (Inr ())] w' = ([Done x, Done (Inr ())], v) \<and>
     table v (u_id u) = Some s \<and> creation_time s = creation_time s' \<and> login_attempts s = Some (n + 1)"
proof -
  have at: "untouched u r w" using assms(3,4) by (simp add: untouched_def)
  have on: "enabled (conf E)" "login_attempts r = Some n"
    using assms(1) by (simp_all add: open_to_guesses_def)
  from attempt_armed [OF assms(1,2) at] obtain t w1 where
    1: "alone 5 (login_thread E (u_id u) pw) w = (t, w1)" "armed u r (n + 1) t" "untouched u r w1"
    by blast
  obtain g where g: "t = Next g" using 1(2) by (auto simp: armed_def andthen_atomic)
  have 2: "alone 5 (silent (login_thread E (u_id u) pw)) w = (silent t, w1)"
    using alone_andthen [OF 1(1) [unfolded g]] by (simp only: silent_def g)
  let ?i = "ticks w1"
  let ?r = "r\<lparr>creation_time := Some (naive (clock E ?i)), login_attempts := Some 0\<rparr>"
  let ?w2 = "with_row (tick w1) (u_id u) ?r"
  have 3: "alone 4 (silent (updated_thread E (u_id u))) w1 = (Done (Inr ()), ?w2)"
    by (rule update_clears) (use on 1(3) in \<open>simp_all add: untouched_def\<close>)
  have "table ?w2 (u_id u) = Some ?r" by simp
  from silent_commit [OF 1(2) on(2) this] obtain x now where
    4: "alone 1 (silent t) ?w2 = (Done x, with_row ?w2 (u_id u)
      (?r\<lparr>login_attempts := Some (n + 1), last_login_attempt_time := Some now\<rparr>))" by blast
  let ?s = "?r\<lparr>login_attempts := Some (n + 1), last_login_attempt_time := Some now\<rparr>"
  let ?v = "with_row ?w2 (u_id u) ?s"
  have "schedule (replicate 5 0 @ replicate 4 1 @ [])
      (call_pool E K [LoginCall (u_id u) pw, UpdatedCall (u_id u)]) w = ([silent t, Done (Inr ())], ?w2)"
    by (simp only: pool_login two_turns(1) [OF 2] two_turns(2) [OF 3] schedule.simps)
  moreover have "schedule (replicate 1 0 @ []) [silent t, Done (Inr ())] ?w2 = ([Done x, Done (Inr ())], ?v)"
    by (simp only: two_turns(1) [OF 4] schedule.simps)
  moreover have "table ?w2 (u_id u) = Some ?r" "login_attempts ?r = Some 0"
    "creation_time ?r = Some (naive (clock E ?i))" by simp_all
  moreover have "table ?v (u_id u) = Some ?s" "creation_time ?s = creation_time ?r"
    "login_attempts ?s = Some (n + 1)" by simp_all
  ultimately show ?thesis by blast
qed

text \<open>The demo user at the limit of three tries.\<close>

theorem unblock_lost_witness:
  "\<exists>before after t w' s' x v s. schedule before (call_pool demo_frozen demo_api
       [LoginCall ''u1'' ''wrong'', UpdatedCall ''u1'']) (demo_world (demo_row\<lparr>login_attempts := Some 3\<rparr>)) =
         ([t, Done (Inr ())], w') \<and>
     table w' ''u1'' = Some s' \<and> login_attempts s' = Some 0 \<and>
     schedule after [t, Done (Inr ())] w' = ([Done x, Done (Inr ())], v) \<and>
     table v ''u1'' = Some s \<and> login_attempts s = Some 4"
proof -
  have "open_to_guesses demo_frozen demo_user (demo_row\<lparr>login_attempts := Some 3\<rparr>) 3"
    by (simp add: open_to_guesses_def demo_times in_years_def in_user_black_def)
  from unblock_lost [OF this, of "''wrong''" "demo_world (demo_row\<lparr>login_attempts := Some 3\<rparr>)" demo_api]
  show ?thesis by (simp add: numeral_eq_Suc) blast
qed

end
