(* ===== verification/SP_Pools.thy ===== *)
theory SP_Pools
  imports SP_Calls SP_Lockstep
begin

text \<open>
  The invariant of the table under calls that run at the same time, all of them cut into their
  actions, together with anything else that happens to the plugin in one action.
\<close>

section \<open>What keystone raises in a request\<close>

text \<open>
  Beside \<open>outside_raises\<close>: an update of a user raises exceptions of \<open>C\<close>, or passes on one of the
  callbacks that it notifies; the check of a policy raises exceptions of \<open>C\<close>, or passes on one
  of the function that builds its target; and so do the lookups of groups in that function.
\<close>

definition requests_raise :: "(exn \<Rightarrow> bool) \<Rightarrow> env \<Rightarrow> keystone_api \<Rightarrow> bool" where
  "requests_raise C E K \<longleftrightarrow>
     (\<forall>updated uid pw w e v. users_keyed w \<longrightarrow> ks_update_user E updated uid pw w = (Inl e, v) \<longrightarrow>
        C e \<or> (\<exists>us. users_keyed (w\<lparr>users := us\<rparr>) \<and> updated uid (w\<lparr>users := us\<rparr>) = (Inl e, v))) \<and>
     (\<forall>action build w e v. enforce_call K action build w = (Inl e, v) \<longrightarrow>
        C e \<or> fst (build w) = Inl e) \<and>
     (\<forall>g e. get_group K g = Inl e \<longrightarrow> C e)"

lemma demo_requests_raise:
  assumes "\<And>t. C (UserNotFound t)" and "\<And>t. C (GroupNotFound t)"
  shows "requests_raise C demo_env demo_api"
proof -
  have "C e \<or> (\<exists>us. users_keyed (w\<lparr>users := us\<rparr>) \<and> updated uid (w\<lparr>users := us\<rparr>) = (Inl e, v))"
    if "users_keyed w" "demo_update_user updated uid pw w = (Inl e, v)" for updated uid pw w e v
  proof (cases "users w uid")
    case (Some u)
    let ?us = "(users w)(uid \<mapsto> u\<lparr>u_hash := pw\<rparr>)"
    have "users_keyed (w\<lparr>users := ?us\<rparr>)" using that(1) Some by (auto simp: users_keyed_def)
    moreover have "updated uid (w\<lparr>users := ?us\<rparr>) = (Inl e, v)"
      using that(2) Some by (simp add: demo_update_user_def)
    ultimately show ?thesis by blast
  qed (use that assms in \<open>auto simp: demo_update_user_def\<close>)
  moreover have "fst (build w) = Inl e"
    if "bnd build (\<lambda>_. ret ()) w = (Inl e, v)" for build :: "target wexec" and w e v
    using that by (auto simp: bnd_def split: prod.splits sum.splits)
  ultimately show ?thesis using assms by (simp add: requests_raise_def)
qed

section \<open>The parts of the requests\<close>

lemma sound_update:
  assumes "requests_raise C E K" and "keystone_update E" and "own C"
  shows "sound (world_ok strict) C (ks_update_user E (notify E ''updated'' ''user'') uid pw) (\<lambda>_. True)"
proof (rule soundI)
  fix w x v
  assume w: "world_ok strict w" and run: "ks_update_user E (notify E ''updated'' ''user'') uid pw w = (x, v)"
  have "sound (world_ok strict) any_exn (ks_update_user E (notify E ''updated'' ''user'') uid pw) (\<lambda>_. True)"
    by (intro wf_update_user assms(2) wf_notify own_any)
  from soundD [OF this w run] have v: "world_ok strict v" by blast
  have "C e" if e: "x = Inl e" for e
  proof -
    have "users_keyed w" using w by (simp add: world_ok_def)
    with assms(1) run e have "C e \<or> (\<exists>us. users_keyed (w\<lparr>users := us\<rparr>) \<and>
        notify E ''updated'' ''user'' uid (w\<lparr>users := us\<rparr>) = (Inl e, v))"
      unfolding requests_raise_def by blast
    then show ?thesis using soundD(2) [OF wf_notify [OF assms(3)] wf_users [OF w]] by blast
  qed
  with v show "world_ok strict v \<and> (case x of Inl e \<Rightarrow> C e | Inr r \<Rightarrow> True)" by (cases x) simp_all
qed

lemma sound_enforce:
  assumes "requests_raise C E K" and "enforcer_reads K" and "own C"
  shows "sound (world_ok strict) C (enforce_call K action (build_user_target_enforcement K req)) (\<lambda>_. True)"
proof (rule sound_readonly [OF keeps_enforce [OF assms(2)]])
  fix w e
  assume "fst (enforce_call K action (build_user_target_enforcement K req) w) = Inl e"
  then obtain v where "enforce_call K action (build_user_target_enforcement K req) w = (Inl e, v)"
    by (metis prod.collapse)
  with assms(1) have "C e \<or> fst (build_user_target_enforcement K req w) = Inl e"
    unfolding requests_raise_def by blast
  moreover have "C e" if "fst (build_user_target_enforcement K req w) = Inl e"
  proof -
    from that obtain g where "get_group K g = Inl e"
      by (auto simp: build_user_target_enforcement_def catch_def bnd_def identity_get_user_def Let_def
          is_NotFound_def split: option.splits sum.splits if_splits)
    with assms(1) show ?thesis unfolding requests_raise_def by blast
  qed
  ultimately show "C e" by blast
qed
section \<open>The threads keep the invariant\<close>

lemma safe_set_check_email:
  assumes "own C" and "code_ok (Some c)"
  shows "safe (world_ok strict) C (\<lambda>_. True) (set_check_email_thread uid c)"
proof -
  have "row_ok strict uid (s\<lparr>sndfa_email_code := Some c,
      sndfa_email := written (sndfa_email r) (Some False) (sndfa_email s)\<rparr>)" if "row_ok strict uid s" for r s
    using that assms(2) by (auto simp: row_ok_def written_def)
  then show ?thesis
    unfolding set_check_email_thread_def
    by (intro safe_andthen [OF safe_atomic [OF wf_prims(3)]] safe_option safe_Inr safe_atomic
        sound_bnd [OF wf_session_save [OF assms(1)]] sound_ret) simp_all
qed

text \<open>
  Not the strict invariant: the row may have been deleted and made again since it was read, and
  then the outcome of the check is written to a row without a code.
\<close>

lemma safe_check_email:
  assumes "own C"
  shows "safe (world_ok False) C (\<lambda>_. True) (check_email_thread uid code)"
proof -
  have "row_ok False uid (s\<lparr>sndfa_email := Some b\<rparr>)" if "row_ok False uid s" for s b
    using that by (auto simp: row_ok_def)
  then show ?thesis
    unfolding check_email_thread_def Let_def
    by (intro safe_andthen [OF safe_atomic [OF wf_prims(3)]] safe_option safe_if safe_Inr safe_atomic
        sound_bnd [OF wf_session_save [OF assms]] sound_ret) simp_all
qed

lemma safe_update_time:
  assumes "own C"
  shows "safe (world_ok strict) C (\<lambda>_. True) (update_time_thread E u)"
proof -
  have "row_ok strict uid (s\<lparr>creation_time := Some now,
      login_attempts := written a (Some 0) (login_attempts s)\<rparr>)" if "row_ok strict uid s" for s now a uid
    using that by (auto simp: row_ok_def written_def)
  moreover have "sound (world_ok strict) C
      (session_insert ((user_row u now)\<lparr>login_attempts := Some 0\<rparr>)) (\<lambda>_. True)" for now
    by (rule wf_session_insert [OF assms, where uid = "u_id u"]) (simp_all add: wf_user_row)
  ultimately show ?thesis
    unfolding update_time_thread_def
    by (intro safe_andthen [OF safe_atomic [OF wf_prims(3)]] safe_andthen [OF safe_atomic [OF wf_prims(1)]]
        safe_option safe_atomic sound_bnd [OF wf_session_save [OF assms]] sound_bnd [where R = "\<lambda>_. True"]
        sound_ret) simp_all
qed

lemma safe_ask_code:
  assumes "own C"
  shows "safe (world_ok strict) C (\<lambda>_. True) (ask_code_thread E uid)"
  unfolding ask_code_thread_def Let_def
  by (intro safe_andthen [OF safe_atomic [OF wf_already_email_checked]]
      safe_andthen [OF safe_atomic [OF wf_prims(2)]]
      safe_andthen [OF safe_set_check_email [OF assms]] safe_Inr) simp_all

lemma sound_mail_parts:
  assumes "own C"
  shows "sound (world_ok strict) C (check_spassword_configured E) (\<lambda>_. True)"
    and "sound (world_ok strict) C (check_user_has_email_defined u) (\<lambda>_. True)"
    and "sound (world_ok strict) C (check_user_has_email_validated u) (\<lambda>_. True)"
    and "sound (world_ok strict) C (lift (user_email u)) (\<lambda>_. True)"
proof -
  note C = own_simps [OF assms]
  show "sound (world_ok strict) C (check_spassword_configured E) (\<lambda>_. True)"
    unfolding check_spassword_configured_def by (intro sound_if sound_raise sound_ret C) simp
  show "sound (world_ok strict) C (check_user_has_email_defined u) (\<lambda>_. True)"
    unfolding check_user_has_email_defined_def by (intro sound_if sound_raise sound_ret C) simp
  show "sound (world_ok strict) C (check_user_has_email_validated u) (\<lambda>_. True)"
    unfolding check_user_has_email_validated_def already_user_check_email_def
    by (intro sound_bnd [OF wf_already_email_checked] sound_if sound_raise sound_ret C) simp
  show "sound (world_ok strict) C (lift (user_email u)) (\<lambda>_. True)"
    by (rule sound_lift) (auto simp: user_email_def C split: option.splits)
qed

lemmas mail_parts = sound_bnd [OF sound_mail_parts(1)] sound_bnd [OF sound_mail_parts(2)]
  sound_bnd [OF sound_mail_parts(3)] sound_bnd [OF sound_mail_parts(4)]

lemma safe_email_requests:
  assumes "outside_raises C E"
  shows "safe (world_ok False) C (\<lambda>_. True) (recover_thread E uid)"
    and "safe (world_ok False) C (\<lambda>_. True) (check_email_request_thread uid code)"
    and "requests_raise C E K \<Longrightarrow> enforcer_reads K \<Longrightarrow>
      safe (world_ok False) C (\<lambda>_. True) (ask_check_email_thread E K uid req)"
proof -
  note own = outside_own [OF assms]
  have mail: "sound (world_ok False) C (bnd (send_email E to subject body_text)
      (\<lambda>sent. if sent then ret x else ret y)) (\<lambda>_. True)" for to subject body_text and x y :: response
    by (intro sound_bnd [OF wf_send_email [OF assms]] sound_if sound_ret) simp_all
  show "safe (world_ok False) C (\<lambda>_. True) (recover_thread E uid)"
    unfolding recover_thread_def recover_mail_thread_def Let_def
    by (intro safe_andthen [where R = "\<lambda>_. True"] safe_ask_code safe_check_email safe_atomic mail own
        mail_parts sound_bnd [OF wf_identity_get_user] sound_mail_parts sound_ret) simp_all
  show "safe (world_ok False) C (\<lambda>_. True) (check_email_request_thread uid code)"
    unfolding check_email_request_thread_def
    by (intro safe_andthen [where R = "\<lambda>_. True"] safe_check_email safe_atomic safe_Inr own
        mail_parts sound_bnd [OF wf_identity_get_user] sound_ret) simp_all
  show "safe (world_ok False) C (\<lambda>_. True) (ask_check_email_thread E K uid req)"
    if "requests_raise C E K" "enforcer_reads K"
    unfolding ask_check_email_thread_def Let_def
    by (intro safe_andthen [where R = "\<lambda>_. True"] safe_ask_code safe_atomic mail own
        sound_enforce [OF that own] mail_parts sound_bnd [OF wf_identity_get_user] sound_ret) simp_all
qed

lemma safe_reset:
  assumes "outside_raises C E" and "requests_raise C E K" and "keystone_update E"
  shows "safe (world_ok False) C (\<lambda>_. True) (reset_thread E uid code)"
proof -
  note own = outside_own [OF assms(1)]
  have update: "sound (world_ok False) C (catch (ks_update_user E (notify E ''updated'' ''user'') uid pw)
      (\<lambda>e. if e = AssertionError then Some (raise (Unauthorized ''Invalid username or password''))
           else None)) (\<lambda>_. True)" for pw
    by (rule sound_catch [where D = C, OF sound_update [OF assms(2,3) own]])
      (auto intro!: sound_raise own_simps [OF own] split: if_splits)
  show ?thesis
    unfolding reset_thread_def send_new_password_email_def Let_def
    by (intro safe_andthen [where R = "\<lambda>_. True"] safe_check_email safe_if safe_atomic safe_Inr update own
        wf_identity_get_user [THEN sound_weaken] wf_prims(2) mail_parts
        sound_bnd [OF wf_send_email [OF assms(1)]] sound_ret) simp_all
qed

lemma safe_call:
  assumes "outside_raises C E" and "requests_raise C E K" and "keystone_ops E K"
  shows "safe (world_ok False) C (\<lambda>_. True) (call_thread E K c)"
proof -
  note own = outside_own [OF assms(1)]
  have ops: "keystone_update E" "enforcer_reads K" using assms(3) by (simp_all add: keystone_ops_def)
  have updated: "safe (world_ok False) C (\<lambda>_. True) (updated_thread E uid)" for uid
    unfolding updated_thread_def
    by (intro safe_andthen [OF safe_atomic [OF wf_get_user [OF own]]] safe_if safe_update_time [OF own]
        safe_Inr) simp
  have silent: "safe (world_ok False) C (\<lambda>_. True) (silent t)"
    if "safe (world_ok False) C (\<lambda>_. True) t" for t :: "(world, 'b) thread"
    unfolding silent_def by (rule safe_andthen [OF that]) simp
  show ?thesis
    by (cases c) (simp_all add: silent safe_login [OF assms(1)] safe_email_requests(1,2) [OF assms(1)]
        safe_email_requests(3) [OF assms(1,2) ops(2)] safe_reset [OF assms(1,2) ops(1)] updated)
qed

section \<open>Pools of calls and of anything else\<close>

text \<open>
  An activity is a call, action by action, or anything else that can happen in one step: another
  request, a change by keystone, the notification that a user was created or deleted.
\<close>

inductive activity :: "env \<Rightarrow> keystone_api \<Rightarrow> (world, unit) thread \<Rightarrow> bool" for E K where
  activity_call: "activity E K (call_thread E K c)"
| activity_step: "(\<And>w. step E K w (f w)) \<Longrightarrow> activity E K (atomic (modify f))"

lemma safe_activity:
  assumes "activity E K t" and "outside_raises C E" and "requests_raise C E K" and "keystone_ops E K"
  shows "safe (world_ok False) C (\<lambda>_. True) t"
  using assms(1)
proof cases
  case (activity_call c)
  then show ?thesis using safe_call [OF assms(2-4)] by simp
next
  case (activity_step f)
  then have "sound (world_ok False) C (modify f) (\<lambda>_. True)"
    using wf_step [OF assms(4)] by (auto simp: sound_def)
  then show ?thesis using activity_step(1) by (simp add: safe_atomic)
qed

text \<open>
  C7. No call fails on the data it reads, however calls interleave. In any pool of logins,
  recoveries, resets, checks and notifications, cut into their actions, and of anything else
  that requests and keystone do in between, users deleted and created again included, no login
  and no request ends in an attribute, type or eval error, and every row keeps its key, dates,
  count, flags and codes in the shape that the code relies on.
\<close>

theorem concurrent_calls_sound:
  assumes "keystone_ops E K" and "reachable E K w"
    and "smtp_raises (\<lambda>e. \<not> data_error e) E" and "keystone_raises (\<lambda>e. \<not> data_error e) E"
    and "requests_raise (\<lambda>e. \<not> data_error e) E K"
    and "pwd_user_blacklist (conf E) \<noteq> None" and "0 \<le> pwd_max_tries (conf E)"
    and "\<forall>t\<in>set pool. activity E K t" and "schedule turns pool w = (ts, v)"
  shows "(\<forall>uid r. table v uid = Some r \<longrightarrow> row_ok False uid r) \<and>
     (\<forall>e. Done (Inl e) \<in> set ts \<longrightarrow> \<not> data_error e)"
proof -
  have "outside_raises (\<lambda>e. \<not> data_error e) E"
    using assms(1,3,4,6,7) by (simp add: outside_raises_def own_not_data_error keystone_ops_def)
  then have pool: "\<forall>t\<in>set pool. safe (world_ok False) (\<lambda>e. \<not> data_error e) (\<lambda>_. True) t"
    using assms(1,5,8) safe_activity by blast
  have "world_ok False w" by (rule reachable_wf [OF assms(2,1)])
  from schedule_safe [OF pool this, of turns] assms(9)
  have "\<forall>t\<in>set ts. safe (world_ok False) (\<lambda>e. \<not> data_error e) (\<lambda>_. True) t" "world_ok False v"
    by simp_all
  then show ?thesis by (auto dest: wf_worldD)
qed

theorem concurrent_calls_sound_witness:
  "\<exists>ts v e. schedule [1, 0] [call_thread demo_env demo_api (RecoverCall ''nobody''),
       call_thread demo_env demo_api (LoginCall ''u1'' ''wrong'')] demo_created = (ts, v) \<and>
     Done (Inl e) \<in> set ts \<and> \<not> data_error e"
proof -
  let ?pool = "[call_thread demo_env demo_api (RecoverCall ''nobody''),
     call_thread demo_env demo_api (LoginCall ''u1'' ''wrong'')]"
  obtain ts v where run: "schedule [1, 0] ?pool demo_created = (ts, v)" by fastforce
  have block: "check_block demo_env ''u1'' demo_created = (Inr (), demo_created)"
    by (rule check_block_run(1) [where ids = "[''admin'']" and n = 0, OF _ _ _ demo_created_row])
      (simp_all add: column_defaults_def user_row_def no_sndfa_def blank_row_def)
  have "users demo_created ''nobody'' = None"
    by (simp add: demo_created_def demo_start_def notify_user_created user_created_callback_def
        bnd_def get_user_run set_user_creation_time_run Let_def)
  with run have missing: "Done (Inl (UserNotFound ''nobody'')) \<in> set ts"
    by (auto simp: silent_def login_thread_def recover_thread_def andthen_assoc block
        check_spassword_configured_def identity_get_user_run bnd_def)
  have raises: "keystone_raises (\<lambda>e. \<not> data_error e) demo_env"
    by (rule demo_keystone_raises) (simp add: data_error_def)
  have requests: "requests_raise (\<lambda>e. \<not> data_error e) demo_env demo_api"
    by (rule demo_requests_raise) (simp_all add: data_error_def)
  have pool: "\<forall>t\<in>set ?pool. activity demo_env demo_api t"
    by (simp add: activity_call del: call_thread.simps)
  have "\<not> data_error (UserNotFound ''nobody'')"
    using concurrent_calls_sound [OF demo_keystone_ops demo_created_reachable demo_smtp_raises
        raises requests _ _ pool run] missing by simp
  with run missing show ?thesis by blast
qed

text \<open>
  Why the shape is \<open>row_ok False\<close>: a check of the e-mail that has found its code in the row of a
  user writes the verification to whatever row the user has by then. Where the user was deleted
  and created again in between, that row is verified without ever having had a code.
\<close>

lemma check_writes_other_row:
  assumes "table w uid = Some r" and "sndfa_email_code r = Some c" and "c \<noteq> ''''"
    and "sndfa_email r \<noteq> Some True" and "table v uid = Some s"
  shows "alone 1 (fst (alone 1 (check_email_thread uid (Some c)) w)) v =
     (Done (Inr True), with_row v uid (s\<lparr>sndfa_email := Some True\<rparr>))"
  using assms
  by (simp add: check_email_thread_def get_spassword_session_def session_save_def bnd_def Let_def)

end
