(* ===== verification/SP_Migration.thy ===== *)
theory SP_Migration
  imports SP_Invariant
begin

text \<open>
  The migration \<open>migrate_repo/versions/1_spassword.py\<close>, which creates the table, against the
  columns that the class \<open>SPasswordModel\<close> of \<open>backends/sql.py\<close> declares. A database is the
  columns of each of its tables.
\<close>

datatype column_type = CString nat | CDateTime | CInteger | CBoolean | CText | CJsonBlob

type_synonym columns = "(string \<times> column_type) list"

type_synonym database = "string \<rightharpoonup> columns"

definition SPasswordModel_columns :: columns where
  "SPasswordModel_columns = [
     (''user_id'', CString 64),
     (''user_name'', CString 255),
     (''domain_id'', CString 64),
     (''creation_time'', CDateTime),
     (''login_attempts'', CInteger),
     (''last_login_attempt_time'', CDateTime),
     (''extra'', CJsonBlob),
     (''sndfa'', CBoolean),
     (''sndfa_last'', CDateTime),
     (''sndfa_code'', CString 32),
     (''sndfa_time_code'', CDateTime),
     (''sndfa_email'', CBoolean),
     (''sndfa_email_code'', CString 32)]"

definition upgrade :: "database \<Rightarrow> database" where
  "upgrade db = (if ''spassword'' \<in> dom db then db
     else db(''spassword'' \<mapsto> [
       (''user_id'', CString 64),
       (''user_name'', CString 255),
       (''domain_id'', CString 64),
       (''creation_time'', CDateTime),
       (''login_attempts'', CInteger),
       (''last_login_attempt_time'', CDateTime),
       (''extra'', CText),
       (''sndfa'', CBoolean),
       (''sndfa_last'', CDateTime),
       (''sndfa_code'', CString 32),
       (''sndfa_time_code'', CDateTime),
       (''sndfa_email'', CBoolean),
       (''sndfa_email_code'', CString 32)]))"

text \<open>A JSON blob is kept in a column of type text; every other type is its own.\<close>

definition stored_as :: "column_type \<Rightarrow> column_type \<Rightarrow> bool" where
  "stored_as model column \<longleftrightarrow> column = (if model = CJsonBlob then CText else model)"

definition fits :: "columns \<Rightarrow> string \<Rightarrow> string option \<Rightarrow> bool" where
  "fits cols column x \<longleftrightarrow> (case x of None \<Rightarrow> True | Some t \<Rightarrow>
     (\<exists>n. map_of cols column = Some (CString n) \<and> length t \<le> n))"

text \<open>
  C39. The migration can be run again: it changes nothing then, and it never changes a table
  that exists, even a \<open>spassword\<close> table with other columns. On a database without the table it
  creates one whose columns are the model's, by name, order and type, and every code that a
  well-formed row holds fits its column.
\<close>

theorem upgrade_matches_model:
  "upgrade (upgrade db) = upgrade db \<and>
   (\<forall>t cols. db t = Some cols \<longrightarrow> upgrade db t = Some cols) \<and>
   (db ''spassword'' = None \<longrightarrow> (\<exists>cols. upgrade db = db(''spassword'' \<mapsto> cols) \<and>
      map fst cols = SPasswordModel_attributes \<and>
      list_all2 (\<lambda>m c. fst m = fst c \<and> stored_as (snd m) (snd c)) SPasswordModel_columns cols \<and>
      (\<forall>uid r. wf_row uid r \<longrightarrow> fits cols ''sndfa_code'' (sndfa_code r) \<and>
         fits cols ''sndfa_email_code'' (sndfa_email_code r))))"
proof (intro conjI impI)
  show "upgrade (upgrade db) = upgrade db" by (auto simp: upgrade_def)
  show "\<forall>t cols. db t = Some cols \<longrightarrow> upgrade db t = Some cols" by (auto simp: upgrade_def)
  assume none: "db ''spassword'' = None"
  then obtain cols where cols: "upgrade db = db(''spassword'' \<mapsto> cols)"
    "cols = map (\<lambda>(k, c). (k, if c = CJsonBlob then CText else c)) SPasswordModel_columns"
    by (auto simp: upgrade_def SPasswordModel_columns_def dom_def)
  have "map fst cols = SPasswordModel_attributes"
    by (simp add: cols(2) SPasswordModel_columns_def SPasswordModel_attributes_def)
  moreover have "list_all2 (\<lambda>m c. fst m = fst c \<and> stored_as (snd m) (snd c)) SPasswordModel_columns cols"
    by (simp add: cols(2) SPasswordModel_columns_def stored_as_def)
  moreover have "map_of cols ''sndfa_code'' = Some (CString 32)"
      "map_of cols ''sndfa_email_code'' = Some (CString 32)"
    by (simp_all add: cols(2) SPasswordModel_columns_def)
  then have "fits cols ''sndfa_code'' (sndfa_code r) \<and> fits cols ''sndfa_email_code'' (sndfa_email_code r)"
    if "wf_row uid r" for uid r
    using that by (auto simp: row_ok_def code_ok_def fits_def split: option.splits)
  ultimately show "\<exists>cols. upgrade db = db(''spassword'' \<mapsto> cols) \<and>
      map fst cols = SPasswordModel_attributes \<and>
      list_all2 (\<lambda>m c. fst m = fst c \<and> stored_as (snd m) (snd c)) SPasswordModel_columns cols \<and>
      (\<forall>uid r. wf_row uid r \<longrightarrow> fits cols ''sndfa_code'' (sndfa_code r) \<and>
         fits cols ''sndfa_email_code'' (sndfa_email_code r))"
    using cols(1) by blast
qed

theorem upgrade_matches_model_witness:
  "upgrade [''spassword'' \<mapsto> [(''user_id'', CString 64)]] ''spassword'' = Some [(''user_id'', CString 64)] \<and>
   map_option (map fst) (upgrade Map.empty ''spassword'') = Some SPasswordModel_attributes"
proof -
  have "upgrade [''spassword'' \<mapsto> [(''user_id'', CString 64)]] ''spassword'' = Some [(''user_id'', CString 64)]"
    using upgrade_matches_model [of "[''spassword'' \<mapsto> [(''user_id'', CString 64)]]"] by simp
  moreover obtain cols where "upgrade Map.empty = Map.empty(''spassword'' \<mapsto> cols)"
    "map fst cols = SPasswordModel_attributes"
    using upgrade_matches_model [of Map.empty] by blast
  ultimately show ?thesis by simp
qed

end
