(* ===== verification/SP_IdMapping.thy ===== *)
theory SP_IdMapping
  imports SP_Prelude
begin

text \<open>
  The drivers that map LDAP entities to public ids: \<open>docker/sql_ldap.py\<close> (the class
  \<open>Mapping\<close> over the table \<open>id_mapping\<close>) and its older form \<open>docs/id_group_ldap.py\<close>. A group
  of keystone's SQL backend with the name and domain of an LDAP group lends it its id.
\<close>

section \<open>The tables\<close>

datatype entity_type = USER | GROUP

record local_entity =
  e_domain_id :: string
  e_local_id :: string
  e_entity_type :: entity_type

record id_mapping =
  public_id :: string
  entity :: local_entity

record sql_group =
  g_id :: string
  g_name :: string
  g_domain_id :: string

record mapping_db =
  mappings :: "id_mapping list"
  groups :: "sql_group list"

text \<open>\<open>query.one()\<close>\<close>

datatype query_error = NotFound | MultipleResultsFound

fun query_one :: "'a list \<Rightarrow> query_error + 'a" where
  "query_one [] = Inl NotFound"
| "query_one [x] = Inr x"
| "query_one (x # y # xs) = Inl MultipleResultsFound"

section \<open>docker/sql_ldap.py\<close>

definition find_group :: "local_entity \<Rightarrow> mapping_db \<Rightarrow> query_error + sql_group" where
  "find_group e db = query_one
     (filter (\<lambda>g. g_name g = e_local_id e \<and> g_domain_id g = e_domain_id e) (groups db))"

definition find_mapping :: "local_entity \<Rightarrow> mapping_db \<Rightarrow> query_error + id_mapping" where
  "find_mapping e db = query_one (filter (\<lambda>m. entity m = e) (mappings db))"

definition get_public_id :: "local_entity \<Rightarrow> mapping_db \<Rightarrow> query_error + string option" where
  "get_public_id e db =
     (if e_entity_type e = GROUP then
        Inr (case find_group e db of
            Inr g \<Rightarrow> Some (g_id g)
          | Inl NotFound \<Rightarrow> (case find_mapping e db of
                Inr m \<Rightarrow> Some (public_id m)
              | Inl _ \<Rightarrow> None)
          | Inl _ \<Rightarrow> None)
      else
        (case find_mapping e db of
           Inr m \<Rightarrow> Inr (Some (public_id m))
         | Inl NotFound \<Rightarrow> Inr None
         | Inl err \<Rightarrow> Inl err))"

definition get_domain_mapping_list :: "string \<Rightarrow> mapping_db \<Rightarrow> id_mapping list" where
  "get_domain_mapping_list d db = filter (\<lambda>m. e_domain_id (entity m) = d) (mappings db)"

definition get_id_mapping :: "string \<Rightarrow> mapping_db \<Rightarrow> id_mapping option" where
  "get_id_mapping p db = List.find (\<lambda>m. public_id m = p) (mappings db)"

text \<open>
  The INSERT fails with \<open>DBDuplicateEntry\<close> when the primary key or the unique triple is taken.
  \<open>generate_public_ID\<close> is keystone's and a parameter.
\<close>

definition duplicate :: "id_mapping \<Rightarrow> mapping_db \<Rightarrow> bool" where
  "duplicate m db \<longleftrightarrow>
     list_ex (\<lambda>m'. public_id m' = public_id m \<or> entity m' = entity m) (mappings db)"

definition create_id_mapping :: "(local_entity \<Rightarrow> string) \<Rightarrow> local_entity \<Rightarrow> string option \<Rightarrow>
    mapping_db \<Rightarrow> (query_error + string option) \<times> mapping_db" where
  "create_id_mapping generate_public_ID e pid db =
     (let p = (case pid of None \<Rightarrow> generate_public_ID e | Some p \<Rightarrow> p);
          m = \<lparr>public_id = p, entity = e\<rparr> in
      if duplicate m db then (get_public_id e db, db)
      else (Inr (Some p), db\<lparr>mappings := mappings db @ [m]\<rparr>))"

definition delete_id_mapping :: "string \<Rightarrow> mapping_db \<Rightarrow> mapping_db" where
  "delete_id_mapping p db = db\<lparr>mappings := filter (\<lambda>m. public_id m \<noteq> p) (mappings db)\<rparr>"

text \<open>A key that is missing in the filter dict is \<open>None\<close>.\<close>

record purge_filter =
  pf_domain_id :: "string option"
  pf_public_id :: "string option"
  pf_local_id :: "string option"
  pf_entity_type :: "entity_type option"

definition selects :: "'a option \<Rightarrow> 'a \<Rightarrow> bool" where
  "selects x y \<longleftrightarrow> (case x of None \<Rightarrow> True | Some z \<Rightarrow> y = z)"

definition purge_mappings :: "purge_filter \<Rightarrow> mapping_db \<Rightarrow> mapping_db" where
  "purge_mappings f db = db\<lparr>mappings := filter (\<lambda>m. \<not>
     (selects (pf_domain_id f) (e_domain_id (entity m)) \<and>
      selects (pf_public_id f) (public_id m) \<and>
      selects (pf_local_id f) (e_local_id (entity m)) \<and>
      selects (pf_entity_type f) (e_entity_type (entity m)))) (mappings db)\<rparr>"

section \<open>docs/id_group_ldap.py\<close>

text \<open>
  \<open>super(Mapping, self)\<close> skips the SQL driver \<open>Mapping\<close> and reaches its base class, which is
  keystone's: \<open>base_get\<close> is that method.
\<close>

definition IdGroupLdap_get_public_id ::
    "(local_entity \<Rightarrow> mapping_db \<Rightarrow> query_error + string option) \<Rightarrow>
     local_entity \<Rightarrow> mapping_db \<Rightarrow> query_error + string option" where
  "IdGroupLdap_get_public_id base_get e db =
     (if e_entity_type e = GROUP then
        Inr (case find_group e db of Inr g \<Rightarrow> Some (g_id g) | Inl _ \<Rightarrow> None)
      else base_get e db)"

text \<open>
  The other methods hand their arguments to the base class: \<open>super_method base name x\<close> looks the
  name up among its methods, a parameter, and calls what it finds. The one for
  \<open>purge_mappings\<close> asks for a method of another name.
\<close>

definition super_method :: "(string \<rightharpoonup> 'a \<Rightarrow> exn + 'r) \<Rightarrow> string \<Rightarrow> 'a \<Rightarrow> exn + 'r" where
  "super_method base name x = (case base name of
      None \<Rightarrow> Inl (AttributeError name)
    | Some f \<Rightarrow> f x)"

definition IdGroupLdap_get_id_mapping ::
    "(string \<rightharpoonup> string \<Rightarrow> exn + 'r) \<Rightarrow> string \<Rightarrow> exn + 'r" where
  "IdGroupLdap_get_id_mapping base p = super_method base ''get_id_mapping'' p"

definition IdGroupLdap_create_id_mapping ::
    "(string \<rightharpoonup> local_entity \<times> string option \<Rightarrow> exn + 'r) \<Rightarrow> local_entity \<Rightarrow> string option \<Rightarrow>
     exn + 'r" where
  "IdGroupLdap_create_id_mapping base e p =
     super_method base ''create_id_mapping'' (e, p)"

definition IdGroupLdap_delete_id_mapping ::
    "(string \<rightharpoonup> string \<Rightarrow> exn + 'r) \<Rightarrow> string \<Rightarrow> exn + 'r" where
  "IdGroupLdap_delete_id_mapping base p = super_method base ''delete_id_mapping'' p"

definition IdGroupLdap_purge_mappings ::
    "(string \<rightharpoonup> purge_filter \<Rightarrow> exn + 'r) \<Rightarrow> purge_filter \<Rightarrow> exn + 'r" where
  "IdGroupLdap_purge_mappings base f = super_method base ''purge_mapping'' f"

text \<open>With a base class that has the methods of the driver of the image, purging always fails.\<close>

lemma purge_not_found:
  assumes "dom base \<subseteq> {''get_public_id'', ''get_domain_mapping_list'', ''get_id_mapping'',
      ''create_id_mapping'', ''delete_id_mapping'', ''purge_mappings''}"
  shows "IdGroupLdap_purge_mappings base f = Inl (AttributeError ''purge_mapping'')"
proof -
  have "base ''purge_mapping'' = None" using assms by auto
  then show ?thesis by (simp add: IdGroupLdap_purge_mappings_def super_method_def)
qed

section \<open>Unique mappings\<close>

definition unique_mappings :: "mapping_db \<Rightarrow> bool" where
  "unique_mappings db \<longleftrightarrow> distinct (map public_id (mappings db)) \<and> distinct (map entity (mappings db))"

text \<open>The interface of an operation on the table: it keeps both keys unique and the groups.\<close>

locale mapping_update =
  fixes update :: "mapping_db \<Rightarrow> mapping_db"
  assumes keeps_unique: "unique_mappings db \<Longrightarrow> unique_mappings (update db)"
    and keeps_groups: "groups (update db) = groups db"
begin

lemma same_group: "find_group e (update db) = find_group e db"
  by (simp add: find_group_def keeps_groups)

lemma iterated: "unique_mappings db \<Longrightarrow> unique_mappings ((update ^^ n) db)"
  by (induction n) (simp_all add: keeps_unique)

end

lemma unique_filter:
  "unique_mappings db \<Longrightarrow> unique_mappings (db\<lparr>mappings := filter P (mappings db)\<rparr>)"
  by (auto simp: unique_mappings_def distinct_map inj_on_subset)

interpretation create: mapping_update "\<lambda>db. snd (create_id_mapping gen e pid db)" for gen e pid
  by unfold_locales
    (auto simp: create_id_mapping_def unique_mappings_def duplicate_def Let_def list_ex_iff)

interpretation delete: mapping_update "delete_id_mapping p" for p
  by unfold_locales (simp_all add: delete_id_mapping_def unique_filter)

interpretation purge: mapping_update "purge_mappings f" for f
  by unfold_locales (simp_all add: purge_mappings_def unique_filter)

lemma query_one_unique:
  "distinct (map f xs) \<Longrightarrow> x \<in> set xs \<Longrightarrow> query_one (filter (\<lambda>y. f y = f x) xs) = Inr x"
proof (induction xs)
  case (Cons a xs)
  then show ?case
  proof (cases "x = a")
    case True
    with Cons.prems have "filter (\<lambda>y. f y = f x) xs = []"
      by (auto simp: filter_empty_conv image_iff)
    with True show ?thesis by simp
  next
    case False
    with Cons.prems have "x \<in> set xs" and "f a \<noteq> f x" by auto
    with Cons show ?thesis by simp
  qed
qed simp

lemma query_one_none: "query_one xs = Inl NotFound \<longleftrightarrow> xs = []"
  by (cases xs rule: query_one.cases) simp_all

lemma find_mapping_in:
  "unique_mappings db \<Longrightarrow> m \<in> set (mappings db) \<Longrightarrow> find_mapping (entity m) db = Inr m"
  by (simp add: find_mapping_def unique_mappings_def query_one_unique)

lemma find_mapping_cases:
  assumes "unique_mappings db"
  obtains (found) m where "m \<in> set (mappings db)" "entity m = e" "find_mapping e db = Inr m"
  | (none) "find_mapping e db = Inl NotFound" "\<And>m. m \<in> set (mappings db) \<Longrightarrow> entity m \<noteq> e"
proof (cases "\<exists>m \<in> set (mappings db). entity m = e")
  case True
  with assms found show thesis by (auto dest: find_mapping_in)
next
  case False
  then have "filter (\<lambda>m. entity m = e) (mappings db) = []" by (simp add: filter_empty_conv)
  with False none show thesis by (auto simp: find_mapping_def)
qed

lemma get_id_mapping_in:
  assumes "unique_mappings db" and "m \<in> set (mappings db)"
  shows "get_id_mapping (public_id m) db = Some m"
proof -
  from assms(2) obtain m' where m': "get_id_mapping (public_id m) db = Some m'"
    by (cases "get_id_mapping (public_id m) db") (auto simp: get_id_mapping_def find_None_iff)
  then have "m' \<in> set (mappings db)" "public_id m' = public_id m"
    by (auto simp: get_id_mapping_def find_Some_iff)
  with assms have "m' = m" by (auto simp: unique_mappings_def distinct_map dest: inj_onD)
  with m' show ?thesis by simp
qed

lemma id_mapping_collapse [simp]: "\<lparr>public_id = public_id m, entity = entity m\<rparr> = m"
  for m :: id_mapping by simp

section \<open>Properties\<close>

definition ldap_user :: "string \<Rightarrow> local_entity" where
  "ldap_user t = \<lparr>e_domain_id = ''ldap'', e_local_id = t, e_entity_type = USER\<rparr>"

definition ldap_group :: "string \<Rightarrow> local_entity" where
  "ldap_group t = \<lparr>e_domain_id = ''ldap'', e_local_id = t, e_entity_type = GROUP\<rparr>"

definition demo_db :: mapping_db where
  "demo_db = \<lparr>mappings = [\<lparr>public_id = ''p1'', entity = ldap_user ''ann''\<rparr>],
     groups = [\<lparr>g_id = ''g1'', g_name = ''staff'', g_domain_id = ''ldap''\<rparr>]\<rparr>"

lemma demo_db_unique [simp]: "unique_mappings demo_db"
  by (simp add: unique_mappings_def demo_db_def)

text \<open>
  Public ids and local entities stay unique whatever operations are run on the table, in
  any number; so a query for one entity never finds two, and \<open>get_public_id\<close> never fails.
\<close>

lemma mappings_stay_unique:
  assumes "unique_mappings db"
  shows "unique_mappings ((delete_id_mapping p ^^ i)
       ((purge_mappings f ^^ j) (snd (create_id_mapping gen e pid db)))) \<and>
     (\<exists>x. get_public_id e' (snd (create_id_mapping gen e pid db)) = Inr x)"
proof -
  have created: "unique_mappings (snd (create_id_mapping gen e pid db))"
    using assms by (rule create.keeps_unique)
  then have "find_mapping e' (snd (create_id_mapping gen e pid db)) \<noteq> Inl MultipleResultsFound"
    by (cases rule: find_mapping_cases [where e = e']) simp_all
  then have "\<exists>x. get_public_id e' (snd (create_id_mapping gen e pid db)) = Inr x"
    by (auto simp: get_public_id_def split: sum.split query_error.split)
  with created show ?thesis by (blast intro: delete.iterated purge.iterated)
qed

text \<open>
  C40. The public id that \<open>create_id_mapping\<close> answers for a user is from then on the one that
  \<open>get_public_id\<close> answers for that user, and \<open>get_id_mapping\<close> leads back from it to the user;
  creating the mapping again, with whatever id, answers the same id and changes nothing.
\<close>

theorem create_get_round_trip:
  assumes "unique_mappings db" and "e_entity_type e = USER"
    and "create_id_mapping gen e pid db = (Inr (Some p), db')"
  shows "get_public_id e db' = Inr (Some p) \<and> get_id_mapping p db' = Some \<lparr>public_id = p, entity = e\<rparr> \<and>
     create_id_mapping gen' e pid' db' = (Inr (Some p), db')"
proof -
  have unique: "unique_mappings db'"
    using create.keeps_unique [OF assms(1), of gen e pid] assms(3) by simp
  have mem: "\<lparr>public_id = p, entity = e\<rparr> \<in> set (mappings db')"
    using assms by (cases rule: find_mapping_cases [OF assms(1), where e = e])
      (auto simp: create_id_mapping_def get_public_id_def Let_def split: if_splits)
  from find_mapping_in [OF unique this] have get: "get_public_id e db' = Inr (Some p)"
    using assms(2) by (simp add: get_public_id_def)
  moreover from get_id_mapping_in [OF unique mem]
  have "get_id_mapping p db' = Some \<lparr>public_id = p, entity = e\<rparr>" by simp
  moreover from mem have "duplicate \<lparr>public_id = q, entity = e\<rparr> db'" for q
    by (force simp: duplicate_def list_ex_iff)
  ultimately show ?thesis by (simp add: create_id_mapping_def Let_def)
qed

theorem create_get_round_trip_witness:
  "\<exists>db'. create_id_mapping (\<lambda>_. ''p2'') (ldap_user ''bob'') None demo_db = (Inr (Some ''p2''), db') \<and>
     get_public_id (ldap_user ''bob'') db' = Inr (Some ''p2'')"
proof -
  obtain db' where run: "create_id_mapping (\<lambda>_. ''p2'') (ldap_user ''bob'') None demo_db =
      (Inr (Some ''p2''), db')"
    by (simp add: create_id_mapping_def duplicate_def demo_db_def ldap_user_def Let_def)
  from create_get_round_trip [OF demo_db_unique _ run] run show ?thesis
    by (auto simp: ldap_user_def)
qed

text \<open>
  For a group the round trip fails where keystone's SQL backend has a group of that name in
  that domain: \<open>create_id_mapping\<close> stores and answers a generated id, and \<open>get_public_id\<close>
  answers the id of the SQL group instead, before and after.
\<close>

lemma sql_group_shadows_mapping:
  assumes "e_entity_type e = GROUP" and "find_group e db = Inr g"
    and "\<not> duplicate \<lparr>public_id = gen e, entity = e\<rparr> db" and "gen e \<noteq> g_id g"
  shows "\<exists>db'. create_id_mapping gen e None db = (Inr (Some (gen e)), db') \<and>
     get_public_id e db' = Inr (Some (g_id g)) \<and> get_public_id e db' \<noteq> Inr (Some (gen e))"
proof -
  let ?db' = "snd (create_id_mapping gen e None db)"
  have "create_id_mapping gen e None db = (Inr (Some (gen e)), ?db')"
    using assms(3) by (simp add: create_id_mapping_def Let_def)
  moreover have "get_public_id e ?db' = Inr (Some (g_id g))"
    using assms(1,2) by (simp add: get_public_id_def create.same_group)
  ultimately show ?thesis using assms(4) by auto
qed

text \<open>
  The driver of the docs and the one of the docker image answer the same for a group that
  the SQL backend has. For any other group the docs' driver answers nothing, also where the
  table holds a mapping that the image's driver finds.
\<close>

lemma group_drivers_differ:
  assumes "unique_mappings db" and "e_entity_type e = GROUP"
  shows "(case find_group e db of
      Inr g \<Rightarrow> IdGroupLdap_get_public_id base_get e db = Inr (Some (g_id g)) \<and>
        get_public_id e db = Inr (Some (g_id g))
    | Inl err \<Rightarrow> IdGroupLdap_get_public_id base_get e db = Inr None \<and>
        (\<forall>m \<in> set (mappings db). entity m = e \<and> err = NotFound \<longrightarrow>
           get_public_id e db = Inr (Some (public_id m))))"
  using assms
  by (auto simp: IdGroupLdap_get_public_id_def get_public_id_def find_mapping_in
      split: sum.split query_error.split)

end
