(* ===== verification/SP_Ldif.thy ===== *)
theory SP_Ldif
  imports SP_Prelude
begin

text \<open>
  \<open>docs/keystone_ldap_schema.py\<close>: a script that fills a subtree and an organization into the
  LDIF file from which a directory for keystone starts. A run is what it prints and its exit
  code.
\<close>

section \<open>str.format\<close>

text \<open>
  A field \<open>{i}\<close> with one digit, and the doubled braces. A field beyond the arguments is an
  \<open>IndexError\<close>, any other use of a brace a \<open>ValueError\<close>; the texts of the script have neither.
\<close>

definition digit :: "char \<Rightarrow> nat option" where
  "digit c = (let n = of_char c :: nat in if 48 \<le> n \<and> n \<le> 57 then Some (n - 48) else None)"

fun py_format :: "string \<Rightarrow> string list \<Rightarrow> exn + string" where
  "py_format [] args = Inr []"
| "py_format [c] args =
     (if c = CHR ''{'' \<or> c = CHR ''}'' then Inl (ValueError ''single brace'') else Inr [c])"
| "py_format (c # d # t) args =
     (if (c = CHR ''{'' \<or> c = CHR ''}'') \<and> d = c then map_sum id ((#) c) (py_format t args)
      else if c = CHR ''}'' then Inl (ValueError ''single brace'')
      else if c = CHR ''{'' then
        (case digit d of
           None \<Rightarrow> Inl (ValueError ''field'')
         | Some i \<Rightarrow>
             if t = [] \<or> hd t \<noteq> CHR ''}'' then Inl (ValueError ''field'')
             else if i < length args then map_sum id ((@) (args ! i)) (py_format (tl t) args)
             else Inl (OtherException ''IndexError''))
      else map_sum id ((#) c) (py_format (d # t) args))"

section \<open>The script\<close>

fun join_lines :: "string list \<Rightarrow> string" where
  "join_lines [] = []"
| "join_lines [l] = l"
| "join_lines (l # ls) = l @ CHR 0x0A # join_lines ls"

definition usage :: string where
  "usage = join_lines [
     '''',
     ''USAGE: {0} subtree organization'',
     '''',
     ''{0} Generates an LDIF file that can then be added to a Directory server via '',
     ''the ldapadd command.  The Schema is in the format expected by the LDAP '',
     ''Identity Driver in Keystone'',
     '''']"

definition ldif_file :: string where
  "ldif_file = join_lines [
     '''',
     ''dn: {0}'',
     ''objectClass: dcObject'',
     ''objectClass: organization'',
     ''o: {1}'',
     ''dc: {1}'',
     '''',
     ''dn: ou=groups,{0}'',
     ''objectClass: organizationalUnit'',
     ''objectClass: top'',
     ''ou: groups'',
     '''',
     ''dn: ou=users,{0}'',
     ''objectClass: organizationalUnit'',
     ''objectClass: top'',
     ''ou: users'',
     '''',
     ''dn: ou=roles,{0}'',
     ''objectClass: organizationalUnit'',
     ''objectClass: top'',
     ''ou: roles'']"

text \<open>\<open>print\<close> ends the line; an exception would leave the script with code 1.\<close>

definition py_print :: "exn + string \<Rightarrow> nat \<Rightarrow> string \<times> nat" where
  "py_print r exit_code = (case r of Inl _ \<Rightarrow> ([], 1) | Inr t \<Rightarrow> (t @ [CHR 0x0A], exit_code))"

definition keystone_ldap_schema :: "string list \<Rightarrow> string \<times> nat" where
  "keystone_ldap_schema argv =
     (if length argv < 3 then
        py_print (case argv of
            [] \<Rightarrow> Inl (OtherException ''IndexError'')
          | script # _ \<Rightarrow> py_format usage [script]) 1
      else
        let subtree = argv ! 1; organization = argv ! 2 in
        py_print (py_format ldif_file [subtree, organization]) 0)"

section \<open>What it prints\<close>

lemma py_format_char:
  assumes "c \<noteq> CHR ''{''" and "c \<noteq> CHR ''}''"
  shows "py_format (c # t) args = map_sum id ((#) c) (py_format t args)"
  using assms by (cases t) auto

lemma map_sum_Inr [simp]: "map_sum id f (Inr x) = Inr (f x)"
  by simp

lemma py_format_field:
  assumes "digit d = Some i" and "d \<noteq> CHR ''{''" and "i < length args"
  shows "py_format (CHR ''{'' # d # CHR ''}'' # t) args = map_sum id ((@) (args ! i)) (py_format t args)"
  using assms by simp

lemma digits [simp]: "digit CHR ''0'' = Some 0" "digit CHR ''1'' = Some 1"
  by (simp_all add: digit_def)

text \<open>The text of the arguments is put in as it is, also where it has braces.\<close>

lemma ldif_output:
  "py_format ldif_file [s, t] = Inr (join_lines [
     '''', ''dn: '' @ s, ''objectClass: dcObject'', ''objectClass: organization'', ''o: '' @ t,
     ''dc: '' @ t, '''',
     ''dn: ou=groups,'' @ s, ''objectClass: organizationalUnit'', ''objectClass: top'', ''ou: groups'', '''',
     ''dn: ou=users,'' @ s, ''objectClass: organizationalUnit'', ''objectClass: top'', ''ou: users'', '''',
     ''dn: ou=roles,'' @ s, ''objectClass: organizationalUnit'', ''objectClass: top'', ''ou: roles''])"
  unfolding ldif_file_def by (simp add: py_format_char py_format_field del: py_format.simps(3))

text \<open>A run without both arguments prints how to call the script and fails.\<close>

lemma usage_output:
  "\<exists>rest. keystone_ldap_schema [p] = (CHR 0x0A # ''USAGE: '' @ p @ '' subtree organization'' @ rest, 1)"
  unfolding keystone_ldap_schema_def usage_def
  by (simp add: py_format_char py_format_field py_print_def del: py_format.simps(3))

fun split_lines :: "string \<Rightarrow> string list" where
  "split_lines [] = [[]]"
| "split_lines (c # cs) =
     (if c = CHR 0x0A then [] # split_lines cs
      else case split_lines cs of [] \<Rightarrow> [[c]] | t # ts \<Rightarrow> (c # t) # ts)"

lemma split_lines_line:
  "CHR 0x0A \<notin> set l \<Longrightarrow> split_lines l = [l]"
  "CHR 0x0A \<notin> set l \<Longrightarrow> split_lines (l @ CHR 0x0A # rest) = l # split_lines rest"
  by (induction l) auto

lemma split_join_lines:
  "ls \<noteq> [] \<Longrightarrow> \<forall>l\<in>set ls. CHR 0x0A \<notin> set l \<Longrightarrow> split_lines (join_lines ls) = ls"
  by (induction ls rule: join_lines.induct) (auto simp: split_lines_line)

text \<open>
  Read line by line, the file has four entries, the last three right below the first one, and
  both arguments can be read off it.
\<close>

lemma ldif_round_trip:
  assumes "CHR 0x0A \<notin> set s" and "CHR 0x0A \<notin> set t"
  shows "\<exists>out. keystone_ldap_schema [p, s, t] = (out, 0) \<and>
     filter (\<lambda>l. take 4 l = ''dn: '') (split_lines out) =
       map ((@) ''dn: '') [s, ''ou=groups,'' @ s, ''ou=users,'' @ s, ''ou=roles,'' @ s] \<and>
     filter (\<lambda>l. take 3 l = ''o: '') (split_lines out) = [''o: '' @ t]"
proof -
  let ?ls = "['''', ''dn: '' @ s, ''objectClass: dcObject'', ''objectClass: organization'', ''o: '' @ t,
     ''dc: '' @ t, '''',
     ''dn: ou=groups,'' @ s, ''objectClass: organizationalUnit'', ''objectClass: top'', ''ou: groups'', '''',
     ''dn: ou=users,'' @ s, ''objectClass: organizationalUnit'', ''objectClass: top'', ''ou: users'', '''',
     ''dn: ou=roles,'' @ s, ''objectClass: organizationalUnit'', ''objectClass: top'', ''ou: roles'']"
  have "split_lines (join_lines (?ls @ [''''])) = ?ls @ ['''']"
    using assms by (intro split_join_lines) auto
  moreover have "join_lines (?ls @ ['''']) = join_lines ?ls @ [CHR 0x0A]" by simp
  moreover have "keystone_ldap_schema [p, s, t] = (join_lines ?ls @ [CHR 0x0A], 0)"
    by (simp add: keystone_ldap_schema_def ldif_output py_print_def del: join_lines.simps)
  ultimately show ?thesis by (intro exI [of _ "join_lines ?ls @ [CHR 0x0A]"]) (simp del: join_lines.simps)
qed

end
