(* ===== verification/Spec2Isabelle.thy ===== *)
theory Spec2Isabelle
  imports SP_Mailer SP_Checker SP_Codes SP_Login SP_PasswordResources SP_Races SP_Pools
    SP_Migration SP_IdMapping SP_Ldif
begin

text \<open>
  A model of the keystone plugin \<open>spassword\<close> (directory
  \<open>src/keystone_spassword/contrib/spassword\<close>, below \<open>SP\<close>), which adds to keystone the
  expiration of passwords, the blocking of brute force attempts, a second factor by e-mail,
  the verification of e-mails and the recovery of passwords, together with the drivers for
  LDAP ids kept beside it.

  \<^bold>\<open>The program and its parts.\<close> Keystone calls the plugin in three ways. To authenticate, it calls
  the plugin \<open>SPassword\<close> of \<open>core.py\<close>, which calls \<open>Identity.authenticate\<close> of
  \<open>backends/sql.py\<close>: that wraps keystone's own SQL identity backend, whose \<open>authenticate\<close> in turn
  calls back \<open>Identity._check_password\<close>. For HTTP requests, the routes of \<open>SPasswordAPI\<close> in
  \<open>spassword.py\<close> lead to resource classes, which enforce keystone's policy, call keystone's
  identity API or the \<open>SPasswordManager\<close> of \<open>core.py\<close>, and send mails through \<open>mailer.py\<close>. For
  notifications that a user was created, updated or deleted, the manager's callbacks call the
  driver \<open>SPassword\<close> of \<open>backends/sql.py\<close>. All of them meet in the table \<open>spassword\<close>, one row per
  user. A login may send a mail whose link leads to a resource that writes the row which the
  next login reads; a reset of a password makes keystone notify the plugin before it answers.

  \<^bold>\<open>Data and effects.\<close> The theory \<open>SP_Model\<close> has the row (\<open>spassword_row\<close>, the columns of
  \<open>SPasswordModel\<close>, each of which may be \<open>NULL\<close>), \<open>SP_Config\<close> the options that \<open>core.py\<close>
  registers, \<open>SP_Time\<close> dates with and without a time zone in microseconds, with the range of
  \<open>datetime\<close> and the \<open>TypeError\<close> of mixed comparisons. In \<open>SP_World\<close>, \<open>world\<close> is what changes: the
  table, keystone's users, the mails that an SMTP server took, and how many clock readings,
  UUIDs and connections have been used; \<open>env\<close> is what does not: the configuration, the
  sequences of readings, UUIDs and connections, and the operations of keystone and cracklib.
  An operation is a function of the world to an exception or a result, and a world
  (\<open>SP_Prelude\<close>): what was committed or mailed before an exception stays. Every exception that
  the code raises, catches or can run into is a constructor of \<open>exn\<close>, down to the
  \<open>AttributeError\<close> of a \<open>NULL\<close> date and the \<open>NameError\<close> of an undefined name. UUIDs are
  128-bit words; the codes are their first six hexadecimal digits. Python's integers are \<open>int\<close>.

  \<^bold>\<open>Which theory models what.\<close>

  \<^item> \<open>SP_Config\<close>, \<open>SP_Model\<close>, \<open>SP_World\<close>: the options (\<open>SP/core.py\<close>), the table and its sessions
    (\<open>SP/backends/sql.py\<close>). The two \<open>get_..._session\<close> functions return a row with the session it is
    attached to; the branches for old releases of keystone read the same row. A commit writes
    the columns assigned since the row was read; it is an update of a map.

  \<^item> \<open>SP_Driver\<close>: every method of the driver \<open>SPassword\<close> of \<open>SP/backends/sql.py\<close>. \<open>eval\<close> is modelled
    on the two texts that the code stores, any other text is an error of its own.

  \<^item> \<open>SP_Manager\<close>, \<open>SP_Interface\<close>, \<open>SP_Plugin\<close>: the subscriptions, callbacks and calls of
    \<open>SPasswordManager\<close>; the class \<open>Driver\<close> as a record of methods, of which the SQL driver overrides
    all, and the callbacks on any driver; and the authentication plugin, which updates the
    context it is given in place (\<open>SP/core.py\<close>).

  \<^item> \<open>SP_Checker\<close>, \<open>SP_Mailer\<close>: \<open>SP/checker.py\<close> and \<open>SP/mailer.py\<close>. Each SMTP connection is given
    by the exception that each call on it raises.

  \<^item> \<open>SP_Identity\<close>: the class \<open>Identity\<close> of \<open>SP/backends/sql.py\<close>. Its method \<open>authenticate\<close> is
    \<open>Identity_authenticate\<close>, in the steps \<open>check_block\<close>, \<open>base_authenticate\<close> (the call of the
    superclass, with \<open>_check_password\<close> as \<open>Identity_check_password\<close>) and \<open>record_attempt\<close>, whose
    branch for a user with a row is \<open>known_user\<close>: \<open>count_attempt\<close>, then \<open>demand_sndfa\<close>, then the
    commit.

  \<^item> \<open>SP_Http\<close>, \<open>SP_Resources\<close>: the resources of \<open>SP/spassword.py\<close>, one definition per handler, with
    the helpers of \<open>SPasswordResource\<close>. \<open>SP_Routes\<close> has the route table of \<open>SPasswordAPI\<close>, the
    match of a path against it, and the call of the handler with the arguments of the URL; which
    methods a resource answers (\<open>method_of\<close>) is read off the classes and their superclasses.
    \<open>SP_Answers\<close> has the types of what the handlers answer.

  \<^item> \<open>SP_Migration\<close>: \<open>SP/migrate_repo/versions/1_spassword.py\<close> on the names and types
    of the columns. \<open>SP_IdMapping\<close>: the driver \<open>Mapping\<close> of \<open>src/docker/sql_ldap.py\<close> and the one of
    \<open>src/docs/id_group_ldap.py\<close>. \<open>SP_Ldif\<close>: the script \<open>src/docs/keystone_ldap_schema.py\<close>.

  \<^item> \<open>SP_System\<close>: the composition. A \<open>step\<close> is a login, a request to a route, or something that
    keystone does to its users with the notifications it sends; \<open>reachable\<close> are the worlds that any
    sequence of steps leads to from an empty table.

  \<^item> \<open>SP_Threads\<close>, \<open>SP_Interleaving\<close>: operations that share their state while they run.
    \<open>login_thread\<close> is \<open>Identity.authenticate\<close> again, from the same parts, cut at each access to the
    database, reading of the clock or of randomness, and mail; a \<open>schedule\<close> lets the threads of a
    pool take turns, one action at a time, in any order. A commit (\<open>commit_attempt\<close>) writes what
    was computed from the row that was read into whatever row it finds. Requests and what
    keystone does take part as threads of one action.

  \<^item> \<open>SP_Requests\<close>, \<open>SP_Calls\<close>: the handlers of recovery, reset, the request for a check of the
    e-mail and the check (\<open>SP/spassword.py\<close>), and the callback for an updated user
    (\<open>SP/core.py\<close>), cut in the same way; a \<open>call\<close> is a login or one of them, and \<open>call_pool\<close> the
    threads of a list of calls.

  \<^item> \<open>SP_Account\<close>: the abstract specification of a login, an account that counts, blocks, expires
    and asks for a second factor, and the abstraction of a row to it.

  \<^item> \<open>SP_Demo\<close>: one installation, on which the witnesses are evaluated.

  \<^bold>\<open>What the lemmas show.\<close>

  \<^item> Of a login (\<open>SP_Login\<close>): the exact result and world of a wrong and of a right password, the
    refusals of blocked, expired and second factor logins, the bound on the wrong passwords
    checked in a row, and that it touches one row only.

  \<^item> Of one request and the logins after it (\<open>SP_Lockout\<close>): a wrong code for the e-mail, sent
    without a token, shuts out a user with the second factor; an e-mail that is changed stays
    verified; and a code for the second factor is accepted however old it is.

  \<^item> Of the specification (\<open>SP_Account\<close>, \<open>SP_Access\<close>): any series of logins answers and leaves the
    row as the abstract account says; a block ends; and the two steps of a second factor login
    end in a login.

  \<^item> Of logins that run at the same time (\<open>SP_Interleaving\<close>, \<open>SP_Counting\<close>, \<open>SP_Lockstep\<close>): alone,
    the thread is the login; in any order, the rows stay well formed; wrong passwords that are
    answered raise the count by at least one and at most by their number, and there are orders in
    which it is one. A confirmation of the second factor that arrives in between is kept
    (\<open>SP_Confirming\<close>).

  \<^item> Of calls that run at the same time (\<open>SP_Requests\<close>, \<open>SP_Calls\<close>, \<open>SP_Races\<close>): alone, each thread
    is its handler; in any order, each ends after at most fourteen actions, and the calls about the
    e-mail change no column that is not theirs. No call, in any pool of calls and whatever else
    happens, ends in an error that only a malformed row could cause (\<open>SP_Pools\<close>). Two recoveries
    have an order that leaves the e-mail not verified, and a wrong login has one that undoes the
    reset of the count by an update.

  \<^item> Of the plugin switched off (\<open>SP_Disabled\<close>): nothing changes a row outside the columns of the
    check of the e-mail.

  \<^item> Of every operation (\<open>SP_Sound\<close>, \<open>SP_Invariant\<close>, \<open>SP_System\<close>): it keeps the rows well formed
    (\<open>wf_row\<close>) and ends in no error that only a malformed row could cause. \<open>sound I C m S\<close> is the
    judgement they use: \<open>m\<close> keeps \<open>I\<close>, raises only exceptions of \<open>C\<close>, and its results satisfy \<open>S\<close>;
    for a handler, \<open>S\<close> is the type of its answers. \<open>safe\<close> is the same judgement on threads, and
    \<open>acts\<close> the one for a relation between states instead of an invariant.

  \<^item> Of the codes and resources (\<open>SP_Codes\<close>, \<open>SP_Recovery\<close>, \<open>SP_Rest\<close>, \<open>SP_Reports\<close>,
    \<open>SP_PasswordResources\<close>, \<open>SP_Routes\<close>): a reset needs the pending code, what it installs and mails,
    what guesses are answered, that weak passwords are refused and others passed on unchanged,
    that a policy refusal changes nothing, and that the links in the mails reach the handlers
    that accept their codes.

  \<^item> Of the rest: the plugin hands over the data of the login (\<open>SP_Plugin\<close>); the migration creates
    the columns of the model (\<open>SP_Migration\<close>); ids are unique and round trip (\<open>SP_IdMapping\<close>); the arguments of the
    script can be read off the file it prints (\<open>SP_Ldif\<close>).

  The interfaces are locales: \<open>frame\<close> (a relation between worlds that operations keep),
  \<open>code_store\<close> and \<open>confirmed_code\<close> (handing out a code and checking it), \<open>mail_sender\<close>,
  \<open>password_guard\<close> (a handler that lets a password through), \<open>user_driver\<close> (what the manager's callbacks
  rely on in a driver) and \<open>mapping_update\<close>; each is interpreted
  on the operations of the code that provide it.

  \<^bold>\<open>What is assumed of the outside.\<close> Keystone and cracklib are parameters of \<open>env\<close> and
  \<open>keystone_api\<close>. \<open>keystone_auth\<close> states how keystone's SQL backend uses \<open>_check_password\<close>,
  \<open>keystone_auth_plain\<close> the same without refusals of keystone's own, \<open>keystone_update\<close> that an
  update of a password installs it and notifies or raises and changes nothing, \<open>enforcer_reads\<close>
  that the check of a policy changes nothing, \<open>requests_raise\<close> what an update and that
  check may raise, \<open>keystone_ops\<close> that the methods of the resources'
  superclasses act on the users as \<open>keystone_effect\<close> says. The demo installation satisfies
  them. No operation of the code loops without a bound, so the definitions are total and use no
  fuel: the loops run over the lists of projects and roles and over columns. Fourteen actions
  are the longest way through a login: the check of the block, the superclass's
  \<open>authenticate\<close>, reading the row and the clock, counting the attempt, eight for a second
  factor whose code has to be made and mailed, and the commit. A recovery takes nine, a request
  for a check seven, a reset six, an update four and a check of the e-mail three.

  \<^bold>\<open>Not modelled.\<close> Logging and debug output; the ORM, the engine, transactions of the database that
  fail half-way (a commit happens or raises), and the indexes of the migration. In the models of
  interleaved operations, keystone's own \<open>authenticate\<close> and \<open>update_user\<close> are single actions, and
  so are the requests that \<open>SP_Requests\<close> does not cut (switching and checking the second factor,
  the black list, the resources that set passwords) and the notifications that a user was created
  or deleted; the ORM leaves a column that was assigned the value it had out of its UPDATE, and
  dates and fresh codes are taken to differ from the ones they replace. Packaging, docker and shell files; the tests.
\<close>

end
